(* ===== verification/Janus_Prelude.thy ===== *)
theory Janus_Prelude
  imports Main "HOL-Library.Word" "HOL-Library.List_Lexorder" "HOL-Library.Char_ord"
begin

text \<open>
  Shared vocabulary of the development.  It names the types every component uses
  (results, checked machine integers, UTF-8 strings, ordered maps, hash maps), proves the
  generic facts about them once, and declares the collections the component proofs
  simplify with.

  A Rust String is its list of UTF-8 bytes, one char per byte.  A BTreeMap is its list of
  entries in increasing key order, which is also the order in which the code iterates over
  it.  A HashMap is a partial function, because the code never depends on its order.
\<close>

named_theorems result_simps \<open>evaluation of results, guards and loops over results\<close>
named_theorems status_simps \<open>evaluation of the status and reason enumerations\<close>
named_theorems codec_simps \<open>round trips of the textual encodings\<close>

section \<open>Results\<close>

type_synonym ('e, 'a) result = "'e + 'a"

abbreviation Err :: "'e \<Rightarrow> ('e, 'a) result" where "Err \<equiv> Inl"
abbreviation Ok :: "'a \<Rightarrow> ('e, 'a) result" where "Ok \<equiv> Inr"

text \<open>The question-mark operator: an error leaves the function at once.\<close>

fun and_then :: "('e, 'a) result \<Rightarrow> ('a \<Rightarrow> ('e, 'b) result) \<Rightarrow> ('e, 'b) result" where
  "and_then (Inl e) f = Inl e"
| "and_then (Inr x) f = f x"

fun map_err :: "('e \<Rightarrow> 'f) \<Rightarrow> ('e, 'a) result \<Rightarrow> ('f, 'a) result" where
  "map_err f (Inl e) = Inl (f e)"
| "map_err f (Inr x) = Inr x"

fun ok_or :: "'a option \<Rightarrow> 'e \<Rightarrow> ('e, 'a) result" where
  "ok_or None e = Inl e"
| "ok_or (Some x) e = Inr x"

fun result_ok :: "('e, 'a) result \<Rightarrow> 'a option" where
  "result_ok (Inl e) = None"
| "result_ok (Inr x) = Some x"

fun is_ok :: "('e, 'a) result \<Rightarrow> bool" where
  "is_ok (Inl e) = False"
| "is_ok (Inr x) = True"

text \<open>A guard with an early return, and a loop whose body may return early.\<close>

definition ensure :: "bool \<Rightarrow> 'e \<Rightarrow> ('e, unit) result" where
  "ensure c e = (if c then Inr () else Inl e)"

fun for_each :: "('a \<Rightarrow> 's \<Rightarrow> ('e, 's) result) \<Rightarrow> 'a list \<Rightarrow> 's \<Rightarrow> ('e, 's) result" where
  "for_each f [] s = Inr s"
| "for_each f (x # xs) s = and_then (f x s) (for_each f xs)"

fun check_all :: "('a \<Rightarrow> ('e, unit) result) \<Rightarrow> 'a list \<Rightarrow> ('e, unit) result" where
  "check_all f [] = Inr ()"
| "check_all f (x # xs) = and_then (f x) (\<lambda>_. check_all f xs)"

lemma and_then_eq_Inr [simp, result_simps]:
  "and_then r f = Inr y \<longleftrightarrow> (\<exists>x. r = Inr x \<and> f x = Inr y)"
  by (cases r) auto

lemma and_then_eq_Inl [result_simps]:
  "and_then r f = Inl e \<longleftrightarrow> r = Inl e \<or> (\<exists>x. r = Inr x \<and> f x = Inl e)"
  by (cases r) auto

lemma and_then_assoc: "and_then (and_then r f) g = and_then r (\<lambda>x. and_then (f x) g)"
  by (cases r) auto

lemma map_err_eq_Inr [simp, result_simps]: "map_err f r = Inr x \<longleftrightarrow> r = Inr x"
  by (cases r) auto

lemma map_err_eq_Inl [result_simps]: "map_err f r = Inl e \<longleftrightarrow> (\<exists>d. r = Inl d \<and> e = f d)"
  by (cases r) auto

lemma ok_or_eq_Inr [simp, result_simps]: "ok_or v e = Inr x \<longleftrightarrow> v = Some x"
  by (cases v) auto

lemma ok_or_eq_Inl [simp, result_simps]: "ok_or v e = Inl d \<longleftrightarrow> v = None \<and> d = e"
  by (cases v) auto

lemma ensure_eq_Inr [simp, result_simps]: "ensure c e = Inr u \<longleftrightarrow> c"
  by (simp add: ensure_def)

lemma ensure_eq_Inl [simp, result_simps]: "ensure c e = Inl d \<longleftrightarrow> \<not> c \<and> d = e"
  by (auto simp: ensure_def)

lemma ensure_True [simp]: "ensure True e = Inr ()"
  and ensure_False [simp]: "ensure False e = Inl e"
  by (simp_all add: ensure_def)

lemma is_ok_iff [simp]: "is_ok r \<longleftrightarrow> (\<exists>x. r = Inr x)"
  by (cases r) auto

lemma result_ok_eq_Some [simp]: "result_ok r = Some x \<longleftrightarrow> r = Inr x"
  by (cases r) auto

lemma for_each_append:
  "for_each f (xs @ ys) s = and_then (for_each f xs s) (for_each f ys)"
proof (induction xs arbitrary: s)
  case (Cons x xs)
  then show ?case by (cases "f x s") auto
qed simp

lemma for_each_invariant:
  assumes "for_each f xs s = Inr t" and "P s"
    and "\<And>x a b. x \<in> set xs \<Longrightarrow> P a \<Longrightarrow> f x a = Inr b \<Longrightarrow> P b"
  shows "P t"
  using assms
proof (induction xs arbitrary: s)
  case (Cons x xs)
  then obtain a where a: "f x s = Inr a" "for_each f xs a = Inr t" by auto
  have "P a" using Cons.prems a(1) by auto
  then show ?case using Cons.IH [OF a(2)] Cons.prems(3) by auto
qed simp

lemma check_all_ok_iff [result_simps]:
  "check_all f xs = Inr u \<longleftrightarrow> (\<forall>x \<in> set xs. f x = Inr ())"
  by (induction xs) auto

text \<open>
  Operations that change state return the state also when they fail, because what they did
  before the error stays done.  try_then continues after a success; each_st is a loop.
\<close>

fun try_then ::
    "('e, 'a) result \<times> 's \<Rightarrow> ('a \<Rightarrow> 's \<Rightarrow> ('e, 'b) result \<times> 's) \<Rightarrow> ('e, 'b) result \<times> 's" where
  "try_then (Inl e, s) f = (Inl e, s)"
| "try_then (Inr x, s) f = f x s"

fun each_st ::
    "('a \<Rightarrow> 's \<Rightarrow> ('e, unit) result \<times> 's) \<Rightarrow> 'a list \<Rightarrow> 's \<Rightarrow> ('e, unit) result \<times> 's" where
  "each_st f [] s = (Inr (), s)"
| "each_st f (x # xs) s = try_then (f x s) (\<lambda>_. each_st f xs)"

lemma try_then_Inr:
  "try_then p f = (Inr y, t) \<longleftrightarrow> (\<exists>x s. p = (Inr x, s) \<and> f x s = (Inr y, t))"
  by (cases "(p, f)" rule: try_then.cases) auto

lemma try_then_cases:
  assumes "try_then p f = (r, t)"
  obtains e where "p = (Inl e, t)" "r = Inl e" | x s where "p = (Inr x, s)" "f x s = (r, t)"
  using assms by (cases "(p, f)" rule: try_then.cases) auto

text \<open>Whatever the outcome, an invariant of the body is an invariant of the loop.\<close>

lemma each_st_invariant:
  assumes "each_st f xs s = (r, t)" and "P s"
    and "\<And>x a q b. x \<in> set xs \<Longrightarrow> P a \<Longrightarrow> f x a = (q, b) \<Longrightarrow> P b"
  shows "P t"
  using assms
proof (induction xs arbitrary: s)
  case (Cons x xs)
  obtain q b where fx: "f x s = (q, b)" by force
  have "P b" using Cons.prems fx by auto
  show ?case
  proof (cases q)
    case (Inl e)
    then show ?thesis using Cons.prems(1) fx \<open>P b\<close> by simp
  next
    case (Inr u)
    then have "each_st f xs b = (r, t)" using Cons.prems(1) fx by simp
    then show ?thesis using Cons.IH [OF _ \<open>P b\<close>] Cons.prems(3) by auto
  qed
qed simp

text \<open>A loop that succeeds has established what each iteration establishes and no other
  iteration breaks.\<close>

lemma each_st_establishes:
  assumes "each_st f xs s = (Inr u, t)" and "I s"
    and "\<And>x a q b. I a \<Longrightarrow> f x a = (q, b) \<Longrightarrow> I b"
    and "\<And>x a b. I a \<Longrightarrow> f x a = (Inr (), b) \<Longrightarrow> Q x b"
    and "\<And>x y a b. I a \<Longrightarrow> Q y a \<Longrightarrow> f x a = (Inr (), b) \<Longrightarrow> Q y b"
  shows "\<forall>x. x \<in> set xs \<or> Q x s \<longrightarrow> Q x t"
  using assms(1,2)
proof (induction xs arbitrary: s)
  case (Cons x xs)
  then obtain b where b: "f x s = (Inr (), b)" "each_st f xs b = (Inr u, t)"
    by (auto simp: try_then_Inr)
  from Cons.IH [OF b(2) assms(3) [OF Cons.prems(2) b(1)]] show ?case
    using assms(4) [OF Cons.prems(2) b(1)] assms(5) [OF Cons.prems(2) _ b(1)] by auto
qed simp

text \<open>A loop that must fail at one of its elements fails.\<close>

lemma each_st_fails:
  assumes "x \<in> set xs" and "P s"
    and "\<And>a. P a \<Longrightarrow> \<exists>e. fst (f x a) = Inl e"
    and "\<And>y a q b. y \<noteq> x \<Longrightarrow> P a \<Longrightarrow> f y a = (q, b) \<Longrightarrow> P b"
  shows "\<exists>e. fst (each_st f xs s) = Inl e"
  using assms(1,2)
proof (induction xs arbitrary: s)
  case (Cons y ys)
  obtain q b where fy: "f y s = (q, b)" by force
  show ?case
  proof (cases q)
    case (Inl e)
    then show ?thesis using fy by simp
  next
    case (Inr u)
    then have "y \<noteq> x" using assms(3) [OF Cons.prems(2)] fy by auto
    then show ?thesis
      using Cons.IH [of b] assms(4) [OF _ Cons.prems(2) fy] Cons.prems(1) fy Inr by simp
  qed
qed simp

section \<open>Checked machine integers\<close>

type_synonym u32 = "32 word"
type_synonym u64 = "64 word"

definition checked_mul :: "u64 \<Rightarrow> u64 \<Rightarrow> u64 option" where
  "checked_mul a b = (if uint a * uint b < 2 ^ 64 then Some (a * b) else None)"
definition checked_add :: "u64 \<Rightarrow> u64 \<Rightarrow> u64 option" where
  "checked_add a b = (if uint a + uint b < 2 ^ 64 then Some (a + b) else None)"

text \<open>The increment of an i64 database column stays below this bound.\<close>

definition i64_max :: int where "i64_max = 9223372036854775807"
definition i64_min :: int where "i64_min = - 9223372036854775808"

lemma unat_mult_eq: "uint a * uint b < 2 ^ 64 \<longleftrightarrow> unat a * unat b < 2 ^ 64" for a b :: u64
proof -
  have "uint a * uint b = int (unat a * unat b)" by simp
  then have "uint a * uint b < 2 ^ 64 \<longleftrightarrow> int (unat a * unat b) < int (2 ^ 64)" by simp
  then show ?thesis unfolding of_nat_less_iff .
qed

lemma checked_mul_Some:
  "checked_mul a b = Some c \<Longrightarrow> unat c = unat a * unat b"
  using unat_mult_lem [of a b] unfolding checked_mul_def unat_mult_eq by (simp split: if_splits)

lemma unat_add_eq: "uint a + uint b < 2 ^ 64 \<longleftrightarrow> unat a + unat b < 2 ^ 64" for a b :: u64
proof -
  have "uint a + uint b = int (unat a + unat b)" by simp
  then have "uint a + uint b < 2 ^ 64 \<longleftrightarrow> int (unat a + unat b) < int (2 ^ 64)" by simp
  then show ?thesis unfolding of_nat_less_iff .
qed

lemma checked_add_Some:
  "checked_add a b = Some c \<Longrightarrow> unat c = unat a + unat b"
  using unat_add_lem [of a b] unfolding checked_add_def unat_add_eq by (simp split: if_splits)

lemma checked_mul_None_iff: "checked_mul a b = None \<longleftrightarrow> 2 ^ 64 \<le> unat a * unat b"
  unfolding checked_mul_def unat_mult_eq by simp

section \<open>Ordered maps\<close>

type_synonym ('k, 'v) btree_map = "('k \<times> 'v) list"

abbreviation bt_get :: "('k, 'v) btree_map \<Rightarrow> 'k \<Rightarrow> 'v option" where
  "bt_get m k \<equiv> map_of m k"

fun bt_insert :: "'k::linorder \<Rightarrow> 'v \<Rightarrow> ('k, 'v) btree_map \<Rightarrow> ('k, 'v) btree_map" where
  "bt_insert k v [] = [(k, v)]"
| "bt_insert k v ((l, w) # m) =
     (if k < l then (k, v) # (l, w) # m
      else if k = l then (k, v) # m
      else (l, w) # bt_insert k v m)"

definition bt_remove :: "'k \<Rightarrow> ('k, 'v) btree_map \<Rightarrow> ('k, 'v) btree_map" where
  "bt_remove k m = filter (\<lambda>e. fst e \<noteq> k) m"

definition bt_keys :: "('k, 'v) btree_map \<Rightarrow> 'k list" where
  "bt_keys m = map fst m"

definition bt_values :: "('k, 'v) btree_map \<Rightarrow> 'v list" where
  "bt_values m = map snd m"

definition bt_contains :: "'k \<Rightarrow> ('k, 'v) btree_map \<Rightarrow> bool" where
  "bt_contains k m = (map_of m k \<noteq> None)"

definition bt_of_list :: "('k::linorder \<times> 'v) list \<Rightarrow> ('k, 'v) btree_map" where
  "bt_of_list es = fold (\<lambda>(k, v) m. bt_insert k v m) es []"

definition bt_wf :: "('k::linorder, 'v) btree_map \<Rightarrow> bool" where
  "bt_wf m = sorted_wrt (<) (map fst m)"

lemma set_keys_bt_insert: "fst ` set (bt_insert k v m) = insert k (fst ` set m)"
  by (induction k v m rule: bt_insert.induct) auto

lemma bt_wf_Nil [simp]: "bt_wf []"
  by (simp add: bt_wf_def)

lemma bt_wf_insert [simp]: "bt_wf m \<Longrightarrow> bt_wf (bt_insert k v m)"
proof (induction k v m rule: bt_insert.induct)
  case (2 k v l w m)
  then have IH: "l < k \<Longrightarrow> bt_wf (bt_insert k v m)"
    by (auto simp: bt_wf_def)
  show ?case
    using 2 IH set_keys_bt_insert [of k v m] by (auto simp: bt_wf_def)
qed (simp add: bt_wf_def)

lemma bt_get_insert [simp]:
  "bt_wf m \<Longrightarrow> map_of (bt_insert k v m) = (map_of m)(k \<mapsto> v)"
proof (induction k v m rule: bt_insert.induct)
  case (2 k v l w m)
  then show ?case by (auto simp: bt_wf_def fun_eq_iff)
qed simp

lemma bt_wf_filter [simp]: "bt_wf m \<Longrightarrow> bt_wf (filter P m)"
proof (induction m)
  case (Cons e m)
  then show ?case by (auto simp: bt_wf_def)
qed simp

lemma bt_wf_remove [simp]: "bt_wf m \<Longrightarrow> bt_wf (bt_remove k m)"
  by (simp add: bt_remove_def)

lemma bt_get_remove [simp]: "map_of (bt_remove k m) = (map_of m)(k := None)"
  by (induction m) (auto simp: bt_remove_def fun_eq_iff)

lemma bt_wf_distinct: "bt_wf m \<Longrightarrow> distinct (map fst m)"
  by (auto simp: bt_wf_def strict_sorted_iff)

lemma bt_get_eq_Some: "bt_wf m \<Longrightarrow> map_of m k = Some v \<longleftrightarrow> (k, v) \<in> set m"
  by (simp add: bt_wf_distinct)

lemma bt_insert_twice [simp]: "bt_insert k v (bt_insert k w m) = bt_insert k v m"
  by (induction k w m rule: bt_insert.induct) auto

text \<open>Filtering commutes with an insertion.\<close>

lemma set_bt_insert_subset: "set (bt_insert k v m) \<subseteq> insert (k, v) (set m)"
  by (induction k v m rule: bt_insert.induct) auto

lemma filter_bt_insert_drop:
  "k \<notin> fst ` set m \<Longrightarrow> \<not> P (k, v) \<Longrightarrow> filter P (bt_insert k v m) = filter P m"
  by (induction k v m rule: bt_insert.induct) auto

lemma filter_True_id: "\<forall>e \<in> set m. P e \<Longrightarrow> filter P m = m"
  by (induction m) auto

subsection \<open>The interface of maps\<close>

text \<open>
  What the clients of a map rely on, whatever its representation: the entry read back
  after an insertion is the one inserted, other entries are untouched, and every operation
  keeps the representation invariant.
\<close>

locale map_interface =
  fixes empty_m :: "'m"
    and get :: "'m \<Rightarrow> 'k \<Rightarrow> 'v option"
    and put :: "'k \<Rightarrow> 'v \<Rightarrow> 'm \<Rightarrow> 'm"
    and del :: "'k \<Rightarrow> 'm \<Rightarrow> 'm"
    and inv :: "'m \<Rightarrow> bool"
  assumes inv_empty: "inv empty_m"
    and inv_put: "inv m \<Longrightarrow> inv (put k v m)"
    and inv_del: "inv m \<Longrightarrow> inv (del k m)"
    and get_empty: "get empty_m k = None"
    and get_put: "inv m \<Longrightarrow> get (put k v m) j = (if j = k then Some v else get m j)"
    and get_del: "inv m \<Longrightarrow> get (del k m) j = (if j = k then None else get m j)"
begin

lemma inv_fold_put: "inv m \<Longrightarrow> inv (fold (\<lambda>(k, v). put k v) es m)"
  by (induction es arbitrary: m) (auto simp: inv_put)

text \<open>Inserting a list of entries: the last entry of a key wins.\<close>

lemma get_fold_put:
  "inv m \<Longrightarrow> get (fold (\<lambda>(k, v). put k v) es m) j =
     (case map_of (rev es) j of Some v \<Rightarrow> Some v | None \<Rightarrow> get m j)"
proof (induction es arbitrary: m)
  case (Cons e es)
  obtain k v where e: "e = (k, v)" by force
  have "inv (put k v m)" by (rule inv_put [OF Cons.prems])
  from Cons.IH [OF this] show ?case
    using Cons.prems by (auto simp: e get_put map_add_def split: option.splits)
qed simp

lemma get_put_del: "inv m \<Longrightarrow> get (put k v (del k m)) j = get (put k v m) j"
  by (simp add: get_put get_del inv_del)

end

interpretation btm: map_interface "[]" bt_get bt_insert bt_remove bt_wf
  by unfold_locales auto

text \<open>A HashMap is a partial function: the invariant is trivial.\<close>

definition hm_put :: "'k \<Rightarrow> 'v \<Rightarrow> ('k \<Rightarrow> 'v option) \<Rightarrow> ('k \<Rightarrow> 'v option)" where
  "hm_put k v m = m(k \<mapsto> v)"

definition hm_del :: "'k \<Rightarrow> ('k \<Rightarrow> 'v option) \<Rightarrow> ('k \<Rightarrow> 'v option)" where
  "hm_del k m = m(k := None)"

definition hm_retain :: "('k \<Rightarrow> 'v \<Rightarrow> bool) \<Rightarrow> ('k \<Rightarrow> 'v option) \<Rightarrow> ('k \<Rightarrow> 'v option)" where
  "hm_retain P m = (\<lambda>k. case m k of Some v \<Rightarrow> if P k v then Some v else None | None \<Rightarrow> None)"

interpretation hm: map_interface "\<lambda>_. None" "\<lambda>m k. m k" hm_put hm_del "\<lambda>_. True"
  by unfold_locales (auto simp: hm_put_def hm_del_def)

lemma hm_retain_eq_Some [simp]:
  "hm_retain P m k = Some v \<longleftrightarrow> m k = Some v \<and> P k v"
  by (auto simp: hm_retain_def split: option.splits)

lemma hm_retain_eq_None [simp]:
  "hm_retain P m k = None \<longleftrightarrow> (case m k of Some v \<Rightarrow> \<not> P k v | None \<Rightarrow> True)"
  by (auto simp: hm_retain_def split: option.splits)

lemma bt_of_list_wf [simp]: "bt_wf (bt_of_list es)"
  using btm.inv_fold_put [of "[]" es] by (simp add: bt_of_list_def case_prod_unfold)

lemma bt_of_list_get: "map_of (bt_of_list es) k = map_of (rev es) k"
proof -
  have "bt_of_list es = fold (\<lambda>(k, v). bt_insert k v) es []"
    by (simp add: bt_of_list_def)
  then show ?thesis
    using btm.get_fold_put [of "[]" es k] by (simp split: option.splits)
qed

section \<open>Strings\<close>

text \<open>
  Rust strings are UTF-8.  A byte that continues a character lies in [128, 192); the number
  of characters is the number of other bytes.  chars groups a character with its
  continuation bytes.
\<close>

definition is_continuation :: "char \<Rightarrow> bool" where
  "is_continuation c = (128 \<le> (of_char c :: nat) \<and> (of_char c :: nat) < 192)"

definition char_count :: "string \<Rightarrow> nat" where
  "char_count s = length (filter (\<lambda>c. \<not> is_continuation c) s)"

fun chars :: "string \<Rightarrow> string list" where
  "chars [] = []"
| "chars (c # s) =
     (case chars s of
        [] \<Rightarrow> [[c]]
      | (g # gs) \<Rightarrow> (if g \<noteq> [] \<and> is_continuation (hd g) then (c # g) # gs else [c] # g # gs))"

lemma concat_chars [simp]: "concat (chars s) = s"
  by (induction s) (auto split: list.splits)

text \<open>The Unicode White_Space characters, by their UTF-8 bytes.\<close>

definition bytes_of :: "string \<Rightarrow> nat list" where
  "bytes_of s = map of_char s"

definition is_whitespace :: "string \<Rightarrow> bool" where
  "is_whitespace g =
     (let b = bytes_of g in
        b \<in> set [[9], [10], [11], [12], [13], [32], [194, 133], [194, 160], [225, 154, 128],
          [226, 128, 168], [226, 128, 169], [226, 128, 175], [226, 129, 159], [227, 128, 128]]
        \<or> (length b = 3 \<and> b ! 0 = 226 \<and> b ! 1 = 128 \<and> 128 \<le> b ! 2 \<and> b ! 2 \<le> 138))"

definition trim_start :: "string \<Rightarrow> string" where
  "trim_start s = concat (dropWhile is_whitespace (chars s))"

definition trim :: "string \<Rightarrow> string" where
  "trim s = concat (rev (dropWhile is_whitespace (rev (dropWhile is_whitespace (chars s)))))"

definition is_ascii_digit :: "char \<Rightarrow> bool" where
  "is_ascii_digit c = (48 \<le> (of_char c :: nat) \<and> (of_char c :: nat) \<le> 57)"

definition is_ascii_upper :: "char \<Rightarrow> bool" where
  "is_ascii_upper c = (65 \<le> (of_char c :: nat) \<and> (of_char c :: nat) \<le> 90)"

definition is_ascii_lower :: "char \<Rightarrow> bool" where
  "is_ascii_lower c = (97 \<le> (of_char c :: nat) \<and> (of_char c :: nat) \<le> 122)"

definition is_ascii_alphabetic :: "char \<Rightarrow> bool" where
  "is_ascii_alphabetic c = (is_ascii_upper c \<or> is_ascii_lower c)"

definition is_ascii_alphanumeric :: "char \<Rightarrow> bool" where
  "is_ascii_alphanumeric c = (is_ascii_alphabetic c \<or> is_ascii_digit c)"

definition is_ascii_hexdigit :: "char \<Rightarrow> bool" where
  "is_ascii_hexdigit c =
     (is_ascii_digit c \<or> (65 \<le> (of_char c :: nat) \<and> (of_char c :: nat) \<le> 70)
      \<or> (97 \<le> (of_char c :: nat) \<and> (of_char c :: nat) \<le> 102))"

definition is_ascii_control :: "char \<Rightarrow> bool" where
  "is_ascii_control c = ((of_char c :: nat) < 32 \<or> (of_char c :: nat) = 127)"

definition to_ascii_uppercase :: "char \<Rightarrow> char" where
  "to_ascii_uppercase c = (if is_ascii_lower c then char_of ((of_char c :: nat) - 32) else c)"

definition to_ascii_lowercase :: "char \<Rightarrow> char" where
  "to_ascii_lowercase c = (if is_ascii_upper c then char_of ((of_char c :: nat) + 32) else c)"

definition eq_ignore_ascii_case :: "string \<Rightarrow> string \<Rightarrow> bool" where
  "eq_ignore_ascii_case s t = (map to_ascii_lowercase s = map to_ascii_lowercase t)"

definition newline :: string where "newline = [CHR 0x0A]"

definition strip_prefix :: "string \<Rightarrow> string \<Rightarrow> string option" where
  "strip_prefix p s = (if take (length p) s = p then Some (drop (length p) s) else None)"

definition starts_with :: "string \<Rightarrow> string \<Rightarrow> bool" where
  "starts_with p s = (take (length p) s = p)"

definition ends_with :: "string \<Rightarrow> string \<Rightarrow> bool" where
  "ends_with p s = starts_with (rev p) (rev s)"

lemma strip_prefix_append [simp]: "strip_prefix p (p @ s) = Some s"
  by (simp add: strip_prefix_def)

lemma strip_prefix_eq_Some [simp]: "strip_prefix p s = Some t \<longleftrightarrow> s = p @ t"
  by (metis append_eq_conv_conj append_take_drop_id option.distinct(1) option.inject
      strip_prefix_def)

lemma starts_with_iff: "starts_with p s \<longleftrightarrow> (\<exists>t. s = p @ t)"
  by (metis append_eq_conv_conj append_take_drop_id starts_with_def)

text \<open>split_once at a byte: the text before and after its first occurrence.\<close>

fun split_once :: "char \<Rightarrow> string \<Rightarrow> (string \<times> string) option" where
  "split_once d [] = None"
| "split_once d (c # s) =
     (if c = d then Some ([], s)
      else case split_once d s of None \<Rightarrow> None | Some (a, b) \<Rightarrow> Some (c # a, b))"

definition rsplit_once :: "char \<Rightarrow> string \<Rightarrow> (string \<times> string) option" where
  "rsplit_once d s =
     (case split_once d (rev s) of None \<Rightarrow> None | Some (a, b) \<Rightarrow> Some (rev b, rev a))"

fun split_on :: "char \<Rightarrow> string \<Rightarrow> string list" where
  "split_on d [] = [[]]"
| "split_on d (c # s) =
     (if c = d then [] # split_on d s
      else case split_on d s of [] \<Rightarrow> [[c]] | (w # ws) \<Rightarrow> (c # w) # ws)"

lemma split_once_eq_Some:
  "split_once d s = Some (a, b) \<longleftrightarrow> s = a @ d # b \<and> d \<notin> set a"
proof (induction s arbitrary: a)
  case (Cons c s)
  show ?case
  proof (cases "c = d")
    case True
    then show ?thesis by (cases a) auto
  next
    case False
    have "split_once d (c # s) = Some (a, b) \<longleftrightarrow>
        (\<exists>a'. a = c # a' \<and> split_once d s = Some (a', b))"
      using False by (cases "split_once d s") auto
    also have "\<dots> \<longleftrightarrow> c # s = a @ d # b \<and> d \<notin> set a"
      using False by (cases a) (auto simp: Cons.IH)
    finally show ?thesis .
  qed
qed simp

lemma rsplit_once_eq_Some:
  "rsplit_once d s = Some (a, b) \<longleftrightarrow> s = a @ d # b \<and> d \<notin> set b"
proof -
  have "rsplit_once d s = Some (a, b) \<longleftrightarrow> split_once d (rev s) = Some (rev b, rev a)"
  proof (cases "split_once d (rev s)")
    case (Some p)
    obtain u v where "p = (u, v)" by force
    with Some have "rsplit_once d s = Some (rev v, rev u)" by (simp add: rsplit_once_def)
    then show ?thesis
      using Some \<open>p = (u, v)\<close> rev_rev_ident [of u] rev_rev_ident [of v] by fastforce
  qed (simp add: rsplit_once_def)
  also have "\<dots> \<longleftrightarrow> rev s = rev b @ d # rev a \<and> d \<notin> set b"
    by (simp add: split_once_eq_Some)
  also have "rev s = rev b @ d # rev a \<longleftrightarrow> rev s = rev (a @ d # b)"
    by simp
  also have "\<dots> \<longleftrightarrow> s = a @ d # b"
    by (rule rev_is_rev_conv)
  finally show ?thesis .
qed

text \<open>Decimal digits of a natural number.\<close>

fun show_nat :: "nat \<Rightarrow> string" where
  "show_nat n = (if n < 10 then [char_of (n + 48)]
                 else show_nat (n div 10) @ [char_of (n mod 10 + 48)])"

declare show_nat.simps [simp del]

definition show_int :: "int \<Rightarrow> string" where
  "show_int i = (if i < 0 then CHR ''-'' # show_nat (nat (- i)) else show_nat (nat i))"

section \<open>Textual encodings of enumerations\<close>

text \<open>
  Every enumeration that is stored in a database column or sent over HTTP has an as_str and
  a parse function.  The contract: parse reads back what as_str writes, and accepts nothing
  else.
\<close>

locale text_codec =
  fixes enc :: "'a \<Rightarrow> string"
    and dec :: "string \<Rightarrow> 'a option"
  assumes dec_enc: "dec (enc x) = Some x"
    and enc_dec: "dec s = Some x \<Longrightarrow> enc x = s"
begin

lemma dec_iff: "dec s = Some x \<longleftrightarrow> s = enc x"
  using dec_enc enc_dec by auto

lemma enc_inject: "enc x = enc y \<longleftrightarrow> x = y"
  by (metis dec_enc option.inject)

lemma dec_None_iff: "dec s = None \<longleftrightarrow> s \<notin> range enc"
  by (metis dec_enc enc_dec not_None_eq rangeE rangeI)

end

text \<open>i64::from_str: an optional sign, at least one digit, nothing else, and in range.\<close>

fun digits_value :: "int \<Rightarrow> string \<Rightarrow> int option" where
  "digits_value acc [] = Some acc"
| "digits_value acc (c # s) =
     (if is_ascii_digit c then digits_value (acc * 10 + (of_char c - 48)) s else None)"

definition parse_i64 :: "string \<Rightarrow> int option" where
  "parse_i64 s =
     (let (neg, ds) = (case s of
            [] \<Rightarrow> (False, [])
          | (c # cs) \<Rightarrow> if c = CHR ''-'' then (True, cs)
                         else if c = CHR ''+'' then (False, cs) else (False, s))
      in if ds = [] then None
         else case digits_value 0 ds of
           None \<Rightarrow> None
         | Some n \<Rightarrow> (let v = (if neg then - n else n) in
                       if i64_min \<le> v \<and> v \<le> i64_max then Some v else None))"

text \<open>What str::from_utf8 accepts.\<close>

definition utf8_cont :: "nat \<Rightarrow> bool" where
  "utf8_cont b = (128 \<le> b \<and> b < 192)"

definition utf8_second :: "nat \<Rightarrow> nat \<Rightarrow> bool" where
  "utf8_second a b =
     (if a = 224 then 160 \<le> b \<and> b < 192
      else if a = 237 then 128 \<le> b \<and> b < 160
      else if a = 240 then 144 \<le> b \<and> b < 192
      else if a = 244 then 128 \<le> b \<and> b < 144
      else utf8_cont b)"

fun utf8_bytes_valid :: "nat list \<Rightarrow> bool" where
  "utf8_bytes_valid [] = True"
| "utf8_bytes_valid (a # s) =
     (if a < 128 then utf8_bytes_valid s
      else if a < 194 then False
      else case s of
        [] \<Rightarrow> False
      | b # s1 \<Rightarrow>
          if a < 224 then utf8_cont b \<and> utf8_bytes_valid s1
          else case s1 of
            [] \<Rightarrow> False
          | c # s2 \<Rightarrow>
              if a < 240 then utf8_second a b \<and> utf8_cont c \<and> utf8_bytes_valid s2
              else case s2 of
                [] \<Rightarrow> False
              | d # s3 \<Rightarrow>
                  a \<le> 244 \<and> utf8_second a b \<and> utf8_cont c \<and> utf8_cont d \<and> utf8_bytes_valid s3)"

definition utf8_valid :: "string \<Rightarrow> bool" where
  "utf8_valid s = utf8_bytes_valid (bytes_of s)"

lemma utf8_valid_ascii: "\<forall>c \<in> set s. (of_char c :: nat) < 128 \<Longrightarrow> utf8_valid s"
  unfolding utf8_valid_def bytes_of_def by (induction s) auto

definition validate_prefixed_hex_id :: "string \<Rightarrow> string \<Rightarrow> bool" where
  "validate_prefixed_hex_id value prefix =
     (case strip_prefix prefix value of
        None \<Rightarrow> False
      | Some suffix \<Rightarrow> length suffix = 32 \<and> list_all is_ascii_hexdigit suffix)"

lemma validate_prefixed_hex_id_iff:
  "validate_prefixed_hex_id v p \<longleftrightarrow> (\<exists>s. v = p @ s \<and> length s = 32 \<and> list_all is_ascii_hexdigit s)"
  by (auto simp: validate_prefixed_hex_id_def split: option.splits)

section \<open>JSON\<close>

text \<open>
  A serde_json value.  A number is an unsigned 64-bit integer, a negative signed 64-bit
  integer (its two's complement word) or a double (its bits).  An object is a BTreeMap.
\<close>

datatype json_number = PosInt u64 | NegInt u64 | FloatBits u64

datatype json =
    JNull
  | JBool bool
  | JNumber json_number
  | JString string
  | JArray "json list"
  | JObject "(string \<times> json) list"

fun json_as_i64 :: "json \<Rightarrow> int option" where
  "json_as_i64 (JNumber (PosInt w)) = (if uint w \<le> i64_max then Some (uint w) else None)"
| "json_as_i64 (JNumber (NegInt w)) = Some (sint w)"
| "json_as_i64 _ = None"

fun json_as_str :: "json \<Rightarrow> string option" where
  "json_as_str (JString s) = Some s"
| "json_as_str _ = None"

fun json_as_bool :: "json \<Rightarrow> bool option" where
  "json_as_bool (JBool b) = Some b"
| "json_as_bool _ = None"

fun json_as_object :: "json \<Rightarrow> (string \<times> json) list option" where
  "json_as_object (JObject o') = Some o'"
| "json_as_object _ = None"

definition json_is_i64 :: "json \<Rightarrow> bool" where
  "json_is_i64 v = (json_as_i64 v \<noteq> None)"

fun json_is_u64 :: "json \<Rightarrow> bool" where
  "json_is_u64 (JNumber (PosInt w)) = True"
| "json_is_u64 _ = False"

definition json_is_string :: "json \<Rightarrow> bool" where
  "json_is_string v = (json_as_str v \<noteq> None)"

definition json_is_boolean :: "json \<Rightarrow> bool" where
  "json_is_boolean v = (json_as_bool v \<noteq> None)"

definition json_get :: "string \<Rightarrow> json \<Rightarrow> json option" where
  "json_get k v = (case json_as_object v of None \<Rightarrow> None | Some fields \<Rightarrow> map_of fields k)"

end
