(* ===== verification/Pipeline_States.thy ===== *)
theory Pipeline_States
  imports Janus_Prelude
begin

text \<open>
  The server's job and pipeline statuses (janus-server/src/state_machine.rs): their column
  encodings, the decision whether a pending job may be dispatched given its recorded
  predecessors, and the status of a pipeline given the statuses of its jobs.  A list entry
  pairs a status with the job's can_fail flag.  The constructors carry the prefix S or P
  because the protocol crate has a JobStatus of its own.
\<close>

section \<open>Statuses\<close>

datatype ServerJobStatus =
    SPending | SRunning | SCancelRequested | SCanceling | SSuccess | SFailed | SCanceled
  | SBlocked | SSkipped

definition ServerJobStatus_parse :: "string \<Rightarrow> ServerJobStatus option" where
  "ServerJobStatus_parse s =
     (if s = ''pending'' then Some SPending
      else if s = ''running'' then Some SRunning
      else if s = ''cancel_requested'' then Some SCancelRequested
      else if s = ''canceling'' then Some SCanceling
      else if s = ''success'' then Some SSuccess
      else if s = ''failed'' then Some SFailed
      else if s = ''canceled'' then Some SCanceled
      else if s = ''blocked'' then Some SBlocked
      else if s = ''skipped'' then Some SSkipped
      else None)"

fun ServerJobStatus_as_str :: "ServerJobStatus \<Rightarrow> string" where
  "ServerJobStatus_as_str SPending = ''pending''"
| "ServerJobStatus_as_str SRunning = ''running''"
| "ServerJobStatus_as_str SCancelRequested = ''cancel_requested''"
| "ServerJobStatus_as_str SCanceling = ''canceling''"
| "ServerJobStatus_as_str SSuccess = ''success''"
| "ServerJobStatus_as_str SFailed = ''failed''"
| "ServerJobStatus_as_str SCanceled = ''canceled''"
| "ServerJobStatus_as_str SBlocked = ''blocked''"
| "ServerJobStatus_as_str SSkipped = ''skipped''"

datatype PipelineStatus =
  PRunning | PCancelRequested | PCanceling | PSuccess | PFailed | PCanceled | PBlocked

fun PipelineStatus_as_str :: "PipelineStatus \<Rightarrow> string" where
  "PipelineStatus_as_str PRunning = ''running''"
| "PipelineStatus_as_str PCancelRequested = ''cancel_requested''"
| "PipelineStatus_as_str PCanceling = ''canceling''"
| "PipelineStatus_as_str PSuccess = ''success''"
| "PipelineStatus_as_str PFailed = ''failed''"
| "PipelineStatus_as_str PCanceled = ''canceled''"
| "PipelineStatus_as_str PBlocked = ''blocked''"

section \<open>The two decisions\<close>

definition next_ready_job_status ::
    "(ServerJobStatus \<times> bool) list \<Rightarrow> ServerJobStatus option" where
  "next_ready_job_status statuses =
     (if list_ex (\<lambda>(status, can_fail). status = SFailed \<and> \<not> can_fail) statuses
      then Some SBlocked
      else if list_ex (\<lambda>(status, _).
                status \<in> {SPending, SRunning, SCancelRequested, SCanceling}) statuses
      then None
      else if list_ex (\<lambda>(status, _). status = SCanceled) statuses
      then Some SBlocked
      else Some SPending)"

definition terminal_pipeline_status :: "(ServerJobStatus \<times> bool) list \<Rightarrow> PipelineStatus" where
  "terminal_pipeline_status statuses =
     (if statuses \<noteq> [] \<and> list_all (\<lambda>(status, _). status \<in> {SSuccess, SSkipped}) statuses
      then PSuccess
      else if list_ex (\<lambda>(status, can_fail). status = SFailed \<and> \<not> can_fail) statuses
      then PFailed
      else if list_ex (\<lambda>(status, _). status = SBlocked) statuses
      then PBlocked
      else if list_all (\<lambda>(status, _). status = SCanceled) statuses \<and> statuses \<noteq> []
      then PCanceled
      else if list_ex (\<lambda>(status, _). status = SCanceling) statuses
      then PCanceling
      else if list_ex (\<lambda>(status, _). status = SCancelRequested) statuses
      then PCancelRequested
      else PRunning)"

section \<open>Lemmas\<close>

interpretation server_status: text_codec ServerJobStatus_as_str ServerJobStatus_parse
proof
  show "ServerJobStatus_parse (ServerJobStatus_as_str x) = Some x" for x
    by (cases x) (simp_all add: ServerJobStatus_parse_def)
  show "ServerJobStatus_parse s = Some x \<Longrightarrow> ServerJobStatus_as_str x = s" for s x
    by (auto simp: ServerJobStatus_parse_def split: if_splits)
qed

declare server_status.dec_enc [codec_simps]

definition job_settled :: "ServerJobStatus \<Rightarrow> bool" where
  "job_settled s = (s \<in> {SSuccess, SFailed, SCanceled, SBlocked, SSkipped})"

definition pipeline_settled :: "PipelineStatus \<Rightarrow> bool" where
  "pipeline_settled p = (p \<in> {PSuccess, PFailed, PCanceled, PBlocked})"

lemma job_settled_iff [status_simps]:
  "job_settled s \<longleftrightarrow> s \<notin> {SPending, SRunning, SCancelRequested, SCanceling}"
  by (cases s) (auto simp: job_settled_def)

text \<open>The tests of the code as facts about the set of statuses.\<close>

definition status_set :: "(ServerJobStatus \<times> bool) list \<Rightarrow> ServerJobStatus set" where
  "status_set ps = fst ` set ps"

lemma status_set_empty_iff: "status_set ps = {} \<longleftrightarrow> ps = []"
  by (simp add: status_set_def)

lemma required_failure_iff [status_simps]:
  "list_ex (\<lambda>(s, can_fail). s = SFailed \<and> \<not> can_fail) ps \<longleftrightarrow> (SFailed, False) \<in> set ps"
  by (auto simp: list_ex_iff)

lemma some_status_iff [status_simps]:
  "list_ex (\<lambda>(s, _). P s) ps \<longleftrightarrow> (\<exists>s \<in> status_set ps. P s)"
  by (force simp: list_ex_iff status_set_def)

lemma every_status_iff [status_simps]:
  "list_all (\<lambda>(s, _). P s) ps \<longleftrightarrow> (\<forall>s \<in> status_set ps. P s)"
  by (force simp: list_all_iff status_set_def)

lemma required_failure_status: "(SFailed, False) \<in> set ps \<Longrightarrow> SFailed \<in> status_set ps"
  by (force simp: status_set_def)

lemma next_ready_alt:
  "next_ready_job_status ps =
     (if (SFailed, False) \<in> set ps then Some SBlocked
      else if \<exists>s \<in> status_set ps. \<not> job_settled s then None
      else if SCanceled \<in> status_set ps then Some SBlocked else Some SPending)"
  unfolding next_ready_job_status_def status_simps by auto

lemma terminal_alt:
  "terminal_pipeline_status ps =
     (let S = status_set ps in
      if S \<noteq> {} \<and> (\<forall>s \<in> S. s \<in> {SSuccess, SSkipped}) then PSuccess
      else if (SFailed, False) \<in> set ps then PFailed
      else if SBlocked \<in> S then PBlocked
      else if (\<forall>s \<in> S. s = SCanceled) \<and> S \<noteq> {} then PCanceled
      else if SCanceling \<in> S then PCanceling
      else if SCancelRequested \<in> S then PCancelRequested
      else PRunning)"
proof -
  show ?thesis
    unfolding terminal_pipeline_status_def status_simps Let_def status_set_empty_iff by auto
qed

text \<open>A pending job is dispatched exactly when every predecessor has settled without a
  required failure and without a cancellation.\<close>

lemma next_ready_Pending_iff:
  "next_ready_job_status ps = Some SPending \<longleftrightarrow>
     (SFailed, False) \<notin> set ps \<and> (\<forall>s \<in> status_set ps. job_settled s \<and> s \<noteq> SCanceled)"
  unfolding next_ready_alt by auto

lemma next_ready_Blocked_iff:
  "next_ready_job_status ps = Some SBlocked \<longleftrightarrow>
     (SFailed, False) \<in> set ps \<or>
     ((\<forall>s \<in> status_set ps. job_settled s) \<and> SCanceled \<in> status_set ps)"
  unfolding next_ready_alt by auto

lemma next_ready_None_iff:
  "next_ready_job_status ps = None \<longleftrightarrow>
     (SFailed, False) \<notin> set ps \<and> (\<exists>s \<in> status_set ps. \<not> job_settled s)"
  unfolding next_ready_alt by auto

lemma next_ready_cases:
  "next_ready_job_status ps \<in> {None, Some SPending, Some SBlocked}"
  unfolding next_ready_alt by simp

text \<open>Both decisions depend on the set of statuses only, not on their order.\<close>

lemma next_ready_set_cong: "set ps = set qs \<Longrightarrow> next_ready_job_status ps = next_ready_job_status qs"
  unfolding next_ready_alt status_set_def by simp

lemma terminal_set_cong: "set ps = set qs \<Longrightarrow> terminal_pipeline_status ps = terminal_pipeline_status qs"
  unfolding terminal_alt status_set_def Let_def by simp

lemma terminal_PSuccess_iff:
  "terminal_pipeline_status ps = PSuccess \<longleftrightarrow>
     ps \<noteq> [] \<and> (\<forall>s \<in> status_set ps. s \<in> {SSuccess, SSkipped})"
  unfolding terminal_alt Let_def status_set_empty_iff [symmetric] by auto

lemma terminal_PFailed_iff:
  "terminal_pipeline_status ps = PFailed \<longleftrightarrow> (SFailed, False) \<in> set ps"
  using required_failure_status [of ps] unfolding terminal_alt Let_def status_set_empty_iff [symmetric] by auto

lemma terminal_PBlocked_iff:
  "terminal_pipeline_status ps = PBlocked \<longleftrightarrow>
     (SFailed, False) \<notin> set ps \<and> SBlocked \<in> status_set ps"
  unfolding terminal_alt Let_def status_set_empty_iff [symmetric] by auto

lemma terminal_PCanceled_iff:
  "terminal_pipeline_status ps = PCanceled \<longleftrightarrow> ps \<noteq> [] \<and> (\<forall>s \<in> status_set ps. s = SCanceled)"
  using required_failure_status [of ps] unfolding terminal_alt Let_def status_set_empty_iff [symmetric]
  by auto

text \<open>
  A pipeline all of whose jobs have settled is itself given a settled status, unless jobs
  that failed with can_fail, or canceled ones, are mixed with others; then it stays running.
\<close>

lemma settled_pipeline_iff:
  assumes "ps \<noteq> []"
  shows "pipeline_settled (terminal_pipeline_status ps) \<longleftrightarrow>
    (SFailed, False) \<in> set ps \<or> SBlocked \<in> status_set ps \<or>
    (\<forall>s \<in> status_set ps. s \<in> {SSuccess, SSkipped}) \<or> (\<forall>s \<in> status_set ps. s = SCanceled)"
  using terminal_PSuccess_iff [of ps] terminal_PFailed_iff [of ps] terminal_PBlocked_iff [of ps]
    terminal_PCanceled_iff [of ps] assms
  by (auto simp: pipeline_settled_def)

lemma unsettled_pipeline_Running:
  assumes "\<forall>s \<in> status_set ps. job_settled s"
    and "\<not> pipeline_settled (terminal_pipeline_status ps)"
  shows "terminal_pipeline_status ps = PRunning"
proof -
  have "SCanceling \<notin> status_set ps" "SCancelRequested \<notin> status_set ps"
    using assms(1) by (auto simp: job_settled_def)
  then show ?thesis
    using assms(2) unfolding terminal_alt Let_def pipeline_settled_def
    by (auto split: if_splits)
qed

section \<open>Properties\<close>

text \<open>The dispatch decision for a pending job: it is released exactly when every recorded
predecessor has settled, none was canceled and none failed without being allowed to; it is
blocked exactly when a predecessor failed for good, or all have settled and one was canceled;
otherwise it waits.  The order of the predecessors does not matter.\<close>

theorem next_ready_decision:
  "(next_ready_job_status ps = Some SPending \<longleftrightarrow>
      (SFailed, False) \<notin> set ps \<and> (\<forall>(s, f) \<in> set ps. job_settled s \<and> s \<noteq> SCanceled))
   \<and> (next_ready_job_status ps = Some SBlocked \<longleftrightarrow>
      (SFailed, False) \<in> set ps \<or>
      (\<forall>(s, f) \<in> set ps. job_settled s) \<and> (\<exists>f. (SCanceled, f) \<in> set ps))
   \<and> (next_ready_job_status ps = None \<longleftrightarrow>
      (SFailed, False) \<notin> set ps \<and> (\<exists>(s, f) \<in> set ps. \<not> job_settled s))
   \<and> (set ps = set qs \<longrightarrow> next_ready_job_status ps = next_ready_job_status qs)"
proof (intro conjI)
  have ex: "(\<forall>s \<in> status_set ps. P s) \<longleftrightarrow> (\<forall>(s, f) \<in> set ps. P s)" for P
    by (force simp: status_set_def)
  show "next_ready_job_status ps = Some SPending \<longleftrightarrow>
      (SFailed, False) \<notin> set ps \<and> (\<forall>(s, f) \<in> set ps. job_settled s \<and> s \<noteq> SCanceled)"
    unfolding next_ready_Pending_iff ex ..
  show "next_ready_job_status ps = Some SBlocked \<longleftrightarrow>
      (SFailed, False) \<in> set ps \<or>
      (\<forall>(s, f) \<in> set ps. job_settled s) \<and> (\<exists>f. (SCanceled, f) \<in> set ps)"
    unfolding next_ready_Blocked_iff ex by (force simp: status_set_def)
  show "next_ready_job_status ps = None \<longleftrightarrow>
      (SFailed, False) \<notin> set ps \<and> (\<exists>(s, f) \<in> set ps. \<not> job_settled s)"
    unfolding next_ready_None_iff by (force simp: status_set_def)
  show "set ps = set qs \<longrightarrow> next_ready_job_status ps = next_ready_job_status qs"
    using next_ready_set_cong by blast
qed

theorem next_ready_decision_witness:
  "next_ready_job_status [(SSuccess, False), (SFailed, True), (SSkipped, False)] = Some SPending
    \<and> next_ready_job_status [(SRunning, False), (SFailed, False)] = Some SBlocked
    \<and> next_ready_job_status [(SRunning, False), (SFailed, True)] = None"
  using next_ready_decision [of "[(SSuccess, False), (SFailed, True), (SSkipped, False)]" "[]"]
    next_ready_decision [of "[(SRunning, False), (SFailed, False)]" "[]"]
    next_ready_decision [of "[(SRunning, False), (SFailed, True)]" "[]"]
  by (simp add: job_settled_def)

text \<open>C25. The status of a pipeline whose jobs have all settled: failed exactly when a required
job failed, otherwise blocked when a job is blocked, otherwise successful when every job
succeeded or was skipped, otherwise canceled when every job was canceled.  In the remaining
cases, a failure that was allowed or a cancellation among jobs that ended otherwise, the
pipeline is left running although nothing will ever change it.\<close>

theorem settled_pipeline_decision:
  assumes "ps \<noteq> []" and "\<forall>(s, f) \<in> set ps. job_settled s"
  shows "terminal_pipeline_status ps =
    (if (SFailed, False) \<in> set ps then PFailed
     else if \<exists>f. (SBlocked, f) \<in> set ps then PBlocked
     else if \<forall>(s, f) \<in> set ps. s \<in> {SSuccess, SSkipped} then PSuccess
     else if \<forall>(s, f) \<in> set ps. s = SCanceled then PCanceled
     else PRunning)"
proof -
  have all: "(\<forall>s \<in> status_set ps. P s) \<longleftrightarrow> (\<forall>(s, f) \<in> set ps. P s)" for P
    by (force simp: status_set_def)
  have mem: "x \<in> status_set ps \<longleftrightarrow> (\<exists>f. (x, f) \<in> set ps)" for x
    by (force simp: status_set_def)
  have settled: "\<forall>s \<in> status_set ps. job_settled s" using assms(2) all by blast
  show ?thesis
  proof (cases "pipeline_settled (terminal_pipeline_status ps)")
    case True
    then show ?thesis
      using assms(1) terminal_PSuccess_iff [of ps] terminal_PFailed_iff [of ps]
        terminal_PBlocked_iff [of ps] terminal_PCanceled_iff [of ps]
      unfolding all mem by (auto simp: pipeline_settled_def)
  next
    case False
    then have "terminal_pipeline_status ps = PRunning"
      by (rule unsettled_pipeline_Running [OF settled])
    then show ?thesis
      using False settled_pipeline_iff [OF assms(1)] unfolding all mem by simp
  qed
qed

theorem settled_pipeline_decision_witness:
  "terminal_pipeline_status [(SFailed, True), (SSuccess, False)] = PRunning"
  using settled_pipeline_decision [of "[(SFailed, True), (SSuccess, False)]"]
  by (simp add: job_settled_def)

end
