(* ===== verification/Janus_Protocol.thy ===== *)
theory Janus_Protocol
  imports Janus_Prelude
begin

unbundle bit_operations_syntax

text \<open>
  The protocol crate shared by the server and the runners (janus-lib): job statuses,
  terminal reasons, outputs and job schemas as they travel over HTTP, the capability
  handshake, the canonical text a request signature covers, and the routes of the runner.
  The SHA-256 digest itself is a third-party function and stays a parameter.
\<close>

section \<open>Jobs (janus-lib/src/job.rs)\<close>

datatype JobStatus =
  Running | CancelRequested | Canceling | Success | Failed | TimedOut | Canceled | Rejected

fun JobStatus_as_str :: "JobStatus \<Rightarrow> string" where
  "JobStatus_as_str Running = ''running''"
| "JobStatus_as_str CancelRequested = ''cancel_requested''"
| "JobStatus_as_str Canceling = ''canceling''"
| "JobStatus_as_str Success = ''success''"
| "JobStatus_as_str Failed = ''failed''"
| "JobStatus_as_str TimedOut = ''timed_out''"
| "JobStatus_as_str Canceled = ''canceled''"
| "JobStatus_as_str Rejected = ''rejected''"

definition JobStatus_parse :: "string \<Rightarrow> JobStatus option" where
  "JobStatus_parse s =
     (if s = ''running'' then Some Running
      else if s = ''cancel_requested'' then Some CancelRequested
      else if s = ''canceling'' then Some Canceling
      else if s = ''success'' then Some Success
      else if s = ''failed'' then Some Failed
      else if s = ''timed_out'' then Some TimedOut
      else if s = ''canceled'' then Some Canceled
      else if s = ''rejected'' then Some Rejected
      else None)"

fun is_terminal :: "JobStatus \<Rightarrow> bool" where
  "is_terminal Success = True"
| "is_terminal Failed = True"
| "is_terminal TimedOut = True"
| "is_terminal Canceled = True"
| "is_terminal Rejected = True"
| "is_terminal _ = False"

datatype TerminalReason =
  ReasonSuccess | ReasonExitCode | ReasonTimeout | ReasonCanceled | ReasonShutdown
  | ReasonSpawnError | ReasonWaitError | ReasonCaptureError | ReasonLogLimitExceeded
  | ReasonMissingRequiredOutput | ReasonOutputRegistrationFailed

fun TerminalReason_as_str :: "TerminalReason \<Rightarrow> string" where
  "TerminalReason_as_str ReasonSuccess = ''success''"
| "TerminalReason_as_str ReasonExitCode = ''exit_code''"
| "TerminalReason_as_str ReasonTimeout = ''timeout''"
| "TerminalReason_as_str ReasonCanceled = ''canceled''"
| "TerminalReason_as_str ReasonShutdown = ''shutdown''"
| "TerminalReason_as_str ReasonSpawnError = ''spawn_error''"
| "TerminalReason_as_str ReasonWaitError = ''wait_error''"
| "TerminalReason_as_str ReasonCaptureError = ''capture_error''"
| "TerminalReason_as_str ReasonLogLimitExceeded = ''log_limit_exceeded''"
| "TerminalReason_as_str ReasonMissingRequiredOutput = ''missing_required_output''"
| "TerminalReason_as_str ReasonOutputRegistrationFailed = ''output_registration_failed''"

datatype FailureCategory = CategoryJob | CategoryInfra | CategoryTimeout | CategoryCanceled

fun FailureCategory_as_str :: "FailureCategory \<Rightarrow> string" where
  "FailureCategory_as_str CategoryJob = ''job''"
| "FailureCategory_as_str CategoryInfra = ''infra''"
| "FailureCategory_as_str CategoryTimeout = ''timeout''"
| "FailureCategory_as_str CategoryCanceled = ''canceled''"

datatype JobOutput =
    OutArtifact (out_artifact_id: string) (out_sha256: string) (out_size: u64)
  | OutString string
  | OutInteger "64 word"
  | OutBoolean bool
  | OutJson json

record JobStreamMetadata =
  stream_bytes :: u64
  stream_truncated :: bool

record JobArtifactMetadata =
  artifact_count :: u64
  artifact_bytes :: u64

record JobOutputMetadata =
  om_stdout :: JobStreamMetadata
  om_stderr :: JobStreamMetadata
  om_artifacts :: JobArtifactMetadata

definition JobOutputMetadata_default :: JobOutputMetadata where
  "JobOutputMetadata_default =
     \<lparr>om_stdout = \<lparr>stream_bytes = 0, stream_truncated = False\<rparr>,
      om_stderr = \<lparr>stream_bytes = 0, stream_truncated = False\<rparr>,
      om_artifacts = \<lparr>artifact_count = 0, artifact_bytes = 0\<rparr>\<rparr>"

record JobCreatedResponse =
  jcr_job_id :: string
  jcr_status :: JobStatus
  jcr_started_at :: string

record JobStatusResponse =
  jsr_job_id :: string
  jsr_name :: string
  jsr_status :: JobStatus
  jsr_started_at :: string
  jsr_finished_at :: "string option"
  jsr_duration_ms :: "u64 option"
  jsr_exit_code :: "32 word option"
  jsr_terminal_reason :: "TerminalReason option"
  jsr_failure_category :: "FailureCategory option"
  jsr_outputs :: "(string, JobOutput) btree_map"
  jsr_output_metadata :: JobOutputMetadata

record JobLogsResponse =
  jlr_stdout :: string
  jlr_stderr :: string

section \<open>Job schemas (janus-lib/src/schema.rs)\<close>

datatype InputType = InString | InInteger | InBoolean | InArtifact | InJson

fun InputType_as_str :: "InputType \<Rightarrow> string" where
  "InputType_as_str InString = ''string''"
| "InputType_as_str InInteger = ''integer''"
| "InputType_as_str InBoolean = ''boolean''"
| "InputType_as_str InArtifact = ''artifact''"
| "InputType_as_str InJson = ''json''"

definition InputType_parse :: "string \<Rightarrow> InputType option" where
  "InputType_parse s =
     (if s = ''string'' then Some InString
      else if s = ''integer'' then Some InInteger
      else if s = ''boolean'' then Some InBoolean
      else if s = ''artifact'' then Some InArtifact
      else if s = ''json'' then Some InJson
      else None)"

datatype OutputType = TypeArtifact | TypeString | TypeInteger | TypeBoolean | TypeJson

fun OutputType_as_str :: "OutputType \<Rightarrow> string" where
  "OutputType_as_str TypeArtifact = ''artifact''"
| "OutputType_as_str TypeString = ''string''"
| "OutputType_as_str TypeInteger = ''integer''"
| "OutputType_as_str TypeBoolean = ''boolean''"
| "OutputType_as_str TypeJson = ''json''"

definition OutputType_parse :: "string \<Rightarrow> OutputType option" where
  "OutputType_parse s =
     (if s = ''artifact'' then Some TypeArtifact
      else if s = ''string'' then Some TypeString
      else if s = ''integer'' then Some TypeInteger
      else if s = ''boolean'' then Some TypeBoolean
      else if s = ''json'' then Some TypeJson
      else None)"

datatype Concurrency = Parallel | JobExclusive | GlobalExclusive

fun Concurrency_as_str :: "Concurrency \<Rightarrow> string" where
  "Concurrency_as_str Parallel = ''parallel''"
| "Concurrency_as_str JobExclusive = ''job_exclusive''"
| "Concurrency_as_str GlobalExclusive = ''global_exclusive''"

definition Concurrency_parse :: "string \<Rightarrow> Concurrency option" where
  "Concurrency_parse s =
     (if s = ''parallel'' then Some Parallel
      else if s = ''job_exclusive'' then Some JobExclusive
      else if s = ''global_exclusive'' then Some GlobalExclusive
      else None)"

record JobInputDefinitionResponse =
  jid_kind :: InputType
  jid_required :: bool
  jid_sensitive :: bool
  jid_max_length :: "u64 option"
  jid_pattern :: "string option"
  jid_max_json_bytes :: "u64 option"

record JobOutputDefinitionResponse =
  jod_kind :: OutputType
  jod_path :: string
  jod_required :: bool

record JobDefinitionResponse =
  jdr_name :: string
  jdr_concurrency :: Concurrency
  jdr_timeout_seconds :: u64
  jdr_inputs :: "(string, JobInputDefinitionResponse) btree_map"
  jdr_outputs :: "(string, JobOutputDefinitionResponse) btree_map"

definition JobDefinitionResponse_default :: JobDefinitionResponse where
  "JobDefinitionResponse_default =
     \<lparr>jdr_name = [], jdr_concurrency = Parallel, jdr_timeout_seconds = 0,
      jdr_inputs = [], jdr_outputs = []\<rparr>"

section \<open>Capabilities (janus-lib/src/capabilities.rs)\<close>

definition RUNNER_PROTOCOL_VERSION :: u32 where "RUNNER_PROTOCOL_VERSION = 1"

definition SUPPORTED_RUNNER_PROTOCOL_VERSIONS :: "u32 list" where
  "SUPPORTED_RUNNER_PROTOCOL_VERSIONS = [RUNNER_PROTOCOL_VERSION]"

record RunnerCapabilitiesResponse =
  protocol_version :: u32
  supported_protocol_versions :: "u32 list"

definition capabilities_current :: RunnerCapabilitiesResponse where
  "capabilities_current =
     \<lparr>protocol_version = RUNNER_PROTOCOL_VERSION,
      supported_protocol_versions = SUPPORTED_RUNNER_PROTOCOL_VERSIONS\<rparr>"

definition is_compatible_with_supported_versions ::
    "RunnerCapabilitiesResponse \<Rightarrow> u32 list \<Rightarrow> bool" where
  "is_compatible_with_supported_versions c supported =
     list_ex (\<lambda>v. v \<in> set supported) (supported_protocol_versions c)"

section \<open>Signed requests and routes (janus-lib/src/protocol.rs)\<close>

definition HEADER_SHA256 :: string where "HEADER_SHA256 = ''x-sha256''"
definition HEADER_IDEMPOTENCY_KEY :: string where "HEADER_IDEMPOTENCY_KEY = ''x-idempotency-key''"

record ArtifactUploadResponse =
  aur_artifact_id :: string
  aur_sha256 :: string
  aur_size :: u64
  aur_expires_at :: string

definition HEX :: string where "HEX = ''0123456789abcdef''"

fun hex_lower :: "8 word list \<Rightarrow> string" where
  "hex_lower [] = []"
| "hex_lower (b # bs) = HEX ! unat (drop_bit 4 b) # HEX ! unat (b AND 0x0f) # hex_lower bs"

definition sha256_hex :: "(string \<Rightarrow> 8 word list) \<Rightarrow> string \<Rightarrow> string" where
  "sha256_hex digest bytes = hex_lower (digest bytes)"

definition canonical_signed_request ::
    "string \<Rightarrow> string \<Rightarrow> string \<Rightarrow> string \<Rightarrow> string \<Rightarrow> string" where
  "canonical_signed_request mthd path_and_query content_sha256 timestamp nonce =
     mthd @ newline @ path_and_query @ newline @ content_sha256 @ newline @ timestamp
       @ newline @ nonce"

datatype RunnerRouteTemplate =
  TCapabilities | TJobs | TArtifacts | TArtifact | TJobRuns | TRun | TRunLogs

fun RunnerRouteTemplate_path :: "RunnerRouteTemplate \<Rightarrow> string" where
  "RunnerRouteTemplate_path TCapabilities = ''/capabilities''"
| "RunnerRouteTemplate_path TJobs = ''/jobs''"
| "RunnerRouteTemplate_path TArtifacts = ''/artifacts''"
| "RunnerRouteTemplate_path TArtifact = ''/artifacts/{artifact_id}''"
| "RunnerRouteTemplate_path TJobRuns = ''/jobs/{name}/runs''"
| "RunnerRouteTemplate_path TRun = ''/runs/{job_id}''"
| "RunnerRouteTemplate_path TRunLogs = ''/runs/{job_id}/logs''"

datatype RunnerRoute =
    RCapabilities | RJobs | RArtifacts
  | RArtifact string | RJobRuns string | RRun string | RRunLogs string

fun RunnerRoute_path :: "RunnerRoute \<Rightarrow> string" where
  "RunnerRoute_path RCapabilities = RunnerRouteTemplate_path TCapabilities"
| "RunnerRoute_path RJobs = RunnerRouteTemplate_path TJobs"
| "RunnerRoute_path RArtifacts = RunnerRouteTemplate_path TArtifacts"
| "RunnerRoute_path (RArtifact artifact_id) = ''/artifacts/'' @ artifact_id"
| "RunnerRoute_path (RJobRuns job_name) = ''/jobs/'' @ job_name @ ''/runs''"
| "RunnerRoute_path (RRun job_id) = ''/runs/'' @ job_id"
| "RunnerRoute_path (RRunLogs job_id) = ''/runs/'' @ job_id @ ''/logs''"

fun RunnerRoute_template :: "RunnerRoute \<Rightarrow> RunnerRouteTemplate" where
  "RunnerRoute_template RCapabilities = TCapabilities"
| "RunnerRoute_template RJobs = TJobs"
| "RunnerRoute_template RArtifacts = TArtifacts"
| "RunnerRoute_template (RArtifact _) = TArtifact"
| "RunnerRoute_template (RJobRuns _) = TJobRuns"
| "RunnerRoute_template (RRun _) = TRun"
| "RunnerRoute_template (RRunLogs _) = TRunLogs"

section \<open>Lemmas\<close>

interpretation job_status: text_codec JobStatus_as_str JobStatus_parse
proof
  show "JobStatus_parse (JobStatus_as_str x) = Some x" for x
    by (cases x) (simp_all add: JobStatus_parse_def)
  show "JobStatus_parse s = Some x \<Longrightarrow> JobStatus_as_str x = s" for s x
    by (auto simp: JobStatus_parse_def split: if_splits)
qed

interpretation input_type: text_codec InputType_as_str InputType_parse
proof
  show "InputType_parse (InputType_as_str x) = Some x" for x
    by (cases x) (simp_all add: InputType_parse_def)
  show "InputType_parse s = Some x \<Longrightarrow> InputType_as_str x = s" for s x
    by (auto simp: InputType_parse_def split: if_splits)
qed

interpretation output_type: text_codec OutputType_as_str OutputType_parse
proof
  show "OutputType_parse (OutputType_as_str x) = Some x" for x
    by (cases x) (simp_all add: OutputType_parse_def)
  show "OutputType_parse s = Some x \<Longrightarrow> OutputType_as_str x = s" for s x
    by (auto simp: OutputType_parse_def split: if_splits)
qed

interpretation concurrency: text_codec Concurrency_as_str Concurrency_parse
proof
  show "Concurrency_parse (Concurrency_as_str x) = Some x" for x
    by (cases x) (simp_all add: Concurrency_parse_def)
  show "Concurrency_parse s = Some x \<Longrightarrow> Concurrency_as_str x = s" for s x
    by (auto simp: Concurrency_parse_def split: if_splits)
qed

lemmas protocol_codecs [codec_simps] =
  job_status.dec_enc input_type.dec_enc output_type.dec_enc concurrency.dec_enc

lemma is_terminal_iff [status_simps]:
  "is_terminal s \<longleftrightarrow> s \<notin> {Running, CancelRequested, Canceling}"
  by (cases s) auto

subsection \<open>Hexadecimal digests\<close>

lemma HEX_distinct: "distinct HEX" and HEX_length: "length HEX = 16"
  by (simp_all add: HEX_def)

lemma nibbles:
  fixes b :: "8 word"
  shows "unat (drop_bit 4 b) = unat b div 16" "unat (b AND 0x0f) = unat b mod 16"
proof -
  show "unat (drop_bit 4 b) = unat b div 16"
    unfolding unat_drop_bit_eq by (simp add: drop_bit_eq_div)
  have "b AND 0x0f = take_bit 4 b"
    by (simp add: take_bit_eq_mask mask_eq_decr_exp)
  then have "unat (b AND 0x0f) = take_bit 4 (unat b)"
    by (simp only: unsigned_take_bit_eq)
  then show "unat (b AND 0x0f) = unat b mod 16"
    by (simp add: take_bit_eq_mod)
qed

lemma nibble_bounds:
  fixes b :: "8 word"
  shows "unat b div 16 < 16" "unat b mod 16 < 16"
proof -
  have "unat b < 256" using unsigned_less [of b] by simp
  then show "unat b div 16 < 16" by simp
qed simp

lemma length_hex_lower [simp]: "length (hex_lower bs) = 2 * length bs"
  by (induction bs) auto

lemma hex_lower_digits: "set (hex_lower bs) \<subseteq> set HEX"
proof (induction bs)
  case (Cons b bs)
  then show ?case
    using nibble_bounds [of b] by (auto simp: nibbles HEX_length)
qed simp

lemma hex_lower_inject: "hex_lower bs = hex_lower cs \<Longrightarrow> bs = cs"
proof (induction bs arbitrary: cs)
  case Nil
  then show ?case by (cases cs) auto
next
  case (Cons b bs)
  then obtain c cs' where cs: "cs = c # cs'" by (cases cs) auto
  have "unat b div 16 = unat c div 16" "unat b mod 16 = unat c mod 16"
    using Cons.prems nibble_bounds [of b] nibble_bounds [of c]
    by (auto simp: cs nibbles nth_eq_iff_index_eq HEX_distinct HEX_length)
  then have "unat b = unat c" by (metis div_mult_mod_eq)
  then have "b = c" by (simp add: word_unat_eq_iff)
  then show ?case using Cons.IH [of cs'] Cons.prems by (simp add: cs)
qed

lemma hex_lower_no_newline: "newline = [c] \<Longrightarrow> c \<notin> set (hex_lower bs)"
  using hex_lower_digits [of bs] by (auto simp: newline_def HEX_def)

subsection \<open>The canonical text of a request determines the request\<close>

lemma split_at_newline:
  assumes eq: "a @ newline @ b = c @ newline @ d"
    and "CHR 0x0A \<notin> set a" and "CHR 0x0A \<notin> set c"
  shows "a = c \<and> b = d"
proof -
  have a: "split_once (CHR 0x0A) (a @ newline @ b) = Some (a, b)"
    using assms(2) by (simp add: split_once_eq_Some newline_def)
  have c: "split_once (CHR 0x0A) (c @ newline @ d) = Some (c, d)"
    using assms(3) by (simp add: split_once_eq_Some newline_def)
  from a [unfolded eq] c show ?thesis by simp
qed

lemma canonical_inject:
  assumes eq: "canonical_signed_request m p h t n = canonical_signed_request m' p' h' t' n'"
    and nl: "CHR 0x0A \<notin> set m" "CHR 0x0A \<notin> set m'" "CHR 0x0A \<notin> set p"
      "CHR 0x0A \<notin> set p'" "CHR 0x0A \<notin> set h" "CHR 0x0A \<notin> set h'"
      "CHR 0x0A \<notin> set t" "CHR 0x0A \<notin> set t'"
  shows "m = m' \<and> p = p' \<and> h = h' \<and> t = t' \<and> n = n'"
proof -
  note 1 = split_at_newline [OF eq [unfolded canonical_signed_request_def] nl(1,2)]
  note 2 = split_at_newline [OF 1 [THEN conjunct2] nl(3,4)]
  note 3 = split_at_newline [OF 2 [THEN conjunct2] nl(5,6)]
  note 4 = split_at_newline [OF 3 [THEN conjunct2] nl(7,8)]
  from 1 2 3 4 show ?thesis by (elim conjE) (intro conjI; assumption)
qed

subsection \<open>Routes\<close>

text \<open>
  How the HTTP router reads a path: segment by segment, a segment in braces matching any
  non-empty segment.
\<close>

definition segment_matches :: "string \<Rightarrow> string \<Rightarrow> bool" where
  "segment_matches t s = (if starts_with ''{'' t then s \<noteq> [] else s = t)"

definition route_matches :: "RunnerRouteTemplate \<Rightarrow> string \<Rightarrow> bool" where
  "route_matches t path =
     list_all2 segment_matches (split_on (CHR ''/'') (RunnerRouteTemplate_path t))
       (split_on (CHR ''/'') path)"

fun route_id :: "RunnerRoute \<Rightarrow> string" where
  "route_id (RArtifact s) = s"
| "route_id (RJobRuns s) = s"
| "route_id (RRun s) = s"
| "route_id (RRunLogs s) = s"
| "route_id _ = ''-''"

lemma split_on_no_sep: "d \<notin> set s \<Longrightarrow> split_on d s = [s]"
  by (induction s) auto

lemma split_on_append_sep: "d \<notin> set s \<Longrightarrow> split_on d (s @ d # t) = s # split_on d t"
  by (induction s) auto

lemma route_path_split:
  assumes "CHR ''/'' \<notin> set (route_id r)"
  shows "split_on (CHR ''/'') (RunnerRoute_path r) =
    (case r of RCapabilities \<Rightarrow> [[], ''capabilities''] | RJobs \<Rightarrow> [[], ''jobs'']
     | RArtifacts \<Rightarrow> [[], ''artifacts''] | RArtifact i \<Rightarrow> [[], ''artifacts'', i]
     | RJobRuns i \<Rightarrow> [[], ''jobs'', i, ''runs''] | RRun i \<Rightarrow> [[], ''runs'', i]
     | RRunLogs i \<Rightarrow> [[], ''runs'', i, ''logs''])"
  using assms
  by (cases r) (simp_all add: split_on_no_sep split_on_append_sep)

lemma route_matches_iff:
  assumes "CHR ''/'' \<notin> set (route_id r)" and "route_id r \<noteq> []"
  shows "route_matches t (RunnerRoute_path r) \<longleftrightarrow> t = RunnerRoute_template r"
  unfolding route_matches_def route_path_split [OF assms(1)]
  using assms(2) by (cases r; cases t) (simp_all add: segment_matches_def starts_with_def)

lemma route_path_inject:
  assumes "CHR ''/'' \<notin> set (route_id r)" and "CHR ''/'' \<notin> set (route_id q)"
    and "RunnerRoute_path r = RunnerRoute_path q"
  shows "r = q"
proof -
  have "split_on (CHR ''/'') (RunnerRoute_path r) = split_on (CHR ''/'') (RunnerRoute_path q)"
    using assms(3) by simp
  then show ?thesis
    unfolding route_path_split [OF assms(1)] route_path_split [OF assms(2)]
    by (cases r; cases q) simp_all
qed

section \<open>Properties\<close>

text \<open>A signature covers the whole request: two requests whose method, path, body digest and
timestamp contain no line break have the same canonical text only when they agree in every
field.  So a signature never authorises another method, path, body, time or nonce.\<close>

theorem canonical_text_determines_request:
  assumes "canonical_signed_request m p h t n = canonical_signed_request m' p' h' t' n'"
    and "list_all (\<lambda>s. CHR 0x0A \<notin> set s) [m, p, h, t, m', p', h', t']"
  shows "(m, p, h, t, n) = (m', p', h', t', n')"
  using canonical_inject [OF assms(1)] assms(2) by simp

theorem canonical_text_determines_request_witness:
  "(''POST'', ''/jobs'', ''ab'', ''1'', ''n1'') = (''POST'', ''/jobs'', ''ab'', ''1'', ''n1'')"
  by (rule canonical_text_determines_request [OF refl]) simp

text \<open>The digest header determines the digest: the hexadecimal text is two lower-case digits
per byte, and different byte strings have different texts.\<close>

theorem hex_lower_injective:
  "length (hex_lower bs) = 2 * length bs \<and> set (hex_lower bs) \<subseteq> set HEX
    \<and> (hex_lower bs = hex_lower cs \<longleftrightarrow> bs = cs)"
  using hex_lower_inject [of bs cs] hex_lower_digits [of bs] by auto

text \<open>The routes a client builds and the templates the runner registers fit: the path of a
route is matched by its own template and by no other, and no two routes share a path, for
identifiers that are non-empty and contain no slash.\<close>

theorem runner_routes_unambiguous:
  assumes "CHR ''/'' \<notin> set (route_id r)" and "route_id r \<noteq> []" and "CHR ''/'' \<notin> set (route_id q)"
  shows "(route_matches t (RunnerRoute_path r) \<longleftrightarrow> t = RunnerRoute_template r)
    \<and> (RunnerRoute_path r = RunnerRoute_path q \<longleftrightarrow> r = q)"
  using route_matches_iff [OF assms(1,2)] route_path_inject [OF assms(1,3)] by auto

theorem runner_routes_unambiguous_witness:
  "route_matches (RunnerRoute_template (RRunLogs ''job_1'')) ''/runs/job_1/logs''
    \<and> RunnerRoute_path (RRunLogs ''job_1'') \<noteq> RunnerRoute_path (RRun ''job_1'')"
  using runner_routes_unambiguous [of "RRunLogs ''job_1''" "RRun ''job_1''" "RunnerRoute_template (RRunLogs ''job_1'')"]
  by simp

end
