(* ===== verification/Runner_Storage.thy ===== *)
theory Runner_Storage
  imports Janus_Prelude
begin

text \<open>
  The file system as the runner sees it, and the atomic replacement of a file
  (janus-runner/src/storage.rs).

  A path is its list of components.  Every fallible call names itself by an fs_op, and a
  fault plan decides which of the calls of one operation fail, with what message, and how
  many bytes a failing write has written before.  An injected fault is never NotFound,
  which is reported exactly for what is missing.  An operation is a function of the fault
  plan, so a theorem that quantifies over the plan covers every I/O error.
\<close>

section \<open>I/O errors and fault plans\<close>

datatype IoErrorKind = KNotFound | KInvalidInput | KInvalidData | KOther

datatype IoError = IoError (io_kind: IoErrorKind) (io_message: string)

type_synonym path = "string list"

fun path_display :: "path \<Rightarrow> string" where
  "path_display [] = []"
| "path_display (c # cs) = (CHR ''/'') # c @ path_display cs"

datatype fs_op =
    CreateDirAll path | OpenFile path | WriteFile path | SyncFile path | Rename path path
  | ReadFile path | ReadDir path | ReadDirEntry path | RemoveDirAll path | StatFile path
  | SetPermissions path

record faults =
  io_fail :: "fs_op \<Rightarrow> string option"
  io_partial :: "fs_op \<Rightarrow> nat"

definition no_faults :: faults where
  "no_faults = \<lparr>io_fail = (\<lambda>_. None), io_partial = (\<lambda>_. 0)\<rparr>"

definition io_try :: "faults \<Rightarrow> fs_op \<Rightarrow> (IoError, unit) result" where
  "io_try io oper = (case io_fail io oper of None \<Rightarrow> Inr () | Some e \<Rightarrow> Inl (IoError KOther e))"

definition io_not_found :: IoError where
  "io_not_found = IoError KNotFound ''No such file or directory (os error 2)''"

text \<open>Reading a file that may be absent.\<close>

definition io_read :: "faults \<Rightarrow> path \<Rightarrow> 'a option \<Rightarrow> (IoError, 'a) result" where
  "io_read io p content = and_then (io_try io (ReadFile p)) (\<lambda>_. ok_or content io_not_found)"

text \<open>read_to_string also fails on bytes that are not UTF-8.\<close>

definition not_utf8 :: IoError where
  "not_utf8 = IoError KInvalidData ''stream did not contain valid UTF-8''"

definition utf8_checked :: "(IoError, string) result \<Rightarrow> (IoError, string) result" where
  "utf8_checked r = and_then r (\<lambda>s. if utf8_valid s then Inr s else Inl not_utf8)"

lemma io_try_no_faults [simp]: "io_try no_faults oper = Inr ()"
  by (simp add: io_try_def no_faults_def)

lemma io_read_ok [simp]: "io_read io p content = Inr x \<longleftrightarrow> io_try io (ReadFile p) = Inr () \<and> content = Some x"
  by (cases content) (auto simp: io_read_def)

text \<open>NotFound means missing.\<close>

lemma io_try_kind [simp]: "io_try io oper = Inl e \<Longrightarrow> io_kind e = KOther"
  by (auto simp: io_try_def split: option.splits)

lemma io_read_not_found:
  "io_read io p content = Inl e \<Longrightarrow> io_kind e = KNotFound \<longleftrightarrow> io_try io (ReadFile p) = Inr () \<and> content = None"
  by (cases content; cases "io_try io (ReadFile p)") (auto simp: io_read_def io_not_found_def)

lemma io_read_no_faults [simp]: "io_read no_faults p content = ok_or content io_not_found"
  by (simp add: io_read_def)

text \<open>
  The content of a JSON file is what the parser makes of it: a value or garbage, with the
  parser's message.
\<close>

datatype 'a json_file = Parsed 'a | Garbled string

section \<open>Third-party functions\<close>

text \<open>
  Functions of the crates the runner calls: the SHA-256 digest, RFC 3339 formatting (to
  whole seconds) and parsing of instants, counted in nanoseconds since the epoch, regular
  expressions, and the compact text of a JSON value with its parser.
\<close>

record Platform =
  pf_digest :: "string \<Rightarrow> 8 word list"
  pf_format_time :: "int \<Rightarrow> string"
  pf_parse_time :: "string \<Rightarrow> (string, int) result"
  pf_regex_is_match :: "string \<Rightarrow> string \<Rightarrow> bool"
  pf_json_text :: "json \<Rightarrow> string"
  pf_json_parse :: "string \<Rightarrow> (string, json) result"

definition nanos :: "int \<Rightarrow> int" where "nanos secs = secs * 1000000000"

definition time_roundtrip :: "Platform \<Rightarrow> bool" where
  "time_roundtrip pf =
     (\<forall>t. pf_parse_time pf (pf_format_time pf t) = Inr (nanos (t div 1000000000)))"

text \<open>
  A platform for concrete runs: an instant is printed as its seconds in unary, after a minus
  sign when it is before the epoch, and the digest is the list of the bytes themselves.
\<close>

definition demo_platform :: Platform where
  "demo_platform =
     \<lparr>pf_digest = map (\<lambda>c. of_nat (of_char c)),
      pf_format_time = (\<lambda>t. if 0 \<le> t then replicate (nat (t div 1000000000)) (CHR ''s'')
                             else (CHR ''-'') # replicate (nat (- (t div 1000000000))) (CHR ''s'')),
      pf_parse_time = (\<lambda>s. Inr (if s \<noteq> [] \<and> hd s = CHR ''-'' then - nanos (int (length s) - 1)
                                  else nanos (int (length s)))),
      pf_regex_is_match = (\<lambda>_ _. True),
      pf_json_text = (\<lambda>_. ''json''),
      pf_json_parse = (\<lambda>s. Inr (JString s))\<rparr>"

lemma demo_time_roundtrip: "time_roundtrip demo_platform"
proof -
  have "pf_parse_time demo_platform (pf_format_time demo_platform t) = Inr (nanos (t div 1000000000))"
    for t :: int
  proof (cases "0 \<le> t")
    case True
    then have "0 \<le> t div 1000000000" by simp
    then show ?thesis using True by (auto simp: demo_platform_def nanos_def)
  next
    case False
    then have "t div 1000000000 < 0" by simp
    then show ?thesis using False by (simp add: demo_platform_def nanos_def)
  qed
  then show ?thesis by (simp add: time_roundtrip_def)
qed

section \<open>Atomic replacement of a file\<close>

type_synonym files = "path \<Rightarrow> string option"

definition path_parent :: "path \<Rightarrow> path option" where
  "path_parent p = (if p = [] then None else Some (butlast p))"

definition temp_path :: "path \<Rightarrow> path" where
  "temp_path p = butlast p @ [''.'' @ last p @ ''.tmp'']"

datatype write_step =
  CreateParent | OpenTemp | WriteTemp | SyncTemp | RenameTemp | SyncParent

fun write_step_run ::
    "faults \<Rightarrow> path \<Rightarrow> string \<Rightarrow> write_step \<Rightarrow> files \<Rightarrow> (IoError, unit) result \<times> files" where
  "write_step_run io p bytes CreateParent fs =
     (case path_parent p of
        None \<Rightarrow> (Inl (IoError KInvalidInput (''path has no parent: '' @ path_display p)), fs)
      | Some d \<Rightarrow> (io_try io (CreateDirAll d), fs))"
| "write_step_run io p bytes OpenTemp fs =
     (case io_try io (OpenFile (temp_path p)) of
        Inl e \<Rightarrow> (Inl e, fs)
      | Inr _ \<Rightarrow> (Inr (), fs(temp_path p \<mapsto> [])))"
| "write_step_run io p bytes WriteTemp fs =
     (case io_try io (WriteFile (temp_path p)) of
        Inl e \<Rightarrow> (Inl e, fs(temp_path p \<mapsto> take (io_partial io (WriteFile (temp_path p))) bytes))
      | Inr _ \<Rightarrow> (Inr (), fs(temp_path p \<mapsto> bytes)))"
| "write_step_run io p bytes SyncTemp fs = (io_try io (SyncFile (temp_path p)), fs)"
| "write_step_run io p bytes RenameTemp fs =
     (case io_try io (Rename (temp_path p) p) of
        Inl e \<Rightarrow> (Inl e, fs)
      | Inr _ \<Rightarrow> (case fs (temp_path p) of
                   None \<Rightarrow> (Inl io_not_found, fs)
                 | Some b \<Rightarrow> (Inr (), fs(p \<mapsto> b, temp_path p := None))))"
| "write_step_run io p bytes SyncParent fs = (Inr (), fs)"

fun run_write_steps ::
    "faults \<Rightarrow> path \<Rightarrow> string \<Rightarrow> write_step list \<Rightarrow> files \<Rightarrow> (IoError, unit) result \<times> files" where
  "run_write_steps io p bytes [] fs = (Inr (), fs)"
| "run_write_steps io p bytes (s # ss) fs =
     (case write_step_run io p bytes s fs of
        (Inl e, fs') \<Rightarrow> (Inl e, fs')
      | (Inr _, fs') \<Rightarrow> run_write_steps io p bytes ss fs')"

definition atomic_write_steps :: "write_step list" where
  "atomic_write_steps = [CreateParent, OpenTemp, WriteTemp, SyncTemp, RenameTemp, SyncParent]"

definition atomic_write ::
    "faults \<Rightarrow> path \<Rightarrow> string \<Rightarrow> files \<Rightarrow> (IoError, unit) result \<times> files" where
  "atomic_write io p bytes fs = run_write_steps io p bytes atomic_write_steps fs"

text \<open>The process may be killed after any number of steps.\<close>

definition atomic_write_crashed ::
    "nat \<Rightarrow> faults \<Rightarrow> path \<Rightarrow> string \<Rightarrow> files \<Rightarrow> files" where
  "atomic_write_crashed n io p bytes fs =
     snd (run_write_steps io p bytes (take n atomic_write_steps) fs)"

subsection \<open>What writers rely on\<close>

text \<open>
  A cell that is replaced atomically: a write that returns Ok has stored the value, one
  that returns an error has left the old content, and no other cell is touched.
\<close>

locale atomic_cell =
  fixes put_cell :: "'f \<Rightarrow> 'k \<Rightarrow> 'v \<Rightarrow> 's \<Rightarrow> ('e, unit) result \<times> 's"
    and get_cell :: "'s \<Rightarrow> 'k \<Rightarrow> 'v option"
    and valid :: "'k \<Rightarrow> bool"
    and scratch :: "'k \<Rightarrow> 'k set"
    and inv :: "'s \<Rightarrow> bool"
  assumes put_inv: "inv s \<Longrightarrow> put_cell io k v s = (r, t) \<Longrightarrow> inv t"
    and put_ok: "inv s \<Longrightarrow> valid k \<Longrightarrow> put_cell io k v s = (Inr u, t) \<Longrightarrow> get_cell t k = Some v"
    and put_err: "inv s \<Longrightarrow> valid k \<Longrightarrow> put_cell io k v s = (Inl e, t) \<Longrightarrow> get_cell t k = get_cell s k"
    and put_other: "inv s \<Longrightarrow> put_cell io k v s = (r, t) \<Longrightarrow> j \<noteq> k \<Longrightarrow> j \<notin> scratch k \<Longrightarrow>
      get_cell t j = get_cell s j"
begin

lemma put_old_or_new:
  assumes "inv s" and "valid k" and "put_cell io k v s = (r, t)"
  shows "get_cell t k = get_cell s k \<or> get_cell t k = Some v"
  using assms put_ok [of s k io v _ t] put_err [of s k io v _ t] by (cases r) auto

text \<open>Two writes to the same cell of which the first succeeds leave one of the two values.\<close>

lemma put_twice:
  assumes "inv s" and "valid k" and "put_cell io k v s = (Inr (), t)" and "put_cell io' k w t = (r, t')"
  shows "get_cell t' k = Some v \<or> get_cell t' k = Some w"
  using put_old_or_new [OF put_inv [OF assms(1,3)] assms(2,4)] put_ok [OF assms(1-3)] by auto

end

lemma temp_path_neq: "p \<noteq> [] \<Longrightarrow> temp_path p \<noteq> p"
proof
  assume "p \<noteq> []" "temp_path p = p"
  then have "last (temp_path p) = last p" by simp
  then have "length (''.'' @ last p @ ''.tmp'') = length (last p)" by (simp add: temp_path_def)
  then show False by simp
qed

lemma write_steps_other:
  assumes "run_write_steps io p bytes ss fs = (r, fs')" and "q \<noteq> p" and "q \<noteq> temp_path p"
  shows "fs' q = fs q"
  using assms
proof (induction ss arbitrary: fs)
  case (Cons s ss)
  obtain r1 fs1 where 1: "write_step_run io p bytes s fs = (r1, fs1)" by force
  have "fs1 q = fs q"
    using 1 Cons.prems(2,3) by (cases s) (auto split: sum.splits option.splits)
  then show ?case
    using Cons.IH [of fs1] Cons.prems 1 by (cases r1) auto
qed simp

text \<open>Until the rename the target is untouched.\<close>

lemma write_step_target:
  assumes "write_step_run io p bytes s fs = (r, fs')" and "s \<noteq> RenameTemp" and "p \<noteq> []"
  shows "fs' p = fs p"
  using assms temp_path_neq [OF assms(3)] by (cases s) (auto split: sum.splits option.splits)

lemma atomic_write_crashed_cases:
  assumes "p \<noteq> []"
  shows "atomic_write_crashed n io p bytes fs p = fs p \<or>
         atomic_write_crashed n io p bytes fs p = Some bytes"
proof -
  have "n = 0 \<or> n = 1 \<or> n = 2 \<or> n = 3 \<or> n = 4 \<or> n = 5 \<or> 6 \<le> n" by arith
  then show ?thesis
    using temp_path_neq [OF assms]
    by (elim disjE)
      (auto simp: atomic_write_crashed_def atomic_write_steps_def numeral_eq_Suc
        split: sum.splits option.splits)
qed

lemma atomic_write_result:
  assumes "atomic_write io p bytes fs = (r, fs')" and "p \<noteq> []"
  shows "fs' p = (if is_ok r then Some bytes else fs p)"
  using assms temp_path_neq [OF assms(2)]
  by (auto simp: atomic_write_def atomic_write_steps_def split: sum.splits option.splits)

interpretation stored_file:
  atomic_cell atomic_write "\<lambda>fs p. fs p" "\<lambda>p. p \<noteq> []" "\<lambda>p. {temp_path p}" "\<lambda>_. True"
proof
  show "k \<noteq> [] \<Longrightarrow> atomic_write io k v s = (Inr u, t) \<Longrightarrow> t k = Some v" for k io v s u t
    using atomic_write_result [of io k v s "Inr u" t] by simp
  show "k \<noteq> [] \<Longrightarrow> atomic_write io k v s = (Inl e, t) \<Longrightarrow> t k = s k" for k io v s e t
    using atomic_write_result [of io k v s "Inl e" t] by simp
  show "atomic_write io k v s = (r, t) \<Longrightarrow> j \<noteq> k \<Longrightarrow> j \<notin> {temp_path k} \<Longrightarrow> t j = s j"
    for io k v s r t j
    using write_steps_other by (auto simp: atomic_write_def)
qed simp

lemma atomic_write_no_faults:
  assumes "p \<noteq> []"
  shows "fst (atomic_write no_faults p bytes fs) = Inr ()"
  using assms by (simp add: atomic_write_def atomic_write_steps_def path_parent_def)

section \<open>Properties\<close>

text \<open>C40. Replacing a file is atomic: whatever I/O call fails, and after whichever call the
process is killed, the file holds its old content or the complete new one, and nothing but it
and its temporary file is touched; a call that returns says by its result which one it is.\<close>

theorem atomic_write_all_or_nothing:
  assumes "p \<noteq> []"
  shows "atomic_write_crashed n io p bytes fs p \<in> {fs p, Some bytes}
    \<and> (\<forall>q. q \<noteq> p \<and> q \<noteq> temp_path p \<longrightarrow> atomic_write_crashed n io p bytes fs q = fs q)
    \<and> snd (atomic_write io p bytes fs) p = (if is_ok (fst (atomic_write io p bytes fs)) then Some bytes else fs p)"
proof (intro conjI allI impI)
  show "atomic_write_crashed n io p bytes fs p \<in> {fs p, Some bytes}"
    using atomic_write_crashed_cases [OF assms, of n io bytes fs] by auto
  show "atomic_write_crashed n io p bytes fs q = fs q" if "q \<noteq> p \<and> q \<noteq> temp_path p" for q
    using write_steps_other [of io p bytes "take n atomic_write_steps" fs] that
    by (simp add: atomic_write_crashed_def prod_eq_iff)
  show "snd (atomic_write io p bytes fs) p = (if is_ok (fst (atomic_write io p bytes fs)) then Some bytes else fs p)"
    by (rule atomic_write_result [OF _ assms]) simp
qed

theorem atomic_write_all_or_nothing_witness:
  "atomic_write_crashed 3 no_faults [''etc'', ''hosts''] ''new'' [[''etc'', ''hosts''] \<mapsto> ''old''] [''etc'', ''hosts'']
     \<in> {Some ''old'', Some ''new''}"
  using atomic_write_all_or_nothing [of "[''etc'', ''hosts'']" 3 no_faults "''new''" "[[''etc'', ''hosts''] \<mapsto> ''old'']"]
  by simp

end
