(* ===== verification/Runner_Manifest.thy ===== *)
theory Runner_Manifest
  imports Janus_Protocol Runner_Storage
begin

unbundle bit_operations_syntax

text \<open>
  Job manifests (janus-runner/src/manifest.rs): the TOML files that declare the jobs of a
  runner, their validation, and the directory load that builds the store.  Parsing TOML
  and compiling a regular expression are third-party functions and parameters here, as are
  the answers of the file system.
\<close>

section \<open>Data\<close>

record InputSpec =
  is_kind :: InputType
  is_required :: bool
  is_sensitive :: bool
  is_max_length :: "u64 option"
  is_pattern :: "string option"
  is_max_json_bytes :: "u64 option"

record OutputSpec =
  os_kind :: OutputType
  os_path :: string
  os_required :: bool

record JobManifest =
  jm_name :: string
  jm_script :: string
  jm_timeout_seconds :: u64
  jm_concurrency :: Concurrency
  jm_inputs :: "(string, InputSpec) btree_map"
  jm_outputs :: "(string, OutputSpec) btree_map"

type_synonym ManifestStore = "(string, JobManifest) btree_map"

definition RESERVED_INPUT_NAMES :: "string list" where
  "RESERVED_INPUT_NAMES =
     [''id'', ''name'', ''workdir'', ''output_dir'', ''metadata_path'', ''janus_job_run_id'']"

datatype ManifestError =
    MReadDir string IoError
  | MReadDirEntry string IoError
  | MNotDirectory string
  | MReadFile string IoError
  | MParseFile string string
  | MDuplicateJobName string string
  | MInvalidJobName string string
  | MInvalidInputName string string
  | MInvalidInputConstraint string string string
  | MInvalidOutputName string string
  | MInvalidOutputPath string string
  | MInvalidTimeout string
  | MScriptNotAbsolute string string
  | MScriptNotFound string string
  | MScriptNotExecutable string string

fun ManifestError_display :: "ManifestError \<Rightarrow> string" where
  "ManifestError_display (MReadDir path source) =
     ''failed to read manifests directory '' @ path @ '': '' @ io_message source"
| "ManifestError_display (MReadDirEntry path source) =
     ''failed to read entry in manifests directory '' @ path @ '': '' @ io_message source"
| "ManifestError_display (MNotDirectory path) = ''manifests path is not a directory: '' @ path"
| "ManifestError_display (MReadFile path source) =
     ''failed to read manifest '' @ path @ '': '' @ io_message source"
| "ManifestError_display (MParseFile path source) =
     ''failed to parse manifest '' @ path @ '': '' @ source"
| "ManifestError_display (MDuplicateJobName name path) =
     ''duplicate job name '' @ name @ '' found in manifest '' @ path"
| "ManifestError_display (MInvalidJobName name path) =
     ''invalid job name '' @ name @ '' in manifest '' @ path"
| "ManifestError_display (MInvalidInputName name path) =
     ''invalid input name '' @ name @ '' in manifest '' @ path"
| "ManifestError_display (MInvalidInputConstraint name path reason) =
     ''invalid input constraint for '' @ name @ '' in manifest '' @ path @ '': '' @ reason"
| "ManifestError_display (MInvalidOutputName name path) =
     ''invalid output name '' @ name @ '' in manifest '' @ path"
| "ManifestError_display (MInvalidOutputPath out path) =
     ''invalid output path '' @ out @ '' in manifest '' @ path"
| "ManifestError_display (MInvalidTimeout path) =
     ''timeout_seconds must be positive in manifest '' @ path"
| "ManifestError_display (MScriptNotAbsolute script path) =
     ''script '' @ script @ '' must be an absolute path in manifest '' @ path"
| "ManifestError_display (MScriptNotFound script path) =
     ''script '' @ script @ '' does not exist for manifest '' @ path"
| "ManifestError_display (MScriptNotExecutable script path) =
     ''script '' @ script @ '' is not executable for manifest '' @ path"

section \<open>Validation\<close>

definition path_is_absolute :: "string \<Rightarrow> bool" where
  "path_is_absolute p = starts_with ''/'' p"

definition path_has_parent_component :: "string \<Rightarrow> bool" where
  "path_has_parent_component p = (''..'' \<in> set (split_on (CHR ''/'') p))"

definition is_toml_file :: "string \<Rightarrow> bool" where
  "is_toml_file name =
     (case rsplit_once (CHR ''.'') name of
        None \<Rightarrow> False
      | Some (stem, ext) \<Rightarrow> stem \<noteq> [] \<and> ext = ''toml'')"

fun is_safe_name :: "string \<Rightarrow> bool" where
  "is_safe_name [] = False"
| "is_safe_name (first # rest) =
     (is_ascii_alphabetic first \<and>
      list_all (\<lambda>c. is_ascii_alphanumeric c \<or> c = CHR ''_'' \<or> c = CHR ''-'') rest)"

definition is_reserved_input_name :: "string \<Rightarrow> bool" where
  "is_reserved_input_name name = (name \<in> set RESERVED_INPUT_NAMES)"

definition validate_job_name :: "string \<Rightarrow> string \<Rightarrow> (ManifestError, unit) result" where
  "validate_job_name name path =
     (if \<not> is_safe_name name \<or> CHR ''/'' \<in> set name
      then Inl (MInvalidJobName name path) else Inr ())"

definition validate_input_name :: "string \<Rightarrow> string \<Rightarrow> (ManifestError, unit) result" where
  "validate_input_name name path =
     (if \<not> is_safe_name name \<or> is_reserved_input_name name
      then Inl (MInvalidInputName name path) else Inr ())"

definition validate_output_name :: "string \<Rightarrow> string \<Rightarrow> (ManifestError, unit) result" where
  "validate_output_name name path =
     (if \<not> is_safe_name name then Inl (MInvalidOutputName name path) else Inr ())"

definition validate_input_constraints ::
    "(string \<Rightarrow> (string, unit) result) \<Rightarrow> string \<Rightarrow> InputSpec \<Rightarrow> string \<Rightarrow>
     (ManifestError, unit) result" where
  "validate_input_constraints regex_new name spec path =
     and_then
       (case is_max_length spec of
          None \<Rightarrow> Inr ()
        | Some max_length \<Rightarrow>
            (if max_length = 0
             then Inl (MInvalidInputConstraint name path ''max_length must be positive'')
             else if is_kind spec \<noteq> InString
             then Inl (MInvalidInputConstraint name path
                         ''max_length is only supported for string inputs'')
             else Inr ()))
     (\<lambda>_. and_then
       (case is_pattern spec of
          None \<Rightarrow> Inr ()
        | Some pattern \<Rightarrow>
            (if is_kind spec \<noteq> InString
             then Inl (MInvalidInputConstraint name path
                         ''pattern is only supported for string inputs'')
             else map_err (\<lambda>e. MInvalidInputConstraint name path (''invalid regex pattern: '' @ e))
                    (regex_new pattern)))
     (\<lambda>_. (case is_max_json_bytes spec of
          None \<Rightarrow> Inr ()
        | Some max_json_bytes \<Rightarrow>
            (if max_json_bytes = 0
             then Inl (MInvalidInputConstraint name path ''max_json_bytes must be positive'')
             else if is_kind spec \<noteq> InJson
             then Inl (MInvalidInputConstraint name path
                         ''max_json_bytes is only supported for json inputs'')
             else Inr ()))))"

text \<open>
  The script's file mode comes from the file system; one of the execute bits (octal 111, that
  is 73) suffices.
\<close>

definition validate_script_path ::
    "(string \<Rightarrow> (IoError, 32 word) result) \<Rightarrow> string \<Rightarrow> string \<Rightarrow> (ManifestError, unit) result" where
  "validate_script_path stat script path =
     (if \<not> path_is_absolute script then Inl (MScriptNotAbsolute script path)
      else case stat script of
        Inl source \<Rightarrow>
          (if io_kind source = KNotFound then Inl (MScriptNotFound script path)
           else Inl (MReadFile script source))
      | Inr mode \<Rightarrow>
          (if mode AND 73 = 0
           then Inl (MScriptNotExecutable script path) else Inr ()))"

definition validate_output_path :: "string \<Rightarrow> string \<Rightarrow> (ManifestError, unit) result" where
  "validate_output_path out path =
     (if out = [] \<or> path_is_absolute out then Inl (MInvalidOutputPath out path)
      else if path_has_parent_component out then Inl (MInvalidOutputPath out path)
      else Inr ())"

definition manifest_validate ::
    "(string \<Rightarrow> (IoError, 32 word) result) \<Rightarrow> (string \<Rightarrow> (string, unit) result) \<Rightarrow>
     JobManifest \<Rightarrow> string \<Rightarrow> (ManifestError, unit) result" where
  "manifest_validate stat regex_new m path =
     and_then (validate_job_name (jm_name m) path)
     (\<lambda>_. and_then (validate_script_path stat (jm_script m) path)
     (\<lambda>_. and_then (ensure (jm_timeout_seconds m \<noteq> 0) (MInvalidTimeout path))
     (\<lambda>_. and_then (check_all (\<lambda>n. validate_input_name n path) (bt_keys (jm_inputs m)))
     (\<lambda>_. and_then (check_all (\<lambda>(n, i). validate_input_constraints regex_new n i path) (jm_inputs m))
     (\<lambda>_. and_then (check_all (\<lambda>n. validate_output_name n path) (bt_keys (jm_outputs m)))
     (\<lambda>_. check_all (\<lambda>s. validate_output_path (os_path s) path) (bt_values (jm_outputs m))))))))"

section \<open>Loading a directory\<close>

text \<open>The answers of the file system to the calls of one load.\<close>

record ManifestHost =
  mh_stat_dir :: "(IoError, bool) result"
  mh_read_dir :: "(IoError, (IoError, string) result list) result"
  mh_read_file :: "string \<Rightarrow> (IoError, string) result"
  mh_stat_script :: "string \<Rightarrow> (IoError, 32 word) result"
  mh_parse_toml :: "string \<Rightarrow> (string, JobManifest) result"
  mh_regex_new :: "string \<Rightarrow> (string, unit) result"

definition load_from_path :: "ManifestHost \<Rightarrow> string \<Rightarrow> (ManifestError, JobManifest) result" where
  "load_from_path host path =
     and_then (map_err (MReadFile path) (mh_read_file host path))
     (\<lambda>raw. and_then (map_err (MParseFile path) (mh_parse_toml host raw))
     (\<lambda>manifest. and_then (manifest_validate (mh_stat_script host) (mh_regex_new host) manifest path)
     (\<lambda>_. Inr manifest)))"

definition load_entry ::
    "ManifestHost \<Rightarrow> string \<Rightarrow> (IoError, string) result \<Rightarrow> ManifestStore \<Rightarrow>
     (ManifestError, ManifestStore) result" where
  "load_entry host dir entry manifests =
     and_then (map_err (MReadDirEntry dir) entry)
     (\<lambda>name.
        let entry_path = dir @ ''/'' @ name in
        if \<not> is_toml_file name then Inr manifests
        else and_then (load_from_path host entry_path)
          (\<lambda>manifest.
             if bt_contains (jm_name manifest) manifests
             then Inl (MDuplicateJobName (jm_name manifest) entry_path)
             else Inr (bt_insert (jm_name manifest) manifest manifests)))"

definition load_from_dir :: "ManifestHost \<Rightarrow> string \<Rightarrow> (ManifestError, ManifestStore) result" where
  "load_from_dir host dir =
     and_then (map_err (MReadDir dir) (mh_stat_dir host))
     (\<lambda>is_dir. and_then (ensure is_dir (MNotDirectory dir))
     (\<lambda>_. and_then (map_err (MReadDir dir) (mh_read_dir host))
     (\<lambda>entries. for_each (load_entry host dir) entries [])))"

section \<open>What a loaded store guarantees\<close>

definition input_spec_ok :: "(string \<Rightarrow> (string, unit) result) \<Rightarrow> string \<Rightarrow> InputSpec \<Rightarrow> bool" where
  "input_spec_ok regex_new name spec =
     (is_safe_name name \<and> \<not> is_reserved_input_name name \<and>
      (\<forall>l. is_max_length spec = Some l \<longrightarrow> l \<noteq> 0 \<and> is_kind spec = InString) \<and>
      (\<forall>p. is_pattern spec = Some p \<longrightarrow> is_kind spec = InString \<and> is_ok (regex_new p)) \<and>
      (\<forall>b. is_max_json_bytes spec = Some b \<longrightarrow> b \<noteq> 0 \<and> is_kind spec = InJson))"

definition relative_path_ok :: "string \<Rightarrow> bool" where
  "relative_path_ok p = (p \<noteq> [] \<and> \<not> path_is_absolute p \<and> \<not> path_has_parent_component p)"

definition manifest_ok :: "(string \<Rightarrow> (string, unit) result) \<Rightarrow> JobManifest \<Rightarrow> bool" where
  "manifest_ok regex_new m =
     (is_safe_name (jm_name m) \<and> path_is_absolute (jm_script m) \<and> jm_timeout_seconds m \<noteq> 0 \<and>
      (\<forall>(n, i) \<in> set (jm_inputs m). input_spec_ok regex_new n i) \<and>
      (\<forall>(n, s) \<in> set (jm_outputs m). is_safe_name n \<and> relative_path_ok (os_path s)))"

lemma validate_input_constraints_ok:
  "validate_input_constraints regex_new name spec path = Inr () \<longleftrightarrow>
     (\<forall>l. is_max_length spec = Some l \<longrightarrow> l \<noteq> 0 \<and> is_kind spec = InString) \<and>
     (\<forall>p. is_pattern spec = Some p \<longrightarrow> is_kind spec = InString \<and> is_ok (regex_new p)) \<and>
     (\<forall>b. is_max_json_bytes spec = Some b \<longrightarrow> b \<noteq> 0 \<and> is_kind spec = InJson)"
  by (auto simp: validate_input_constraints_def split: option.splits)

lemma validate_output_path_ok:
  "validate_output_path out path = Inr () \<longleftrightarrow> relative_path_ok out"
  by (auto simp: validate_output_path_def relative_path_ok_def)

lemma manifest_validate_ok:
  assumes "manifest_validate stat regex_new m path = Inr ()"
  shows "manifest_ok regex_new m"
  using assms
  by (fastforce simp: manifest_validate_def manifest_ok_def input_spec_ok_def check_all_ok_iff
      validate_job_name_def validate_script_path_def validate_input_name_def
      validate_output_name_def validate_input_constraints_ok validate_output_path_ok
      bt_keys_def bt_values_def split: if_splits sum.splits)

lemma load_entry_invariant:
  assumes "load_entry host dir entry store = Inr store'"
    and "bt_wf store \<and> (\<forall>(k, m) \<in> set store. k = jm_name m \<and> manifest_ok (mh_regex_new host) m)"
  shows "bt_wf store' \<and> (\<forall>(k, m) \<in> set store'. k = jm_name m \<and> manifest_ok (mh_regex_new host) m)"
  using assms set_bt_insert_subset
  by (fastforce simp: load_entry_def load_from_path_def Let_def dest: manifest_validate_ok
      split: if_splits)

lemma load_entry_keeps:
  assumes "load_entry host dir entry store = Inr store'" and "bt_wf store"
    and "bt_get store k = Some m"
  shows "bt_get store' k = Some m"
  using assms by (auto simp: load_entry_def Let_def bt_contains_def split: if_splits)

section \<open>Properties\<close>

text \<open>Everything a manifest store holds after a load passed the validation: every entry is
stored under the name its manifest declares, with a safe job name, an absolute script, a
timeout that is not zero, input names that are safe and not reserved with constraints that
fit their type, and output paths that are relative and never leave the output directory.\<close>

theorem loaded_store_valid:
  assumes "load_from_dir host dir = Inr store"
  shows "bt_wf store \<and> (\<forall>(k, m) \<in> set store. k = jm_name m \<and> manifest_ok (mh_regex_new host) m)"
proof -
  obtain entries where "for_each (load_entry host dir) entries [] = Inr store"
    using assms by (auto simp: load_from_dir_def)
  then show ?thesis
    by (rule for_each_invariant) (auto dest: load_entry_invariant)
qed

definition demo_manifest_host :: ManifestHost where
  "demo_manifest_host =
     \<lparr>mh_stat_dir = Inr True, mh_read_dir = Inr [Inr ''build.toml'', Inr ''notes.md''],
      mh_read_file = (\<lambda>_. Inr ''text''), mh_stat_script = (\<lambda>_. Inr 73),
      mh_parse_toml = (\<lambda>_. Inr \<lparr>jm_name = ''build'', jm_script = ''/srv/build.sh'',
        jm_timeout_seconds = 60, jm_concurrency = GlobalExclusive,
        jm_inputs = [(''branch'', \<lparr>is_kind = InString, is_required = True, is_sensitive = False,
          is_max_length = Some 80, is_pattern = None, is_max_json_bytes = None\<rparr>)],
        jm_outputs = [(''log'', \<lparr>os_kind = TypeString, os_path = ''log.txt'', os_required = True\<rparr>)]\<rparr>),
      mh_regex_new = (\<lambda>_. Inr ())\<rparr>"

theorem loaded_store_valid_witness:
  "\<exists>store. load_from_dir demo_manifest_host ''/etc/janus/jobs'' = Inr store
     \<and> bt_keys store = [''build'']
     \<and> (\<forall>(k, m) \<in> set store. manifest_ok (\<lambda>_. Inr ()) m)"
proof -
  have "(case load_from_dir demo_manifest_host ''/etc/janus/jobs'' of
      Inl _ \<Rightarrow> [] | Inr store \<Rightarrow> bt_keys store) = [''build'']"
    by code_simp
  then obtain store where s: "load_from_dir demo_manifest_host ''/etc/janus/jobs'' = Inr store"
    "bt_keys store = [''build'']"
    by (cases "load_from_dir demo_manifest_host ''/etc/janus/jobs''") auto
  then show ?thesis
    using loaded_store_valid [OF s(1)] by (auto simp: demo_manifest_host_def)
qed

end
