(* ===== verification/Runner_Errors.thy ===== *)
theory Runner_Errors
  imports Janus_Protocol Runner_Storage
begin

text \<open>
  The error values of the runner's artifact store and job API, and how they are reported
  over HTTP: status code, Retry-After header, machine-readable code and message
  (janus-runner/src/artifacts.rs and janus-runner/src/jobs/error.rs).  Errors of third-party
  parsers are carried as the text they print.
\<close>

section \<open>HTTP responses\<close>

type_synonym status_code = nat

definition OK_200 :: status_code where "OK_200 = 200"
definition CREATED_201 :: status_code where "CREATED_201 = 201"
definition BAD_REQUEST :: status_code where "BAD_REQUEST = 400"
definition UNAUTHORIZED :: status_code where "UNAUTHORIZED = 401"
definition FORBIDDEN :: status_code where "FORBIDDEN = 403"
definition NOT_FOUND :: status_code where "NOT_FOUND = 404"
definition CONFLICT :: status_code where "CONFLICT = 409"
definition PAYLOAD_TOO_LARGE :: status_code where "PAYLOAD_TOO_LARGE = 413"
definition TOO_MANY_REQUESTS :: status_code where "TOO_MANY_REQUESTS = 429"
definition INTERNAL_SERVER_ERROR :: status_code where "INTERNAL_SERVER_ERROR = 500"
definition SERVICE_UNAVAILABLE :: status_code where "SERVICE_UNAVAILABLE = 503"

lemmas status_codes =
  OK_200_def CREATED_201_def BAD_REQUEST_def UNAUTHORIZED_def FORBIDDEN_def NOT_FOUND_def
  CONFLICT_def PAYLOAD_TOO_LARGE_def TOO_MANY_REQUESTS_def INTERNAL_SERVER_ERROR_def
  SERVICE_UNAVAILABLE_def

record ErrorResponse =
  er_status :: status_code
  er_retry_after :: "string option"
  er_code :: string
  er_message :: string

section \<open>Artifact errors (artifacts.rs)\<close>

datatype ArtifactError =
    AInvalidMaxSize u64
  | ACreateDir string IoError
  | AReadDir string IoError
  | ARemoveDir string IoError
  | AWriteFile string IoError
  | AReadFile string IoError
  | ASerializeMetadata string
  | AParseMetadata string string
  | AParseExpiry string string
  | AMissingChecksum
  | AChecksumMismatch string string
  | ATooLarge nat nat
  | ARateLimitExceeded string u32 u64
  | ANotFound string
  | AInvalidArtifactId string
  | AInvalidBody string
  | AInvalidHeader string string
  | ATimeOverflow

fun ArtifactError_display :: "ArtifactError \<Rightarrow> string" where
  "ArtifactError_display (AInvalidMaxSize mb) =
     ''invalid artifact max size in mb: '' @ show_nat (unat mb)"
| "ArtifactError_display (ACreateDir path source) =
     ''failed to create artifact directory '' @ path @ '': '' @ io_message source"
| "ArtifactError_display (AReadDir path source) =
     ''failed to read artifact directory '' @ path @ '': '' @ io_message source"
| "ArtifactError_display (ARemoveDir path source) =
     ''failed to remove artifact directory '' @ path @ '': '' @ io_message source"
| "ArtifactError_display (AWriteFile path source) =
     ''failed to write artifact file '' @ path @ '': '' @ io_message source"
| "ArtifactError_display (AReadFile path source) =
     ''failed to read artifact file '' @ path @ '': '' @ io_message source"
| "ArtifactError_display (ASerializeMetadata source) =
     ''failed to serialize artifact metadata: '' @ source"
| "ArtifactError_display (AParseMetadata path source) =
     ''failed to parse artifact metadata '' @ path @ '': '' @ source"
| "ArtifactError_display (AParseExpiry expires_at source) =
     ''failed to parse artifact expiry '' @ expires_at @ '': '' @ source"
| "ArtifactError_display AMissingChecksum = ''missing required '' @ HEADER_SHA256 @ '' header''"
| "ArtifactError_display (AChecksumMismatch expected actual) =
     ''artifact checksum mismatch: expected '' @ expected @ '', got '' @ actual"
| "ArtifactError_display (ATooLarge sz mx) =
     ''artifact exceeds size limit: got '' @ show_nat sz @ '' bytes, max '' @ show_nat mx @ '' bytes''"
| "ArtifactError_display (ARateLimitExceeded token_name limit window_seconds) =
     ''token '' @ token_name @ '' exceeded artifact upload rate limit of '' @ show_nat (unat limit)
       @ '' requests per '' @ show_nat (unat window_seconds) @ '' seconds''"
| "ArtifactError_display (ANotFound artifact_id) = ''artifact not found: '' @ artifact_id"
| "ArtifactError_display (AInvalidArtifactId artifact_id) = ''invalid artifact id: '' @ artifact_id"
| "ArtifactError_display (AInvalidBody source) = ''failed to read request body: '' @ source"
| "ArtifactError_display (AInvalidHeader name message) =
     ''invalid header '' @ name @ '': '' @ message"
| "ArtifactError_display ATimeOverflow = ''artifact expiration time overflow''"

fun artifact_error_code :: "ArtifactError \<Rightarrow> string" where
  "artifact_error_code (AInvalidMaxSize _) = ''artifact_invalid_max_size''"
| "artifact_error_code (ACreateDir _ _) = ''artifact_create_dir_failed''"
| "artifact_error_code (AReadDir _ _) = ''artifact_read_dir_failed''"
| "artifact_error_code (ARemoveDir _ _) = ''artifact_remove_dir_failed''"
| "artifact_error_code (AWriteFile _ _) = ''artifact_write_failed''"
| "artifact_error_code (AReadFile _ _) = ''artifact_read_failed''"
| "artifact_error_code (ASerializeMetadata _) = ''artifact_metadata_serialize_failed''"
| "artifact_error_code (AParseMetadata _ _) = ''artifact_metadata_parse_failed''"
| "artifact_error_code (AParseExpiry _ _) = ''artifact_expiry_parse_failed''"
| "artifact_error_code AMissingChecksum = ''artifact_missing_checksum''"
| "artifact_error_code (AChecksumMismatch _ _) = ''artifact_checksum_mismatch''"
| "artifact_error_code (ATooLarge _ _) = ''artifact_too_large''"
| "artifact_error_code (ARateLimitExceeded _ _ _) = ''artifact_rate_limit_exceeded''"
| "artifact_error_code (ANotFound _) = ''artifact_not_found''"
| "artifact_error_code (AInvalidArtifactId _) = ''artifact_invalid_id''"
| "artifact_error_code (AInvalidBody _) = ''artifact_invalid_body''"
| "artifact_error_code (AInvalidHeader _ _) = ''artifact_invalid_header''"
| "artifact_error_code ATimeOverflow = ''artifact_time_overflow''"

fun artifact_error_retry_after :: "ArtifactError \<Rightarrow> u64 option" where
  "artifact_error_retry_after (ARateLimitExceeded _ _ window_seconds) = Some window_seconds"
| "artifact_error_retry_after _ = None"

fun artifact_error_status :: "ArtifactError \<Rightarrow> status_code" where
  "artifact_error_status AMissingChecksum = BAD_REQUEST"
| "artifact_error_status (AChecksumMismatch _ _) = BAD_REQUEST"
| "artifact_error_status (ATooLarge _ _) = BAD_REQUEST"
| "artifact_error_status (AInvalidArtifactId _) = BAD_REQUEST"
| "artifact_error_status (AInvalidBody _) = BAD_REQUEST"
| "artifact_error_status (AInvalidHeader _ _) = BAD_REQUEST"
| "artifact_error_status (ARateLimitExceeded _ _ _) = TOO_MANY_REQUESTS"
| "artifact_error_status (ANotFound _) = NOT_FOUND"
| "artifact_error_status _ = INTERNAL_SERVER_ERROR"

definition artifact_error_into_response :: "ArtifactError \<Rightarrow> ErrorResponse" where
  "artifact_error_into_response e =
     \<lparr>er_status = artifact_error_status e,
      er_retry_after = map_option (\<lambda>s. show_nat (unat s)) (artifact_error_retry_after e),
      er_code = artifact_error_code e,
      er_message = ArtifactError_display e\<rparr>"

section \<open>Job errors (jobs/error.rs)\<close>

datatype JobError =
    JCreateDir string IoError
  | JReadFile string IoError
  | JWriteFile string IoError
  | JParseMetadata string string
  | JSerializeMetadata string
  | JSpawnProcess string IoError
  | JWaitProcess string IoError
  | JJobNotFound string
  | JJobNotRunning string
  | JUnknownJob string
  | JMissingInput string
  | JUnknownInput string
  | JInvalidInputType string string
  | JInvalidInputValue string string
  | JInvalidLogLimit u64
  | JInvalidRequestBodyLimit u64
  | JRateLimitExceeded string u32 u64
  | JShuttingDown
  | JArtifact ArtifactError
  | JExpiredArtifact string string
  | JMissingOutput string string
  | JConcurrencyConflict string
  | JInvalidBody string
  | JRequestTooLarge nat
  | JParseRequestBody string
  | JInvalidJobId string
  | JMissingIdempotencyKey
  | JInvalidIdempotencyKey string
  | JIdempotencyConflict string

fun JobError_display :: "JobError \<Rightarrow> string" where
  "JobError_display (JCreateDir path source) =
     ''failed to create job directory '' @ path @ '': '' @ io_message source"
| "JobError_display (JReadFile path source) =
     ''failed to read job file '' @ path @ '': '' @ io_message source"
| "JobError_display (JWriteFile path source) =
     ''failed to write job file '' @ path @ '': '' @ io_message source"
| "JobError_display (JParseMetadata path source) =
     ''failed to parse job metadata '' @ path @ '': '' @ source"
| "JobError_display (JSerializeMetadata source) = ''failed to serialize job metadata: '' @ source"
| "JobError_display (JSpawnProcess script source) =
     ''failed to spawn job script '' @ script @ '': '' @ io_message source"
| "JobError_display (JWaitProcess script source) =
     ''failed while waiting for job script '' @ script @ '': '' @ io_message source"
| "JobError_display (JJobNotFound job_id) = ''job not found: '' @ job_id"
| "JobError_display (JJobNotRunning job_id) = ''job is not running: '' @ job_id"
| "JobError_display (JUnknownJob name) = ''job not found: '' @ name"
| "JobError_display (JMissingInput name) = ''missing required input: '' @ name"
| "JobError_display (JUnknownInput name) = ''unknown input: '' @ name"
| "JobError_display (JInvalidInputType name expected) =
     ''invalid input type for '' @ name @ '': expected '' @ expected"
| "JobError_display (JInvalidInputValue name reason) =
     ''invalid input value for '' @ name @ '': '' @ reason"
| "JobError_display (JInvalidLogLimit mb) = ''invalid job log limit in mb: '' @ show_nat (unat mb)"
| "JobError_display (JInvalidRequestBodyLimit kb) =
     ''invalid job request body limit in kb: '' @ show_nat (unat kb)"
| "JobError_display (JRateLimitExceeded token_name limit window_seconds) =
     ''token '' @ token_name @ '' exceeded job run rate limit of '' @ show_nat (unat limit)
       @ '' requests per '' @ show_nat (unat window_seconds) @ '' seconds''"
| "JobError_display JShuttingDown = ''runner is shutting down and not accepting new jobs''"
| "JobError_display (JArtifact source) = ArtifactError_display source"
| "JobError_display (JExpiredArtifact name artifact_id) =
     ''artifact input '' @ name @ '' references expired artifact '' @ artifact_id"
| "JobError_display (JMissingOutput name path) =
     ''required output '' @ name @ '' is missing at '' @ path"
| "JobError_display (JConcurrencyConflict reason) = reason"
| "JobError_display (JInvalidBody message) = ''invalid job request body: '' @ message"
| "JobError_display (JRequestTooLarge max_bytes) =
     ''job request body exceeds configured limit of '' @ show_nat max_bytes @ '' bytes''"
| "JobError_display (JParseRequestBody source) =
     ''failed to parse job request body as json: '' @ source"
| "JobError_display (JInvalidJobId job_id) = ''invalid job id: '' @ job_id"
| "JobError_display JMissingIdempotencyKey = ''missing idempotency key''"
| "JobError_display (JInvalidIdempotencyKey key) = ''invalid idempotency key: '' @ key"
| "JobError_display (JIdempotencyConflict key) =
     ''idempotency key '' @ key @ '' does not match the original request''"

fun job_error_retry_after :: "JobError \<Rightarrow> u64 option" where
  "job_error_retry_after (JRateLimitExceeded _ _ window_seconds) = Some window_seconds"
| "job_error_retry_after (JArtifact (ARateLimitExceeded _ _ window_seconds)) = Some window_seconds"
| "job_error_retry_after _ = None"

fun job_artifact_error_status :: "ArtifactError \<Rightarrow> status_code" where
  "job_artifact_error_status (ANotFound _) = BAD_REQUEST"
| "job_artifact_error_status AMissingChecksum = BAD_REQUEST"
| "job_artifact_error_status (AChecksumMismatch _ _) = BAD_REQUEST"
| "job_artifact_error_status (ATooLarge _ _) = BAD_REQUEST"
| "job_artifact_error_status (AInvalidArtifactId _) = BAD_REQUEST"
| "job_artifact_error_status (AInvalidHeader _ _) = BAD_REQUEST"
| "job_artifact_error_status (AParseExpiry _ _) = BAD_REQUEST"
| "job_artifact_error_status (ARateLimitExceeded _ _ _) = TOO_MANY_REQUESTS"
| "job_artifact_error_status _ = INTERNAL_SERVER_ERROR"

fun job_error_status :: "JobError \<Rightarrow> status_code" where
  "job_error_status (JUnknownJob _) = NOT_FOUND"
| "job_error_status (JJobNotFound _) = NOT_FOUND"
| "job_error_status (JJobNotRunning _) = CONFLICT"
| "job_error_status JShuttingDown = SERVICE_UNAVAILABLE"
| "job_error_status (JMissingInput _) = BAD_REQUEST"
| "job_error_status (JUnknownInput _) = BAD_REQUEST"
| "job_error_status (JInvalidInputType _ _) = BAD_REQUEST"
| "job_error_status (JInvalidInputValue _ _) = BAD_REQUEST"
| "job_error_status (JInvalidLogLimit _) = BAD_REQUEST"
| "job_error_status (JInvalidRequestBodyLimit _) = BAD_REQUEST"
| "job_error_status (JArtifact e) = job_artifact_error_status e"
| "job_error_status (JMissingOutput _ _) = BAD_REQUEST"
| "job_error_status (JExpiredArtifact _ _) = BAD_REQUEST"
| "job_error_status (JInvalidBody _) = BAD_REQUEST"
| "job_error_status (JParseRequestBody _) = BAD_REQUEST"
| "job_error_status (JInvalidJobId _) = BAD_REQUEST"
| "job_error_status JMissingIdempotencyKey = BAD_REQUEST"
| "job_error_status (JInvalidIdempotencyKey _) = BAD_REQUEST"
| "job_error_status (JRateLimitExceeded _ _ _) = TOO_MANY_REQUESTS"
| "job_error_status (JRequestTooLarge _) = PAYLOAD_TOO_LARGE"
| "job_error_status (JConcurrencyConflict _) = CONFLICT"
| "job_error_status (JIdempotencyConflict _) = CONFLICT"
| "job_error_status (JCreateDir _ _) = INTERNAL_SERVER_ERROR"
| "job_error_status (JReadFile _ _) = INTERNAL_SERVER_ERROR"
| "job_error_status (JWriteFile _ _) = INTERNAL_SERVER_ERROR"
| "job_error_status (JParseMetadata _ _) = INTERNAL_SERVER_ERROR"
| "job_error_status (JSpawnProcess _ _) = INTERNAL_SERVER_ERROR"
| "job_error_status (JWaitProcess _ _) = INTERNAL_SERVER_ERROR"
| "job_error_status (JSerializeMetadata _) = INTERNAL_SERVER_ERROR"

fun job_error_code :: "JobError \<Rightarrow> string" where
  "job_error_code (JCreateDir _ _) = ''job_create_dir_failed''"
| "job_error_code (JReadFile _ _) = ''job_read_failed''"
| "job_error_code (JWriteFile _ _) = ''job_write_failed''"
| "job_error_code (JParseMetadata _ _) = ''job_metadata_parse_failed''"
| "job_error_code (JSerializeMetadata _) = ''job_metadata_serialize_failed''"
| "job_error_code (JSpawnProcess _ _) = ''job_spawn_failed''"
| "job_error_code (JWaitProcess _ _) = ''job_wait_failed''"
| "job_error_code (JJobNotFound _) = ''job_not_found''"
| "job_error_code (JJobNotRunning _) = ''job_not_running''"
| "job_error_code (JUnknownJob _) = ''job_name_not_found''"
| "job_error_code (JMissingInput _) = ''job_missing_input''"
| "job_error_code (JUnknownInput _) = ''job_unknown_input''"
| "job_error_code (JInvalidInputType _ _) = ''job_invalid_input_type''"
| "job_error_code (JInvalidInputValue _ _) = ''job_invalid_input_value''"
| "job_error_code (JInvalidLogLimit _) = ''job_invalid_log_limit''"
| "job_error_code (JInvalidRequestBodyLimit _) = ''job_invalid_request_body_limit''"
| "job_error_code (JRateLimitExceeded _ _ _) = ''job_rate_limit_exceeded''"
| "job_error_code JShuttingDown = ''job_runner_shutting_down''"
| "job_error_code (JArtifact _) = ''artifact_error''"
| "job_error_code (JExpiredArtifact _ _) = ''artifact_expired''"
| "job_error_code (JMissingOutput _ _) = ''job_missing_output''"
| "job_error_code (JConcurrencyConflict _) = ''job_concurrency_conflict''"
| "job_error_code (JInvalidBody _) = ''job_invalid_body''"
| "job_error_code (JRequestTooLarge _) = ''job_request_body_too_large''"
| "job_error_code (JParseRequestBody _) = ''job_request_body_parse_failed''"
| "job_error_code (JInvalidJobId _) = ''job_invalid_id''"
| "job_error_code JMissingIdempotencyKey = ''job_missing_idempotency_key''"
| "job_error_code (JInvalidIdempotencyKey _) = ''job_invalid_idempotency_key''"
| "job_error_code (JIdempotencyConflict _) = ''job_idempotency_conflict''"

definition job_error_into_response :: "JobError \<Rightarrow> ErrorResponse" where
  "job_error_into_response e =
     \<lparr>er_status = job_error_status e,
      er_retry_after = map_option (\<lambda>s. show_nat (unat s)) (job_error_retry_after e),
      er_code = job_error_code e,
      er_message = JobError_display e\<rparr>"

section \<open>The contract of an error report\<close>

text \<open>
  What a client relies on, for both error types: every report is an error status, and it
  carries a Retry-After header exactly when the status is 429.
\<close>

locale error_report =
  fixes status :: "'e \<Rightarrow> status_code"
    and retry :: "'e \<Rightarrow> u64 option"
  assumes status_is_error: "400 \<le> status e \<and> status e < 600"
    and retry_iff: "retry e \<noteq> None \<longleftrightarrow> status e = TOO_MANY_REQUESTS"
begin

definition client_fault :: "'e \<Rightarrow> bool" where
  "client_fault e = (status e < 500)"

lemma retry_client_fault: "retry e = Some s \<Longrightarrow> client_fault e"
  using retry_iff [of e] by (auto simp: client_fault_def TOO_MANY_REQUESTS_def)

lemma server_fault_no_retry: "500 \<le> status e \<Longrightarrow> retry e = None"
  using retry_iff [of e] by (auto simp: TOO_MANY_REQUESTS_def)

end

interpretation artifact_report: error_report artifact_error_status artifact_error_retry_after
proof
  show "400 \<le> artifact_error_status e \<and> artifact_error_status e < 600" for e
    by (cases e) (simp_all add: status_codes)
  show "(artifact_error_retry_after e \<noteq> None) = (artifact_error_status e = TOO_MANY_REQUESTS)" for e
    by (cases e) (simp_all add: status_codes)
qed

lemma job_artifact_error_status_retry:
  "400 \<le> job_artifact_error_status e \<and> job_artifact_error_status e < 600 \<and>
   (job_error_retry_after (JArtifact e) \<noteq> None \<longleftrightarrow> job_artifact_error_status e = TOO_MANY_REQUESTS)"
  by (cases e) (simp_all add: status_codes)

interpretation job_report: error_report job_error_status job_error_retry_after
proof
  show "400 \<le> job_error_status e \<and> job_error_status e < 600" for e
    using job_artifact_error_status_retry by (cases e) (simp_all add: status_codes)
  show "(job_error_retry_after e \<noteq> None) = (job_error_status e = TOO_MANY_REQUESTS)" for e
  proof (cases "\<exists>a. e = JArtifact a")
    case True
    then obtain a where "e = JArtifact a" ..
    then show ?thesis using job_artifact_error_status_retry [of a] by simp
  next
    case False
    then show ?thesis by (cases e) (simp_all add: status_codes)
  qed
qed

text \<open>The code identifies the constructor, except that all artifact errors share one.\<close>

lemma job_error_code_not_artifact:
  "job_error_code e = ''artifact_error'' \<longleftrightarrow> (\<exists>a. e = JArtifact a)"
  by (cases e) simp_all

end
