(* ===== verification/Rate_Limit.thy ===== *)
theory Rate_Limit
  imports Janus_Prelude
begin

text \<open>
  The two fixed-window rate limiters: the runner's limiter of job runs and uploads
  (janus-runner/src/rate_limit.rs) and the server's limiter of login attempts
  (janus-server/src/app.rs).  Times and durations are nanoseconds; Instant is monotonic.
\<close>

section \<open>The runner's limiter\<close>

record RateLimitExceeded =
  rle_limit :: u32
  rle_window_seconds :: nat

record RateWindow =
  rw_started_at :: nat
  rw_count :: u32

type_synonym RateLimiter = "(string, RateWindow) btree_map"

definition nanos_per_second :: nat where "nanos_per_second = 1000000000"

text \<open>Duration::checked_mul overflows when the seconds leave 64 bits.\<close>

definition stale_window :: "nat \<Rightarrow> nat" where
  "stale_window window =
     (if window * 2 < 2 ^ 64 * nanos_per_second then window * 2 else window)"

definition prune_expired_windows :: "nat \<Rightarrow> nat \<Rightarrow> RateLimiter \<Rightarrow> RateLimiter" where
  "prune_expired_windows now max_age windows =
     filter (\<lambda>(_, w). now - rw_started_at w < max_age) windows"

definition rate_limiter_check ::
    "string \<Rightarrow> string \<Rightarrow> u32 \<Rightarrow> nat \<Rightarrow> nat \<Rightarrow> RateLimiter \<Rightarrow>
     (RateLimitExceeded, unit) result \<times> RateLimiter" where
  "rate_limiter_check scope token_name limit window now windows =
     (let key = scope @ '':'' @ token_name;
          windows = prune_expired_windows now (stale_window window) windows;
          w = (case bt_get windows key of Some w \<Rightarrow> w
               | None \<Rightarrow> \<lparr>rw_started_at = now, rw_count = 0\<rparr>);
          w = (if now - rw_started_at w \<ge> window
               then w\<lparr>rw_started_at := now, rw_count := 0\<rparr> else w)
      in if rw_count w \<ge> limit
         then (Inl \<lparr>rle_limit = limit, rle_window_seconds = window div nanos_per_second\<rparr>,
               bt_insert key w windows)
         else (Inr (), bt_insert key (w\<lparr>rw_count := rw_count w + 1\<rparr>) windows))"

section \<open>The server's login limiter\<close>

record LoginWindow =
  lw_started_at :: nat
  lw_count :: u64

type_synonym LoginAttempts = "(string, LoginWindow) btree_map"

definition allow_login_attempt ::
    "u64 \<Rightarrow> string \<Rightarrow> nat \<Rightarrow> LoginAttempts \<Rightarrow> bool \<times> LoginAttempts" where
  "allow_login_attempt limit_per_minute username now attempts =
     (let w = (case bt_get attempts username of Some w \<Rightarrow> w
               | None \<Rightarrow> \<lparr>lw_started_at = now, lw_count = 0\<rparr>);
          w = (if now - lw_started_at w \<ge> 60 * nanos_per_second
               then w\<lparr>lw_started_at := now, lw_count := 0\<rparr> else w)
      in if lw_count w \<ge> limit_per_minute
         then (False, bt_insert username w attempts)
         else (True, bt_insert username (w\<lparr>lw_count := lw_count w + 1\<rparr>) attempts))"

section \<open>The contract of a fixed-window limiter\<close>

text \<open>A sequence of requests, each with its key and its time, and how many of a key it admits.\<close>

fun attempts :: "('k \<Rightarrow> nat \<Rightarrow> 's \<Rightarrow> bool \<times> 's) \<Rightarrow> ('k \<times> nat) list \<Rightarrow> 's \<Rightarrow> bool list \<times> 's" where
  "attempts attempt [] s = ([], s)"
| "attempts attempt ((k, now) # rs) s =
     (let (ok, t) = attempt k now s; (oks, u) = attempts attempt rs t in (ok # oks, u))"

definition admitted ::
    "('k \<Rightarrow> nat \<Rightarrow> 's \<Rightarrow> bool \<times> 's) \<Rightarrow> 'k \<Rightarrow> ('k \<times> nat) list \<Rightarrow> 's \<Rightarrow> nat" where
  "admitted attempt k rs s =
     length (filter (\<lambda>((j, _), ok). j = k \<and> ok) (zip rs (fst (attempts attempt rs s))))"

text \<open>
  In any interval of one window, whatever came before, at most twice the limit is admitted:
  the rest of the window that is current at its start, and one further window.
\<close>

definition window_credit :: "nat \<Rightarrow> nat \<Rightarrow> (nat \<times> nat) option \<Rightarrow> nat" where
  "window_credit lim t0 v =
     (case v of None \<Rightarrow> lim | Some (st, c) \<Rightarrow> if t0 \<le> st then lim - c else (lim - c) + lim)"

text \<open>
  A limiter keeps one window per key: its start and the number of requests it admitted.  A
  request at a time at least a window after the start opens a new window; it is admitted
  exactly when the window's count is below the limit, and only then counted.  view reads
  the current window of a key, None when there is none or it is stale.
\<close>

locale window_limiter =
  fixes attempt :: "'k \<Rightarrow> nat \<Rightarrow> 's \<Rightarrow> bool \<times> 's"
    and view :: "'s \<Rightarrow> 'k \<Rightarrow> (nat \<times> nat) option"
    and limit :: nat
    and window :: nat
    and inv :: "'s \<Rightarrow> bool"
  assumes window_pos: "0 < window"
    and attempt_inv: "inv s \<Longrightarrow> attempt k now s = (ok, t) \<Longrightarrow> inv t"
    and attempt_fresh:
      "inv s \<Longrightarrow> attempt k now s = (ok, t) \<Longrightarrow>
       (\<forall>st c. view s k = Some (st, c) \<longrightarrow> window \<le> now - st) \<Longrightarrow>
       ok = (0 < limit) \<and> view t k = Some (now, if 0 < limit then 1 else 0)"
    and attempt_current:
      "inv s \<Longrightarrow> attempt k now s = (ok, t) \<Longrightarrow> view s k = Some (st, c) \<Longrightarrow>
       now - st < window \<Longrightarrow>
       ok = (c < limit) \<and> view t k = Some (st, if c < limit then c + 1 else c)"
    and attempt_other:
      "inv s \<Longrightarrow> attempt k now s = (ok, t) \<Longrightarrow> j \<noteq> k \<Longrightarrow>
       view t j = view s j \<or>
       (\<exists>st c. view s j = Some (st, c) \<and> window \<le> now - st \<and> view t j = None)"
begin

lemma attempts_inv: "inv s \<Longrightarrow> inv (snd (attempts attempt rs s))"
proof (induction rs arbitrary: s)
  case (Cons r rs)
  obtain k now where r: "r = (k, now)" by force
  obtain ok t where a: "attempt k now s = (ok, t)" by force
  show ?case using Cons.IH [OF attempt_inv [OF Cons.prems a]]
    by (simp add: r a case_prod_unfold Let_def)
qed simp

text \<open>Within the window that is current for a key, at most limit requests are admitted.\<close>

lemma admitted_within_window:
  assumes "inv s" and "view s k = Some (st, c)" and "c \<le> limit"
    and "\<forall>(j, now) \<in> set rs. st \<le> now \<and> now < st + window"
  shows "admitted attempt k rs s = min (limit - c) (length (filter (\<lambda>(j, _). j = k) rs))"
  using assms
proof (induction rs arbitrary: s c)
  case (Cons r rs)
  obtain j now where r: "r = (j, now)" by force
  obtain ok t where a: "attempt j now s = (ok, t)" by force
  have inv: "inv t" by (rule attempt_inv [OF Cons.prems(1) a])
  have now: "now - st < window" using Cons.prems(4) by (auto simp: r)
  have rest: "\<forall>(j, now) \<in> set rs. st \<le> now \<and> now < st + window" using Cons.prems(4) by simp
  have step: "admitted attempt k (r # rs) s = (if j = k \<and> ok then 1 else 0) + admitted attempt k rs t"
    by (simp add: admitted_def r a split: prod.splits)
  show ?case
  proof (cases "j = k")
    case True
    from attempt_current [OF Cons.prems(1) a [unfolded True] Cons.prems(2) now]
    have ok: "ok = (c < limit)" and v: "view t k = Some (st, if c < limit then c + 1 else c)"
      by auto
    show ?thesis
    proof (cases "c < limit")
      case True
      then have "admitted attempt k rs t = min (limit - (c + 1)) (length (filter (\<lambda>(j, _). j = k) rs))"
        using Cons.IH [OF inv _ _ rest, of "c + 1"] v by simp
      moreover have "admitted attempt k (r # rs) s = 1 + admitted attempt k rs t"
        using True \<open>j = k\<close> ok by (simp add: step)
      ultimately show ?thesis using True \<open>j = k\<close> by (simp add: r)
    next
      case False
      then have "admitted attempt k rs t = 0"
        using Cons.IH [OF inv _ Cons.prems(3) rest] v Cons.prems(3) by simp
      moreover have "admitted attempt k (r # rs) s = admitted attempt k rs t"
        using False ok by (simp add: step)
      ultimately show ?thesis using False Cons.prems(3) by simp
    qed
  next
    case False
    have "view t k = Some (st, c)"
      using attempt_other [OF Cons.prems(1) a, of k] False Cons.prems(2) now by auto
    then have "admitted attempt k rs t = min (limit - c) (length (filter (\<lambda>(j, _). j = k) rs))"
      using Cons.IH [OF inv _ Cons.prems(3) rest] by simp
    moreover have "admitted attempt k (r # rs) s = admitted attempt k rs t"
      using False by (simp add: step)
    ultimately show ?thesis using False by (simp add: r)
  qed
qed (simp add: admitted_def)

text \<open>A fresh key gets limit requests in the window its first request opens.\<close>

lemma admitted_from_fresh:
  assumes "inv s" and "view s k = None" and "0 < limit"
    and "\<forall>(j, now) \<in> set rs. st \<le> now \<and> now < st + window"
  shows "admitted attempt k ((k, st) # rs) s =
    min limit (length (filter (\<lambda>(j, _). j = k) ((k, st) # rs)))"
proof -
  obtain ok t where a: "attempt k st s = (ok, t)" by force
  have f: "ok = (0 < limit)" "view t k = Some (st, if 0 < limit then 1 else 0)"
    using attempt_fresh [OF assms(1) a] assms(2) by auto
  have "admitted attempt k ((k, st) # rs) s = (if ok then 1 else 0) + admitted attempt k rs t"
    by (simp add: admitted_def a split: prod.splits)
  moreover have "admitted attempt k rs t = min (limit - 1) (length (filter (\<lambda>(j, _). j = k) rs))"
    using admitted_within_window [OF attempt_inv [OF assms(1) a], of k st 1 rs] f assms(3,4)
    by simp
  ultimately show ?thesis using f(1) assms(3) by simp
qed

lemma admitted_interval:
  assumes "inv s" and "\<forall>(j, now) \<in> set rs. t0 \<le> now \<and> now < t0 + window"
  shows "admitted attempt k rs s \<le> window_credit limit t0 (view s k)"
  using assms
proof (induction rs arbitrary: s)
  case (Cons r rs)
  obtain j now where r: "r = (j, now)" by force
  obtain ok t where a: "attempt j now s = (ok, t)" by force
  have now: "t0 \<le> now" "now < t0 + window" using Cons.prems(2) by (auto simp: r)
  have IH: "admitted attempt k rs t \<le> window_credit limit t0 (view t k)"
    using Cons.IH [OF attempt_inv [OF Cons.prems(1) a]] Cons.prems(2) by simp
  have step: "admitted attempt k (r # rs) s = (if j = k \<and> ok then 1 else 0) + admitted attempt k rs t"
    by (simp add: admitted_def r a split: prod.splits)
  have "(if j = k \<and> ok then 1 else 0) + window_credit limit t0 (view t k)
      \<le> window_credit limit t0 (view s k)"
  proof (cases "j = k")
    case True
    show ?thesis
    proof (cases "\<exists>st c. view s k = Some (st, c) \<and> now - st < window")
      case True
      then show ?thesis
        using attempt_current [OF Cons.prems(1) a [unfolded \<open>j = k\<close>]] \<open>j = k\<close>
        by (auto simp: window_credit_def)
    next
      case False
      then have v: "\<forall>st c. view s k = Some (st, c) \<longrightarrow> window \<le> now - st"
        by (auto simp: not_less)
      have "\<forall>st c. view s k = Some (st, c) \<longrightarrow> st < t0"
        using v now window_pos by fastforce
      then show ?thesis
        using attempt_fresh [OF Cons.prems(1) a [unfolded \<open>j = k\<close>] v] now(1) \<open>j = k\<close>
        by (auto simp: window_credit_def split: option.splits)
    qed
  next
    case False
    then have "view t k = view s k \<or>
        (\<exists>st c. view s k = Some (st, c) \<and> window \<le> now - st \<and> view t k = None)"
      using attempt_other [OF Cons.prems(1) a, of k] False by auto
    then show ?thesis using False now window_pos by (auto simp: window_credit_def)
  qed
  then show ?case using IH step by linarith
qed (simp add: admitted_def)

lemma admitted_interval_twice:
  assumes "inv s" and "\<forall>(j, now) \<in> set rs. t0 \<le> now \<and> now < t0 + window"
  shows "admitted attempt k rs s \<le> 2 * limit"
proof -
  have "window_credit limit t0 (view s k) \<le> 2 * limit"
    by (auto simp: window_credit_def split: option.splits)
  then show ?thesis using admitted_interval [OF assms, of k] by linarith
qed

end

section \<open>Both limiters satisfy the contract\<close>

lemma word_count_Suc:
  fixes c l :: "'a::len word"
  assumes "c < l"
  shows "unat (c + 1) = unat c + 1"
proof -
  have "unat c + 1 \<le> unat l" using assms by (simp add: word_less_nat_alt)
  also have "unat l < 2 ^ LENGTH('a)" by (rule unsigned_less)
  finally show ?thesis using unat_add_lem [of c 1] by simp
qed

lemma login_step:
  assumes "bt_wf s"
  shows "bt_wf (snd (allow_login_attempt l k now s))"
  using assms by (auto simp: allow_login_attempt_def Let_def)

definition login_view :: "LoginAttempts \<Rightarrow> string \<Rightarrow> (nat \<times> nat) option" where
  "login_view s k = map_option (\<lambda>w. (lw_started_at w, unat (lw_count w))) (bt_get s k)"

interpretation login: window_limiter
  "allow_login_attempt l" login_view "unat l" "60 * nanos_per_second" bt_wf
  for l
proof
  show "0 < 60 * nanos_per_second" by (simp add: nanos_per_second_def)
  show "bt_wf s \<Longrightarrow> allow_login_attempt l k now s = (ok, t) \<Longrightarrow> bt_wf t" for s k now ok t
    using login_step [of s l k now] by simp
  show "ok = (0 < unat l) \<and> login_view t k = Some (now, if 0 < unat l then 1 else 0)"
    if "bt_wf s" "allow_login_attempt l k now s = (ok, t)"
      "\<forall>st c. login_view s k = Some (st, c) \<longrightarrow> 60 * nanos_per_second \<le> now - st"
    for s k now ok t
    using that
    by (auto simp: allow_login_attempt_def login_view_def Let_def word_le_nat_alt
        nanos_per_second_def unat_eq_0 split: option.splits if_splits)
  show "ok = (c < unat l) \<and> login_view t k = Some (st, if c < unat l then c + 1 else c)"
    if "bt_wf s" "allow_login_attempt l k now s = (ok, t)" "login_view s k = Some (st, c)"
      "now - st < 60 * nanos_per_second"
    for s k now ok t st c
    using that
    by (auto simp: allow_login_attempt_def login_view_def Let_def word_le_nat_alt
        word_less_nat_alt word_count_Suc not_le split: option.splits if_splits)
  show "login_view t j = login_view s j \<or>
       (\<exists>st c. login_view s j = Some (st, c) \<and> 60 * nanos_per_second \<le> now - st
          \<and> login_view t j = None)"
    if "bt_wf s" "allow_login_attempt l k now s = (ok, t)" "j \<noteq> k" for s k now ok t j
    using that by (auto simp: allow_login_attempt_def login_view_def Let_def split: if_splits)
qed

text \<open>The runner calls its limiter with windows of sixty seconds.\<close>

definition runner_attempt ::
    "string \<Rightarrow> u32 \<Rightarrow> string \<Rightarrow> nat \<Rightarrow> RateLimiter \<Rightarrow> bool \<times> RateLimiter" where
  "runner_attempt scope limit token_name now s =
     (case rate_limiter_check scope token_name limit (60 * nanos_per_second) now s of
        (r, t) \<Rightarrow> (is_ok r, t))"

definition runner_view :: "string \<Rightarrow> RateLimiter \<Rightarrow> string \<Rightarrow> (nat \<times> nat) option" where
  "runner_view scope s k =
     map_option (\<lambda>w. (rw_started_at w, unat (rw_count w))) (bt_get s (scope @ '':'' @ k))"

lemma stale_window_minute: "stale_window (60 * nanos_per_second) = 120 * nanos_per_second"
  by (simp add: stale_window_def nanos_per_second_def)

lemma bt_get_prune:
  assumes "bt_wf s"
  shows "bt_get (prune_expired_windows now max_age s) k =
    (case bt_get s k of Some w \<Rightarrow> if now - rw_started_at w < max_age then Some w else None
     | None \<Rightarrow> None)"
  using assms
proof (induction s)
  case (Cons e s)
  obtain l w where e: "e = (l, w)" by force
  have wf: "bt_wf s" and l: "l \<notin> fst ` set s" using Cons.prems by (auto simp: bt_wf_def e)
  have "map_of s l = None" using l by (simp add: map_of_eq_None_iff)
  then have "map_of (prune_expired_windows now max_age s) l = None"
    using Cons.IH [OF wf] l by (auto simp: prune_expired_windows_def map_of_eq_None_iff)
  then show ?case
    using Cons.IH [OF wf] by (auto simp: prune_expired_windows_def e)
qed (simp add: prune_expired_windows_def)

lemma bt_wf_prune [simp]: "bt_wf s \<Longrightarrow> bt_wf (prune_expired_windows now max_age s)"
  by (simp add: prune_expired_windows_def)

interpretation runner: window_limiter
  "runner_attempt scope l" "runner_view scope" "unat l" "60 * nanos_per_second" bt_wf
  for scope l
proof
  show "0 < 60 * nanos_per_second" by (simp add: nanos_per_second_def)
  note defs = runner_attempt_def rate_limiter_check_def runner_view_def Let_def bt_get_prune
    stale_window_minute
  show "bt_wf s \<Longrightarrow> runner_attempt scope l k now s = (ok, t) \<Longrightarrow> bt_wf t" for s k now ok t
    by (auto simp: runner_attempt_def rate_limiter_check_def Let_def split: if_splits)
  show "ok = (0 < unat l) \<and> runner_view scope t k = Some (now, if 0 < unat l then 1 else 0)"
    if "bt_wf s" "runner_attempt scope l k now s = (ok, t)"
      "\<forall>st c. runner_view scope s k = Some (st, c) \<longrightarrow> 60 * nanos_per_second \<le> now - st"
    for s k now ok t
    using that
    by (auto simp: defs word_le_nat_alt nanos_per_second_def unat_eq_0
        split: option.splits if_splits)
  show "ok = (c < unat l) \<and> runner_view scope t k = Some (st, if c < unat l then c + 1 else c)"
    if "bt_wf s" "runner_attempt scope l k now s = (ok, t)"
      "runner_view scope s k = Some (st, c)" "now - st < 60 * nanos_per_second"
    for s k now ok t st c
    using that
    by (auto simp: defs word_le_nat_alt word_less_nat_alt word_count_Suc not_le
        split: option.splits if_splits)
  show "runner_view scope t j = runner_view scope s j \<or>
       (\<exists>st c. runner_view scope s j = Some (st, c) \<and> 60 * nanos_per_second \<le> now - st
          \<and> runner_view scope t j = None)"
    if "bt_wf s" "runner_attempt scope l k now s = (ok, t)" "j \<noteq> k" for s k now ok t j
    using that by (auto simp: defs split: if_splits option.splits)
qed

section \<open>Properties\<close>

text \<open>The login limiter: after the first attempt for a username, the attempts of the next
sixty seconds for it are admitted up to the configured number per minute and refused from
then on, however attempts for other names are mixed in; and no interval of sixty
seconds, wherever it starts, admits more than twice that number.\<close>

theorem login_limiter_bounds:
  assumes "bt_wf s" and "0 < l"
  shows "(bt_get s k = None \<and> (\<forall>(j, now) \<in> set rs. st \<le> now \<and> now < st + 60 * nanos_per_second) \<longrightarrow>
      admitted (allow_login_attempt l) k ((k, st) # rs) s =
        min (unat l) (length (filter (\<lambda>(j, _). j = k) ((k, st) # rs))))
    \<and> ((\<forall>(j, now) \<in> set rs. t0 \<le> now \<and> now < t0 + 60 * nanos_per_second) \<longrightarrow>
      admitted (allow_login_attempt l) k rs s \<le> 2 * unat l)"
proof (intro conjI impI)
  assume a: "bt_get s k = None \<and> (\<forall>(j, now) \<in> set rs. st \<le> now \<and> now < st + 60 * nanos_per_second)"
  have "0 < unat l" using assms(2) by (simp add: word_less_nat_alt)
  then show "admitted (allow_login_attempt l) k ((k, st) # rs) s =
        min (unat l) (length (filter (\<lambda>(j, _). j = k) ((k, st) # rs)))"
    using login.admitted_from_fresh [OF assms(1)] a by (simp add: login_view_def)
qed (use login.admitted_interval_twice [OF assms(1)] in blast)

theorem login_limiter_bounds_witness:
  "admitted (allow_login_attempt 2) ''ann'' [(''ann'', 5), (''ann'', 6), (''bob'', 7), (''ann'', 8)] [] = 2"
  using login_limiter_bounds [of "[]" 2 "''ann''" "[(''ann'', 6), (''bob'', 7), (''ann'', 8)]" 5 0]
  by (simp add: nanos_per_second_def)

text \<open>The runner's limiter, with the windows of sixty seconds it is called with, admits of
each token in each scope the first requests of a window up to the limit, and at most twice
the limit in any interval of sixty seconds; the requests of other tokens, and the pruning of
stale windows that every call does, make no difference.\<close>

theorem runner_limiter_bounds:
  assumes "bt_wf s" and "0 < l"
  shows "(bt_get s (scope @ '':'' @ k) = None \<and>
      (\<forall>(j, now) \<in> set rs. st \<le> now \<and> now < st + 60 * nanos_per_second) \<longrightarrow>
      admitted (runner_attempt scope l) k ((k, st) # rs) s =
        min (unat l) (length (filter (\<lambda>(j, _). j = k) ((k, st) # rs))))
    \<and> ((\<forall>(j, now) \<in> set rs. t0 \<le> now \<and> now < t0 + 60 * nanos_per_second) \<longrightarrow>
      admitted (runner_attempt scope l) k rs s \<le> 2 * unat l)"
proof (intro conjI impI)
  assume a: "bt_get s (scope @ '':'' @ k) = None \<and>
      (\<forall>(j, now) \<in> set rs. st \<le> now \<and> now < st + 60 * nanos_per_second)"
  have "0 < unat l" using assms(2) by (simp add: word_less_nat_alt)
  then show "admitted (runner_attempt scope l) k ((k, st) # rs) s =
        min (unat l) (length (filter (\<lambda>(j, _). j = k) ((k, st) # rs)))"
    using runner.admitted_from_fresh [OF assms(1)] a by (simp add: runner_view_def)
qed (use runner.admitted_interval_twice [OF assms(1)] in blast)

theorem runner_limiter_bounds_witness:
  "admitted (runner_attempt ''run'' 2) ''ci'' [(''ci'', 5), (''ci'', 6), (''bob'', 7), (''ci'', 8)] [] = 2"
  using runner_limiter_bounds [of "[]" 2 "''run''" "''ci''" "[(''ci'', 6), (''bob'', 7), (''ci'', 8)]" 5 0]
  by (simp add: nanos_per_second_def)

end
