(* ===== verification/Artifact_Store.thy ===== *)
theory Artifact_Store
  imports Runner_Errors Rate_Limit
begin

text \<open>
  The runner's artifact store (janus-runner/src/artifacts.rs): one directory per artifact
  with a blob and a metadata.json, the upload and download handlers, the recovery of
  incomplete artifacts after a crash, and the removal of expired ones.

  The root directory is a map from entry names to entries; a directory holds the blob's
  bytes and the metadata file, each possibly missing.  Files are replaced by atomic_write,
  so a failing write leaves the old content (see Runner_Storage).
\<close>

section \<open>State\<close>

record ArtifactMetadata =
  am_artifact_id :: string
  am_sha256 :: string
  am_size :: u64
  am_expires_at :: string

record ArtifactDir =
  ad_metadata :: "ArtifactMetadata json_file option"
  ad_blob :: "string option"

datatype ArtifactEntry = PlainFile | ArtifactEntryDir ArtifactDir

type_synonym ArtifactFiles = "(string, ArtifactEntry) btree_map"

record ArtifactStore =
  as_root_dir :: path
  as_ttl_seconds :: u64
  as_max_size_bytes :: u64
  as_require_checksum :: bool

record StoredArtifact =
  sa_metadata :: ArtifactMetadata
  sa_bytes :: string

definition artifact_store_new ::
    "faults \<Rightarrow> path \<Rightarrow> u64 \<Rightarrow> u64 \<Rightarrow> bool \<Rightarrow> (ArtifactError, ArtifactStore) result" where
  "artifact_store_new io data_dir ttl_seconds max_size_mb require_checksum =
     (let root = data_dir @ [''artifacts''] in
      and_then (map_err (ACreateDir (path_display root)) (io_try io (CreateDirAll root)))
      (\<lambda>_. and_then (ok_or (checked_mul max_size_mb (1024 * 1024)) (AInvalidMaxSize max_size_mb))
      (\<lambda>max_size_bytes. Inr \<lparr>as_root_dir = root, as_ttl_seconds = ttl_seconds,
         as_max_size_bytes = max_size_bytes, as_require_checksum = require_checksum\<rparr>)))"

definition empty_artifact_dir :: ArtifactDir where
  "empty_artifact_dir = \<lparr>ad_metadata = None, ad_blob = None\<rparr>"

text \<open>create_dir_all leaves an existing directory as it is and fails on a plain file.\<close>

definition artifact_mkdir ::
    "faults \<Rightarrow> path \<Rightarrow> string \<Rightarrow> ArtifactFiles \<Rightarrow> (IoError, ArtifactFiles) result" where
  "artifact_mkdir io dir name fs =
     and_then (io_try io (CreateDirAll dir))
     (\<lambda>_. case bt_get fs name of
        Some (ArtifactEntryDir d) \<Rightarrow> Inr fs
      | Some PlainFile \<Rightarrow> Inl (IoError KOther ''File exists (os error 17)'')
      | None \<Rightarrow> Inr (bt_insert name (ArtifactEntryDir empty_artifact_dir) fs))"

definition artifact_dir_get :: "ArtifactFiles \<Rightarrow> string \<Rightarrow> ArtifactDir option" where
  "artifact_dir_get fs name =
     (case bt_get fs name of Some (ArtifactEntryDir d) \<Rightarrow> Some d | _ \<Rightarrow> None)"

definition artifact_dir_update ::
    "string \<Rightarrow> (ArtifactDir \<Rightarrow> ArtifactDir) \<Rightarrow> ArtifactFiles \<Rightarrow> ArtifactFiles" where
  "artifact_dir_update name f fs =
     (case artifact_dir_get fs name of
        Some d \<Rightarrow> bt_insert name (ArtifactEntryDir (f d)) fs
      | None \<Rightarrow> fs)"

section \<open>Validation of ids and headers\<close>

definition validate_artifact_id :: "string \<Rightarrow> (ArtifactError, unit) result" where
  "validate_artifact_id artifact_id =
     ensure (validate_prefixed_hex_id artifact_id ''art_'') (AInvalidArtifactId artifact_id)"

definition validate_sha256_header :: "string \<Rightarrow> (ArtifactError, unit) result" where
  "validate_sha256_header value =
     (if length value \<noteq> 64
      then Inl (AInvalidHeader HEADER_SHA256 ''must be exactly 64 hexadecimal characters'')
      else if \<not> list_all is_ascii_hexdigit value
      then Inl (AInvalidHeader HEADER_SHA256 ''must contain only hexadecimal characters'')
      else Inr ())"

text \<open>HeaderValue::to_str accepts visible ASCII, spaces and tabs.\<close>

definition header_to_str :: "string \<Rightarrow> (string, string) result" where
  "header_to_str value =
     (if list_all (\<lambda>c. (32 \<le> (of_char c :: nat) \<and> (of_char c :: nat) < 127) \<or> (of_char c :: nat) = 9) value
      then Inr value else Inl ''failed to convert header to a str'')"

definition checksum_from_headers ::
    "string option \<Rightarrow> bool \<Rightarrow> (ArtifactError, string option) result" where
  "checksum_from_headers header checksum_required =
     (case header of
        Some raw \<Rightarrow>
          and_then (map_err (AInvalidHeader HEADER_SHA256) (header_to_str raw))
          (\<lambda>value. and_then (validate_sha256_header value) (\<lambda>_. Inr (Some value)))
      | None \<Rightarrow> if checksum_required then Inl AMissingChecksum else Inr None)"

section \<open>Storing\<close>

text \<open>SystemTime holds signed 64-bit seconds.\<close>

definition iso8601_now_plus :: "Platform \<Rightarrow> int \<Rightarrow> u64 \<Rightarrow> (ArtifactError, string) result" where
  "iso8601_now_plus pf now ttl_seconds =
     (if now div 1000000000 + uint ttl_seconds > i64_max then Inl ATimeOverflow
      else Inr (pf_format_time pf (now + nanos (uint ttl_seconds))))"

text \<open>uuid is the 32-digit text of the fresh UUID the call draws.\<close>

definition store_bytes ::
    "Platform \<Rightarrow> faults \<Rightarrow> int \<Rightarrow> string \<Rightarrow> ArtifactStore \<Rightarrow> string \<Rightarrow> string option \<Rightarrow> ArtifactFiles \<Rightarrow>
     (ArtifactError, ArtifactMetadata) result \<times> ArtifactFiles" where
  "store_bytes pf io now uuid st bytes checksum_header fs =
     (if as_require_checksum st \<and> checksum_header = None then (Inl AMissingChecksum, fs)
      else if unat (as_max_size_bytes st) < length bytes
      then (Inl (ATooLarge (length bytes) (unat (as_max_size_bytes st))), fs)
      else
        let sha256 = sha256_hex (pf_digest pf) bytes in
        case (case checksum_header of
                None \<Rightarrow> None
              | Some expected \<Rightarrow>
                  if \<not> eq_ignore_ascii_case expected sha256
                  then Some (AChecksumMismatch expected sha256) else None) of
          Some e \<Rightarrow> (Inl e, fs)
        | None \<Rightarrow>
          (let artifact_id = ''art_'' @ uuid in
           case iso8601_now_plus pf now (as_ttl_seconds st) of
             Inl e \<Rightarrow> (Inl e, fs)
           | Inr expires_at \<Rightarrow>
             (let metadata = \<lparr>am_artifact_id = artifact_id, am_sha256 = sha256,
                    am_size = of_nat (length bytes), am_expires_at = expires_at\<rparr>;
                  artifact_dir = as_root_dir st @ [artifact_id];
                  blob_path = artifact_dir @ [''blob''];
                  metadata_path = artifact_dir @ [''metadata.json'']
              in case artifact_mkdir io artifact_dir artifact_id fs of
                   Inl source \<Rightarrow> (Inl (ACreateDir (path_display artifact_dir) source), fs)
                 | Inr fs1 \<Rightarrow>
                   (case io_try io (WriteFile blob_path) of
                      Inl source \<Rightarrow> (Inl (AWriteFile (path_display blob_path) source), fs1)
                    | Inr _ \<Rightarrow>
                      (let fs2 = artifact_dir_update artifact_id (\<lambda>d. d\<lparr>ad_blob := Some bytes\<rparr>) fs1 in
                       case io_try io (WriteFile metadata_path) of
                         Inl source \<Rightarrow> (Inl (AWriteFile (path_display metadata_path) source), fs2)
                       | Inr _ \<Rightarrow>
                         (Inr metadata,
                          artifact_dir_update artifact_id
                            (\<lambda>d. d\<lparr>ad_metadata := Some (Parsed metadata)\<rparr>) fs2))))))"

text \<open>store_file stores the bytes of a job's output file under its own checksum.\<close>

definition store_file ::
    "Platform \<Rightarrow> faults \<Rightarrow> int \<Rightarrow> string \<Rightarrow> ArtifactStore \<Rightarrow> path \<Rightarrow> string option \<Rightarrow> ArtifactFiles \<Rightarrow>
     (ArtifactError, ArtifactMetadata) result \<times> ArtifactFiles" where
  "store_file pf io now uuid st p content fs =
     (case io_read io p content of
        Inl source \<Rightarrow> (Inl (AReadFile (path_display p) source), fs)
      | Inr bytes \<Rightarrow>
          store_bytes pf io now uuid st bytes (Some (sha256_hex (pf_digest pf) bytes)) fs)"

section \<open>Loading\<close>

definition artifact_is_expired ::
    "Platform \<Rightarrow> int \<Rightarrow> ArtifactMetadata \<Rightarrow> (ArtifactError, bool) result" where
  "artifact_is_expired pf now m =
     and_then (map_err (AParseExpiry (am_expires_at m)) (pf_parse_time pf (am_expires_at m)))
     (\<lambda>expires_at. Inr (expires_at \<le> now))"

definition artifact_blob_path :: "ArtifactStore \<Rightarrow> string \<Rightarrow> path" where
  "artifact_blob_path st artifact_id = as_root_dir st @ [artifact_id, ''blob'']"

definition artifact_metadata_path :: "ArtifactStore \<Rightarrow> string \<Rightarrow> path" where
  "artifact_metadata_path st artifact_id = as_root_dir st @ [artifact_id, ''metadata.json'']"

definition load_metadata ::
    "faults \<Rightarrow> ArtifactStore \<Rightarrow> ArtifactFiles \<Rightarrow> string \<Rightarrow> (ArtifactError, ArtifactMetadata) result" where
  "load_metadata io st fs artifact_id =
     and_then (validate_artifact_id artifact_id)
     (\<lambda>_. let metadata_path = artifact_metadata_path st artifact_id;
              content = (case artifact_dir_get fs artifact_id of Some d \<Rightarrow> ad_metadata d | None \<Rightarrow> None)
          in and_then (map_err (\<lambda>_. ANotFound artifact_id) (io_read io metadata_path content))
          (\<lambda>raw. case raw of
             Parsed m \<Rightarrow> Inr m
           | Garbled source \<Rightarrow> Inl (AParseMetadata (path_display metadata_path) source)))"

definition artifact_load ::
    "Platform \<Rightarrow> faults \<Rightarrow> int \<Rightarrow> ArtifactStore \<Rightarrow> ArtifactFiles \<Rightarrow> string \<Rightarrow>
     (ArtifactError, StoredArtifact) result" where
  "artifact_load pf io now st fs artifact_id =
     and_then (validate_artifact_id artifact_id)
     (\<lambda>_. and_then (load_metadata io st fs artifact_id)
     (\<lambda>metadata. and_then (artifact_is_expired pf now metadata)
     (\<lambda>expired. if expired then Inl (ANotFound artifact_id)
        else
          let blob = (case artifact_dir_get fs artifact_id of Some d \<Rightarrow> ad_blob d | None \<Rightarrow> None) in
          and_then
            (map_err (\<lambda>_. ANotFound artifact_id) (io_read io (artifact_blob_path st artifact_id) blob))
          (\<lambda>bytes. Inr \<lparr>sa_metadata = metadata, sa_bytes = bytes\<rparr>))))"

section \<open>Recovery and cleanup\<close>

definition artifact_dir_is_recoverable ::
    "Platform \<Rightarrow> faults \<Rightarrow> ArtifactStore \<Rightarrow> string \<Rightarrow> ArtifactDir \<Rightarrow> (ArtifactError, bool) result" where
  "artifact_dir_is_recoverable pf io st artifact_id d =
     (let metadata_path = artifact_metadata_path st artifact_id;
          blob_path = artifact_blob_path st artifact_id
      in case io_read io metadata_path (ad_metadata d) of
           Inl source \<Rightarrow>
             if io_kind source = KNotFound then Inr True
             else Inl (AReadFile (path_display metadata_path) source)
         | Inr (Garbled _) \<Rightarrow> Inr True
         | Inr (Parsed metadata) \<Rightarrow>
             if am_artifact_id metadata \<noteq> artifact_id then Inr True
             else case io_read io blob_path (ad_blob d) of
               Inl source \<Rightarrow>
                 if io_kind source = KNotFound then Inr True
                 else Inl (AReadFile (path_display blob_path) source)
             | Inr blob \<Rightarrow>
                 Inr (am_size metadata \<noteq> of_nat (length blob)
                      \<or> am_sha256 metadata \<noteq> sha256_hex (pf_digest pf) blob))"

text \<open>A state of the two loops: the root directory and the number of removed artifacts.\<close>

definition remove_artifact_dir ::
    "faults \<Rightarrow> ArtifactStore \<Rightarrow> string \<Rightarrow> ArtifactFiles \<times> nat \<Rightarrow>
     (ArtifactError, unit) result \<times> ArtifactFiles \<times> nat" where
  "remove_artifact_dir io st name s =
     (let p = as_root_dir st @ [name] in
      case io_try io (RemoveDirAll p) of
        Inl source \<Rightarrow> (Inl (ARemoveDir (path_display p) source), s)
      | Inr _ \<Rightarrow> (Inr (), bt_remove name (fst s), snd s + 1))"

definition recover_artifact_entry ::
    "Platform \<Rightarrow> faults \<Rightarrow> ArtifactStore \<Rightarrow> string \<Rightarrow> ArtifactFiles \<times> nat \<Rightarrow>
     (ArtifactError, unit) result \<times> ArtifactFiles \<times> nat" where
  "recover_artifact_entry pf io st name s =
     (case io_try io (ReadDirEntry (as_root_dir st @ [name])) of
        Inl source \<Rightarrow> (Inl (AReadDir (path_display (as_root_dir st)) source), s)
      | Inr _ \<Rightarrow>
        (case artifact_dir_get (fst s) name of
           None \<Rightarrow> (Inr (), s)
         | Some d \<Rightarrow>
             (case artifact_dir_is_recoverable pf io st name d of
                Inl e \<Rightarrow> (Inl e, s)
              | Inr True \<Rightarrow> remove_artifact_dir io st name s
              | Inr False \<Rightarrow> (Inr (), s))))"

definition recover_incomplete_artifacts ::
    "Platform \<Rightarrow> faults \<Rightarrow> ArtifactStore \<Rightarrow> ArtifactFiles \<Rightarrow> (ArtifactError, nat) result \<times> ArtifactFiles" where
  "recover_incomplete_artifacts pf io st fs =
     (case io_try io (ReadDir (as_root_dir st)) of
        Inl source \<Rightarrow> (Inl (AReadDir (path_display (as_root_dir st)) source), fs)
      | Inr _ \<Rightarrow>
        (case each_st (recover_artifact_entry pf io st) (bt_keys fs) (fs, 0) of
           (Inl e, fs', removed) \<Rightarrow> (Inl e, fs')
         | (Inr _, fs', removed) \<Rightarrow> (Inr removed, fs')))"

definition cleanup_artifact_entry ::
    "Platform \<Rightarrow> faults \<Rightarrow> int \<Rightarrow> ArtifactStore \<Rightarrow> string \<Rightarrow> ArtifactFiles \<times> nat \<Rightarrow>
     (ArtifactError, unit) result \<times> ArtifactFiles \<times> nat" where
  "cleanup_artifact_entry pf io now st name s =
     (case io_try io (ReadDirEntry (as_root_dir st @ [name])) of
        Inl source \<Rightarrow> (Inl (AReadDir (path_display (as_root_dir st)) source), s)
      | Inr _ \<Rightarrow>
        (case artifact_dir_get (fst s) name of
           None \<Rightarrow> (Inr (), s)
         | Some d \<Rightarrow>
             (case load_metadata io st (fst s) name of
                Inl (ANotFound _) \<Rightarrow> (Inr (), s)
              | Inl e \<Rightarrow> (Inl e, s)
              | Inr metadata \<Rightarrow>
                  (case artifact_is_expired pf now metadata of
                     Inl e \<Rightarrow> (Inl e, s)
                   | Inr True \<Rightarrow> remove_artifact_dir io st name s
                   | Inr False \<Rightarrow> (Inr (), s)))))"

definition cleanup_expired ::
    "Platform \<Rightarrow> faults \<Rightarrow> int \<Rightarrow> ArtifactStore \<Rightarrow> ArtifactFiles \<Rightarrow>
     (ArtifactError, nat) result \<times> ArtifactFiles" where
  "cleanup_expired pf io now st fs =
     (case io_try io (ReadDir (as_root_dir st)) of
        Inl source \<Rightarrow> (Inl (AReadDir (path_display (as_root_dir st)) source), fs)
      | Inr _ \<Rightarrow>
        (case each_st (cleanup_artifact_entry pf io now st) (bt_keys fs) (fs, 0) of
           (Inl e, fs', removed) \<Rightarrow> (Inl e, fs')
         | (Inr _, fs', removed) \<Rightarrow> (Inr removed, fs')))"

section \<open>Handlers\<close>

text \<open>
  body is the request body; the server framework refuses to buffer more than the limit.
\<close>

definition read_body_limited :: "nat \<Rightarrow> string \<Rightarrow> (string, string) result" where
  "read_body_limited limit body =
     (if limit < length body then Inl ''length limit exceeded'' else Inr body)"

definition upload_artifact ::
    "Platform \<Rightarrow> faults \<Rightarrow> int \<Rightarrow> string \<Rightarrow> ArtifactStore \<Rightarrow> u32 \<Rightarrow> string \<Rightarrow> nat \<Rightarrow> string option \<Rightarrow>
     string \<Rightarrow> RateLimiter \<times> ArtifactFiles \<Rightarrow>
     (ArtifactError, status_code \<times> ArtifactMetadata) result \<times> RateLimiter \<times> ArtifactFiles" where
  "upload_artifact pf io now uuid st max_per_minute token_name instant checksum_header body s =
     (case rate_limiter_check ''artifacts_write'' token_name max_per_minute
             (60 * nanos_per_second) instant (fst s) of
        (Inl e, limiter) \<Rightarrow>
          (Inl (ARateLimitExceeded token_name (rle_limit e) (of_nat (rle_window_seconds e))),
           limiter, snd s)
      | (Inr _, limiter) \<Rightarrow>
        (case and_then (checksum_from_headers checksum_header (as_require_checksum st))
                (\<lambda>checksum. and_then
                   (map_err AInvalidBody (read_body_limited (unat (as_max_size_bytes st)) body))
                   (\<lambda>bytes. Inr (checksum, bytes))) of
           Inl e \<Rightarrow> (Inl e, limiter, snd s)
         | Inr (checksum, bytes) \<Rightarrow>
             (case store_bytes pf io now uuid st bytes checksum (snd s) of
                (Inl e, fs) \<Rightarrow> (Inl e, limiter, fs)
              | (Inr metadata, fs) \<Rightarrow> (Inr (CREATED_201, metadata), limiter, fs))))"

text \<open>A downloaded artifact: status, checksum header, body.\<close>

definition download_artifact ::
    "Platform \<Rightarrow> faults \<Rightarrow> int \<Rightarrow> ArtifactStore \<Rightarrow> ArtifactFiles \<Rightarrow> string \<Rightarrow>
     (ArtifactError, status_code \<times> string \<times> string) result" where
  "download_artifact pf io now st fs artifact_id =
     and_then (artifact_load pf io now st fs artifact_id)
     (\<lambda>artifact. and_then
        (map_err (AInvalidHeader HEADER_SHA256) (header_to_str (am_sha256 (sa_metadata artifact))))
     (\<lambda>checksum. Inr (OK_200, checksum, sa_bytes artifact)))"

section \<open>Lemmas\<close>

definition artifact_complete :: "Platform \<Rightarrow> string \<Rightarrow> ArtifactDir \<Rightarrow> bool" where
  "artifact_complete pf name d =
     (case (ad_metadata d, ad_blob d) of
        (Some (Parsed m), Some b) \<Rightarrow>
          am_artifact_id m = name \<and> am_size m = of_nat (length b)
            \<and> am_sha256 m = sha256_hex (pf_digest pf) b
      | _ \<Rightarrow> False)"

fun entry_complete :: "Platform \<Rightarrow> string \<times> ArtifactEntry \<Rightarrow> bool" where
  "entry_complete pf (name, PlainFile) = True"
| "entry_complete pf (name, ArtifactEntryDir d) = artifact_complete pf name d"

lemma artifact_dir_get_update [simp]:
  assumes "bt_wf fs"
  shows "artifact_dir_get (artifact_dir_update n f fs) k =
    (if k = n then map_option f (artifact_dir_get fs n) else artifact_dir_get fs k)"
  using assms
  by (auto simp: artifact_dir_update_def artifact_dir_get_def split: option.splits ArtifactEntry.splits)

lemma bt_wf_artifact_dir_update [simp]: "bt_wf fs \<Longrightarrow> bt_wf (artifact_dir_update n f fs)"
  by (simp add: artifact_dir_update_def split: option.splits)

lemma artifact_mkdir_Inr:
  assumes "artifact_mkdir io d n fs = Inr fs'" and "bt_wf fs"
  shows "bt_wf fs' \<and> artifact_dir_get fs' n \<noteq> None \<and>
    (\<forall>k. k \<noteq> n \<longrightarrow> artifact_dir_get fs' k = artifact_dir_get fs k)"
  using assms
  by (auto simp: artifact_mkdir_def artifact_dir_get_def
      split: option.splits ArtifactEntry.splits if_splits)

text \<open>A successful store: what was checked and what is on disk afterwards.\<close>

lemma store_bytes_Inr:
  assumes "store_bytes pf io now uuid st bytes h fs = (Inr m, fs')" and "bt_wf fs"
  shows "length bytes \<le> unat (as_max_size_bytes st)"
    and "\<And>x. h = Some x \<Longrightarrow> eq_ignore_ascii_case x (sha256_hex (pf_digest pf) bytes)"
    and "as_require_checksum st \<Longrightarrow> h \<noteq> None"
    and "am_artifact_id m = ''art_'' @ uuid" and "am_sha256 m = sha256_hex (pf_digest pf) bytes"
    and "am_size m = of_nat (length bytes)"
    and "am_expires_at m = pf_format_time pf (now + nanos (uint (as_ttl_seconds st)))"
    and "artifact_dir_get fs' (''art_'' @ uuid) =
      Some \<lparr>ad_metadata = Some (Parsed m), ad_blob = Some bytes\<rparr>"
    and "bt_wf fs'"
    and "\<And>k. k \<noteq> ''art_'' @ uuid \<Longrightarrow> artifact_dir_get fs' k = artifact_dir_get fs k"
proof -
  note a = assms(1) [unfolded store_bytes_def Let_def]
  show 1: "length bytes \<le> unat (as_max_size_bytes st)"
    "\<And>x. h = Some x \<Longrightarrow> eq_ignore_ascii_case x (sha256_hex (pf_digest pf) bytes)"
    "as_require_checksum st \<Longrightarrow> h \<noteq> None"
    "am_artifact_id m = ''art_'' @ uuid" "am_sha256 m = sha256_hex (pf_digest pf) bytes"
    "am_size m = of_nat (length bytes)"
    "am_expires_at m = pf_format_time pf (now + nanos (uint (as_ttl_seconds st)))"
    using a by (auto simp: iso8601_now_plus_def split: if_splits option.splits sum.splits)
  obtain fs1 where fs1: "artifact_mkdir io (as_root_dir st @ [''art_'' @ uuid]) (''art_'' @ uuid) fs
        = Inr fs1"
    and fs': "fs' = artifact_dir_update (''art_'' @ uuid) (\<lambda>d. d\<lparr>ad_metadata := Some (Parsed m)\<rparr>)
      (artifact_dir_update (''art_'' @ uuid) (\<lambda>d. d\<lparr>ad_blob := Some bytes\<rparr>) fs1)"
    using a by (auto split: if_splits option.splits sum.splits)
  note mk = artifact_mkdir_Inr [OF fs1 assms(2)]
  then show "artifact_dir_get fs' (''art_'' @ uuid) =
      Some \<lparr>ad_metadata = Some (Parsed m), ad_blob = Some bytes\<rparr>" "bt_wf fs'"
    "\<And>k. k \<noteq> ''art_'' @ uuid \<Longrightarrow> artifact_dir_get fs' k = artifact_dir_get fs k"
    by (auto simp: fs')
qed

lemma store_bytes_Inr_complete:
  assumes "store_bytes pf io now uuid st bytes h fs = (Inr m, fs')" and "bt_wf fs"
  shows "artifact_complete pf (''art_'' @ uuid) \<lparr>ad_metadata = Some (Parsed m), ad_blob = Some bytes\<rparr>"
  using store_bytes_Inr [OF assms] by (simp add: artifact_complete_def)

subsection \<open>The two scans of the root directory\<close>

lemma filter_single_key:
  "distinct (map fst fs) \<Longrightarrow> map_of fs k = Some v \<Longrightarrow> filter (\<lambda>e. fst e = k) fs = [(k, v)]"
proof (induction fs)
  case (Cons e fs)
  show ?case
  proof (cases "fst e = k")
    case True
    then have "filter (\<lambda>e. fst e = k) fs = []" using Cons.prems(1)
      by (auto simp: filter_empty_conv image_iff)
    then show ?thesis using True Cons.prems(2) by (cases e) simp
  next
    case False
    then show ?thesis using Cons by (cases e) simp
  qed
qed simp

text \<open>A scan that removes the entries satisfying P and keeps the others.\<close>

lemma each_st_scan:
  assumes "\<And>k s. k \<in> set ks \<Longrightarrow> bt_wf (fst s) \<Longrightarrow>
      f k s = (Inr (), case map_of (fst s) k of
                 Some v \<Rightarrow> if P (k, v) then (bt_remove k (fst s), snd s + 1) else s
               | None \<Rightarrow> s)"
    and "bt_wf fs" and "distinct ks"
  shows "each_st f ks (fs, n) =
    (Inr (), filter (\<lambda>e. \<not> (fst e \<in> set ks \<and> P e)) fs,
     n + length (filter (\<lambda>e. fst e \<in> set ks \<and> P e) fs))"
  using assms
proof (induction ks arbitrary: fs n)
  case (Cons k ks)
  have wf: "bt_wf fs" and k: "k \<notin> set ks" using Cons.prems(2,3) by auto
  have d: "distinct (map fst fs)" by (rule bt_wf_distinct [OF wf])
  have f: "f k (fs, n) = (Inr (), case map_of fs k of
        Some v \<Rightarrow> if P (k, v) then (bt_remove k fs, n + 1) else (fs, n) | None \<Rightarrow> (fs, n))"
    using Cons.prems(1) [of k "(fs, n)"] wf by (simp split: option.splits)
  note IH = Cons.IH [OF Cons.prems(1)]
  show ?case
  proof (cases "\<exists>v. map_of fs k = Some v \<and> P (k, v)")
    case True
    then obtain v where v: "map_of fs k = Some v" "P (k, v)" by auto
    have mem: "e \<in> set fs \<Longrightarrow> fst e = k \<Longrightarrow> e = (k, v)" for e
      using v(1) d by (metis map_of_is_SomeI option.inject prod.collapse)
    have len: "length (filter (\<lambda>e. fst e = k) fs) = 1"
      using filter_single_key [OF d v(1)] by simp
    have l: "length (filter (\<lambda>e. fst e \<in> set (k # ks) \<and> P e) fs) =
        1 + length (filter (\<lambda>e. fst e \<in> set ks \<and> P e) (bt_remove k fs))"
    proof -
      have "length (filter (\<lambda>e. fst e \<in> set (k # ks) \<and> P e) fs) =
         length (filter (\<lambda>e. fst e = k) (filter (\<lambda>e. fst e \<in> set (k # ks) \<and> P e) fs)) +
         length (filter (\<lambda>e. fst e \<noteq> k) (filter (\<lambda>e. fst e \<in> set (k # ks) \<and> P e) fs))"
        by (rule sum_length_filter_compl [symmetric])
      moreover have "filter (\<lambda>e. fst e = k) (filter (\<lambda>e. fst e \<in> set (k # ks) \<and> P e) fs) =
          filter (\<lambda>e. fst e = k) fs"
        using mem v(2) by (auto simp: filter_filter intro!: filter_cong)
      moreover have "filter (\<lambda>e. fst e \<noteq> k) (filter (\<lambda>e. fst e \<in> set (k # ks) \<and> P e) fs) =
          filter (\<lambda>e. fst e \<in> set ks \<and> P e) (bt_remove k fs)"
        using k by (auto simp: bt_remove_def intro!: filter_cong)
      ultimately show ?thesis using len by simp
    qed
    have f2: "filter (\<lambda>e. \<not> (fst e \<in> set ks \<and> P e)) (bt_remove k fs) =
        filter (\<lambda>e. \<not> (fst e \<in> set (k # ks) \<and> P e)) fs"
      using mem v(2) k by (auto simp: bt_remove_def intro!: filter_cong)
    have "each_st f (k # ks) (fs, n) = each_st f ks (bt_remove k fs, n + 1)"
      using f v by simp
    also have "\<dots> = (Inr (), filter (\<lambda>e. \<not> (fst e \<in> set ks \<and> P e)) (bt_remove k fs),
       n + 1 + length (filter (\<lambda>e. fst e \<in> set ks \<and> P e) (bt_remove k fs)))"
      by (rule IH) (use wf Cons.prems(3) in auto)
    finally show ?thesis using l f2 by simp
  next
    case False
    then have "each_st f (k # ks) (fs, n) = each_st f ks (fs, n)"
      using f by (auto split: option.splits)
    moreover have "each_st f ks (fs, n) = (Inr (), filter (\<lambda>e. \<not> (fst e \<in> set ks \<and> P e)) fs,
       n + length (filter (\<lambda>e. fst e \<in> set ks \<and> P e) fs))"
      by (rule IH) (use wf Cons.prems(3) in auto)
    moreover have "e \<in> set fs \<Longrightarrow> fst e \<in> set ks \<and> P e \<longleftrightarrow> fst e \<in> set (k # ks) \<and> P e" for e
      using False d by (metis map_of_is_SomeI prod.collapse set_ConsD set_subset_Cons subsetD)
    ultimately show ?thesis by (simp cong: filter_cong)
  qed
qed simp

lemma recover_entry_no_faults:
  "recover_artifact_entry pf no_faults st k s =
     (Inr (), case map_of (fst s) k of
        Some v \<Rightarrow> if \<not> entry_complete pf (k, v) then (bt_remove k (fst s), snd s + 1) else s
      | None \<Rightarrow> s)"
  by (auto simp: recover_artifact_entry_def artifact_dir_get_def artifact_dir_is_recoverable_def
      artifact_complete_def remove_artifact_dir_def io_not_found_def Let_def
      split: option.splits ArtifactEntry.splits json_file.splits)

lemma recover_no_faults:
  assumes "bt_wf fs"
  shows "recover_incomplete_artifacts pf no_faults st fs =
    (Inr (length (filter (\<lambda>e. \<not> entry_complete pf e) fs)), filter (entry_complete pf) fs)"
proof -
  have keys: "e \<in> set fs \<Longrightarrow> fst e \<in> set (bt_keys fs)" for e by (auto simp: bt_keys_def)
  have "each_st (recover_artifact_entry pf no_faults st) (bt_keys fs) (fs, 0) =
    (Inr (), filter (\<lambda>e. \<not> (fst e \<in> set (bt_keys fs) \<and> \<not> entry_complete pf e)) fs,
     0 + length (filter (\<lambda>e. fst e \<in> set (bt_keys fs) \<and> \<not> entry_complete pf e) fs))"
    by (rule each_st_scan [OF recover_entry_no_faults assms])
      (simp add: bt_keys_def bt_wf_distinct [OF assms])
  then show ?thesis
    using keys by (simp add: recover_incomplete_artifacts_def cong: filter_cong)
qed

text \<open>A store that fails leaves nothing but an incomplete directory of the new id behind.\<close>

lemma store_bytes_Inl:
  assumes "store_bytes pf io now uuid st bytes h fs = (Inl e, fs')" and "bt_wf fs"
    and "bt_get fs (''art_'' @ uuid) = None"
  shows "fs' = fs \<or> (\<exists>d. fs' = bt_insert (''art_'' @ uuid) (ArtifactEntryDir d) fs \<and> ad_metadata d = None)"
  using assms
  by (auto simp: store_bytes_def Let_def artifact_mkdir_def artifact_dir_update_def
      artifact_dir_get_def empty_artifact_dir_def bt_insert_twice
      split: if_splits option.splits sum.splits)

lemma artifact_load_stored:
  assumes "artifact_dir_get fs i = Some \<lparr>ad_metadata = Some (Parsed m), ad_blob = Some b\<rparr>"
    and "validate_prefixed_hex_id i ''art_''"
    and "pf_parse_time pf (am_expires_at m) = Inr t"
  shows "artifact_load pf no_faults now st fs i =
    (if t \<le> now then Inl (ANotFound i) else Inr \<lparr>sa_metadata = m, sa_bytes = b\<rparr>)"
  using assms
  by (simp add: artifact_load_def load_metadata_def validate_artifact_id_def Let_def
      artifact_is_expired_def)

lemma artifact_id_valid:
  "length uuid = 32 \<Longrightarrow> list_all is_ascii_hexdigit uuid \<Longrightarrow>
   validate_prefixed_hex_id (''art_'' @ uuid) ''art_''"
  unfolding validate_prefixed_hex_id_iff by blast

lemma cleanup_entry_other:
  assumes "cleanup_artifact_entry pf io now st k s = (r, t)" and "j \<noteq> k"
  shows "artifact_dir_get (fst t) j = artifact_dir_get (fst s) j"
  using assms
  by (auto simp: cleanup_artifact_entry_def remove_artifact_dir_def artifact_dir_get_def Let_def
      split: sum.splits option.splits ArtifactEntry.splits ArtifactError.splits bool.splits)

section \<open>Properties\<close>

text \<open>An artifact that was stored is read back unchanged until the instant written in its
  metadata, and not at all from then on: the blob, its checksum and its size are those of the
  uploaded bytes.  The instant is the upload time plus the store's ttl, rounded down to a
  second, because RFC 3339 text is written with whole seconds.\<close>

theorem artifact_store_load_roundtrip:
  assumes "time_roundtrip pf" and "bt_wf fs"
    and "length uuid = 32" and "list_all is_ascii_hexdigit uuid"
    and "store_bytes pf io now uuid st bytes h fs = (Inr m, fs')"
  shows "artifact_load pf no_faults now' st fs' (am_artifact_id m) =
      (if nanos ((now + nanos (uint (as_ttl_seconds st))) div 1000000000) \<le> now'
       then Inl (ANotFound (am_artifact_id m)) else Inr \<lparr>sa_metadata = m, sa_bytes = bytes\<rparr>)
    \<and> am_sha256 m = sha256_hex (pf_digest pf) bytes \<and> am_size m = of_nat (length bytes)"
proof -
  note st = store_bytes_Inr [OF assms(5,2)]
  have "pf_parse_time pf (am_expires_at m) =
      Inr (nanos ((now + nanos (uint (as_ttl_seconds st))) div 1000000000))"
    using assms(1) by (simp add: st(7) time_roundtrip_def)
  from artifact_load_stored [OF st(8) artifact_id_valid [OF assms(3,4)] this]
  show ?thesis by (simp add: st(4-6))
qed

definition demo_artifact_store :: ArtifactStore where
  "demo_artifact_store = \<lparr>as_root_dir = [''data'', ''artifacts''], as_ttl_seconds = 5,
     as_max_size_bytes = 100, as_require_checksum = False\<rparr>"

definition demo_uuid :: string where "demo_uuid = replicate 32 (CHR ''0'')"

lemma demo_uuid_ok: "length demo_uuid = 32" "list_all is_ascii_hexdigit demo_uuid"
  by (simp_all add: demo_uuid_def is_ascii_hexdigit_def is_ascii_digit_def list_all_iff)

definition demo_artifact_metadata :: ArtifactMetadata where
  "demo_artifact_metadata = \<lparr>am_artifact_id = ''art_'' @ demo_uuid, am_sha256 = ''616263'',
     am_size = 3, am_expires_at = ''sssss''\<rparr>"

definition demo_artifact_files :: ArtifactFiles where
  "demo_artifact_files = [(''art_'' @ demo_uuid, ArtifactEntryDir
     \<lparr>ad_metadata = Some (Parsed demo_artifact_metadata), ad_blob = Some ''abc''\<rparr>)]"

lemma demo_store:
  "store_bytes demo_platform no_faults 0 demo_uuid demo_artifact_store ''abc'' None [] =
    (Inr demo_artifact_metadata, demo_artifact_files)"
  by code_simp

lemma demo_ttl [simp]: "as_ttl_seconds demo_artifact_store = 5"
  by (simp add: demo_artifact_store_def)

theorem artifact_store_load_roundtrip_witness:
  "artifact_load demo_platform no_faults 1 demo_artifact_store demo_artifact_files
     (am_artifact_id demo_artifact_metadata)
   = Inr \<lparr>sa_metadata = demo_artifact_metadata, sa_bytes = ''abc''\<rparr>"
  using artifact_store_load_roundtrip [OF demo_time_roundtrip bt_wf_Nil demo_uuid_ok demo_store, of 1]
  by (simp add: nanos_def)

lemma cleanup_expired_stray:
  assumes "bt_wf fs" and "bt_get fs name = Some (ArtifactEntryDir d)"
    and "\<not> validate_prefixed_hex_id name ''art_'' \<or> (\<exists>msg. ad_metadata d = Some (Garbled msg))"
  shows "\<exists>e. fst (cleanup_expired pf no_faults now st fs) = Inl e"
proof -
  have "\<exists>e. fst (each_st (cleanup_artifact_entry pf no_faults now st) (bt_keys fs) (fs, 0)) = Inl e"
  proof (rule each_st_fails [where x = name and P = "\<lambda>s. artifact_dir_get (fst s) name = Some d"])
    show "name \<in> set (bt_keys fs)"
      using map_of_SomeD [OF assms(2)] by (force simp: bt_keys_def)
    show "artifact_dir_get (fst (fs, 0 :: nat)) name = Some d"
      using assms(2) by (simp add: artifact_dir_get_def)
    show "\<exists>e. fst (cleanup_artifact_entry pf no_faults now st name s) = Inl e"
      if "artifact_dir_get (fst s) name = Some d" for s
      using that assms(3)
      by (auto simp: cleanup_artifact_entry_def load_metadata_def validate_artifact_id_def Let_def
          ensure_def split: if_splits)
    show "artifact_dir_get (fst t) name = Some d"
      if "k \<noteq> name" "artifact_dir_get (fst s) name = Some d"
        "cleanup_artifact_entry pf no_faults now st k s = (r, t)" for k s r t
      using that(1,2) cleanup_entry_other [OF that(3)] by simp
  qed
  then show ?thesis by (auto simp: cleanup_expired_def split: prod.splits sum.splits)
qed

text \<open>C17. Storing an artifact is atomic across failures: whatever I/O call fails while an
  artifact is stored under a fresh id, the recovery that runs at the next start leaves
  exactly the artifacts that were there before, plus the new one if and only if the store
  call had reported success.\<close>

theorem artifact_store_recovery_atomic:
  assumes "bt_wf fs" and "\<forall>e \<in> set fs. entry_complete pf e" and "bt_get fs (''art_'' @ uuid) = None"
    and "store_bytes pf io now uuid st bytes h fs = (r, fs')"
  shows "snd (recover_incomplete_artifacts pf no_faults st fs') = (if is_ok r then fs' else fs)
    \<and> (is_ok r \<longrightarrow> artifact_dir_get fs' (''art_'' @ uuid) \<noteq> None)"
proof (cases r)
  case (Inl e)
  from store_bytes_Inl [OF assms(4) [unfolded Inl] assms(1,3)] show ?thesis
  proof
    assume "fs' = fs"
    then show ?thesis using assms(1,2) Inl by (simp add: recover_no_faults filter_True_id)
  next
    assume "\<exists>d. fs' = bt_insert (''art_'' @ uuid) (ArtifactEntryDir d) fs \<and> ad_metadata d = None"
    then obtain d where d: "fs' = bt_insert (''art_'' @ uuid) (ArtifactEntryDir d) fs"
      "ad_metadata d = None" by auto
    have "''art_'' @ uuid \<notin> fst ` set fs" using assms(3) by (simp add: map_of_eq_None_iff)
    moreover have "\<not> entry_complete pf (''art_'' @ uuid, ArtifactEntryDir d)"
      by (simp add: artifact_complete_def d(2))
    ultimately have "filter (entry_complete pf) fs' = fs"
      using assms(2) by (simp add: d filter_bt_insert_drop filter_True_id)
    then show ?thesis using assms(1) Inl by (simp add: recover_no_faults d(1))
  qed
next
  case (Inr m)
  note a = assms(4) [unfolded Inr]
  have "\<forall>e \<in> set fs'. entry_complete pf e"
  proof
    fix e assume e: "e \<in> set fs'"
    obtain k v where kv: "e = (k, v)" by force
    note st = store_bytes_Inr [OF a assms(1)]
    have v: "map_of fs' k = Some v" using e st(9) by (simp add: kv bt_get_eq_Some)
    show "entry_complete pf e"
    proof (cases v)
      case (ArtifactEntryDir d)
      then have d: "artifact_dir_get fs' k = Some d" using v by (simp add: artifact_dir_get_def)
      show ?thesis
      proof (cases "k = ''art_'' @ uuid")
        case True
        then show ?thesis
          using store_bytes_Inr_complete [OF a assms(1)] st(8) d ArtifactEntryDir by (simp add: kv)
      next
        case False
        then have "(k, ArtifactEntryDir d) \<in> set fs"
          using st(10) d
          by (auto simp: artifact_dir_get_def dest: map_of_SomeD
              split: option.splits ArtifactEntry.splits)
        then show ?thesis using assms(2) ArtifactEntryDir by (auto simp: kv)
      qed
    qed (simp add: kv)
  qed
  then show ?thesis
    using Inr store_bytes_Inr(8,9) [OF a assms(1)] by (simp add: recover_no_faults filter_True_id)
qed

definition failing_metadata_write :: faults where
  "failing_metadata_write =
     no_faults\<lparr>io_fail := (\<lambda>oper. case oper of WriteFile p \<Rightarrow>
        if p \<noteq> [] \<and> last p = ''metadata.json'' then Some ''disk full'' else None
      | _ \<Rightarrow> None)\<rparr>"

theorem artifact_store_recovery_atomic_witness:
  "fst (store_bytes demo_platform failing_metadata_write 0 demo_uuid demo_artifact_store ''abc'' None []) =
      Inl (AWriteFile (''/data/artifacts/art_'' @ demo_uuid @ ''/metadata.json'')
            (IoError KOther ''disk full''))
    \<and> snd (store_bytes demo_platform failing_metadata_write 0 demo_uuid demo_artifact_store ''abc'' None []) \<noteq> []
    \<and> snd (recover_incomplete_artifacts demo_platform no_faults demo_artifact_store
         (snd (store_bytes demo_platform failing_metadata_write 0 demo_uuid demo_artifact_store ''abc'' None []))) = []"
proof -
  have 1: "fst (store_bytes demo_platform failing_metadata_write 0 demo_uuid demo_artifact_store ''abc'' None []) =
      Inl (AWriteFile (''/data/artifacts/art_'' @ demo_uuid @ ''/metadata.json'')
            (IoError KOther ''disk full''))"
    and 2: "snd (store_bytes demo_platform failing_metadata_write 0 demo_uuid demo_artifact_store ''abc'' None []) \<noteq> []"
    by code_simp+
  show ?thesis
    using artifact_store_recovery_atomic [of "[]" demo_platform demo_uuid failing_metadata_write 0
        demo_artifact_store "''abc''" None _ _, OF _ _ _ prod.collapse [symmetric]] 1 2
    by simp
qed

text \<open>The removal of expired artifacts stops at the first directory whose name is not an
  artifact id, or whose metadata cannot be parsed: the call reports an error, and so does
  every later call, as long as that directory is there.\<close>

theorem cleanup_blocked_by_stray_directory:
  assumes "bt_wf fs" and "bt_get fs name = Some (ArtifactEntryDir d)"
    and "\<not> validate_prefixed_hex_id name ''art_'' \<or> (\<exists>msg. ad_metadata d = Some (Garbled msg))"
  shows "\<exists>e. fst (cleanup_expired pf no_faults now st fs) = Inl e"
  by (rule cleanup_expired_stray [OF assms])

theorem cleanup_blocked_by_stray_directory_witness:
  "\<exists>e. fst (cleanup_expired demo_platform no_faults 0 demo_artifact_store
      [(''lost+found'', ArtifactEntryDir \<lparr>ad_metadata = None, ad_blob = None\<rparr>)]) = Inl e"
  by (rule cleanup_blocked_by_stray_directory
      [where name = "''lost+found''" and d = "\<lparr>ad_metadata = None, ad_blob = None\<rparr>"])
    (simp_all add: bt_wf_def validate_prefixed_hex_id_def strip_prefix_def)

end
