(* ===== verification/Job_Store.thy ===== *)
theory Job_Store
  imports Runner_Manifest Artifact_Store
begin

text \<open>
  The runner's job store (janus-runner/src/jobs/store.rs and models.rs): creation of job
  runs under an idempotency key, reading, cancellation, shutdown, and the recovery of
  interrupted jobs after a restart.

  The jobs directory maps a job id to its directory: metadata.json, the two logs, the work
  directory and the output directory.  The running jobs and the spawned executions are maps
  from job ids.  The mutexes make every operation below atomic; the one exception, the
  read-modify-write of a job's metadata, is modelled as the single step it is meant to be.
\<close>

section \<open>Data (models.rs)\<close>

record JobMetadata =
  md_job_id :: string
  md_name :: string
  md_idempotency_key :: string
  md_request_hash :: string
  md_status :: JobStatus
  md_started_at :: string
  md_finished_at :: "string option"
  md_duration_ms :: "u64 option"
  md_exit_code :: "32 word option"
  md_terminal_reason :: "TerminalReason option"
  md_failure_category :: "FailureCategory option"
  md_inputs :: "(string, json) btree_map"
  md_resolved_artifacts :: "(string, string) btree_map"
  md_outputs :: "(string, JobOutput) btree_map"
  md_output_metadata :: JobOutputMetadata

record JobExecution =
  ex_manifest :: JobManifest
  ex_job_id :: string
  ex_log_limit_bytes :: u64
  ex_cleanup_successful_workdirs :: bool
  ex_keep_failed_workdirs :: bool
  ex_metadata :: JobMetadata
  ex_raw_inputs :: "(string, json) btree_map"

definition job_status_response :: "JobMetadata \<Rightarrow> JobStatusResponse" where
  "job_status_response m =
     \<lparr>jsr_job_id = md_job_id m, jsr_name = md_name m, jsr_status = md_status m,
      jsr_started_at = md_started_at m, jsr_finished_at = md_finished_at m,
      jsr_duration_ms = md_duration_ms m, jsr_exit_code = md_exit_code m,
      jsr_terminal_reason = md_terminal_reason m, jsr_failure_category = md_failure_category m,
      jsr_outputs = md_outputs m, jsr_output_metadata = md_output_metadata m\<rparr>"

definition job_definition_response :: "JobManifest \<Rightarrow> JobDefinitionResponse" where
  "job_definition_response m =
     \<lparr>jdr_name = jm_name m, jdr_concurrency = jm_concurrency m,
      jdr_timeout_seconds = jm_timeout_seconds m,
      jdr_inputs = map (\<lambda>(name, spec). (name,
        \<lparr>jid_kind = is_kind spec, jid_required = is_required spec, jid_sensitive = is_sensitive spec,
         jid_max_length = is_max_length spec, jid_pattern = is_pattern spec,
         jid_max_json_bytes = is_max_json_bytes spec\<rparr>)) (jm_inputs m),
      jdr_outputs = map (\<lambda>(name, out). (name,
        \<lparr>jod_kind = os_kind out, jod_path = os_path out, jod_required = os_required out\<rparr>))
        (jm_outputs m)\<rparr>"

section \<open>State\<close>

datatype OutputNode = OutputFile string | OutputSubdir

record JobDir =
  jd_metadata :: "JobMetadata json_file option"
  jd_stdout :: "string option"
  jd_stderr :: "string option"
  jd_work :: bool
  jd_output :: "(string, OutputNode) btree_map option"

datatype JobEntry = JobPlainFile | JobEntryDir JobDir

type_synonym JobFiles = "(string, JobEntry) btree_map"

record RunningJob =
  rj_job_id :: string
  rj_name :: string
  rj_concurrency :: Concurrency
  rj_cancel_sent :: bool

record JobStore =
  js_root_dir :: path
  js_running :: "(string, RunningJob) btree_map"
  js_shutting_down :: bool
  js_files :: JobFiles
  js_tasks :: "(string, JobExecution) btree_map"

definition job_store_new :: "faults \<Rightarrow> path \<Rightarrow> JobFiles \<Rightarrow> (JobError, JobStore) result" where
  "job_store_new io data_dir on_disk =
     (let root = data_dir @ [''jobs''] in
      and_then (map_err (JCreateDir (path_display root)) (io_try io (CreateDirAll root)))
      (\<lambda>_. Inr \<lparr>js_root_dir = root, js_running = [], js_shutting_down = False,
                js_files = on_disk, js_tasks = []\<rparr>))"

definition empty_job_dir :: JobDir where
  "empty_job_dir = \<lparr>jd_metadata = None, jd_stdout = None, jd_stderr = None, jd_work = False,
     jd_output = None\<rparr>"

definition job_path :: "JobStore \<Rightarrow> string \<Rightarrow> path" where
  "job_path st job_id = js_root_dir st @ [job_id]"

definition job_file :: "JobStore \<Rightarrow> string \<Rightarrow> string \<Rightarrow> path" where
  "job_file st job_id name = js_root_dir st @ [job_id, name]"

definition job_dir_get :: "JobFiles \<Rightarrow> string \<Rightarrow> JobDir option" where
  "job_dir_get fs job_id =
     (case bt_get fs job_id of Some (JobEntryDir d) \<Rightarrow> Some d | _ \<Rightarrow> None)"

text \<open>A change inside a job's directory, which creates the directory when it is missing.\<close>

definition job_dir_put :: "string \<Rightarrow> (JobDir \<Rightarrow> JobDir) \<Rightarrow> JobFiles \<Rightarrow> (IoError, JobFiles) result" where
  "job_dir_put job_id f fs =
     (case bt_get fs job_id of
        Some JobPlainFile \<Rightarrow> Inl (IoError KOther ''Not a directory (os error 20)'')
      | Some (JobEntryDir d) \<Rightarrow> Inr (bt_insert job_id (JobEntryDir (f d)) fs)
      | None \<Rightarrow> Inr (bt_insert job_id (JobEntryDir (f empty_job_dir)) fs))"

text \<open>Reading a file of a job's directory.\<close>

definition job_read :: "faults \<Rightarrow> JobStore \<Rightarrow> string \<Rightarrow> string \<Rightarrow> (JobDir \<Rightarrow> 'a option) \<Rightarrow> (IoError, 'a) result" where
  "job_read io st job_id name f =
     (case bt_get (js_files st) job_id of
        Some JobPlainFile \<Rightarrow> Inl (IoError KOther ''Not a directory (os error 20)'')
      | Some (JobEntryDir d) \<Rightarrow> io_read io (job_file st job_id name) (f d)
      | None \<Rightarrow> io_read io (job_file st job_id name) None)"

section \<open>Ids, keys and hashes\<close>

definition hash_request :: "Platform \<Rightarrow> string \<Rightarrow> string \<Rightarrow> string" where
  "hash_request pf name request_body = hex_lower (pf_digest pf (name @ [CHR 0x00] @ request_body))"

definition job_id_for_idempotency_key :: "Platform \<Rightarrow> string \<Rightarrow> string" where
  "job_id_for_idempotency_key pf key = ''job_'' @ take 32 (hash_request pf ''job'' key)"

definition validate_job_id :: "string \<Rightarrow> (JobError, unit) result" where
  "validate_job_id job_id = ensure (validate_prefixed_hex_id job_id ''job_'') (JInvalidJobId job_id)"

definition validate_idempotency_key :: "string \<Rightarrow> (JobError, unit) result" where
  "validate_idempotency_key key =
     (if key = [] \<or> length key > 128 then Inl (JInvalidIdempotencyKey key)
      else if \<not> list_all (\<lambda>c. is_ascii_alphanumeric c \<or> c = CHR ''-'' \<or> c = CHR ''_'') key
      then Inl (JInvalidIdempotencyKey key)
      else Inr ())"

section \<open>Inputs\<close>

definition REDACTED_INPUT_VALUE :: string where "REDACTED_INPUT_VALUE = ''[REDACTED]''"

text \<open>One iteration of the loop that checks the values and resolves artifact inputs.\<close>

definition validate_input_value ::
    "Platform \<Rightarrow> faults \<Rightarrow> int \<Rightarrow> ArtifactStore \<Rightarrow> ArtifactFiles \<Rightarrow> InputSpec \<Rightarrow> string \<Rightarrow> json \<Rightarrow>
     (string, string) btree_map \<Rightarrow> (JobError, (string, string) btree_map) result" where
  "validate_input_value pf io now ast afs spec name value resolved =
     (case is_kind spec of
        InString \<Rightarrow>
          and_then (ok_or (json_as_str value) (JInvalidInputType name ''string''))
          (\<lambda>s. and_then
             (case is_max_length spec of
                None \<Rightarrow> Inr ()
              | Some l \<Rightarrow> ensure (char_count s \<le> unat l)
                  (JInvalidInputValue name (''must be at most '' @ show_nat (unat l) @ '' characters'')))
          (\<lambda>_. and_then
             (case is_pattern spec of
                None \<Rightarrow> Inr ()
              | Some p \<Rightarrow> ensure (pf_regex_is_match pf p s)
                  (JInvalidInputValue name (''must match pattern '' @ p)))
          (\<lambda>_. Inr resolved)))
      | InInteger \<Rightarrow>
          and_then (ensure (json_as_i64 value \<noteq> None) (JInvalidInputType name ''integer''))
          (\<lambda>_. Inr resolved)
      | InBoolean \<Rightarrow>
          and_then (ensure (json_is_boolean value) (JInvalidInputType name ''boolean''))
          (\<lambda>_. Inr resolved)
      | InArtifact \<Rightarrow>
          and_then (ok_or (json_as_str value) (JInvalidInputType name ''artifact id string''))
          (\<lambda>artifact_id. and_then (map_err JArtifact (load_metadata io ast afs artifact_id))
          (\<lambda>metadata. and_then (map_err JArtifact (artifact_is_expired pf now metadata))
          (\<lambda>expired. and_then (ensure (\<not> expired) (JExpiredArtifact name artifact_id))
          (\<lambda>_. Inr (bt_insert name (path_display (artifact_blob_path ast artifact_id)) resolved)))))
      | InJson \<Rightarrow>
          and_then (ensure (value \<noteq> JNull) (JInvalidInputType name ''json''))
          (\<lambda>_. and_then
             (case is_max_json_bytes spec of
                None \<Rightarrow> Inr ()
              | Some b \<Rightarrow> ensure (length (pf_json_text pf value) \<le> unat b)
                  (JInvalidInputValue name (''must be at most '' @ show_nat (unat b) @ '' JSON bytes'')))
          (\<lambda>_. Inr resolved)))"

definition validate_inputs ::
    "Platform \<Rightarrow> faults \<Rightarrow> int \<Rightarrow> ArtifactStore \<Rightarrow> ArtifactFiles \<Rightarrow> JobManifest \<Rightarrow>
     (string, json) btree_map \<Rightarrow> (JobError, (string, string) btree_map) result" where
  "validate_inputs pf io now ast afs manifest inputs =
     and_then
       (check_all (\<lambda>(name, spec). ensure (\<not> (is_required spec \<and> \<not> bt_contains name inputs))
          (JMissingInput name)) (jm_inputs manifest))
     (\<lambda>_. and_then
       (check_all (\<lambda>name. ensure (bt_contains name (jm_inputs manifest) \<or> is_reserved_input_name name)
          (JUnknownInput name)) (bt_keys inputs))
     (\<lambda>_. for_each (\<lambda>(name, value) resolved.
            if is_reserved_input_name name then Inr resolved
            else case bt_get (jm_inputs manifest) name of
              None \<Rightarrow> Inl (JUnknownInput name)
            | Some spec \<Rightarrow> validate_input_value pf io now ast afs spec name value resolved)
          inputs []))"

definition redact_sensitive_inputs ::
    "JobManifest \<Rightarrow> (string, json) btree_map \<Rightarrow> (string, json) btree_map" where
  "redact_sensitive_inputs manifest inputs =
     map (\<lambda>(name, value).
       (name, if (case bt_get (jm_inputs manifest) name of Some i \<Rightarrow> is_sensitive i | None \<Rightarrow> False)
              then JString REDACTED_INPUT_VALUE else value)) inputs"

section \<open>Concurrency\<close>

definition GLOBAL_RUNNING_REASON :: string where
  "GLOBAL_RUNNING_REASON = ''cannot start job while a global_exclusive job is running''"

definition enforce_concurrency ::
    "JobManifest \<Rightarrow> (string, RunningJob) btree_map \<Rightarrow> (JobError, unit) result" where
  "enforce_concurrency manifest running_jobs =
     (case jm_concurrency manifest of
        Parallel \<Rightarrow>
          (if list_ex (\<lambda>job. rj_concurrency job = GlobalExclusive) (bt_values running_jobs)
           then Inl (JConcurrencyConflict GLOBAL_RUNNING_REASON) else Inr ())
      | JobExclusive \<Rightarrow>
          (case find (\<lambda>job. rj_concurrency job = GlobalExclusive \<or> rj_name job = jm_name manifest)
                  (bt_values running_jobs) of
             None \<Rightarrow> Inr ()
           | Some job \<Rightarrow>
               Inl (JConcurrencyConflict
                 (if rj_concurrency job = GlobalExclusive then GLOBAL_RUNNING_REASON
                  else ''cannot start job '' @ jm_name manifest
                    @ '' while another instance is running ('' @ rj_job_id job @ '')'')))
      | GlobalExclusive \<Rightarrow>
          (if running_jobs \<noteq> []
           then Inl (JConcurrencyConflict
                  ''cannot start global_exclusive job while another job is running'')
           else Inr ()))"

section \<open>Metadata\<close>

definition now_rfc3339 :: "Platform \<Rightarrow> int \<Rightarrow> string" where
  "now_rfc3339 pf now = pf_format_time pf now"

text \<open>num_milliseconds truncates towards zero; a negative duration has no value.\<close>

definition calculate_duration_ms :: "Platform \<Rightarrow> string \<Rightarrow> string option \<Rightarrow> u64 option" where
  "calculate_duration_ms pf started_at finished_at =
     (case finished_at of
        None \<Rightarrow> None
      | Some finished_at \<Rightarrow>
        (case result_ok (pf_parse_time pf started_at) of
           None \<Rightarrow> None
         | Some started \<Rightarrow>
           (case result_ok (pf_parse_time pf finished_at) of
              None \<Rightarrow> None
            | Some finished \<Rightarrow>
                let diff = finished - started;
                    millis = (if diff < 0 then - ((- diff) div 1000000) else diff div 1000000)
                in if 0 \<le> millis \<and> millis < 2 ^ 64 then Some (of_int millis) else None)))"

definition persist_metadata ::
    "faults \<Rightarrow> string \<Rightarrow> JobMetadata \<Rightarrow> JobStore \<Rightarrow> (JobError, unit) result \<times> JobStore" where
  "persist_metadata io job_id metadata st =
     (let path = job_file st job_id ''metadata.json'' in
      case and_then (io_try io (WriteFile path))
             (\<lambda>_. job_dir_put job_id (\<lambda>d. d\<lparr>jd_metadata := Some (Parsed metadata)\<rparr>) (js_files st)) of
        Inl source \<Rightarrow> (Inl (JWriteFile (path_display path) source), st)
      | Inr fs \<Rightarrow> (Inr (), st\<lparr>js_files := fs\<rparr>))"

definition read_metadata_from_path ::
    "faults \<Rightarrow> string \<Rightarrow> JobStore \<Rightarrow> (JobError, JobMetadata) result" where
  "read_metadata_from_path io job_id st =
     (let path = job_file st job_id ''metadata.json'' in
      case job_read io st job_id ''metadata.json'' jd_metadata of
        Inl source \<Rightarrow> Inl (JReadFile (path_display path) source)
      | Inr (Garbled source) \<Rightarrow> Inl (JParseMetadata (path_display path) source)
      | Inr (Parsed m) \<Rightarrow> Inr m)"

definition transition_metadata_status ::
    "faults \<Rightarrow> string \<Rightarrow> JobStatus option \<Rightarrow> JobStatus \<Rightarrow> JobStore \<Rightarrow> (JobError, unit) result \<times> JobStore" where
  "transition_metadata_status io job_id expected_current nxt st =
     (case read_metadata_from_path io job_id st of
        Inl e \<Rightarrow> (Inl e, st)
      | Inr metadata \<Rightarrow>
          if is_terminal (md_status metadata) then (Inr (), st)
          else if (case expected_current of Some x \<Rightarrow> md_status metadata \<noteq> x | None \<Rightarrow> False)
          then (Inr (), st)
          else if md_status metadata = nxt then (Inr (), st)
          else persist_metadata io job_id (metadata\<lparr>md_status := nxt\<rparr>) st)"

section \<open>Creating a job\<close>

definition load_existing_job_for_request ::
    "faults \<Rightarrow> string \<Rightarrow> string \<Rightarrow> string \<Rightarrow> string \<Rightarrow> JobStore \<Rightarrow> (JobError, JobCreatedResponse) result" where
  "load_existing_job_for_request io job_id name key request_hash st =
     and_then (read_metadata_from_path io job_id st)
     (\<lambda>metadata.
        if md_job_id metadata \<noteq> job_id \<or> md_name metadata \<noteq> name
           \<or> md_idempotency_key metadata \<noteq> key \<or> md_request_hash metadata \<noteq> request_hash
        then Inl (JIdempotencyConflict key)
        else Inr \<lparr>jcr_job_id = md_job_id metadata, jcr_status = md_status metadata,
               jcr_started_at = md_started_at metadata\<rparr>)"

text \<open>The file system calls that set up a job's directory, in order.\<close>

definition job_setup_call ::
    "fs_op \<Rightarrow> (string \<Rightarrow> IoError \<Rightarrow> JobError) \<Rightarrow> path \<Rightarrow> string \<Rightarrow> (JobDir \<Rightarrow> JobDir) \<Rightarrow> faults \<Rightarrow> JobStore \<Rightarrow>
     (JobError, unit) result \<times> JobStore" where
  "job_setup_call oper err path job_id f io st =
     (case and_then (io_try io oper) (\<lambda>_. job_dir_put job_id f (js_files st)) of
        Inl source \<Rightarrow> (Inl (err (path_display path) source), st)
      | Inr fs \<Rightarrow> (Inr (), st\<lparr>js_files := fs\<rparr>))"

definition setup_job_dir ::
    "faults \<Rightarrow> string \<Rightarrow> JobMetadata \<Rightarrow> JobStore \<Rightarrow> (JobError, unit) result \<times> JobStore" where
  "setup_job_dir io job_id job st =
     (let work = job_file st job_id ''work''; outdir = job_file st job_id ''output'';
          stdout = job_file st job_id ''stdout.log''; stderr = job_file st job_id ''stderr.log''
      in try_then (job_setup_call (CreateDirAll work) JCreateDir work job_id
             (\<lambda>d. d\<lparr>jd_work := True\<rparr>) io st)
      (\<lambda>_ st. try_then (job_setup_call (CreateDirAll outdir) JCreateDir outdir job_id
             (\<lambda>d. d\<lparr>jd_output := Some (case jd_output d of None \<Rightarrow> [] | Some fs \<Rightarrow> fs)\<rparr>) io st)
      (\<lambda>_ st. try_then (job_setup_call (WriteFile stdout) JWriteFile stdout job_id
             (\<lambda>d. d\<lparr>jd_stdout := Some []\<rparr>) io st)
      (\<lambda>_ st. try_then (job_setup_call (WriteFile stderr) JWriteFile stderr job_id
             (\<lambda>d. d\<lparr>jd_stderr := Some []\<rparr>) io st)
      (\<lambda>_ st. persist_metadata io job_id job st)))))"

record JobRequest =
  rq_name :: string
  rq_key :: string
  rq_body :: string
  rq_inputs :: "(string, json) btree_map"

record JobLimits =
  jl_log_limit_mb :: u64
  jl_cleanup_successful :: bool
  jl_keep_failed :: bool

definition new_job_metadata ::
    "Platform \<Rightarrow> int \<Rightarrow> JobManifest \<Rightarrow> JobRequest \<Rightarrow> (string, string) btree_map \<Rightarrow> JobMetadata" where
  "new_job_metadata pf now manifest rq resolved =
     \<lparr>md_job_id = job_id_for_idempotency_key pf (rq_key rq), md_name = jm_name manifest,
      md_idempotency_key = rq_key rq, md_request_hash = hash_request pf (rq_name rq) (rq_body rq),
      md_status = Running, md_started_at = now_rfc3339 pf now, md_finished_at = None,
      md_duration_ms = None, md_exit_code = None, md_terminal_reason = None,
      md_failure_category = None, md_inputs = redact_sensitive_inputs manifest (rq_inputs rq),
      md_resolved_artifacts = resolved, md_outputs = [],
      md_output_metadata = JobOutputMetadata_default\<rparr>"

definition register_running :: "JobManifest \<Rightarrow> string \<Rightarrow> JobStore \<Rightarrow> JobStore" where
  "register_running manifest job_id st =
     st\<lparr>js_running := bt_insert job_id
        \<lparr>rj_job_id = job_id, rj_name = jm_name manifest, rj_concurrency = jm_concurrency manifest,
         rj_cancel_sent = False\<rparr> (js_running st)\<rparr>"

definition unregister_running :: "string \<Rightarrow> JobStore \<Rightarrow> JobStore" where
  "unregister_running job_id st = st\<lparr>js_running := bt_remove job_id (js_running st)\<rparr>"

definition spawn_job :: "JobExecution \<Rightarrow> JobStore \<Rightarrow> JobStore" where
  "spawn_job ex st = st\<lparr>js_tasks := bt_insert (ex_job_id ex) ex (js_tasks st)\<rparr>"

text \<open>The checks before anything is looked up on disk or changed.\<close>

definition create_job_checks ::
    "Platform \<Rightarrow> faults \<Rightarrow> int \<Rightarrow> ManifestStore \<Rightarrow> ArtifactStore \<Rightarrow> ArtifactFiles \<Rightarrow> JobLimits \<Rightarrow> JobRequest \<Rightarrow>
     JobStore \<Rightarrow> (JobError, JobManifest \<times> (string, string) btree_map \<times> u64) result" where
  "create_job_checks pf io now manifests ast afs limits rq st =
     and_then (ensure (\<not> js_shutting_down st) JShuttingDown)
     (\<lambda>_. and_then (validate_idempotency_key (rq_key rq))
     (\<lambda>_. and_then (ok_or (bt_get manifests (rq_name rq)) (JUnknownJob (rq_name rq)))
     (\<lambda>manifest. and_then (validate_inputs pf io now ast afs manifest (rq_inputs rq))
     (\<lambda>resolved. and_then
        (ok_or (checked_mul (jl_log_limit_mb limits) (1024 * 1024))
           (JInvalidLogLimit (jl_log_limit_mb limits)))
     (\<lambda>log_limit_bytes. Inr (manifest, resolved, log_limit_bytes))))))"

definition create_job ::
    "Platform \<Rightarrow> faults \<Rightarrow> int \<Rightarrow> ManifestStore \<Rightarrow> ArtifactStore \<Rightarrow> ArtifactFiles \<Rightarrow> JobLimits \<Rightarrow> JobRequest \<Rightarrow>
     JobStore \<Rightarrow> (JobError, JobCreatedResponse) result \<times> JobStore" where
  "create_job pf io now manifests ast afs limits rq st =
     (case create_job_checks pf io now manifests ast afs limits rq st of
        Inl e \<Rightarrow> (Inl e, st)
      | Inr (manifest, resolved, log_limit_bytes) \<Rightarrow>
        (let request_hash = hash_request pf (rq_name rq) (rq_body rq);
             job_id = job_id_for_idempotency_key pf (rq_key rq)
         in if bt_contains job_id (js_files st)
            then (load_existing_job_for_request io job_id (rq_name rq) (rq_key rq) request_hash st, st)
            else
              let job = new_job_metadata pf now manifest rq resolved in
              case enforce_concurrency manifest (js_running st) of
                Inl e \<Rightarrow> (Inl e, st)
              | Inr _ \<Rightarrow>
                (case setup_job_dir io job_id job (register_running manifest job_id st) of
                   (Inl e, st') \<Rightarrow> (Inl e, unregister_running job_id st')
                 | (Inr _, st') \<Rightarrow>
                     (Inr \<lparr>jcr_job_id = job_id, jcr_status = Running,
                           jcr_started_at = md_started_at job\<rparr>,
                      spawn_job
                        \<lparr>ex_manifest = manifest, ex_job_id = job_id,
                         ex_log_limit_bytes = log_limit_bytes,
                         ex_cleanup_successful_workdirs = jl_cleanup_successful limits,
                         ex_keep_failed_workdirs = jl_keep_failed limits,
                         ex_metadata = job, ex_raw_inputs = rq_inputs rq\<rparr> st'))))"

section \<open>Reading and canceling\<close>

definition read_job :: "faults \<Rightarrow> string \<Rightarrow> JobStore \<Rightarrow> (JobError, JobMetadata) result" where
  "read_job io job_id st =
     and_then (validate_job_id job_id)
     (\<lambda>_. let path = job_file st job_id ''metadata.json'' in
        case job_read io st job_id ''metadata.json'' jd_metadata of
          Inl source \<Rightarrow>
            if io_kind source = KNotFound then Inl (JJobNotFound job_id)
            else Inl (JReadFile (path_display path) source)
        | Inr (Garbled source) \<Rightarrow> Inl (JParseMetadata (path_display path) source)
        | Inr (Parsed m) \<Rightarrow> Inr m)"

definition read_log_file ::
    "faults \<Rightarrow> string \<Rightarrow> string \<Rightarrow> (JobDir \<Rightarrow> string option) \<Rightarrow> JobStore \<Rightarrow> (JobError, string) result" where
  "read_log_file io job_id name f st =
     map_err (\<lambda>source. if io_kind source = KNotFound then JJobNotFound job_id
                        else JReadFile (path_display (job_file st job_id name)) source)
       (utf8_checked (job_read io st job_id name f))"

definition read_logs :: "faults \<Rightarrow> string \<Rightarrow> JobStore \<Rightarrow> (JobError, JobLogsResponse) result" where
  "read_logs io job_id st =
     and_then (validate_job_id job_id)
     (\<lambda>_. and_then (read_log_file io job_id ''stdout.log'' jd_stdout st)
     (\<lambda>stdout. and_then (read_log_file io job_id ''stderr.log'' jd_stderr st)
     (\<lambda>stderr. Inr \<lparr>jlr_stdout = stdout, jlr_stderr = stderr\<rparr>)))"

definition send_cancel :: "string \<Rightarrow> JobStore \<Rightarrow> JobStore" where
  "send_cancel job_id st =
     (case bt_get (js_running st) job_id of
        None \<Rightarrow> st
      | Some job \<Rightarrow> st\<lparr>js_running := bt_insert job_id (job\<lparr>rj_cancel_sent := True\<rparr>) (js_running st)\<rparr>)"

definition cancel_job :: "faults \<Rightarrow> string \<Rightarrow> JobStore \<Rightarrow> (JobError, unit) result \<times> JobStore" where
  "cancel_job io job_id st =
     (case validate_job_id job_id of
        Inl e \<Rightarrow> (Inl e, st)
      | Inr _ \<Rightarrow>
        (case bt_get (js_running st) job_id of
           None \<Rightarrow>
             ((case read_job io job_id st of
                 Inr metadata \<Rightarrow>
                   if md_status metadata \<in> {CancelRequested, Canceling, Canceled} then Inr ()
                   else Inl (JJobNotRunning job_id)
               | Inl (JJobNotFound _) \<Rightarrow> Inl (JJobNotFound job_id)
               | Inl e \<Rightarrow> Inl e), st)
         | Some running_job \<Rightarrow>
             (case transition_metadata_status io job_id (Some Running) CancelRequested st of
                (Inl e, st') \<Rightarrow> (Inl e, st')
              | (Inr _, st') \<Rightarrow> (Inr (), send_cancel job_id st'))))"

section \<open>Shutdown\<close>

definition begin_shutdown :: "faults \<Rightarrow> JobStore \<Rightarrow> nat \<times> JobStore" where
  "begin_shutdown io st =
     (let st' = fold (\<lambda>job_id st.
            send_cancel job_id (snd (transition_metadata_status io job_id (Some Running) CancelRequested st)))
          (bt_keys (js_running st)) (st\<lparr>js_shutting_down := True\<rparr>)
      in (length (js_running st), st'))"

text \<open>
  The drain loop looks at the running jobs every 25 milliseconds; an observation is the
  clock and whether no job was running.  None: the observations end before the loop does.
\<close>

fun wait_for_drain :: "nat \<Rightarrow> (nat \<times> bool) list \<Rightarrow> bool option" where
  "wait_for_drain deadline [] = None"
| "wait_for_drain deadline ((now, idle) # obs) =
     (if idle then Some True
      else if deadline \<le> now then Some False
      else wait_for_drain deadline obs)"

section \<open>Recovery after a restart\<close>

definition RECOVERY_RUNNING_MESSAGE :: string where
  "RECOVERY_RUNNING_MESSAGE = ''runner restarted before job completion; marking job as failed''"

definition RECOVERY_CANCEL_MESSAGE :: string where
  "RECOVERY_CANCEL_MESSAGE = ''runner restarted while canceling the job; marking job as canceled''"

text \<open>Appending a line to stderr.log, on a line of its own.\<close>

definition append_line :: "string \<Rightarrow> string \<Rightarrow> string" where
  "append_line old message =
     old @ (if old \<noteq> [] \<and> \<not> ends_with newline old then newline else []) @ message @ newline"

definition append_to_stderr ::
    "faults \<Rightarrow> string \<Rightarrow> string \<Rightarrow> JobStore \<Rightarrow> (JobError, unit) result \<times> JobStore" where
  "append_to_stderr io job_id message st =
     (let path = job_file st job_id ''stderr.log'';
          old = (case utf8_checked (job_read io st job_id ''stderr.log'' jd_stderr) of
                   Inr s \<Rightarrow> s | Inl _ \<Rightarrow> [])
      in case and_then (io_try io (WriteFile path))
             (\<lambda>_. job_dir_put job_id (\<lambda>d. d\<lparr>jd_stderr := Some (append_line old message)\<rparr>) (js_files st)) of
        Inl source \<Rightarrow> (Inl (JWriteFile (path_display path) source), st)
      | Inr fs \<Rightarrow> (Inr (), st\<lparr>js_files := fs\<rparr>))"

definition append_recovery_message ::
    "faults \<Rightarrow> string \<Rightarrow> string \<Rightarrow> JobStore \<Rightarrow> (JobError, unit) result \<times> JobStore" where
  "append_recovery_message io job_id message st = append_to_stderr io job_id message st"

definition recovered_metadata ::
    "Platform \<Rightarrow> int \<Rightarrow> JobStatus \<Rightarrow> FailureCategory \<Rightarrow> JobMetadata \<Rightarrow> JobMetadata" where
  "recovered_metadata pf now status category m =
     m\<lparr>md_status := status, md_finished_at := Some (now_rfc3339 pf now),
       md_duration_ms := calculate_duration_ms pf (md_started_at m) (Some (now_rfc3339 pf now)),
       md_exit_code := None, md_terminal_reason := Some ReasonShutdown,
       md_failure_category := Some category\<rparr>"

definition remove_job_dir :: "faults \<Rightarrow> string \<Rightarrow> JobStore \<times> nat \<Rightarrow> (JobError, unit) result \<times> JobStore \<times> nat" where
  "remove_job_dir io name s =
     (let p = job_path (fst s) name in
      case io_try io (RemoveDirAll p) of
        Inl source \<Rightarrow> (Inl (JCreateDir (path_display p) source), s)
      | Inr _ \<Rightarrow> (Inr (), (fst s)\<lparr>js_files := bt_remove name (js_files (fst s))\<rparr>, snd s + 1))"

definition recover_with ::
    "Platform \<Rightarrow> faults \<Rightarrow> int \<Rightarrow> string \<Rightarrow> JobMetadata \<Rightarrow> JobStatus \<Rightarrow> FailureCategory \<Rightarrow> string \<Rightarrow>
     JobStore \<times> nat \<Rightarrow> (JobError, unit) result \<times> JobStore \<times> nat" where
  "recover_with pf io now name m status category message s =
     (case persist_metadata io name (recovered_metadata pf now status category m) (fst s) of
        (Inl e, st') \<Rightarrow> (Inl e, st', snd s)
      | (Inr _, st') \<Rightarrow>
        (case append_recovery_message io name message st' of
           (Inl e, st'') \<Rightarrow> (Inl e, st'', snd s)
         | (Inr _, st'') \<Rightarrow> (Inr (), st'', snd s + 1)))"

definition recover_job_entry ::
    "Platform \<Rightarrow> faults \<Rightarrow> int \<Rightarrow> string \<Rightarrow> JobStore \<times> nat \<Rightarrow> (JobError, unit) result \<times> JobStore \<times> nat" where
  "recover_job_entry pf io now name s =
     (let st = fst s; root = path_display (js_root_dir st) in
      case io_try io (ReadDirEntry (job_path st name)) of
        Inl source \<Rightarrow> (Inl (JReadFile root source), s)
      | Inr _ \<Rightarrow>
        (case job_dir_get (js_files st) name of
           None \<Rightarrow> (Inr (), s)
         | Some d \<Rightarrow>
           (case io_read io (job_file st name ''metadata.json'') (jd_metadata d) of
              Inl source \<Rightarrow>
                if io_kind source = KNotFound then remove_job_dir io name s
                else (Inl (JReadFile (path_display (job_file st name ''metadata.json'')) source), s)
            | Inr (Garbled _) \<Rightarrow> remove_job_dir io name s
            | Inr (Parsed m) \<Rightarrow>
                (case md_status m of
                   Running \<Rightarrow>
                     recover_with pf io now name m Failed CategoryInfra RECOVERY_RUNNING_MESSAGE s
                 | CancelRequested \<Rightarrow>
                     recover_with pf io now name m Canceled CategoryCanceled RECOVERY_CANCEL_MESSAGE s
                 | Canceling \<Rightarrow>
                     recover_with pf io now name m Canceled CategoryCanceled RECOVERY_CANCEL_MESSAGE s
                 | _ \<Rightarrow> (Inr (), s)))))"

definition recover_interrupted_jobs ::
    "Platform \<Rightarrow> faults \<Rightarrow> int \<Rightarrow> JobStore \<Rightarrow> (JobError, nat) result \<times> JobStore" where
  "recover_interrupted_jobs pf io now st =
     (case io_try io (ReadDir (js_root_dir st)) of
        Inl source \<Rightarrow> (Inl (JReadFile (path_display (js_root_dir st)) source), st)
      | Inr _ \<Rightarrow>
        (case each_st (recover_job_entry pf io now) (bt_keys (js_files st)) (st, 0) of
           (Inl e, st', recovered) \<Rightarrow> (Inl e, st')
         | (Inr _, st', recovered) \<Rightarrow> (Inr recovered, st')))"

end
