(* ===== verification/Job_Execution.thy ===== *)
theory Job_Execution
  imports Job_Store
begin

text \<open>
  The execution of a job (janus-runner/src/jobs/execution.rs): the environment of its
  process, the capture of its output under a byte limit, the loop that waits for its end, a
  cancellation, the log limit or the deadline, the registration of its outputs, and the
  final metadata.

  The process, the clock and the channels are observed: an iteration of the wait loop sees
  the clock, the branch of the select that fired and the answer of try_wait.
\<close>

section \<open>The environment of the process\<close>

definition DEFAULT_JOB_PATH :: string where
  "DEFAULT_JOB_PATH = ''/sbin:/bin:/usr/sbin:/usr/bin:/usr/local/sbin:/usr/local/bin''"

text \<open>Paths are compared by components: repeated and trailing separators do not count.\<close>

definition path_components :: "string \<Rightarrow> bool \<times> string list" where
  "path_components p =
     (path_is_absolute p, filter (\<lambda>c. c \<noteq> [] \<and> c \<noteq> ''.'') (split_on (CHR ''/'') p))"

fun join_paths :: "string list \<Rightarrow> string" where
  "join_paths [] = []"
| "join_paths [p] = p"
| "join_paths (p # q # ps) = p @ (CHR '':'') # join_paths (q # ps)"

definition add_missing_path :: "string \<Rightarrow> string list \<Rightarrow> string list" where
  "add_missing_path p ps =
     (if list_ex (\<lambda>q. path_components q = path_components p) ps then ps else ps @ [p])"

definition merged_job_path :: "string option \<Rightarrow> string" where
  "merged_job_path inherited =
     join_paths (fold add_missing_path (split_on (CHR '':'') DEFAULT_JOB_PATH)
       (case inherited of None \<Rightarrow> [] | Some p \<Rightarrow> split_on (CHR '':'') p))"

definition normalize_input_env :: "string \<Rightarrow> string" where
  "normalize_input_env name =
     ''INPUT_'' @ map to_ascii_uppercase (map (\<lambda>c. if c = CHR ''-'' then CHR ''_'' else c) name)"

definition build_job_env :: "Platform \<Rightarrow> JobStore \<Rightarrow> JobExecution \<Rightarrow> (string, string) btree_map" where
  "build_job_env pf st ex =
     (let metadata = ex_metadata ex;
          env = bt_of_list
            [(''JANUS_JOB_ID'', md_job_id metadata),
             (''JANUS_JOB_NAME'', md_name metadata),
             (''JANUS_WORKDIR'', path_display (job_file st (ex_job_id ex) ''work'')),
             (''JANUS_OUTPUT_DIR'', path_display (job_file st (ex_job_id ex) ''output'')),
             (''JANUS_METADATA_PATH'', path_display (job_file st (ex_job_id ex) ''metadata.json''))]
      in fold (\<lambda>(name, value) env.
           bt_insert (normalize_input_env name)
             (case bt_get (md_resolved_artifacts metadata) name of
                Some p \<Rightarrow> p
              | None \<Rightarrow> (case json_as_str value of Some raw \<Rightarrow> raw | None \<Rightarrow> pf_json_text pf value))
             env) (ex_raw_inputs ex) env)"

section \<open>Capturing output\<close>

definition log_limit_message :: "string \<Rightarrow> u64 \<Rightarrow> string" where
  "log_limit_message stream_name limit_bytes =
     ''job '' @ stream_name @ '' log exceeded configured limit of '' @ show_nat (unat limit_bytes)
       @ '' bytes''"

record LogLimitEvent =
  le_stream_name :: string
  le_message :: string

text \<open>
  The stream is the sequence of results of its reads: at most 8192 bytes each, the empty
  read being the end of the file.  The loop returns its result, the bytes in the log file
  and the event it sent, or None when the sequence ends before the loop does.
\<close>

fun capture_loop ::
    "u64 \<Rightarrow> string \<Rightarrow> path \<Rightarrow> (nat \<Rightarrow> IoError option) \<Rightarrow> (IoError, string) result list \<Rightarrow> nat \<Rightarrow> string \<Rightarrow>
     ((JobError, unit) result \<times> string \<times> LogLimitEvent option) option" where
  "capture_loop limit stream_name path write_fault [] written logged = None"
| "capture_loop limit stream_name path write_fault (r # rs) written logged =
     (case r of
        Inl source \<Rightarrow> Some (Inl (JReadFile (path_display path) source), logged, None)
      | Inr buffer \<Rightarrow>
          if buffer = [] then Some (Inr (), logged, None)
          else
            let remaining = unat limit - written;
                event = \<lparr>le_stream_name = stream_name, le_message = log_limit_message stream_name limit\<rparr>
            in if remaining = 0 then Some (Inr (), logged, Some event)
               else
                 let to_write = min remaining (length buffer) in
                 case write_fault written of
                   Some source \<Rightarrow> Some (Inl (JWriteFile (path_display path) source), logged, None)
                 | None \<Rightarrow>
                     if to_write < length buffer
                     then Some (Inr (), logged @ take to_write buffer, Some event)
                     else capture_loop limit stream_name path write_fault rs (written + to_write)
                            (logged @ take to_write buffer))"

definition capture_output ::
    "faults \<Rightarrow> u64 \<Rightarrow> string \<Rightarrow> path \<Rightarrow> (nat \<Rightarrow> IoError option) \<Rightarrow> (IoError, string) result list \<Rightarrow>
     ((JobError, unit) result \<times> string \<times> LogLimitEvent option) option" where
  "capture_output io limit stream_name path write_fault reads =
     (case io_try io (OpenFile path) of
        Inl source \<Rightarrow> Some (Inl (JWriteFile (path_display path) source), [], None)
      | Inr _ \<Rightarrow> capture_loop limit stream_name path write_fault reads 0 [])"

section \<open>Waiting for the process\<close>

record ExecutionOutcome =
  eo_status :: JobStatus
  eo_exit_code :: "32 word option"
  eo_message :: "string option"
  eo_terminal_reason :: TerminalReason
  eo_failure_category :: "FailureCategory option"
  eo_stdout_truncated :: bool
  eo_stderr_truncated :: bool

datatype SelectEvent = CancelSignal | LogLimit LogLimitEvent | Tick

text \<open>An exit status has a code unless a signal ended the process; zero is success.\<close>

record LoopObservation =
  ob_now :: nat
  ob_event :: SelectEvent
  ob_try_wait :: "(IoError, 32 word option option) result"
  ob_stdout_capture :: "(JobError, unit) result option"
  ob_stderr_capture :: "(JobError, unit) result option"

definition timed_out_outcome :: ExecutionOutcome where
  "timed_out_outcome =
     \<lparr>eo_status = TimedOut, eo_exit_code = None, eo_message = None,
      eo_terminal_reason = ReasonTimeout, eo_failure_category = Some CategoryTimeout,
      eo_stdout_truncated = False, eo_stderr_truncated = False\<rparr>"

definition canceled_outcome :: ExecutionOutcome where
  "canceled_outcome =
     \<lparr>eo_status = Canceled, eo_exit_code = None, eo_message = None,
      eo_terminal_reason = ReasonCanceled, eo_failure_category = Some CategoryCanceled,
      eo_stdout_truncated = False, eo_stderr_truncated = False\<rparr>"

definition log_limit_outcome :: "LogLimitEvent \<Rightarrow> ExecutionOutcome" where
  "log_limit_outcome event =
     \<lparr>eo_status = Failed, eo_exit_code = None, eo_message = Some (le_message event),
      eo_terminal_reason = ReasonLogLimitExceeded, eo_failure_category = Some CategoryInfra,
      eo_stdout_truncated = (le_stream_name event = ''stdout''),
      eo_stderr_truncated = (le_stream_name event = ''stderr'')\<rparr>"

definition exited_outcome :: "32 word option \<Rightarrow> ExecutionOutcome" where
  "exited_outcome code =
     (let success = (code = Some 0) in
      \<lparr>eo_status = (if success then Success else Failed), eo_exit_code = code, eo_message = None,
       eo_terminal_reason = (if success then ReasonSuccess else ReasonExitCode),
       eo_failure_category = (if success then None else Some CategoryJob),
       eo_stdout_truncated = False, eo_stderr_truncated = False\<rparr>)"

text \<open>
  The wait loop.  None means that the observations end while the loop still waits; a
  capture that never returns (the second None) blocks it for good, whatever follows.
\<close>

fun execute_loop ::
    "string \<Rightarrow> nat \<Rightarrow> LoopObservation list \<Rightarrow> (JobError, ExecutionOutcome) result option" where
  "execute_loop script deadline [] = None"
| "execute_loop script deadline (ob # obs) =
     (if deadline \<le> ob_now ob then Some (Inr timed_out_outcome)
      else case ob_event ob of
        CancelSignal \<Rightarrow> Some (Inr canceled_outcome)
      | LogLimit event \<Rightarrow> Some (Inr (log_limit_outcome event))
      | Tick \<Rightarrow>
          (case ob_try_wait ob of
             Inl source \<Rightarrow> Some (Inl (JWaitProcess script source))
           | Inr (Some code) \<Rightarrow>
               (case ob_stdout_capture ob of
                  None \<Rightarrow> None
                | Some (Inl e) \<Rightarrow> Some (Inl e)
                | Some (Inr _) \<Rightarrow>
                    (case ob_stderr_capture ob of
                       None \<Rightarrow> None
                     | Some (Inl e) \<Rightarrow> Some (Inl e)
                     | Some (Inr _) \<Rightarrow> Some (Inr (exited_outcome code))))
           | Inr None \<Rightarrow> execute_loop script deadline obs))"

definition execute_process ::
    "(IoError, unit) result \<Rightarrow> nat \<Rightarrow> LoopObservation list \<Rightarrow> JobExecution \<Rightarrow>
     (JobError, ExecutionOutcome) result option" where
  "execute_process spawned started obs ex =
     (case spawned of
        Inl source \<Rightarrow> Some (Inl (JSpawnProcess (jm_script (ex_manifest ex)) source))
      | Inr _ \<Rightarrow>
          execute_loop (jm_script (ex_manifest ex))
            (started + unat (jm_timeout_seconds (ex_manifest ex)) * nanos_per_second) obs)"

text \<open>The step of the loop that a received cancellation takes before the process is ended.\<close>

definition note_canceling :: "faults \<Rightarrow> string \<Rightarrow> JobStore \<Rightarrow> JobStore" where
  "note_canceling io job_id st = snd (transition_metadata_status io job_id None Canceling st)"

subsection \<open>Ending the process\<close>

definition CANCEL_GRACE_PERIOD_SECONDS :: nat where "CANCEL_GRACE_PERIOD_SECONDS = 2"

datatype ProcessAction = SendTerm | SendKill | KillChild | WaitChild

text \<open>The grace period: True when the process ended, None when the observations end first.\<close>

fun grace_loop :: "nat \<Rightarrow> (nat \<times> (IoError, bool) result) list \<Rightarrow> bool option" where
  "grace_loop deadline [] = None"
| "grace_loop deadline ((now, w) # obs) =
     (case w of
        Inr True \<Rightarrow> Some True
      | Inr False \<Rightarrow> if now < deadline then grace_loop deadline obs else Some False
      | Inl _ \<Rightarrow> Some False)"

definition terminate_job ::
    "bool \<Rightarrow> bool \<Rightarrow> bool \<Rightarrow> nat \<Rightarrow> (nat \<times> (IoError, bool) result) list \<Rightarrow> ProcessAction list option" where
  "terminate_job has_pid term_ok kill_ok now obs =
     (let kill_group = (if kill_ok then [SendKill, WaitChild] else [SendKill, KillChild, WaitChild]) in
      if \<not> has_pid then Some [KillChild, WaitChild]
      else if \<not> term_ok then Some (SendTerm # kill_group)
      else case grace_loop (now + CANCEL_GRACE_PERIOD_SECONDS * nanos_per_second) obs of
        None \<Rightarrow> None
      | Some True \<Rightarrow> Some [SendTerm]
      | Some False \<Rightarrow> Some (SendTerm # kill_group))"

section \<open>Registering outputs\<close>

definition safe_output_path :: "path \<Rightarrow> string \<Rightarrow> path option" where
  "safe_output_path output_dir relative_path =
     (if relative_path = [] \<or> path_is_absolute relative_path then None
      else if path_has_parent_component relative_path then None
      else Some (output_dir @ [relative_path]))"

definition invalid_output :: "path \<Rightarrow> string \<Rightarrow> JobError" where
  "invalid_output path message = JReadFile (path_display path) (IoError KInvalidData message)"

text \<open>The value of one output, from the file it names.\<close>

definition read_output_value ::
    "Platform \<Rightarrow> faults \<Rightarrow> int \<Rightarrow> string \<Rightarrow> ArtifactStore \<Rightarrow> OutputType \<Rightarrow> path \<Rightarrow> string \<Rightarrow> ArtifactFiles \<Rightarrow>
     (JobError, JobOutput) result \<times> ArtifactFiles" where
  "read_output_value pf io now uuid ast kind path content afs =
     (let raw = map_err (JReadFile (path_display path)) (utf8_checked (io_read io path (Some content))) in
      case kind of
        TypeArtifact \<Rightarrow>
          (case store_file pf io now uuid ast path (Some content) afs of
             (Inl e, afs') \<Rightarrow> (Inl (JArtifact e), afs')
           | (Inr stored, afs') \<Rightarrow>
               (Inr (OutArtifact (am_artifact_id stored) (am_sha256 stored) (am_size stored)), afs'))
      | TypeString \<Rightarrow> (and_then raw (\<lambda>s. Inr (OutString s)), afs)
      | TypeInteger \<Rightarrow>
          (and_then raw (\<lambda>s. and_then
             (ok_or (parse_i64 (trim s)) (invalid_output path ''output must contain a valid integer''))
             (\<lambda>v. Inr (OutInteger (of_int v)))), afs)
      | TypeBoolean \<Rightarrow>
          (and_then raw (\<lambda>s.
             if trim s = ''true'' then Inr (OutBoolean True)
             else if trim s = ''false'' then Inr (OutBoolean False)
             else Inl (invalid_output path ''output must contain true or false'')), afs)
      | TypeJson \<Rightarrow>
          (and_then raw (\<lambda>s. and_then
             (map_err (invalid_output path) (pf_json_parse pf s))
             (\<lambda>v. if v = JNull then Inl (invalid_output path ''output json must not be null'')
                  else Inr (OutJson v))), afs))"

text \<open>One iteration; the state is the outputs registered so far and the artifact files.\<close>

definition register_output ::
    "Platform \<Rightarrow> faults \<Rightarrow> int \<Rightarrow> (string \<Rightarrow> string) \<Rightarrow> ArtifactStore \<Rightarrow> path \<Rightarrow> (string \<Rightarrow> OutputNode option) \<Rightarrow>
     string \<times> OutputSpec \<Rightarrow> (string, JobOutput) btree_map \<times> ArtifactFiles \<Rightarrow>
     (JobError, unit) result \<times> (string, JobOutput) btree_map \<times> ArtifactFiles" where
  "register_output pf io now uuids ast output_dir nodes entry s =
     (let (name, spec) = entry in
      case safe_output_path output_dir (os_path spec) of
        None \<Rightarrow> (Inl (JMissingOutput name (os_path spec)), s)
      | Some path \<Rightarrow>
        (case and_then (io_try io (StatFile path)) (\<lambda>_. ok_or (nodes (os_path spec)) io_not_found) of
           Inl source \<Rightarrow>
             if io_kind source = KNotFound \<and> os_required spec
             then (Inl (JMissingOutput name (path_display path)), s)
             else if io_kind source = KNotFound then (Inr (), s)
             else (Inl (JReadFile (path_display path) source), s)
         | Inr OutputSubdir \<Rightarrow> (Inl (JMissingOutput name (path_display path)), s)
         | Inr (OutputFile content) \<Rightarrow>
             (case read_output_value pf io now (uuids name) ast (os_kind spec) path content (snd s) of
                (Inl e, afs) \<Rightarrow> (Inl e, fst s, afs)
              | (Inr out, afs) \<Rightarrow> (Inr (), bt_insert name out (fst s), afs))))"

definition register_outputs ::
    "Platform \<Rightarrow> faults \<Rightarrow> int \<Rightarrow> (string \<Rightarrow> string) \<Rightarrow> ArtifactStore \<Rightarrow> path \<Rightarrow> (string \<Rightarrow> OutputNode option) \<Rightarrow>
     (string, OutputSpec) btree_map \<Rightarrow> (string, JobOutput) btree_map \<times> ArtifactFiles \<Rightarrow>
     (JobError, unit) result \<times> (string, JobOutput) btree_map \<times> ArtifactFiles" where
  "register_outputs pf io now uuids ast output_dir nodes specs s =
     each_st (register_output pf io now uuids ast output_dir nodes) specs s"

section \<open>Finishing\<close>

definition append_runtime_message ::
    "faults \<Rightarrow> string \<Rightarrow> string \<Rightarrow> JobStore \<Rightarrow> (JobError, unit) result \<times> JobStore" where
  "append_runtime_message io job_id message st = append_to_stderr io job_id message st"

definition append_error ::
    "faults \<Rightarrow> string \<Rightarrow> JobError \<Rightarrow> JobStore \<Rightarrow> (JobError, unit) result \<times> JobStore" where
  "append_error io job_id e st = append_runtime_message io job_id (JobError_display e) st"

fun classify_terminal_reason :: "TerminalReason \<Rightarrow> JobStatus \<Rightarrow> TerminalReason" where
  "classify_terminal_reason reason Success = ReasonSuccess"
| "classify_terminal_reason reason Failed = reason"
| "classify_terminal_reason reason TimedOut = ReasonTimeout"
| "classify_terminal_reason reason Canceled = ReasonCanceled"
| "classify_terminal_reason reason Rejected = ReasonOutputRegistrationFailed"
| "classify_terminal_reason reason _ = reason"

definition option_or :: "'a option \<Rightarrow> 'a option \<Rightarrow> 'a option" where
  "option_or a b = (case a of None \<Rightarrow> b | Some x \<Rightarrow> Some x)"

fun classify_failure_category :: "FailureCategory option \<Rightarrow> JobStatus \<Rightarrow> FailureCategory option" where
  "classify_failure_category category Success = None"
| "classify_failure_category category TimedOut = Some CategoryTimeout"
| "classify_failure_category category Canceled = Some CategoryCanceled"
| "classify_failure_category category Failed = option_or category (Some CategoryInfra)"
| "classify_failure_category category Rejected = option_or category (Some CategoryInfra)"
| "classify_failure_category category _ = category"

fun classify_job_error_reason :: "JobError \<Rightarrow> TerminalReason" where
  "classify_job_error_reason (JSpawnProcess _ _) = ReasonSpawnError"
| "classify_job_error_reason (JWaitProcess _ _) = ReasonWaitError"
| "classify_job_error_reason (JReadFile _ _) = ReasonCaptureError"
| "classify_job_error_reason (JWriteFile _ _) = ReasonCaptureError"
| "classify_job_error_reason (JMissingOutput _ _) = ReasonMissingRequiredOutput"
| "classify_job_error_reason _ = ReasonOutputRegistrationFailed"

definition file_size :: "string option \<Rightarrow> u64" where
  "file_size content = (case content of None \<Rightarrow> 0 | Some s \<Rightarrow> of_nat (length s))"

fun is_artifact_output :: "JobOutput \<Rightarrow> bool" where
  "is_artifact_output (OutArtifact _ _ _) = True"
| "is_artifact_output _ = False"

fun artifact_output_size :: "JobOutput \<Rightarrow> u64" where
  "artifact_output_size (OutArtifact _ _ sz) = sz"
| "artifact_output_size _ = 0"

definition build_output_metadata ::
    "string option \<Rightarrow> bool \<Rightarrow> string option \<Rightarrow> bool \<Rightarrow> (string, JobOutput) btree_map \<Rightarrow> JobOutputMetadata" where
  "build_output_metadata stdout stdout_truncated stderr stderr_truncated outputs =
     \<lparr>om_stdout = \<lparr>stream_bytes = file_size stdout, stream_truncated = stdout_truncated\<rparr>,
      om_stderr = \<lparr>stream_bytes = file_size stderr, stream_truncated = stderr_truncated\<rparr>,
      om_artifacts =
        \<lparr>artifact_count = of_nat (length (filter is_artifact_output (bt_values outputs))),
         artifact_bytes = sum_list (map artifact_output_size (bt_values outputs))\<rparr>\<rparr>"

definition job_log :: "(JobDir \<Rightarrow> string option) \<Rightarrow> string \<Rightarrow> JobStore \<Rightarrow> string option" where
  "job_log f job_id st = (case job_dir_get (js_files st) job_id of None \<Rightarrow> None | Some d \<Rightarrow> f d)"

definition output_nodes :: "string \<Rightarrow> JobStore \<Rightarrow> string \<Rightarrow> OutputNode option" where
  "output_nodes job_id st p =
     (case job_dir_get (js_files st) job_id of
        None \<Rightarrow> None
      | Some d \<Rightarrow> (case jd_output d of None \<Rightarrow> None | Some fs \<Rightarrow> bt_get fs p))"

definition remove_work_dir :: "faults \<Rightarrow> string \<Rightarrow> JobStore \<Rightarrow> JobStore" where
  "remove_work_dir io job_id st =
     (case job_dir_get (js_files st) job_id of
        None \<Rightarrow> st
      | Some d \<Rightarrow>
          (case io_try io (RemoveDirAll (job_file st job_id ''work'')) of
             Inl _ \<Rightarrow> st
           | Inr _ \<Rightarrow> st\<lparr>js_files := bt_insert job_id (JobEntryDir (d\<lparr>jd_work := False\<rparr>)) (js_files st)\<rparr>))"

text \<open>The part of finish_job that decides the final status, registering outputs on success.\<close>

definition final_status ::
    "Platform \<Rightarrow> faults \<Rightarrow> int \<Rightarrow> (string \<Rightarrow> string) \<Rightarrow> ArtifactStore \<Rightarrow> JobExecution \<Rightarrow> ExecutionOutcome \<Rightarrow>
     JobStore \<times> ArtifactFiles \<Rightarrow>
     JobStatus \<times> TerminalReason \<times> FailureCategory option \<times> (string, JobOutput) btree_map \<times>
     JobStore \<times> ArtifactFiles" where
  "final_status pf io now uuids ast ex outcome s =
     (let (st, afs) = s; outputs = md_outputs (ex_metadata ex) in
      if eo_status outcome = Success then
        case register_outputs pf io now uuids ast (job_file st (ex_job_id ex) ''output'')
               (output_nodes (ex_job_id ex) st) (jm_outputs (ex_manifest ex)) (outputs, afs) of
          (Inr _, outputs', afs') \<Rightarrow>
            (Success, eo_terminal_reason outcome, eo_failure_category outcome, outputs', st, afs')
        | (Inl e, outputs', afs') \<Rightarrow>
            (Failed,
             (case e of JMissingOutput _ _ \<Rightarrow> ReasonMissingRequiredOutput
              | _ \<Rightarrow> ReasonOutputRegistrationFailed),
             Some CategoryInfra, outputs', snd (append_error io (ex_job_id ex) e st), afs')
      else (eo_status outcome, eo_terminal_reason outcome, eo_failure_category outcome, outputs, st, afs))"

text \<open>The final metadata of a job whose process was waited for.\<close>

definition finished_metadata ::
    "Platform \<Rightarrow> int \<Rightarrow> ExecutionOutcome \<Rightarrow> JobStatus \<Rightarrow> TerminalReason \<Rightarrow> FailureCategory option \<Rightarrow>
     (string, JobOutput) btree_map \<Rightarrow> string option \<Rightarrow> string option \<Rightarrow> JobMetadata \<Rightarrow> JobMetadata" where
  "finished_metadata pf now outcome status reason category outputs stdout stderr m =
     m\<lparr>md_status := status, md_exit_code := eo_exit_code outcome,
       md_finished_at := Some (now_rfc3339 pf now),
       md_duration_ms := calculate_duration_ms pf (md_started_at m) (Some (now_rfc3339 pf now)),
       md_terminal_reason := Some (if status = Success then ReasonSuccess
                                   else classify_terminal_reason reason status),
       md_failure_category := classify_failure_category category status,
       md_outputs := outputs,
       md_output_metadata := build_output_metadata stdout (eo_stdout_truncated outcome)
         stderr (eo_stderr_truncated outcome) outputs\<rparr>"

definition errored_metadata ::
    "Platform \<Rightarrow> int \<Rightarrow> JobError \<Rightarrow> string option \<Rightarrow> string option \<Rightarrow> JobMetadata \<Rightarrow> JobMetadata" where
  "errored_metadata pf now e stdout stderr m =
     m\<lparr>md_status := Failed, md_exit_code := None, md_finished_at := Some (now_rfc3339 pf now),
       md_duration_ms := calculate_duration_ms pf (md_started_at m) (Some (now_rfc3339 pf now)),
       md_terminal_reason := Some (classify_job_error_reason e),
       md_failure_category := Some CategoryInfra,
       md_output_metadata := build_output_metadata stdout False stderr False (md_outputs m)\<rparr>"

text \<open>stderr.log is replaced by the text of an error that ended the execution.\<close>

definition overwrite_stderr :: "faults \<Rightarrow> string \<Rightarrow> string \<Rightarrow> JobStore \<Rightarrow> JobStore" where
  "overwrite_stderr io job_id text st =
     (case and_then (io_try io (WriteFile (job_file st job_id ''stderr.log'')))
             (\<lambda>_. job_dir_put job_id (\<lambda>d. d\<lparr>jd_stderr := Some text\<rparr>) (js_files st)) of
        Inl _ \<Rightarrow> st
      | Inr fs \<Rightarrow> st\<lparr>js_files := fs\<rparr>)"

definition end_task :: "string \<Rightarrow> JobStore \<Rightarrow> JobStore" where
  "end_task job_id st = (unregister_running job_id st)\<lparr>js_tasks := bt_remove job_id (js_tasks st)\<rparr>"

definition finish_job ::
    "Platform \<Rightarrow> faults \<Rightarrow> int \<Rightarrow> (string \<Rightarrow> string) \<Rightarrow> ArtifactStore \<Rightarrow> JobExecution \<Rightarrow>
     (JobError, ExecutionOutcome) result \<Rightarrow> JobStore \<times> ArtifactFiles \<Rightarrow> JobStore \<times> ArtifactFiles" where
  "finish_job pf io now uuids ast ex outcome s =
     (let (st, afs) = s; job_id = ex_job_id ex in
      case outcome of
        Inr oc \<Rightarrow>
          (let st1 = (case eo_message oc of None \<Rightarrow> st
                      | Some message \<Rightarrow> snd (append_runtime_message io job_id message st));
               (status, reason, category, outputs, st2, afs') =
                 final_status pf io now uuids ast ex oc (st1, afs);
               metadata = finished_metadata pf now oc status reason category outputs
                 (job_log jd_stdout job_id st2) (job_log jd_stderr job_id st2) (ex_metadata ex);
               st3 = snd (persist_metadata io job_id metadata st2);
               st4 = (if status = Success \<and> ex_cleanup_successful_workdirs ex
                         \<or> status \<in> {Failed, TimedOut} \<and> \<not> ex_keep_failed_workdirs ex
                      then remove_work_dir io job_id st3 else st3)
           in (end_task job_id st4, afs'))
      | Inl e \<Rightarrow>
          (let metadata = errored_metadata pf now e (job_log jd_stdout job_id st)
                 (job_log jd_stderr job_id st) (ex_metadata ex);
               st1 = snd (persist_metadata io job_id metadata st);
               st2 = overwrite_stderr io job_id (JobError_display e @ newline) st1
           in (end_task job_id st2, afs)))"

text \<open>A run is its execution followed by its finish; None while the process still runs.\<close>

definition run_job ::
    "Platform \<Rightarrow> faults \<Rightarrow> int \<Rightarrow> (string \<Rightarrow> string) \<Rightarrow> ArtifactStore \<Rightarrow> (IoError, unit) result \<Rightarrow> nat \<Rightarrow>
     LoopObservation list \<Rightarrow> JobExecution \<Rightarrow> JobStore \<times> ArtifactFiles \<Rightarrow> (JobStore \<times> ArtifactFiles) option" where
  "run_job pf io now uuids ast spawned started obs ex s =
     (case execute_process spawned started obs ex of
        None \<Rightarrow> None
      | Some outcome \<Rightarrow>
          (let st1 = (if outcome = Inr canceled_outcome then note_canceling io (ex_job_id ex) (fst s)
                      else fst s)
           in Some (finish_job pf io now uuids ast ex outcome (st1, snd s))))"

section \<open>Lemmas\<close>

subsection \<open>The log limit\<close>

lemma capture_loop_chunks:
  assumes "[] \<notin> set chunks" and "length logged = written" and "written \<le> unat limit"
  shows "capture_loop limit name path (\<lambda>_. None) (map Inr chunks @ [Inr []]) written logged =
    Some (Inr (), take (unat limit) (logged @ concat chunks),
      if unat limit < length (logged @ concat chunks)
      then Some \<lparr>le_stream_name = name, le_message = log_limit_message name limit\<rparr> else None)"
  using assms
proof (induction chunks arbitrary: written logged)
  case (Cons c cs)
  have c: "c \<noteq> []" and cs: "[] \<notin> set cs" using Cons.prems(1) by auto
  show ?case
  proof (cases "unat limit - written < length c")
    case True
    then have "take (unat limit) (logged @ c @ concat cs) = logged @ take (unat limit - written) c"
      and "unat limit < length (logged @ c @ concat cs)"
      using Cons.prems(2,3) by auto
    then show ?thesis using c Cons.prems(2,3) True by (auto simp: Let_def min_def)
  next
    case False
    moreover have "0 < length c" using c by simp
    ultimately have "length c \<le> unat limit - written" "unat limit - written \<noteq> 0" by linarith+
    moreover have "capture_loop limit name path (\<lambda>_. None) (map Inr cs @ [Inr []])
        (written + length c) (logged @ c) = Some (Inr (), take (unat limit) ((logged @ c) @ concat cs),
          if unat limit < length ((logged @ c) @ concat cs)
          then Some \<lparr>le_stream_name = name, le_message = log_limit_message name limit\<rparr> else None)"
      using calculation Cons.prems(2,3) by (intro Cons.IH [OF cs]) auto
    ultimately show ?thesis using c by (simp add: Let_def min_def)
  qed
qed simp

subsection \<open>The wait loop\<close>

text \<open>What a loop can return, branch by branch.\<close>

definition captures_return :: "LoopObservation \<Rightarrow> bool" where
  "captures_return ob = (ob_stdout_capture ob \<noteq> None \<and> ob_stderr_capture ob \<noteq> None)"

lemma execute_loop_returns:
  assumes "list_ex (\<lambda>ob. deadline \<le> ob_now ob) obs" and "list_all captures_return obs"
  shows "execute_loop script deadline obs \<noteq> None"
  using assms
  by (induction obs)
    (auto simp: captures_return_def split: SelectEvent.splits sum.splits option.splits)

lemma execute_loop_terminal:
  assumes "execute_loop script deadline obs = Some (Inr oc)"
  shows "is_terminal (eo_status oc) \<and> eo_status oc \<noteq> Rejected \<and>
    (eo_status oc = TimedOut \<longleftrightarrow> oc = timed_out_outcome) \<and>
    (eo_status oc = Canceled \<longleftrightarrow> oc = canceled_outcome)"
  using assms
  by (induction obs)
    (auto simp: timed_out_outcome_def canceled_outcome_def log_limit_outcome_def exited_outcome_def
      Let_def split: SelectEvent.splits sum.splits option.splits if_splits)

text \<open>The first iteration at which the process is seen to have exited decides, whatever the
  clock says later, when its output pipe stays open.\<close>

lemma execute_loop_blocked:
  assumes "\<forall>o' \<in> set before. ob_now o' < deadline \<and> ob_event o' = Tick \<and> ob_try_wait o' = Inr None"
    and "ob_now ob < deadline" and "ob_event ob = Tick" and "ob_try_wait ob = Inr (Some code)"
    and "ob_stdout_capture ob = None"
  shows "execute_loop script deadline (before @ ob # after) = None"
  using assms by (induction before) auto

subsection \<open>Outputs\<close>

fun output_has_type :: "JobOutput \<Rightarrow> OutputType \<Rightarrow> bool" where
  "output_has_type (OutArtifact _ _ _) k = (k = TypeArtifact)"
| "output_has_type (OutString _) k = (k = TypeString)"
| "output_has_type (OutInteger _) k = (k = TypeInteger)"
| "output_has_type (OutBoolean _) k = (k = TypeBoolean)"
| "output_has_type (OutJson v) k = (k = TypeJson \<and> v \<noteq> JNull)"

lemma safe_output_path_iff:
  "safe_output_path d p \<noteq> None \<longleftrightarrow> relative_path_ok p"
  by (simp add: safe_output_path_def relative_path_ok_def)

lemma read_output_value_type:
  assumes "read_output_value pf io now uuid ast kind path content afs = (Inr out, afs')"
  shows "output_has_type out kind"
  using assms
  by (cases kind) (auto simp: read_output_value_def Let_def split: sum.splits prod.splits if_splits)

text \<open>What is known of the outputs registered so far.\<close>

definition outputs_typed :: "(string, OutputSpec) btree_map \<Rightarrow> (string, JobOutput) btree_map \<Rightarrow> bool" where
  "outputs_typed specs outs =
     (bt_wf outs \<and> (\<forall>n out. bt_get outs n = Some out \<longrightarrow>
        (\<exists>spec. (n, spec) \<in> set specs \<and> output_has_type out (os_kind spec))))"

lemma register_output_typed:
  assumes "register_output pf io now uuids ast d nodes e s = (r, t)" and "e \<in> set specs"
    and "outputs_typed specs (fst s)"
  shows "outputs_typed specs (fst t)"
  using assms read_output_value_type
  by (fastforce simp: register_output_def outputs_typed_def Let_def
      split: option.splits sum.splits prod.splits if_splits OutputNode.splits)

lemma register_outputs_typed:
  assumes "register_outputs pf io now uuids ast d nodes specs s = (r, t)"
    and "outputs_typed specs (fst s)"
  shows "outputs_typed specs (fst t)"
  using each_st_invariant [where P = "\<lambda>s. outputs_typed specs (fst s)",
      OF assms(1) [unfolded register_outputs_def] assms(2)] register_output_typed
  by blast

lemma register_output_keeps:
  assumes "register_output pf io now uuids ast d nodes e s = (r, t)" and "bt_wf (fst s)"
  shows "bt_wf (fst t) \<and> (bt_contains n (fst s) \<longrightarrow> bt_contains n (fst t))"
  using assms
  by (auto simp: register_output_def bt_contains_def Let_def
      split: option.splits sum.splits prod.splits if_splits OutputNode.splits)

lemma register_output_required:
  assumes "register_output pf io now uuids ast d nodes (n, spec) s = (Inr u, t)"
    and "os_required spec" and "bt_wf (fst s)"
  shows "bt_contains n (fst t)"
  using assms
  by (auto simp: register_output_def bt_contains_def Let_def
      split: option.splits sum.splits prod.splits if_splits OutputNode.splits)

lemma register_outputs_required:
  assumes "register_outputs pf io now uuids ast d nodes specs s = (Inr u, t)" and "bt_wf (fst s)"
  shows "bt_wf (fst t) \<and> (\<forall>n. bt_contains n (fst s) \<longrightarrow> bt_contains n (fst t)) \<and>
    (\<forall>(n, spec) \<in> set specs. os_required spec \<longrightarrow> bt_contains n (fst t))"
  using assms unfolding register_outputs_def
proof (induction specs arbitrary: s)
  case (Cons e specs)
  obtain n spec where e: "e = (n, spec)" by force
  obtain s1 where s1: "register_output pf io now uuids ast d nodes e s = (Inr (), s1)"
    and rest: "each_st (register_output pf io now uuids ast d nodes) specs s1 = (Inr u, t)"
    using Cons.prems(1) by (auto simp: try_then_Inr)
  note keep = register_output_keeps [OF s1 Cons.prems(2)]
  note IH = Cons.IH [OF rest keep [THEN conjunct1]]
  show ?case
    using IH keep register_output_required [OF s1 [unfolded e] _ Cons.prems(2)]
    by (auto simp: e)
qed simp

subsection \<open>The final metadata\<close>

text \<open>A finished job's status, reason and failure category agree.\<close>

definition terminal_consistent :: "JobMetadata \<Rightarrow> bool" where
  "terminal_consistent m =
     (is_terminal (md_status m) \<and> md_finished_at m \<noteq> None \<and>
      (md_status m = Success \<longleftrightarrow> md_failure_category m = None) \<and>
      (md_status m = Success \<longrightarrow> md_terminal_reason m = Some ReasonSuccess) \<and>
      (md_status m = TimedOut \<longrightarrow> md_terminal_reason m = Some ReasonTimeout
         \<and> md_failure_category m = Some CategoryTimeout) \<and>
      (md_status m = Canceled \<longrightarrow> md_failure_category m = Some CategoryCanceled))"

lemma finished_metadata_consistent:
  "is_terminal status \<Longrightarrow>
   terminal_consistent (finished_metadata pf now oc status reason category outs so se m)"
  by (cases status) (auto simp: terminal_consistent_def finished_metadata_def option_or_def
      split: option.splits)

lemma errored_metadata_consistent: "terminal_consistent (errored_metadata pf now e so se m)"
  by (simp add: terminal_consistent_def errored_metadata_def)

lemma recovered_metadata_consistent:
  "(status, category) \<in> {(Failed, CategoryInfra), (Canceled, CategoryCanceled)} \<Longrightarrow>
   terminal_consistent (recovered_metadata pf now status category m)"
  by (auto simp: terminal_consistent_def recovered_metadata_def)

section \<open>Properties\<close>

text \<open>The search path of the jobs, entry by entry.\<close>

lemma split_on_nonempty [simp]: "split_on d s \<noteq> []"
  by (induction s) (auto split: list.splits)

lemma split_on_seps: "w \<in> set (split_on d s) \<Longrightarrow> d \<notin> set w"
proof (induction s arbitrary: w)
  case (Cons c s)
  then show ?case by (cases "split_on d s") (auto split: if_splits)
qed simp

lemma split_on_join:
  assumes "ps \<noteq> []" and "\<forall>p \<in> set ps. CHR '':'' \<notin> set p"
  shows "split_on (CHR '':'') (join_paths ps) = ps"
  using assms
  by (induction ps rule: join_paths.induct) (simp_all add: split_on_no_sep split_on_append_sep)

lemma join_split_on [simp]: "join_paths (split_on (CHR '':'') s) = s"
proof (induction s)
  case (Cons c s)
  obtain w ws where w: "split_on (CHR '':'') s = w # ws"
    by (cases "split_on (CHR '':'') s") auto
  then show ?case using Cons by (cases ws) auto
qed simp

definition has_path :: "string list \<Rightarrow> string \<Rightarrow> bool" where
  "has_path ps p = (\<exists>q \<in> set ps. path_components q = path_components p)"

lemma add_missing_has: "has_path (add_missing_path p ps) q \<longleftrightarrow> has_path ps q \<or> path_components p = path_components q"
  by (auto simp: add_missing_path_def has_path_def list_ex_iff)

lemma fold_missing_has:
  "has_path (fold add_missing_path ds ps) q \<longleftrightarrow> has_path ps q \<or> (\<exists>d \<in> set ds. path_components d = path_components q)"
  by (induction ds arbitrary: ps) (auto simp: add_missing_has)

lemma fold_missing_append: "\<exists>es. fold add_missing_path ds ps = ps @ es \<and> set es \<subseteq> set ds"
proof (induction ds arbitrary: ps)
  case (Cons d ds)
  have "\<exists>x. add_missing_path d ps = ps @ x \<and> set x \<subseteq> {d}"
    by (cases "list_ex (\<lambda>q. path_components q = path_components d) ps")
      (simp_all add: add_missing_path_def)
  then obtain x where x: "add_missing_path d ps = ps @ x" "set x \<subseteq> {d}" by blast
  obtain es where "fold add_missing_path ds (ps @ x) = (ps @ x) @ es" "set es \<subseteq> set ds"
    using Cons.IH by blast
  then show ?case using x by (intro exI [where x = "x @ es"]) auto
qed simp

lemma fold_missing_id: "\<forall>d \<in> set ds. has_path ps d \<Longrightarrow> fold add_missing_path ds ps = ps"
  by (induction ds) (auto simp: add_missing_path_def has_path_def list_ex_iff)

text \<open>The search path of a job keeps the inherited directories, in their order and before
everything else, holds each of the default directories once, and is not extended by a second
merge.\<close>

theorem job_path_merged:
  assumes "p = merged_job_path (Some inherited)"
  shows "\<exists>es. split_on (CHR '':'') p = split_on (CHR '':'') inherited @ es
      \<and> set es \<subseteq> set (split_on (CHR '':'') DEFAULT_JOB_PATH)
      \<and> (\<forall>d \<in> set (split_on (CHR '':'') DEFAULT_JOB_PATH). has_path (split_on (CHR '':'') p) d)
      \<and> merged_job_path (Some p) = p"
proof -
  let ?ds = "split_on (CHR '':'') DEFAULT_JOB_PATH" and ?ps = "split_on (CHR '':'') inherited"
  obtain es where es: "fold add_missing_path ?ds ?ps = ?ps @ es" "set es \<subseteq> set ?ds"
    using fold_missing_append by blast
  have p: "split_on (CHR '':'') p = ?ps @ es"
    unfolding assms merged_job_path_def option.case es(1)
    by (rule split_on_join) (use es(2) split_on_seps in auto)
  have all: "\<forall>d \<in> set ?ds. has_path (?ps @ es) d"
    unfolding es(1) [symmetric] fold_missing_has by auto
  have "merged_job_path (Some p) = p"
    unfolding merged_job_path_def [of "Some p"] option.case p fold_missing_id [OF all]
    by (simp add: p [symmetric])
  then show ?thesis using p es(2) all by auto
qed

theorem job_path_merged_witness:
  "\<exists>es. split_on (CHR '':'') (merged_job_path (Some ''/opt/bin:/bin'')) = [''/opt/bin'', ''/bin''] @ es"
  using job_path_merged [OF refl, of "''/opt/bin:/bin''"] by auto

text \<open>The variables of a job's inputs, one after the other.\<close>

definition input_env_value :: "Platform \<Rightarrow> JobExecution \<Rightarrow> string \<Rightarrow> json \<Rightarrow> string" where
  "input_env_value pf ex name value =
     (case bt_get (md_resolved_artifacts (ex_metadata ex)) name of
        Some p \<Rightarrow> p
      | None \<Rightarrow> (case json_as_str value of Some raw \<Rightarrow> raw | None \<Rightarrow> pf_json_text pf value))"

lemma find_snoc:
  "find P (xs @ [x]) = (case find P xs of None \<Rightarrow> if P x then Some x else None | Some y \<Rightarrow> Some y)"
  by (induction xs) auto

lemma input_env_get:
  assumes "bt_wf env"
  shows "bt_get (fold (\<lambda>(name, value). bt_insert (normalize_input_env name)
      (input_env_value pf ex name value)) inputs env) k =
    (case find (\<lambda>e. normalize_input_env (fst e) = k) (rev inputs) of
       Some (name, value) \<Rightarrow> Some (input_env_value pf ex name value) | None \<Rightarrow> bt_get env k)"
  using assms
proof (induction inputs arbitrary: env)
  case (Cons e inputs)
  obtain n v where e: "e = (n, v)" by force
  show ?case
    using Cons.IH [of "bt_insert (normalize_input_env n) (input_env_value pf ex n v) env"] Cons.prems
    by (cases "find (\<lambda>e. normalize_input_env (fst e) = k) (rev inputs)") (auto simp: e find_snoc)
qed simp

lemma build_job_env_get:
  "bt_get (build_job_env pf st ex) k =
    (case find (\<lambda>e. normalize_input_env (fst e) = k) (rev (ex_raw_inputs ex)) of
       Some (name, value) \<Rightarrow> Some (input_env_value pf ex name value)
     | None \<Rightarrow> map_of
        [(''JANUS_METADATA_PATH'', path_display (job_file st (ex_job_id ex) ''metadata.json'')),
         (''JANUS_OUTPUT_DIR'', path_display (job_file st (ex_job_id ex) ''output'')),
         (''JANUS_WORKDIR'', path_display (job_file st (ex_job_id ex) ''work'')),
         (''JANUS_JOB_NAME'', md_name (ex_metadata ex)),
         (''JANUS_JOB_ID'', md_job_id (ex_metadata ex))] k)"
proof -
  have "build_job_env pf st ex = fold (\<lambda>(name, value). bt_insert (normalize_input_env name)
      (input_env_value pf ex name value)) (ex_raw_inputs ex)
      (bt_of_list [(''JANUS_JOB_ID'', md_job_id (ex_metadata ex)),
         (''JANUS_JOB_NAME'', md_name (ex_metadata ex)),
         (''JANUS_WORKDIR'', path_display (job_file st (ex_job_id ex) ''work'')),
         (''JANUS_OUTPUT_DIR'', path_display (job_file st (ex_job_id ex) ''output'')),
         (''JANUS_METADATA_PATH'', path_display (job_file st (ex_job_id ex) ''metadata.json''))])"
    unfolding build_job_env_def Let_def input_env_value_def by (rule refl)
  then show ?thesis
    by (simp only: input_env_get [OF bt_of_list_wf] bt_of_list_get rev.simps append.simps)
qed

definition JANUS_VARIABLES :: "string list" where
  "JANUS_VARIABLES = [''JANUS_JOB_ID'', ''JANUS_JOB_NAME'', ''JANUS_WORKDIR'', ''JANUS_OUTPUT_DIR'',
     ''JANUS_METADATA_PATH'']"

lemma normalize_not_janus: "normalize_input_env n \<notin> set JANUS_VARIABLES"
  by (simp add: normalize_input_env_def JANUS_VARIABLES_def)

text \<open>The environment of a job: the five JANUS variables always describe the job itself and
no input overrides them; an input is found under INPUT_ and its name in upper case with dashes
turned into underscores, with the path of its artifact when it is one, and of the inputs whose
names coincide there, such as a-b and a_b, only the last one is visible.\<close>

theorem job_env_contents:
  assumes "ex_raw_inputs ex = before @ (name, value) # after"
    and "\<forall>(n, v) \<in> set after. normalize_input_env n \<noteq> normalize_input_env name"
  shows "bt_get (build_job_env pf st ex) (normalize_input_env name) = Some (input_env_value pf ex name value)
    \<and> bt_get (build_job_env pf st ex) ''JANUS_JOB_ID'' = Some (md_job_id (ex_metadata ex))
    \<and> bt_get (build_job_env pf st ex) ''JANUS_WORKDIR'' = Some (path_display (job_file st (ex_job_id ex) ''work''))
    \<and> bt_get (build_job_env pf st ex) ''JANUS_OUTPUT_DIR'' = Some (path_display (job_file st (ex_job_id ex) ''output''))"
proof -
  have "find (\<lambda>e. normalize_input_env (fst e) = normalize_input_env name) (rev after) = None"
    using assms(2) by (auto simp: find_None_iff)
  then have in_env: "find (\<lambda>e. normalize_input_env (fst e) = normalize_input_env name) (rev (ex_raw_inputs ex))
      = Some (name, value)"
  proof -
    have "find P (xs @ ys) = (case find P xs of None \<Rightarrow> find P ys | Some y \<Rightarrow> Some y)" for P :: "string \<times> json \<Rightarrow> bool" and xs ys
      by (induction xs) auto
    then show ?thesis using \<open>find _ (rev after) = None\<close> by (simp add: assms(1))
  qed
  have none: "find (\<lambda>e. normalize_input_env (fst e) = k) (rev (ex_raw_inputs ex)) = None"
    if "k \<in> set JANUS_VARIABLES" for k
    using that normalize_not_janus by (auto simp: find_None_iff)
  show ?thesis
    by (simp add: build_job_env_get in_env none JANUS_VARIABLES_def)
qed

definition demo_execution :: JobExecution where
  "demo_execution =
     \<lparr>ex_manifest = \<lparr>jm_name = ''build'', jm_script = ''/opt/build.sh'', jm_timeout_seconds = 2,
        jm_concurrency = Parallel, jm_inputs = [],
        jm_outputs = [(''rev'', \<lparr>os_kind = TypeInteger, os_path = ''rev.txt'', os_required = True\<rparr>)]\<rparr>,
      ex_job_id = ''job_1'', ex_log_limit_bytes = 4, ex_cleanup_successful_workdirs = True,
      ex_keep_failed_workdirs = False,
      ex_metadata = \<lparr>md_job_id = ''job_1'', md_name = ''build'', md_idempotency_key = ''k'',
        md_request_hash = ''h'', md_status = Running, md_started_at = [], md_finished_at = None,
        md_duration_ms = None, md_exit_code = None, md_terminal_reason = None,
        md_failure_category = None, md_inputs = [], md_resolved_artifacts = [], md_outputs = [],
        md_output_metadata = JobOutputMetadata_default\<rparr>,
      ex_raw_inputs = [(''a-b'', JString ''first''), (''a_b'', JString ''second'')]\<rparr>"

definition demo_job_store :: JobStore where
  "demo_job_store = \<lparr>js_root_dir = [''data'', ''jobs''], js_running = [], js_shutting_down = False,
     js_files = [], js_tasks = []\<rparr>"

theorem job_env_contents_witness:
  "bt_get (build_job_env demo_platform demo_job_store demo_execution) (normalize_input_env ''a-b'')
     = Some ''second''"
proof -
  have 1: "ex_raw_inputs demo_execution = [(''a-b'', JString ''first'')] @ (''a_b'', JString ''second'') # []"
    by (simp add: demo_execution_def)
  have 2: "normalize_input_env ''a-b'' = normalize_input_env ''a_b''" by code_simp
  show ?thesis
    unfolding 2 using job_env_contents [OF 1, of demo_platform demo_job_store]
    by (simp add: input_env_value_def demo_execution_def)
qed

text \<open>The log limit is exact: whatever pieces the output of a job arrives in, the log holds
its first bytes up to the limit, and the job is told to end exactly when there were more.\<close>

theorem captured_output_is_prefix:
  assumes "[] \<notin> set chunks"
  shows "capture_output no_faults limit name path (\<lambda>_. None) (map Inr chunks @ [Inr []]) =
    Some (Inr (), take (unat limit) (concat chunks),
      if unat limit < length (concat chunks)
      then Some \<lparr>le_stream_name = name, le_message = log_limit_message name limit\<rparr> else None)"
  using capture_loop_chunks [OF assms, of "[]" 0 limit name path]
  by (simp add: capture_output_def)

theorem captured_output_is_prefix_witness:
  "capture_output no_faults 4 ''stdout'' [''log''] (\<lambda>_. None) [Inr ''abc'', Inr ''def'', Inr []] =
     Some (Inr (), ''abcd'', Some \<lparr>le_stream_name = ''stdout'', le_message = log_limit_message ''stdout'' 4\<rparr>)"
  using captured_output_is_prefix [of "[''abc'', ''def'']" 4 "''stdout''" "[''log'']"] by simp


definition demo_tick :: "nat \<Rightarrow> LoopObservation" where
  "demo_tick now = \<lparr>ob_now = now, ob_event = Tick, ob_try_wait = Inr None,
     ob_stdout_capture = Some (Inr ()), ob_stderr_capture = Some (Inr ())\<rparr>"


text \<open>The deadline and a cancellation do not reach a job whose process has exited but whose
output stays open, for instance in a process it left behind: once the wait loop has seen the
exit it waits for the end of the output, whatever it would observe later.\<close>

theorem open_output_outlasts_deadline:
  assumes "\<forall>o' \<in> set before. ob_now o' < deadline \<and> ob_event o' = Tick \<and> ob_try_wait o' = Inr None"
    and "ob_now ob < deadline" and "ob_event ob = Tick" and "ob_try_wait ob = Inr (Some code)"
    and "ob_stdout_capture ob = None"
    and "deadline = started + unat (jm_timeout_seconds (ex_manifest ex)) * nanos_per_second"
  shows "execute_process (Inr ()) started (before @ ob # after) ex = None"
  using execute_loop_blocked [OF assms(1-5)] by (simp add: execute_process_def assms(6))

theorem open_output_outlasts_deadline_witness:
  "execute_process (Inr ()) 0
     [demo_tick 5, (demo_tick 6)\<lparr>ob_try_wait := Inr (Some (Some 0)), ob_stdout_capture := None\<rparr>,
      (demo_tick 7)\<lparr>ob_event := CancelSignal\<rparr>, demo_tick (9 * nanos_per_second)] demo_execution = None"
  using open_output_outlasts_deadline [of "[demo_tick 5]" "2 * nanos_per_second"
      "(demo_tick 6)\<lparr>ob_try_wait := Inr (Some (Some 0)), ob_stdout_capture := None\<rparr>" "Some 0" 0 demo_execution
      "[(demo_tick 7)\<lparr>ob_event := CancelSignal\<rparr>, demo_tick (9 * nanos_per_second)]"]
  by (simp add: demo_tick_def demo_execution_def nanos_per_second_def)

text \<open>The outputs of a successful job fit its manifest: when the registration succeeds, every
registered output is declared and has the declared type, and every required output is there.\<close>

theorem registered_outputs_fit_manifest:
  assumes "register_outputs pf io now uuids ast d nodes specs ([], afs) = (Inr (), outs, afs')"
  shows "outputs_typed specs outs
    \<and> (\<forall>(n, spec) \<in> set specs. os_required spec \<longrightarrow> bt_contains n outs)"
  using register_outputs_typed [OF assms] register_outputs_required [OF assms]
  by (simp add: outputs_typed_def)

theorem registered_outputs_fit_manifest_witness:
  "\<exists>outs. register_outputs demo_platform no_faults 0 (\<lambda>_. demo_uuid) demo_artifact_store [''out'']
       [''rev.txt'' \<mapsto> OutputFile '' 42 ''] (jm_outputs (ex_manifest demo_execution)) ([], []) = (Inr (), outs, [])
     \<and> bt_contains ''rev'' outs"
proof -
  let ?r = "register_outputs demo_platform no_faults 0 (\<lambda>_. demo_uuid) demo_artifact_store [''out'']
       [''rev.txt'' \<mapsto> OutputFile '' 42 ''] (jm_outputs (ex_manifest demo_execution)) ([], [])"
  have "fst ?r = Inr () \<and> snd (snd ?r) = []" by code_simp
  then obtain outs where r: "?r = (Inr (), outs, [])" by (cases ?r) auto
  show ?thesis using r registered_outputs_fit_manifest [OF r] by (auto simp: demo_execution_def)
qed

end
