(* ===== verification/Runner_System.thy ===== *)
theory Runner_System
  imports Job_Execution
begin

text \<open>
  The runner as a transition system over its job store and its artifact files: requests,
  cancellations, the ends of executions, shutdown and restart are the steps, in any order
  and with any I/O failures.  The invariants of the reachable states give the properties of
  the job API: idempotent creation, exclusion, and the finality of terminal results.
\<close>

section \<open>The metadata of a job\<close>

definition job_meta :: "JobStore \<Rightarrow> string \<Rightarrow> JobMetadata option" where
  "job_meta st k =
     (case job_dir_get (js_files st) k of
        Some d \<Rightarrow> (case jd_metadata d of Some (Parsed m) \<Rightarrow> Some m | _ \<Rightarrow> None)
      | None \<Rightarrow> None)"

text \<open>What identifies a job run: it never changes after the creation.\<close>

definition md_ident :: "JobMetadata \<Rightarrow> string \<times> string \<times> string \<times> string \<times> string" where
  "md_ident m = (md_job_id m, md_name m, md_idempotency_key m, md_request_hash m, md_started_at m)"

lemma md_ident_update [simp]:
  "md_ident (m\<lparr>md_status := s\<rparr>) = md_ident m"
  "md_ident (recovered_metadata pf now status category m) = md_ident m"
  "md_ident (finished_metadata pf now oc status reason categ outs so se m) = md_ident m"
  "md_ident (errored_metadata pf now e so se m) = md_ident m"
  by (simp_all add: md_ident_def recovered_metadata_def finished_metadata_def errored_metadata_def)

lemma md_status_update [simp]:
  "md_status (recovered_metadata pf now status category m) = status"
  "md_status (finished_metadata pf now oc status reason categ outs so se m) = status"
  "md_status (errored_metadata pf now e so se m) = Failed"
  by (simp_all add: recovered_metadata_def finished_metadata_def errored_metadata_def)

lemma job_dir_put_Inr:
  assumes "job_dir_put k f fs = Inr fs'" and "bt_wf fs"
  shows "bt_wf fs' \<and> job_dir_get fs' k =
      Some (f (case job_dir_get fs k of Some d \<Rightarrow> d | None \<Rightarrow> empty_job_dir)) \<and>
    (\<forall>j. j \<noteq> k \<longrightarrow> job_dir_get fs' j = job_dir_get fs j) \<and> bt_contains k fs'"
  using assms
  by (auto simp: job_dir_put_def job_dir_get_def bt_contains_def
      split: option.splits JobEntry.splits if_splits)

lemma job_dir_get_insert [simp]:
  "bt_wf fs \<Longrightarrow> job_dir_get (bt_insert k (JobEntryDir d) fs) j = (if j = k then Some d else job_dir_get fs j)"
  by (simp add: job_dir_get_def)

lemma job_dir_get_remove [simp]:
  "job_dir_get (bt_remove k fs) j = (if j = k then None else job_dir_get fs j)"
  by (simp add: job_dir_get_def)

text \<open>Everything but the files.\<close>

definition same_control :: "JobStore \<Rightarrow> JobStore \<Rightarrow> bool" where
  "same_control st st' =
     (js_root_dir st' = js_root_dir st \<and> js_running st' = js_running st
      \<and> js_shutting_down st' = js_shutting_down st \<and> js_tasks st' = js_tasks st)"

lemma same_control_refl [simp]: "same_control st st"
  by (simp add: same_control_def)

lemma same_control_trans: "same_control a b \<Longrightarrow> same_control b c \<Longrightarrow> same_control a c"
  by (simp add: same_control_def)

lemma same_control_files [simp]: "same_control st (st\<lparr>js_files := fs\<rparr>)"
  by (simp add: same_control_def)

lemma persist_metadata_cases:
  assumes "persist_metadata io k m st = (r, st')" and "bt_wf (js_files st)"
  shows "bt_wf (js_files st') \<and> same_control st st' \<and>
    (st' = st \<and> (\<exists>e. r = Inl e) \<or> r = Inr () \<and> job_meta st' = (job_meta st)(k \<mapsto> m))"
  using assms
  by (auto simp: persist_metadata_def Let_def job_meta_def fun_eq_iff dest!: job_dir_put_Inr
      split: sum.splits)

text \<open>The metadata file of a job is an atomic cell, on top of the atomic file.\<close>

interpretation metadata_cell:
  atomic_cell persist_metadata job_meta "\<lambda>_. True" "\<lambda>_. {}" "\<lambda>st. bt_wf (js_files st)"
proof
  fix io k m st r st' u e j
  show "bt_wf (js_files st) \<Longrightarrow> persist_metadata io k m st = (r, st') \<Longrightarrow> bt_wf (js_files st')"
    using persist_metadata_cases by blast
  show "bt_wf (js_files st) \<Longrightarrow> True \<Longrightarrow> persist_metadata io k m st = (Inr u, st') \<Longrightarrow> job_meta st' k = Some m"
    using persist_metadata_cases [of io k m st "Inr u" st'] by auto
  show "bt_wf (js_files st) \<Longrightarrow> True \<Longrightarrow> persist_metadata io k m st = (Inl e, st') \<Longrightarrow>
      job_meta st' k = job_meta st k"
    using persist_metadata_cases [of io k m st "Inl e" st'] by auto
  show "bt_wf (js_files st) \<Longrightarrow> persist_metadata io k m st = (r, st') \<Longrightarrow> j \<noteq> k \<Longrightarrow> j \<notin> {} \<Longrightarrow>
      job_meta st' j = job_meta st j"
    using persist_metadata_cases [of io k m st r st'] by auto
qed

lemma read_metadata_Inr:
  "read_metadata_from_path io k st = Inr m \<Longrightarrow> job_meta st k = Some m"
  by (auto simp: read_metadata_from_path_def job_read_def job_meta_def job_dir_get_def Let_def
      split: sum.splits json_file.splits option.splits JobEntry.splits)

lemma read_metadata_no_faults:
  "job_meta st k = Some m \<Longrightarrow> read_metadata_from_path no_faults k st = Inr m"
  by (auto simp: read_metadata_from_path_def job_read_def job_meta_def job_dir_get_def Let_def
      split: option.splits JobEntry.splits json_file.splits)

section \<open>How an operation may change the files\<close>

text \<open>
  The relation every operation but a finish and a recovery satisfies: the identity of every
  job stays, a terminal job stays as it is, a job that is not terminal stays so.
\<close>

definition meta_step :: "JobMetadata option \<Rightarrow> JobMetadata option \<Rightarrow> bool" where
  "meta_step a b =
     (\<forall>m. a = Some m \<longrightarrow> (\<exists>m'. b = Some m' \<and> md_ident m' = md_ident m \<and>
        (if is_terminal (md_status m) then m' = m else \<not> is_terminal (md_status m'))))"

definition meta_mono :: "JobMetadata option \<Rightarrow> JobMetadata option \<Rightarrow> bool" where
  "meta_mono a b =
     (\<forall>m. a = Some m \<longrightarrow> (\<exists>m'. b = Some m' \<and> md_ident m' = md_ident m \<and>
        (is_terminal (md_status m) \<longrightarrow> m' = m)))"

lemma meta_step_refl [simp]: "meta_step a a"
  by (simp add: meta_step_def)

lemma meta_step_mono: "meta_step a b \<Longrightarrow> meta_mono a b"
  by (fastforce simp: meta_step_def meta_mono_def split: if_splits)

lemma meta_mono_refl [simp]: "meta_mono a a"
  by (simp add: meta_mono_def)

lemma meta_mono_trans: "meta_mono a b \<Longrightarrow> meta_mono b c \<Longrightarrow> meta_mono a c"
  by (fastforce simp: meta_mono_def)

lemma meta_step_trans: "meta_step a b \<Longrightarrow> meta_step b c \<Longrightarrow> meta_step a c"
  by (fastforce simp: meta_step_def split: if_splits)

lemma transition_cases:
  assumes "transition_metadata_status io k expected nxt st = (r, st')" and "bt_wf (js_files st)"
    and "\<not> is_terminal nxt"
  shows "bt_wf (js_files st') \<and> same_control st st' \<and> (\<forall>j. meta_step (job_meta st j) (job_meta st' j))"
proof (cases "st' = st")
  case False
  then obtain m where m: "job_meta st k = Some m" "\<not> is_terminal (md_status m)"
    and p: "persist_metadata io k (m\<lparr>md_status := nxt\<rparr>) st = (r, st')"
    using assms(1)
    by (auto simp: transition_metadata_status_def dest: read_metadata_Inr
        split: sum.splits if_splits option.splits)
  from persist_metadata_cases [OF p assms(2)] show ?thesis
    using m assms(3) False by (auto simp: meta_step_def)
qed (use assms in simp)

lemma send_cancel_files [simp]:
  "js_files (send_cancel k st) = js_files st" "job_meta (send_cancel k st) = job_meta st"
  "js_tasks (send_cancel k st) = js_tasks st" "js_root_dir (send_cancel k st) = js_root_dir st"
  by (auto simp: send_cancel_def job_meta_def fun_eq_iff split: option.splits)

text \<open>A cancellation is remembered in the running jobs, whose other fields stay.\<close>

definition same_running :: "JobStore \<Rightarrow> JobStore \<Rightarrow> bool" where
  "same_running st st' =
     (bt_wf (js_running st') \<and> (\<forall>k. map_option (\<lambda>j. (rj_job_id j, rj_name j, rj_concurrency j)) (bt_get (js_running st') k)
       = map_option (\<lambda>j. (rj_job_id j, rj_name j, rj_concurrency j)) (bt_get (js_running st) k)))"

lemma same_running_refl: "bt_wf (js_running st) \<Longrightarrow> same_running st st"
  by (simp add: same_running_def)

lemma same_running_trans: "same_running a b \<Longrightarrow> same_running b c \<Longrightarrow> same_running a c"
  by (simp add: same_running_def)

lemma same_running_control: "bt_wf (js_running st) \<Longrightarrow> same_control st st' \<Longrightarrow> same_running st st'"
  by (simp add: same_running_def same_control_def)

lemma same_running_send_cancel: "bt_wf (js_running st) \<Longrightarrow> same_running st (send_cancel k st)"
  by (auto simp: same_running_def send_cancel_def split: option.splits)

section \<open>The invariant\<close>

text \<open>A loaded manifest store is keyed by the names of its manifests.\<close>

definition manifests_keyed :: "ManifestStore \<Rightarrow> bool" where
  "manifests_keyed manifests = (\<forall>k m. bt_get manifests k = Some m \<longrightarrow> jm_name m = k)"

definition running_ok :: "ManifestStore \<Rightarrow> (string, RunningJob) btree_map \<Rightarrow> bool" where
  "running_ok manifests running =
     (bt_wf running \<and>
      (\<forall>k j. bt_get running k = Some j \<longrightarrow> rj_job_id j = k \<and>
         (\<exists>m. bt_get manifests (rj_name j) = Some m \<and> jm_concurrency m = rj_concurrency j)))"

definition exclusion :: "(string, RunningJob) btree_map \<Rightarrow> bool" where
  "exclusion running =
     (\<forall>k l i j. k \<noteq> l \<longrightarrow> bt_get running k = Some i \<longrightarrow> bt_get running l = Some j \<longrightarrow>
        rj_concurrency i \<noteq> GlobalExclusive \<and>
        (rj_name i = rj_name j \<longrightarrow> rj_concurrency i \<noteq> JobExclusive))"

definition tasks_ok :: "JobStore \<Rightarrow> bool" where
  "tasks_ok st =
     (bt_wf (js_tasks st) \<and>
      (\<forall>k. bt_get (js_running st) k \<noteq> None \<longleftrightarrow> bt_get (js_tasks st) k \<noteq> None) \<and>
      (\<forall>k ex. bt_get (js_tasks st) k = Some ex \<longrightarrow> ex_job_id ex = k \<and>
         (\<exists>m. job_meta st k = Some m \<and> \<not> is_terminal (md_status m) \<and>
              md_ident m = md_ident (ex_metadata ex))))"

definition store_ok :: "ManifestStore \<Rightarrow> JobStore \<Rightarrow> bool" where
  "store_ok manifests st =
     (bt_wf (js_files st) \<and> running_ok manifests (js_running st) \<and> exclusion (js_running st)
      \<and> tasks_ok st)"

lemma tasks_ok_get:
  assumes "tasks_ok st" and "bt_get (js_tasks st) k = Some ex"
  shows "ex_job_id ex = k \<and> (\<exists>m. job_meta st k = Some m \<and> \<not> is_terminal (md_status m) \<and>
    md_ident m = md_ident (ex_metadata ex))"
  using assms by (simp add: tasks_ok_def)

lemma same_running_map:
  "same_running st st' \<Longrightarrow>
   map_option (\<lambda>j. (rj_job_id j, rj_name j, rj_concurrency j)) (bt_get (js_running st') k)
     = map_option (\<lambda>j. (rj_job_id j, rj_name j, rj_concurrency j)) (bt_get (js_running st) k)"
  by (simp add: same_running_def)

lemma same_running_get:
  assumes "same_running st st'" and "bt_get (js_running st') k = Some j'"
  shows "\<exists>j. bt_get (js_running st) k = Some j \<and> rj_job_id j = rj_job_id j' \<and>
    rj_name j = rj_name j' \<and> rj_concurrency j = rj_concurrency j'"
  using same_running_map [OF assms(1), of k] assms(2)
  by (cases "bt_get (js_running st) k") auto

lemma same_running_None:
  "same_running st st' \<Longrightarrow> bt_get (js_running st') k = None \<longleftrightarrow> bt_get (js_running st) k = None"
  using same_running_map [of st st' k]
  by (cases "bt_get (js_running st) k"; cases "bt_get (js_running st') k") auto

text \<open>The operations that change no job's lifecycle keep the invariant.\<close>

lemma store_ok_meta_step:
  assumes "store_ok manifests st" and "bt_wf (js_files st')" and "same_running st st'"
    and "js_tasks st' = js_tasks st" and "\<forall>j. meta_step (job_meta st j) (job_meta st' j)"
  shows "store_ok manifests st'"
proof -
  have "running_ok manifests (js_running st')"
  proof -
    have "rj_job_id j' = k \<and>
        (\<exists>m. bt_get manifests (rj_name j') = Some m \<and> jm_concurrency m = rj_concurrency j')"
      if "bt_get (js_running st') k = Some j'" for k j'
      using same_running_get [OF assms(3) that] assms(1)
      by (fastforce simp: store_ok_def running_ok_def)
    then show ?thesis using assms(3) by (simp add: running_ok_def same_running_def)
  qed
  moreover have "exclusion (js_running st')"
  proof -
    have "rj_concurrency i' \<noteq> GlobalExclusive \<and> (rj_name i' = rj_name j' \<longrightarrow> rj_concurrency i' \<noteq> JobExclusive)"
      if "k \<noteq> l" "bt_get (js_running st') k = Some i'" "bt_get (js_running st') l = Some j'" for k l i' j'
      using same_running_get [OF assms(3) that(2)] same_running_get [OF assms(3) that(3)] that(1) assms(1)
      by (auto simp: store_ok_def exclusion_def)
    then show ?thesis by (auto simp: exclusion_def)
  qed
  moreover have "tasks_ok st'"
  proof -
    have "\<exists>m'. job_meta st' k = Some m' \<and> \<not> is_terminal (md_status m') \<and> md_ident m' = md_ident (ex_metadata ex)"
      if t: "bt_get (js_tasks st) k = Some ex" for k ex
    proof -
      obtain m where "job_meta st k = Some m" "\<not> is_terminal (md_status m)" "md_ident m = md_ident (ex_metadata ex)"
        using tasks_ok_get [OF _ t] assms(1) by (auto simp: store_ok_def)
      then show ?thesis using assms(5) by (fastforce simp: meta_step_def)
    qed
    then show ?thesis
      using assms(1,4) same_running_None [OF assms(3)] by (simp add: store_ok_def tasks_ok_def)
  qed
  ultimately show ?thesis using assms(2) by (simp add: store_ok_def)
qed

lemma store_ok_wf:
  assumes "store_ok manifests st"
  shows "bt_wf (js_files st)" "bt_wf (js_running st)" "bt_wf (js_tasks st)"
  using assms by (simp_all add: store_ok_def running_ok_def tasks_ok_def)

lemma control_step_ok:
  assumes "store_ok manifests st" and "bt_wf (js_files st')" and "same_control st st'"
    and "\<forall>j. meta_step (job_meta st j) (job_meta st' j)"
  shows "store_ok manifests st'"
proof (rule store_ok_meta_step [OF assms(1,2) _ _ assms(4)])
  show "same_running st st'" by (rule same_running_control [OF store_ok_wf(2) [OF assms(1)] assms(3)])
  show "js_tasks st' = js_tasks st" using assms(3) by (simp add: same_control_def)
qed

lemma send_cancel_ok:
  assumes "store_ok manifests st" shows "store_ok manifests (send_cancel k st)"
  by (rule store_ok_meta_step [OF assms])
    (simp_all add: store_ok_wf [OF assms] same_running_send_cancel)

lemma transition_ok:
  assumes "store_ok manifests st" and "transition_metadata_status io k expected nxt st = (r, st')"
    and "\<not> is_terminal nxt"
  shows "store_ok manifests st'" "meta_step (job_meta st j) (job_meta st' j)"
  using transition_cases [OF assms(2) store_ok_wf(1) [OF assms(1)] assms(3)]
    control_step_ok [OF assms(1)] by blast+

section \<open>Canceling and shutting down\<close>

lemma cancel_job_cases:
  assumes "cancel_job io k st = (r, st')"
  obtains "st' = st"
  | r1 st1 where "transition_metadata_status io k (Some Running) CancelRequested st = (r1, st1)"
      "st' = st1 \<or> st' = send_cancel k st1"
  using assms by (auto simp: cancel_job_def split: sum.splits option.splits prod.splits)

lemma cancel_job_ok:
  assumes "store_ok manifests st" and "cancel_job io k st = (r, st')"
  shows "store_ok manifests st' \<and> meta_step (job_meta st j) (job_meta st' j)"
  using assms(2)
proof (cases rule: cancel_job_cases)
  case (2 r1 st1)
  then show ?thesis
    using transition_ok [OF assms(1) 2(1)] send_cancel_ok [of manifests st1] by auto
qed (use assms(1) in simp)

lemma note_canceling_ok:
  assumes "store_ok manifests st"
  shows "store_ok manifests (note_canceling io k st) \<and>
    meta_step (job_meta st j) (job_meta (note_canceling io k st) j)"
  using transition_ok [OF assms, of io k None Canceling] prod.collapse
  by (metis is_terminal.simps(8) note_canceling_def)

lemma shutdown_fold_ok:
  assumes "store_ok manifests st"
  shows "store_ok manifests (fold (\<lambda>k st. send_cancel k
        (snd (transition_metadata_status io k (Some Running) CancelRequested st))) ks st) \<and>
    meta_step (job_meta st j) (job_meta (fold (\<lambda>k st. send_cancel k
        (snd (transition_metadata_status io k (Some Running) CancelRequested st))) ks st) j)"
  using assms
proof (induction ks arbitrary: st)
  case (Cons k ks)
  obtain r1 st1 where 1: "transition_metadata_status io k (Some Running) CancelRequested st = (r1, st1)"
    by force
  note t = transition_ok [OF Cons.prems 1]
  have "store_ok manifests (send_cancel k st1)" using send_cancel_ok t(1) by simp
  from Cons.IH [OF this] show ?case using t(2) [of j] by (auto simp: 1 intro: meta_step_trans)
qed simp

lemma begin_shutdown_ok:
  assumes "store_ok manifests st" and "begin_shutdown io st = (n, st')"
  shows "store_ok manifests st' \<and> meta_step (job_meta st j) (job_meta st' j)"
proof -
  have "store_ok manifests (st\<lparr>js_shutting_down := True\<rparr>)"
    using assms(1) by (simp add: store_ok_def tasks_ok_def job_meta_def)
  moreover have "job_meta (st\<lparr>js_shutting_down := True\<rparr>) = job_meta st"
    by (simp add: job_meta_def fun_eq_iff)
  ultimately show ?thesis
    using shutdown_fold_ok [of manifests "st\<lparr>js_shutting_down := True\<rparr>" io "bt_keys (js_running st)" j]
      assms(2) by (auto simp: begin_shutdown_def Let_def)
qed

section \<open>Creating\<close>

lemma enforce_concurrency_Inr:
  assumes "enforce_concurrency m running = Inr ()" and "bt_get running k = Some j"
  shows "rj_concurrency j \<noteq> GlobalExclusive \<and> jm_concurrency m \<noteq> GlobalExclusive \<and>
    (jm_concurrency m = JobExclusive \<longrightarrow> rj_name j \<noteq> jm_name m)"
proof -
  have j: "j \<in> set (bt_values running)" using map_of_SomeD [OF assms(2)] by (force simp: bt_values_def)
  show ?thesis
    using assms j
    by (cases "jm_concurrency m")
      (auto simp: enforce_concurrency_def list_ex_iff find_None_iff split: if_splits option.splits)
qed

lemma exclusion_insert:
  assumes "enforce_concurrency m running = Inr ()" and "exclusion running"
    and "running_ok manifests running" and "bt_get manifests (jm_name m) = Some m"
    and "rj_name new = jm_name m" and "rj_concurrency new = jm_concurrency m"
  shows "exclusion (bt_insert k new running)"
proof -
  have wf: "bt_wf running" using assms(3) by (simp add: running_ok_def)
  have same: "rj_concurrency j = jm_concurrency m" if "bt_get running l = Some j" "rj_name j = jm_name m" for l j
    using assms(3,4) that by (fastforce simp: running_ok_def)
  show ?thesis
    unfolding exclusion_def
  proof (intro allI impI)
    fix a b i j
    assume ab: "a \<noteq> b" and i: "bt_get (bt_insert k new running) a = Some i"
      and j: "bt_get (bt_insert k new running) b = Some j"
    note e = enforce_concurrency_Inr [OF assms(1)]
    show "rj_concurrency i \<noteq> GlobalExclusive \<and> (rj_name i = rj_name j \<longrightarrow> rj_concurrency i \<noteq> JobExclusive)"
    proof (cases "a = k")
      case True
      then have "i = new" "bt_get running b = Some j" using i j ab wf by simp_all
      then show ?thesis using e [of b j] assms(5,6) by metis
    next
      case False
      then have ia: "bt_get running a = Some i" using i wf by simp
      show ?thesis
      proof (cases "b = k")
        case True
        then have "j = new" using j wf by simp
        then show ?thesis using e [OF ia] same [OF ia] assms(5) by metis
      next
        case False
        then have "bt_get running b = Some j" using j wf by simp
        then show ?thesis using assms(2) ia ab unfolding exclusion_def by blast
      qed
    qed
  qed
qed

lemma setup_call_cases:
  assumes "job_setup_call oper err path k f io st = (r, st')" and "bt_wf (js_files st)"
    and "\<And>d. jd_metadata (f d) = jd_metadata d"
  shows "bt_wf (js_files st') \<and> same_control st st' \<and> job_meta st' = job_meta st"
proof (cases r)
  case (Inl e)
  then show ?thesis using assms(1,2) by (auto simp: job_setup_call_def split: sum.splits)
next
  case (Inr u)
  then obtain fs where fs: "job_dir_put k f (js_files st) = Inr fs" and st': "st' = st\<lparr>js_files := fs\<rparr>"
    using assms(1) by (auto simp: job_setup_call_def split: sum.splits)
  note put = job_dir_put_Inr [OF fs assms(2)]
  have "job_meta st' j = job_meta st j" for j
    using put assms(3) by (cases "j = k") (simp_all add: job_meta_def st' empty_job_dir_def split: option.splits)
  then show ?thesis using put by (auto simp: st')
qed

lemma setup_job_dir_cases:
  assumes "setup_job_dir io k job st = (r, st')" and "bt_wf (js_files st)"
  shows "bt_wf (js_files st') \<and> same_control st st' \<and>
    ((\<exists>e. r = Inl e) \<and> job_meta st' = job_meta st \<or>
     r = Inr () \<and> job_meta st' = (job_meta st)(k \<mapsto> job))"
proof -
  define inv where "inv = (\<lambda>s. bt_wf (js_files s) \<and> same_control st s \<and> job_meta s = job_meta st)"
  have call: "inv s'" if "job_setup_call oper err path k f io s = (q, s')" "inv s"
    "\<And>d. jd_metadata (f d) = jd_metadata d" for oper err path f s q s'
    using setup_call_cases [OF that(1) _ that(3)] that(2) same_control_trans by (auto simp: inv_def)
  have last: "bt_wf (js_files s') \<and> same_control st s' \<and>
      ((\<exists>e. q = Inl e) \<and> job_meta s' = job_meta st \<or> q = Inr () \<and> job_meta s' = (job_meta st)(k \<mapsto> job))"
    if "persist_metadata io k job s = (q, s')" "inv s" for s q s'
    using persist_metadata_cases [OF that(1)] that(2) same_control_trans by (auto simp: inv_def)
  have 0: "inv st" using assms(2) by (simp add: inv_def)
  have fail: "bt_wf (js_files s) \<and> same_control st s \<and> (\<exists>e. Inl x = Inl e) \<and> job_meta s = job_meta st"
    if "inv s" for s and x :: JobError
    using that by (simp add: inv_def)
  from assms(1) [unfolded setup_job_dir_def Let_def] show ?thesis
  proof (cases rule: try_then_cases)
    case 1 then show ?thesis using fail [OF call [OF 1(1) 0]] by auto
  next
    case (2 x1 s1)
    note 1 = call [OF 2(1) 0, simplified]
    from 2(2) show ?thesis
    proof (cases rule: try_then_cases)
      case 1: 1 then show ?thesis using fail [OF call [OF 1(1)]] \<open>inv s1\<close> by auto
    next
      case (2 x2 s2)
      note i2 = call [OF 2(1) 1, simplified]
      from 2(2) show ?thesis
      proof (cases rule: try_then_cases)
        case 1: 1 then show ?thesis using fail [OF call [OF 1(1) i2]] by auto
      next
        case (2 x3 s3)
        note i3 = call [OF 2(1) i2, simplified]
        from 2(2) show ?thesis
        proof (cases rule: try_then_cases)
          case 1: 1 then show ?thesis using fail [OF call [OF 1(1) i3]] by auto
        next
          case (2 x4 s4)
          show ?thesis by (rule last [OF 2(2) call [OF 2(1) i3, simplified]])
        qed
      qed
    qed
  qed
qed

lemma create_job_cases:
  assumes "create_job pf io now manifests ast afs limits rq st = (r, st')"
  obtains (rejected) e where "st' = st" "r = Inl e"
  | (existing) "st' = st" "bt_contains (job_id_for_idempotency_key pf (rq_key rq)) (js_files st)"
        "load_existing_job_for_request io (job_id_for_idempotency_key pf (rq_key rq)) (rq_name rq)
           (rq_key rq) (hash_request pf (rq_name rq) (rq_body rq)) st = r"
  | (spawned) manifest resolved lim job st1
      where "create_job_checks pf io now manifests ast afs limits rq st = Inr (manifest, resolved, lim)"
        "job = new_job_metadata pf now manifest rq resolved"
        "bt_get (js_files st) (md_job_id job) = None"
        "enforce_concurrency manifest (js_running st) = Inr ()"
        "setup_job_dir io (md_job_id job) job (register_running manifest (md_job_id job) st) = (Inr (), st1)"
        "r = Inr \<lparr>jcr_job_id = md_job_id job, jcr_status = Running, jcr_started_at = md_started_at job\<rparr>"
        "st' = spawn_job \<lparr>ex_manifest = manifest, ex_job_id = md_job_id job, ex_log_limit_bytes = lim,
            ex_cleanup_successful_workdirs = jl_cleanup_successful limits,
            ex_keep_failed_workdirs = jl_keep_failed limits, ex_metadata = job,
            ex_raw_inputs = rq_inputs rq\<rparr> st1"
  | (failed) manifest job st1 e where "bt_get manifests (rq_name rq) = Some manifest"
        "bt_get (js_files st) (md_job_id job) = None"
        "setup_job_dir io (md_job_id job) job (register_running manifest (md_job_id job) st) = (Inl e, st1)"
        "r = Inl e" "st' = unregister_running (md_job_id job) st1"
        "md_job_id job = job_id_for_idempotency_key pf (rq_key rq)"
proof (cases "create_job_checks pf io now manifests ast afs limits rq st")
  case (Inl e)
  then show ?thesis using assms rejected by (auto simp: create_job_def)
next
  case (Inr c)
  obtain manifest resolved lim where c: "c = (manifest, resolved, lim)" by (cases c) auto
  define job where "job = new_job_metadata pf now manifest rq resolved"
  have id: "md_job_id job = job_id_for_idempotency_key pf (rq_key rq)"
    by (simp add: job_def new_job_metadata_def)
  have man: "bt_get manifests (rq_name rq) = Some manifest"
    using Inr by (auto simp: create_job_checks_def c)
  note a = assms [unfolded create_job_def Inr c sum.case prod.case Let_def, folded id job_def]
  show ?thesis
  proof (cases "bt_contains (md_job_id job) (js_files st)")
    case True
    then show ?thesis using a existing by (auto simp: id)
  next
    case False
    then have none: "bt_get (js_files st) (md_job_id job) = None" by (simp add: bt_contains_def)
    show ?thesis
    proof (cases "enforce_concurrency manifest (js_running st)")
      case (Inl e)
      then show ?thesis using a False rejected by auto
    next
      case conc: (Inr u)
      obtain q st1 where su: "setup_job_dir io (md_job_id job) job
          (register_running manifest (md_job_id job) st) = (q, st1)" by force
      show ?thesis
      proof (cases q)
        case (Inl e)
        then show ?thesis using a False conc su failed [OF man none _ _ _ id] by simp
      next
        case (Inr u)
        show ?thesis
          by (rule spawned [OF _ job_def none])
            (use a False conc su Inr \<open>create_job_checks _ _ _ _ _ _ _ _ _ = Inr c\<close> c in auto)
      qed
    qed
  qed
qed

lemma register_running_meta [simp]:
  "js_files (register_running m k st) = js_files st" "job_meta (register_running m k st) = job_meta st"
  "js_tasks (register_running m k st) = js_tasks st"
  by (simp_all add: register_running_def job_meta_def fun_eq_iff)

lemma unregister_running_meta [simp]:
  "js_files (unregister_running k st) = js_files st" "job_meta (unregister_running k st) = job_meta st"
  "js_tasks (unregister_running k st) = js_tasks st"
  by (simp_all add: unregister_running_def job_meta_def fun_eq_iff)

lemma spawn_job_meta [simp]:
  "js_files (spawn_job ex st) = js_files st" "job_meta (spawn_job ex st) = job_meta st"
  "js_running (spawn_job ex st) = js_running st"
  by (simp_all add: spawn_job_def job_meta_def fun_eq_iff)

lemma no_dir_no_job:
  assumes "store_ok manifests st" and "bt_get (js_files st) k = None"
  shows "bt_get (js_running st) k = None" "bt_get (js_tasks st) k = None" "job_meta st k = None"
proof -
  show 1: "job_meta st k = None" using assms(2) by (simp add: job_meta_def job_dir_get_def)
  show 2: "bt_get (js_tasks st) k = None"
    using tasks_ok_get [of st k] assms(1) 1 by (cases "bt_get (js_tasks st) k") (auto simp: store_ok_def)
  have "bt_get (js_running st) k \<noteq> None \<longleftrightarrow> bt_get (js_tasks st) k \<noteq> None"
    using assms(1) by (simp add: store_ok_def tasks_ok_def)
  then show "bt_get (js_running st) k = None" using 2 by simp
qed

lemma bt_remove_insert: "bt_get m k = None \<Longrightarrow> bt_wf m \<Longrightarrow> bt_remove k (bt_insert k v m) = m"
proof -
  assume "bt_get m k = None" "bt_wf m"
  then have k: "k \<notin> fst ` set m" by (simp add: map_of_eq_None_iff)
  then have "filter (\<lambda>e. fst e \<noteq> k) m = m" by (intro filter_True_id) force
  then show ?thesis
    using filter_bt_insert_drop [OF k, of "\<lambda>e. fst e \<noteq> k" v] by (simp add: bt_remove_def)
qed

lemma create_job_ok:
  assumes "store_ok manifests st" and "manifests_keyed manifests"
    and "create_job pf io now manifests ast afs limits rq st = (r, st')"
  shows "store_ok manifests st' \<and> meta_step (job_meta st j) (job_meta st' j)"
  using assms(3)
proof (cases rule: create_job_cases)
  case rejected
  then show ?thesis using assms(1) by simp
next
  case existing
  then show ?thesis using assms(1) by simp
next
  case (failed manifest job st1 e)
  let ?k = "md_job_id job"
  note none = no_dir_no_job [OF assms(1) failed(2)]
  note su = setup_job_dir_cases [OF failed(3), simplified, OF store_ok_wf(1) [OF assms(1)]]
  have run: "js_running st' = js_running st"
    using su bt_remove_insert [OF none(1) store_ok_wf(2) [OF assms(1)]]
    by (simp add: failed(5) unregister_running_def same_control_def register_running_def)
  have meta: "job_meta st' = job_meta st" using su by (auto simp: failed(5))
  have "store_ok manifests st'"
    using assms(1) su run meta
    by (auto simp: store_ok_def tasks_ok_def failed(5) same_control_def)
  then show ?thesis using meta by simp
next
  case (spawned manifest resolved lim job st1)
  let ?k = "md_job_id job"
  note none = no_dir_no_job [OF assms(1) spawned(3)]
  note su = setup_job_dir_cases [OF spawned(5), simplified, OF store_ok_wf(1) [OF assms(1)]]
  have man: "bt_get manifests (jm_name manifest) = Some manifest"
    using spawned(1) assms(2) by (auto simp: create_job_checks_def manifests_keyed_def)
  define rj where "rj = \<lparr>rj_job_id = ?k, rj_name = jm_name manifest,
      rj_concurrency = jm_concurrency manifest, rj_cancel_sent = False\<rparr>"
  have run: "js_running st' = bt_insert ?k rj (js_running st)"
    using su by (simp add: spawned(7) same_control_def register_running_def rj_def)
  have tasks: "js_tasks st1 = js_tasks st" using su by (simp add: same_control_def)
  have meta: "job_meta st' = (job_meta st)(?k \<mapsto> job)" using su by (simp add: spawned(7))
  have "running_ok manifests (js_running st')"
    using assms(1) man store_ok_wf(2) [OF assms(1)]
    by (auto simp: run running_ok_def store_ok_def rj_def)
  moreover have "exclusion (js_running st')"
    unfolding run using assms(1) man
    by (intro exclusion_insert [OF spawned(4)]) (auto simp: store_ok_def rj_def)
  moreover have "tasks_ok st'"
    using assms(1) store_ok_wf [OF assms(1)] meta tasks run
    by (auto simp: tasks_ok_def store_ok_def spawned(2,7) spawn_job_def new_job_metadata_def)
  moreover have "bt_wf (js_files st')" using su by (simp add: spawned(7))
  ultimately show ?thesis using meta none(3) by (simp add: store_ok_def meta_step_def)
qed

section \<open>Finishing\<close>

text \<open>An operation that touches logs and directories only.\<close>

definition quiet :: "JobStore \<Rightarrow> JobStore \<Rightarrow> bool" where
  "quiet st st' =
     (bt_wf (js_files st) \<longrightarrow> bt_wf (js_files st') \<and> same_control st st' \<and> job_meta st' = job_meta st)"

lemma store_quiet_refl [simp]: "quiet st st"
  by (simp add: quiet_def)

lemma store_quiet_trans: "quiet a b \<Longrightarrow> quiet b c \<Longrightarrow> quiet a c"
  unfolding quiet_def using same_control_trans by auto

lemma quiet_put:
  assumes "job_dir_put k f (js_files st) = Inr fs" and "\<And>d. jd_metadata (f d) = jd_metadata d"
  shows "quiet st (st\<lparr>js_files := fs\<rparr>)"
  unfolding quiet_def
proof (intro impI)
  assume "bt_wf (js_files st)"
  then have "job_setup_call (ReadDir []) JReadFile [] k f no_faults st = (Inr (), st\<lparr>js_files := fs\<rparr>)"
    using assms(1) by (simp add: job_setup_call_def)
  from setup_call_cases [OF this \<open>bt_wf (js_files st)\<close> assms(2)]
  show "bt_wf (js_files (st\<lparr>js_files := fs\<rparr>)) \<and> same_control st (st\<lparr>js_files := fs\<rparr>)
    \<and> job_meta (st\<lparr>js_files := fs\<rparr>) = job_meta st" .
qed

lemma quiet_append: "append_to_stderr io k msg st = (r, st') \<Longrightarrow> quiet st st'"
  by (auto simp: append_to_stderr_def Let_def intro: quiet_put split: sum.splits)

lemma quiet_append_snd [simp]: "quiet st (snd (append_to_stderr io k msg st))"
  by (rule quiet_append) (rule prod.collapse [symmetric])

lemma quiet_overwrite [simp]: "quiet st (overwrite_stderr io k msg st)"
  by (auto simp: overwrite_stderr_def intro: quiet_put split: sum.splits)

lemma quiet_remove_work_dir [simp]: "quiet st (remove_work_dir io k st)"
  by (auto simp: remove_work_dir_def quiet_def job_meta_def fun_eq_iff split: option.splits sum.splits)

lemma final_status_cases:
  assumes "final_status pf io now uuids ast ex oc (st, afs) = (status, reason, categ, outs, st', afs')"
    and "is_terminal (eo_status oc)"
  shows "quiet st st' \<and> is_terminal status"
  using assms
  by (auto simp: final_status_def append_error_def append_runtime_message_def Let_def
      split: if_splits prod.splits sum.splits)

lemma end_task_ok:
  assumes "bt_wf (js_files st)" and "running_ok manifests (js_running st)" and "exclusion (js_running st)"
    and "bt_wf (js_tasks st)"
    and "\<forall>k. bt_get (js_running st) k \<noteq> None \<longleftrightarrow> bt_get (js_tasks st) k \<noteq> None"
    and "\<forall>j ex. j \<noteq> k \<longrightarrow> bt_get (js_tasks st) j = Some ex \<longrightarrow> ex_job_id ex = j \<and>
      (\<exists>m. job_meta st j = Some m \<and> \<not> is_terminal (md_status m) \<and> md_ident m = md_ident (ex_metadata ex))"
  shows "store_ok manifests (end_task k st)"
proof -
  have [simp]: "js_files (end_task k st) = js_files st" "job_meta (end_task k st) = job_meta st"
    "js_running (end_task k st) = bt_remove k (js_running st)"
    "js_tasks (end_task k st) = bt_remove k (js_tasks st)"
    by (simp_all add: end_task_def unregister_running_def job_meta_def fun_eq_iff)
  have "running_ok manifests (bt_remove k (js_running st))"
    using assms(2) by (simp add: running_ok_def)
  moreover have "exclusion (bt_remove k (js_running st))"
    using assms(3) by (simp add: exclusion_def)
  moreover have "tasks_ok (end_task k st)"
    using assms(4-6) by (simp add: tasks_ok_def)
  ultimately show ?thesis using assms(1) by (simp add: store_ok_def)
qed

text \<open>Every finish is a quiet step, one write of final metadata, a quiet step and the end of
  the task.\<close>

definition outcome_terminal :: "(JobError, ExecutionOutcome) result \<Rightarrow> bool" where
  "outcome_terminal outcome = (\<forall>oc. outcome = Inr oc \<longrightarrow> is_terminal (eo_status oc))"

lemma finish_job_shape:
  assumes "finish_job pf io now uuids ast ex outcome (st, afs) = (st', afs')"
    and "outcome_terminal outcome"
  obtains st1 m r st2 st3 where "quiet st st1" "persist_metadata io (ex_job_id ex) m st1 = (r, st2)"
    "quiet st2 st3" "st' = end_task (ex_job_id ex) st3" "terminal_consistent m"
    "md_ident m = md_ident (ex_metadata ex)"
proof (cases outcome)
  case (Inl e)
  let ?m = "errored_metadata pf now e (job_log jd_stdout (ex_job_id ex) st) (job_log jd_stderr (ex_job_id ex) st)
      (ex_metadata ex)"
  obtain r st2 where p: "persist_metadata io (ex_job_id ex) ?m st = (r, st2)" by force
  show ?thesis
    by (rule that [OF store_quiet_refl p quiet_overwrite _ errored_metadata_consistent])
      (use assms(1) p in \<open>auto simp: finish_job_def Inl Let_def\<close>)
next
  case (Inr oc)
  let ?k = "ex_job_id ex"
  define s1 where "s1 = (case eo_message oc of None \<Rightarrow> st
      | Some message \<Rightarrow> snd (append_runtime_message io ?k message st))"
  obtain status reason categ outs s2 a2 where fs:
    "final_status pf io now uuids ast ex oc (s1, afs) = (status, reason, categ, outs, s2, a2)"
    by (cases "final_status pf io now uuids ast ex oc (s1, afs)") auto
  have q1: "quiet st s1" by (simp add: s1_def append_runtime_message_def split: option.splits)
  have q2: "quiet s1 s2" and t: "is_terminal status"
    using final_status_cases [OF fs] assms(2) by (auto simp: outcome_terminal_def Inr)
  define m where "m = finished_metadata pf now oc status reason categ outs
      (job_log jd_stdout ?k s2) (job_log jd_stderr ?k s2) (ex_metadata ex)"
  obtain r s3 where p: "persist_metadata io ?k m s2 = (r, s3)" by force
  define s4 where "s4 = (if status = Success \<and> ex_cleanup_successful_workdirs ex
      \<or> status \<in> {Failed, TimedOut} \<and> \<not> ex_keep_failed_workdirs ex
      then remove_work_dir io ?k s3 else s3)"
  have "st' = end_task ?k s4"
    using assms(1)
    unfolding finish_job_def Inr Let_def prod.case sum.case s1_def [symmetric] fs m_def [symmetric]
      p snd_conv s4_def [symmetric]
    by simp
  moreover have "quiet s3 s4" by (simp add: s4_def)
  moreover have "terminal_consistent m" by (simp add: m_def finished_metadata_consistent [OF t])
  moreover have "md_ident m = md_ident (ex_metadata ex)" by (simp add: m_def)
  ultimately show ?thesis using that [OF store_quiet_trans [OF q1 q2] p] by blast
qed

lemma terminal_consistent_terminal: "terminal_consistent m \<Longrightarrow> is_terminal (md_status m)"
  by (simp add: terminal_consistent_def)

lemma finish_job_ok:
  assumes ok: "store_ok manifests st" and ex: "bt_get (js_tasks st) k = Some ex"
    and fin: "finish_job pf io now uuids ast ex outcome (st, afs) = (st', afs')"
    and "outcome_terminal outcome"
  shows "store_ok manifests st' \<and> meta_mono (job_meta st j) (job_meta st' j) \<and>
    bt_get (js_running st') k = None"
proof -
  have exk: "ex_job_id ex = k" using tasks_ok_get [OF _ ex] ok by (simp add: store_ok_def)
  obtain m0 where m0: "job_meta st k = Some m0" "\<not> is_terminal (md_status m0)"
    "md_ident m0 = md_ident (ex_metadata ex)"
    using tasks_ok_get [OF _ ex] ok by (auto simp: store_ok_def)
  obtain st1 m r st2 st3 where q1: "quiet st st1" and p: "persist_metadata io k m st1 = (r, st2)"
    and q2: "quiet st2 st3" and st': "st' = end_task k st3" and m: "terminal_consistent m"
    "md_ident m = md_ident (ex_metadata ex)"
    by (rule finish_job_shape [OF fin assms(4)]) (simp add: exk)
  have 1: "bt_wf (js_files st1)" "same_control st st1" "job_meta st1 = job_meta st"
    using q1 store_ok_wf(1) [OF ok] by (auto simp: quiet_def)
  note pc = persist_metadata_cases [OF p 1(1)]
  have 3: "bt_wf (js_files st3)" "same_control st st3" "job_meta st3 = job_meta st2"
    using q2 pc 1(2) same_control_trans by (auto simp: quiet_def)
  have meta: "job_meta st3 = job_meta st \<or> job_meta st3 = (job_meta st)(k \<mapsto> m)"
    using pc 1(3) 3(3) by auto
  have "store_ok manifests (end_task k st3)"
  proof (rule end_task_ok)
    show "bt_wf (js_files st3)" by (rule 3(1))
    show "running_ok manifests (js_running st3)" "exclusion (js_running st3)"
      using ok 3(2) by (simp_all add: store_ok_def same_control_def)
    show "bt_wf (js_tasks st3)" using store_ok_wf(3) [OF ok] 3(2) by (simp add: same_control_def)
    show "\<forall>k. bt_get (js_running st3) k \<noteq> None \<longleftrightarrow> bt_get (js_tasks st3) k \<noteq> None"
      using ok 3(2) by (simp add: store_ok_def tasks_ok_def same_control_def)
    have "job_meta st3 j = job_meta st j" if "j \<noteq> k" for j using meta that by auto
    moreover have "js_tasks st3 = js_tasks st" using 3(2) by (simp add: same_control_def)
    ultimately show "\<forall>j ex. j \<noteq> k \<longrightarrow> bt_get (js_tasks st3) j = Some ex \<longrightarrow> ex_job_id ex = j \<and>
        (\<exists>m. job_meta st3 j = Some m \<and> \<not> is_terminal (md_status m) \<and> md_ident m = md_ident (ex_metadata ex))"
      using tasks_ok_get [of st] ok by (simp add: store_ok_def)
  qed
  moreover have "job_meta st' = job_meta st3"
    by (simp add: st' end_task_def unregister_running_def job_meta_def fun_eq_iff)
  moreover have "meta_mono (job_meta st j) (job_meta st3 j)"
    using meta m0 m by (auto simp: meta_mono_def)
  moreover have "bt_get (js_running st') k = None"
    by (simp add: st' end_task_def unregister_running_def)
  ultimately show ?thesis by (simp add: st')
qed

section \<open>Recovery\<close>

text \<open>Nothing runs while the recovery goes through the directories.\<close>

definition idle :: "JobStore \<Rightarrow> bool" where
  "idle st = (bt_wf (js_files st) \<and> js_running st = [] \<and> js_tasks st = [])"

lemma idle_store_ok: "idle st \<Longrightarrow> store_ok manifests st"
  by (simp add: idle_def store_ok_def running_ok_def exclusion_def tasks_ok_def)

lemma quiet_idle: "quiet st st' \<Longrightarrow> idle st \<Longrightarrow> idle st' \<and> job_meta st' = job_meta st"
  by (auto simp: quiet_def idle_def same_control_def)

lemma recover_with_cases:
  assumes "recover_with pf io now k m status categ msg (st, n) = (r, st', n')" and "idle st"
    and "job_meta st k = Some m" and "\<not> is_terminal (md_status m)"
  shows "idle st' \<and> (\<forall>j. meta_mono (job_meta st j) (job_meta st' j)) \<and>
    (is_ok r \<longrightarrow> job_meta st' = (job_meta st)(k \<mapsto> recovered_metadata pf now status categ m))"
proof -
  obtain r1 st1 where p: "persist_metadata io k (recovered_metadata pf now status categ m) st = (r1, st1)"
    by force
  obtain r2 st2 where a: "append_to_stderr io k msg st1 = (r2, st2)" by force
  note pc = persist_metadata_cases [OF p]
  have 1: "idle st1" using assms(2) pc by (auto simp: idle_def same_control_def)
  have 2: "idle st2 \<and> job_meta st2 = job_meta st1" by (rule quiet_idle [OF quiet_append [OF a] 1])
  show ?thesis
    using assms pc 1 2 p a
    by (cases r1; cases r2)
      (auto simp: recover_with_def append_recovery_message_def idle_def meta_mono_def)
qed

text \<open>What a recovery makes of the metadata of a job.\<close>

definition settled_metadata :: "Platform \<Rightarrow> int \<Rightarrow> JobMetadata \<Rightarrow> JobMetadata" where
  "settled_metadata pf now m =
     (if md_status m = Running then recovered_metadata pf now Failed CategoryInfra m
      else if md_status m \<in> {CancelRequested, Canceling}
      then recovered_metadata pf now Canceled CategoryCanceled m
      else m)"

lemma settled_metadata_terminal: "is_terminal (md_status (settled_metadata pf now m))"
  by (cases "md_status m") (simp_all add: settled_metadata_def)

lemma settled_metadata_id: "is_terminal (md_status m) \<Longrightarrow> settled_metadata pf now m = m"
  by (cases "md_status m") (simp_all add: settled_metadata_def)

lemma recover_entry_cases:
  assumes "recover_job_entry pf io now k s = (r, t)"
  obtains (same) "t = s" "is_ok r \<longrightarrow> job_dir_get (js_files (fst s)) k = None \<or>
      (\<exists>m. job_meta (fst s) k = Some m \<and> is_terminal (md_status m))"
  | (removed) "remove_job_dir io k s = (r, t)" "job_meta (fst s) k = None"
  | (recovered) m status categ msg where "recover_with pf io now k m status categ msg s = (r, t)"
      "job_meta (fst s) k = Some m" "\<not> is_terminal (md_status m)"
      "recovered_metadata pf now status categ m = settled_metadata pf now m"
proof (cases "job_dir_get (js_files (fst s)) k")
  case None
  then show ?thesis using assms same by (auto simp: recover_job_entry_def Let_def split: sum.splits)
next
  case d: (Some d)
  let ?p = "job_file (fst s) k ''metadata.json''"
  show ?thesis
  proof (cases "io_read io ?p (jd_metadata d)")
    case (Inl e)
    show ?thesis
    proof (cases "io_kind e = KNotFound")
      case True
      then have "job_meta (fst s) k = None" using io_read_not_found [OF Inl] d by (simp add: job_meta_def)
      then show ?thesis using assms same removed d Inl True
        by (auto simp: recover_job_entry_def Let_def split: sum.splits)
    next
      case False
      then show ?thesis using assms same d Inl
        by (auto simp: recover_job_entry_def Let_def split: sum.splits)
    qed
  next
    case jf: (Inr jf)
    then have jd: "jd_metadata d = Some jf" by simp
    show ?thesis
    proof (cases jf)
      case (Garbled msg)
      then have "job_meta (fst s) k = None" using jd d by (simp add: job_meta_def)
      then show ?thesis using assms same removed d jf Garbled
        by (auto simp: recover_job_entry_def Let_def simp del: io_read_ok split: sum.splits)
    next
      case (Parsed m)
      then have "job_meta (fst s) k = Some m" using jd d by (simp add: job_meta_def)
      then show ?thesis using assms same recovered d jf Parsed
        by (cases "md_status m")
          (auto simp: recover_job_entry_def settled_metadata_def Let_def simp del: io_read_ok
            split: sum.splits)
    qed
  qed
qed

lemma recover_entry_ok:
  assumes "recover_job_entry pf io now k s = (r, t)" and "idle (fst s)"
  shows "idle (fst t) \<and> (\<forall>j. meta_mono (job_meta (fst s) j) (job_meta (fst t) j))"
  using assms(1)
proof (cases rule: recover_entry_cases)
  case same
  then show ?thesis using assms(2) by simp
next
  case removed
  then have "idle (fst t)" and "\<forall>j. job_meta (fst t) j = job_meta (fst s) j"
    using assms(2) by (auto simp: remove_job_dir_def Let_def idle_def job_meta_def split: sum.splits)
  then show ?thesis by simp
next
  case (recovered m status categ msg)
  obtain st n st' n' where st: "s = (st, n)" "t = (st', n')" by (cases s, cases t)
  show ?thesis
    using recover_with_cases [of pf io now k m status categ msg st n r st' n'] recovered assms(2)
    by (simp add: st)
qed

lemma recover_ok:
  assumes "recover_interrupted_jobs pf io now st = (r, st')" and "idle st"
  shows "idle st' \<and> (\<forall>j. meta_mono (job_meta st j) (job_meta st' j))"
proof (cases "io_try io (ReadDir (js_root_dir st))")
  case (Inl e)
  then show ?thesis using assms by (simp add: recover_interrupted_jobs_def)
next
  case (Inr u)
  obtain q s where e: "each_st (recover_job_entry pf io now) (bt_keys (js_files st)) (st, 0) = (q, s)"
    by (rule prod.exhaust)
  have "idle (fst s) \<and> (\<forall>j. meta_mono (job_meta st j) (job_meta (fst s) j))"
    by (rule each_st_invariant [OF e])
      (use assms(2) recover_entry_ok meta_mono_trans in \<open>simp, blast\<close>)
  moreover have "st' = fst s" using assms(1) Inr e
    by (cases q; cases s) (auto simp: recover_interrupted_jobs_def)
  ultimately show ?thesis by simp
qed

section \<open>The transition system\<close>

type_synonym RunnerState = "JobStore \<times> ArtifactFiles"

definition restarted :: "JobStore \<Rightarrow> JobStore" where
  "restarted st = st\<lparr>js_running := [], js_tasks := [], js_shutting_down := False\<rparr>"

text \<open>
  The outcome of an execution is whatever the process, the clock and the channels made the
  wait loop return.  A restart drops what was in memory and runs the recovery; when the
  recovery fails, the runner does not start.
\<close>

inductive runner_step ::
    "Platform \<Rightarrow> ManifestStore \<Rightarrow> ArtifactStore \<Rightarrow> JobLimits \<Rightarrow> RunnerState \<Rightarrow> RunnerState \<Rightarrow> bool"
  for pf manifests ast limits where
  create: "create_job pf io now manifests ast afs limits rq st = (r, st') \<Longrightarrow>
     runner_step pf manifests ast limits (st, afs) (st', afs)"
| cancel: "cancel_job io k st = (r, st') \<Longrightarrow>
     runner_step pf manifests ast limits (st, afs) (st', afs)"
| canceling: "bt_get (js_tasks st) k = Some ex \<Longrightarrow>
     runner_step pf manifests ast limits (st, afs) (note_canceling io k st, afs)"
| finish: "bt_get (js_tasks st) k = Some ex \<Longrightarrow>
     execute_process spawned started obs ex = Some outcome \<Longrightarrow>
     finish_job pf io now uuids ast ex outcome (st, afs) = (st', afs') \<Longrightarrow>
     runner_step pf manifests ast limits (st, afs) (st', afs')"
| shutdown: "begin_shutdown io st = (n, st') \<Longrightarrow>
     runner_step pf manifests ast limits (st, afs) (st', afs)"
| upload: "store_bytes pf io now uuid ast bytes h afs = (r', afs') \<Longrightarrow>
     runner_step pf manifests ast limits (st, afs) (st, afs')"
| cleanup: "cleanup_expired pf io now ast afs = (r'', afs') \<Longrightarrow>
     runner_step pf manifests ast limits (st, afs) (st, afs')"
| restart: "recover_interrupted_jobs pf io now (restarted st) = (Inr n, st') \<Longrightarrow>
     recover_incomplete_artifacts pf io ast afs = (Inr n', afs') \<Longrightarrow>
     runner_step pf manifests ast limits (st, afs) (st', afs')"

inductive runner_steps ::
    "Platform \<Rightarrow> ManifestStore \<Rightarrow> ArtifactStore \<Rightarrow> JobLimits \<Rightarrow> RunnerState \<Rightarrow> RunnerState \<Rightarrow> bool"
  for pf manifests ast limits where
  none: "runner_steps pf manifests ast limits s s"
| more: "runner_steps pf manifests ast limits s t \<Longrightarrow> runner_step pf manifests ast limits t u \<Longrightarrow>
     runner_steps pf manifests ast limits s u"

inductive_cases runner_stepE: "runner_step pf manifests ast limits s t"

inductive_simps runner_steps_from: "runner_steps pf manifests ast limits s t"

text \<open>What execute_process returns ends a job.\<close>

lemma execute_process_terminal:
  "execute_process spawned started obs ex = Some outcome \<Longrightarrow> outcome_terminal outcome"
  by (auto simp: execute_process_def outcome_terminal_def dest: execute_loop_terminal split: sum.splits)

lemma restarted_ok: "store_ok manifests st \<Longrightarrow> idle (restarted st) \<and> job_meta (restarted st) = job_meta st"
  using store_ok_wf(1) [of manifests st] by (simp add: idle_def restarted_def job_meta_def fun_eq_iff)

lemma runner_step_ok:
  assumes "runner_step pf manifests ast limits s t" and "store_ok manifests (fst s)"
    and "manifests_keyed manifests"
  shows "store_ok manifests (fst t) \<and> meta_mono (job_meta (fst s) j) (job_meta (fst t) j)"
  using assms(1)
proof (cases rule: runner_step.cases)
  case (create io now afs rq st r st')
  then show ?thesis using create_job_ok [OF _ assms(3) create(3)] assms(2) by (auto intro: meta_step_mono)
next
  case (cancel io k st r st' afs)
  then show ?thesis using cancel_job_ok [OF _ cancel(3)] assms(2) by (auto intro: meta_step_mono)
next
  case (canceling st k ex afs io)
  then show ?thesis using note_canceling_ok [of manifests st] assms(2) by (auto intro: meta_step_mono)
next
  case (finish st k ex spawned started obs outcome io now uuids afs st' afs')
  then show ?thesis
    using finish_job_ok [OF _ finish(3,5) execute_process_terminal [OF finish(4)]] assms(2) by auto
next
  case (shutdown io st n st' afs)
  then show ?thesis using begin_shutdown_ok [OF _ shutdown(3)] assms(2) by (auto intro: meta_step_mono)
next
  case (restart io now st n st' afs n' afs')
  then show ?thesis
    using recover_ok [OF restart(3)] restarted_ok [of manifests st] assms(2) idle_store_ok by simp
qed (use assms(2) in simp_all)

lemma runner_steps_ok:
  assumes "runner_steps pf manifests ast limits s t" and "store_ok manifests (fst s)"
    and "manifests_keyed manifests"
  shows "store_ok manifests (fst t) \<and> meta_mono (job_meta (fst s) j) (job_meta (fst t) j)"
  using assms(1,2)
proof induction
  case (more s t u)
  then show ?case using runner_step_ok [OF more(2) _ assms(3)] by (auto intro: meta_mono_trans)
qed simp

text \<open>A runner that has just started on any disk content.\<close>

definition runner_initial :: "RunnerState \<Rightarrow> bool" where
  "runner_initial s = idle (fst s)"

lemma reachable_store_ok:
  assumes "runner_initial s" and "runner_steps pf manifests ast limits s t" and "manifests_keyed manifests"
  shows "store_ok manifests (fst t)"
  using runner_steps_ok [OF assms(2) idle_store_ok assms(3)] assms(1) by (simp add: runner_initial_def)

text \<open>A manifest store that was loaded from a directory is keyed by job names.\<close>

lemma loaded_manifests_keyed:
  assumes "load_from_dir host dir = Inr manifests"
  shows "manifests_keyed manifests"
proof -
  obtain entries where "for_each (load_entry host dir) entries [] = Inr manifests"
    using assms by (auto simp: load_from_dir_def)
  then have "bt_wf manifests \<and> (\<forall>(k, m) \<in> set manifests. k = jm_name m \<and> manifest_ok (mh_regex_new host) m)"
    by (rule for_each_invariant) (auto dest: load_entry_invariant)
  then show ?thesis by (auto simp: manifests_keyed_def dest: map_of_SomeD)
qed

subsection \<open>Creating twice\<close>

definition created_ident :: "Platform \<Rightarrow> JobRequest \<Rightarrow> JobCreatedResponse \<Rightarrow>
    string \<times> string \<times> string \<times> string \<times> string" where
  "created_ident pf rq r =
     (jcr_job_id r, rq_name rq, rq_key rq, hash_request pf (rq_name rq) (rq_body rq), jcr_started_at r)"

text \<open>A creation that succeeds, by spawning or by finding the job, leaves its metadata.\<close>

lemma create_job_Inr:
  assumes "create_job pf io now manifests ast afs limits rq st = (Inr r, st')"
    and "store_ok manifests st" and "manifests_keyed manifests"
  shows "jcr_job_id r = job_id_for_idempotency_key pf (rq_key rq) \<and>
    (\<exists>m. job_meta st' (jcr_job_id r) = Some m \<and> md_ident m = created_ident pf rq r)"
  using assms(1)
proof (cases rule: create_job_cases)
  case (spawned manifest resolved lim job st1)
  have "jm_name manifest = rq_name rq"
    using spawned(1) assms(3) by (auto simp: create_job_checks_def manifests_keyed_def)
  moreover have "job_meta st' (md_job_id job) = Some job"
    using setup_job_dir_cases [OF spawned(5), simplified, OF store_ok_wf(1) [OF assms(2)]]
    by (simp add: spawned(7))
  ultimately show ?thesis
    using spawned(2,6) by (simp add: created_ident_def md_ident_def new_job_metadata_def)
next
  case existing
  then show ?thesis
    by (auto simp: load_existing_job_for_request_def created_ident_def md_ident_def
        dest: read_metadata_Inr split: if_splits)
qed simp_all

text \<open>Once a job's metadata is there, a creation under its key only reads it.\<close>

lemma create_job_existing:
  assumes "job_meta st (job_id_for_idempotency_key pf (rq_key rq)) = Some m"
    and "create_job_checks pf io now manifests ast afs limits rq st = Inr c"
    and "io_try io (ReadFile (job_file st (job_id_for_idempotency_key pf (rq_key rq)) ''metadata.json'')) = Inr ()"
  shows "create_job pf io now manifests ast afs limits rq st =
    (if (md_job_id m, md_name m, md_idempotency_key m, md_request_hash m) =
        (job_id_for_idempotency_key pf (rq_key rq), rq_name rq, rq_key rq,
         hash_request pf (rq_name rq) (rq_body rq))
     then Inr \<lparr>jcr_job_id = md_job_id m, jcr_status = md_status m, jcr_started_at = md_started_at m\<rparr>
     else Inl (JIdempotencyConflict (rq_key rq)), st)"
proof -
  let ?id = "job_id_for_idempotency_key pf (rq_key rq)"
  have d: "bt_contains ?id (js_files st)"
    using assms(1) by (auto simp: job_meta_def job_dir_get_def bt_contains_def split: option.splits)
  have "read_metadata_from_path io ?id st = Inr m"
    using assms(1,3)
    by (auto simp: read_metadata_from_path_def job_read_def job_meta_def job_dir_get_def Let_def io_read_def
        split: option.splits JobEntry.splits json_file.splits)
  then show ?thesis
    using assms(2) d by (cases c) (auto simp: create_job_def load_existing_job_for_request_def Let_def)
qed

subsection \<open>After a restart\<close>

lemma recover_entry_settles:
  assumes "recover_job_entry pf io now k s = (Inr u, t)" and "idle (fst s)"
  shows "job_meta (fst t) k = map_option (settled_metadata pf now) (job_meta (fst s) k) \<and>
    (job_dir_get (js_files (fst t)) k = None \<or> job_meta (fst t) k \<noteq> None)"
  using assms(1)
proof (cases rule: recover_entry_cases)
  case removed
  then show ?thesis by (auto simp: remove_job_dir_def Let_def job_meta_def split: sum.splits)
next
  case (recovered m status categ msg)
  obtain st n st' n' where st: "s = (st, n)" "t = (st', n')" by (cases s, cases t)
  show ?thesis
    using recover_with_cases [of pf io now k m status categ msg st n "Inr u" st' n'] recovered assms(2)
    by (auto simp: st)
next
  case same
  then show ?thesis by (auto simp: settled_metadata_id job_meta_def)
qed

lemma recover_entry_other:
  assumes "recover_job_entry pf io now k s = (r, t)" and "idle (fst s)" and "j \<noteq> k"
  shows "job_dir_get (js_files (fst t)) j = job_dir_get (js_files (fst s)) j"
  using assms(1)
proof (cases rule: recover_entry_cases)
  case removed
  then show ?thesis using assms(3) by (auto simp: remove_job_dir_def Let_def split: sum.splits)
next
  case (recovered m status categ msg)
  obtain r1 st1 where p: "persist_metadata io k (recovered_metadata pf now status categ m) (fst s) = (r1, st1)"
    by force
  obtain r2 st2 where a: "append_to_stderr io k msg st1 = (r2, st2)" by force
  have wf: "bt_wf (js_files (fst s))" using assms(2) by (simp add: idle_def)
  have "job_dir_get (js_files st1) j = job_dir_get (js_files (fst s)) j" "bt_wf (js_files st1)"
    using p wf assms(3)
    by (auto simp: persist_metadata_def Let_def dest!: job_dir_put_Inr split: sum.splits)
  moreover have "job_dir_get (js_files st2) j = job_dir_get (js_files st1) j"
    using a calculation(2) assms(3)
    by (auto simp: append_to_stderr_def Let_def dest!: job_dir_put_Inr split: sum.splits)
  moreover have "fst t = st1 \<or> fst t = st2"
    using recovered(1) p a
    by (cases r1; cases r2) (auto simp: recover_with_def append_recovery_message_def)
  ultimately show ?thesis by auto
qed simp

text \<open>A successful recovery settles every job and leaves no directory without one.\<close>

lemma recover_settles:
  assumes "recover_interrupted_jobs pf io now st = (Inr n, st')" and "idle st"
  shows "job_meta st' k = map_option (settled_metadata pf now) (job_meta st k) \<and>
    (job_dir_get (js_files st') k = None \<or> job_meta st' k \<noteq> None)"
proof -
  let ?S = "map_option (settled_metadata pf now)"
  define Q where "Q = (\<lambda>k (s :: JobStore \<times> nat). job_meta (fst s) k = ?S (job_meta st k) \<and>
    (job_dir_get (js_files (fst s)) k = None \<or> job_meta (fst s) k \<noteq> None))"
  define I where "I = (\<lambda>s :: JobStore \<times> nat. idle (fst s) \<and>
    (\<forall>k. ?S (job_meta (fst s) k) = ?S (job_meta st k)))"
  have SS: "?S (?S a) = ?S a" for a
    by (cases a) (simp_all add: settled_metadata_id settled_metadata_terminal)
  have other: "job_meta (fst b) y = job_meta (fst a) y \<and>
      job_dir_get (js_files (fst b)) y = job_dir_get (js_files (fst a)) y"
    if "recover_job_entry pf io now x a = (q, b)" "idle (fst a)" "y \<noteq> x" for x y a b q
    using recover_entry_other [OF that] by (simp add: job_meta_def)
  obtain s where e: "each_st (recover_job_entry pf io now) (bt_keys (js_files st)) (st, 0) = (Inr (), s)"
    and s: "st' = fst s"
    using assms(1) by (auto simp: recover_interrupted_jobs_def split: sum.splits prod.splits)
  have mono: "?S (job_meta (fst b) x) = ?S (job_meta (fst a) x)"
    if r: "recover_job_entry pf io now x a = (q, b)" and "idle (fst a)" for x a b q
    using r
  proof (cases rule: recover_entry_cases)
    case removed
    then show ?thesis by (auto simp: remove_job_dir_def Let_def job_meta_def split: sum.splits)
  next
    case (recovered m status categ msg)
    obtain sa na sb nb where ab: "a = (sa, na)" "b = (sb, nb)" by (cases a, cases b)
    obtain r1 s1 where p: "persist_metadata io x (settled_metadata pf now m) sa = (r1, s1)" by force
    obtain r2 s2 where ap: "append_to_stderr io x msg s1 = (r2, s2)" by force
    have wf: "bt_wf (js_files sa)" using that(2) by (simp add: idle_def ab)
    note pc = persist_metadata_cases [OF p wf]
    have "job_meta s2 = job_meta s1" using quiet_append [OF ap] pc by (simp add: quiet_def)
    then have "job_meta sb x \<in> {job_meta sa x, ?S (job_meta sa x)}"
      using recovered pc p ap
      by (cases r1; cases r2) (auto simp: recover_with_def append_recovery_message_def ab)
    then show ?thesis using SS [of "job_meta sa x"] by (auto simp: ab)
  qed simp
  have "\<forall>k. k \<in> set (bt_keys (js_files st)) \<or> Q k (st, 0) \<longrightarrow> Q k s"
  proof (rule each_st_establishes [OF e, where I = I])
    show "I (st, 0)" using assms(2) by (simp add: I_def)
    show "I b" if "I a" "recover_job_entry pf io now x a = (q, b)" for x a q b
    proof -
      have "?S (job_meta (fst b) y) = ?S (job_meta (fst a) y)" for y
        using mono [OF that(2)] other [OF that(2)] that(1) by (cases "y = x") (auto simp: I_def)
      then show ?thesis using recover_entry_ok [OF that(2)] that(1) by (simp add: I_def)
    qed
    show "Q x b" if "I a" "recover_job_entry pf io now x a = (Inr (), b)" for x a b
      using recover_entry_settles [OF that(2)] that(1) by (auto simp: I_def Q_def)
    show "Q y b" if "I a" "Q y a" "recover_job_entry pf io now x a = (Inr (), b)" for x y a b
    proof (cases "y = x")
      case True
      then show ?thesis using recover_entry_settles [OF that(3)] that(1) by (auto simp: I_def Q_def)
    next
      case False
      then show ?thesis using other [OF that(3), of y] that(1,2) by (auto simp: I_def Q_def)
    qed
  qed
  moreover have "k \<in> set (bt_keys (js_files st)) \<or> Q k (st, 0)"
    by (cases "bt_get (js_files st) k")
      (force simp: bt_keys_def Q_def job_meta_def job_dir_get_def dest: map_of_SomeD)+
  ultimately show ?thesis using s by (auto simp: Q_def)
qed

section \<open>A concrete runner\<close>

definition demo_manifest :: JobManifest where
  "demo_manifest =
     \<lparr>jm_name = ''build'', jm_script = ''/opt/build.sh'', jm_timeout_seconds = 60,
      jm_concurrency = JobExclusive, jm_inputs = [], jm_outputs = []\<rparr>"

definition demo_host :: ManifestHost where
  "demo_host =
     \<lparr>mh_stat_dir = Inr True, mh_read_dir = Inr [Inr ''build.toml'', Inr ''README''],
      mh_read_file = (\<lambda>_. Inr ''toml''), mh_stat_script = (\<lambda>_. Inr 0x1ED),
      mh_parse_toml = (\<lambda>_. Inr demo_manifest), mh_regex_new = (\<lambda>_. Inr ())\<rparr>"

definition demo_manifests :: ManifestStore where
  "demo_manifests = [(''build'', demo_manifest)]"

lemma demo_loaded: "load_from_dir demo_host ''/etc/janus'' = Inr demo_manifests"
  by code_simp

definition demo_limits :: JobLimits where
  "demo_limits = \<lparr>jl_log_limit_mb = 1, jl_cleanup_successful = True, jl_keep_failed = False\<rparr>"

definition demo_request :: JobRequest where
  "demo_request = \<lparr>rq_name = ''build'', rq_key = ''key-12345678'', rq_body = ''{}'', rq_inputs = []\<rparr>"

definition demo_start :: JobStore where
  "demo_start = \<lparr>js_root_dir = [''data'', ''jobs''], js_running = [], js_shutting_down = False,
     js_files = [], js_tasks = []\<rparr>"

definition demo_created :: "(JobError, JobCreatedResponse) result \<times> JobStore" where
  "demo_created = create_job demo_platform no_faults 0 demo_manifests demo_artifact_store []
     demo_limits demo_request demo_start"

definition demo_response :: JobCreatedResponse where
  "demo_response = \<lparr>jcr_job_id = ''job_6a6f62006b65792d3132333435363738'', jcr_status = Running,
     jcr_started_at = []\<rparr>"

lemma demo_created_ok: "fst demo_created = Inr demo_response"
  by code_simp

lemma demo_initial: "runner_initial (demo_start, [])"
  by (simp add: runner_initial_def idle_def demo_start_def)

lemma demo_create_step:
  "runner_steps demo_platform demo_manifests demo_artifact_store demo_limits
     (demo_start, []) (snd demo_created, [])"
proof (rule runner_steps.more [OF runner_steps.none])
  show "runner_step demo_platform demo_manifests demo_artifact_store demo_limits
      (demo_start, []) (snd demo_created, [])"
    by (rule runner_step.create [where r = "fst demo_created"]) (simp add: demo_created_def)
qed

definition demo_done_metadata :: JobMetadata where
  "demo_done_metadata =
     \<lparr>md_job_id = ''job_done'', md_name = ''build'', md_idempotency_key = ''k'', md_request_hash = ''h'',
      md_status = Success, md_started_at = [], md_finished_at = Some ''s'', md_duration_ms = Some 1000,
      md_exit_code = Some 0, md_terminal_reason = Some ReasonSuccess, md_failure_category = None,
      md_inputs = [], md_resolved_artifacts = [], md_outputs = [],
      md_output_metadata = JobOutputMetadata_default\<rparr>"

definition demo_finished :: JobStore where
  "demo_finished = demo_start\<lparr>js_files :=
     [(''job_done'', JobEntryDir (empty_job_dir\<lparr>jd_metadata := Some (Parsed demo_done_metadata)\<rparr>))]\<rparr>"

definition demo_interrupted :: JobStore where
  "demo_interrupted = demo_start\<lparr>js_files :=
     [(''job_done'', JobEntryDir (empty_job_dir\<lparr>jd_metadata :=
         Some (Parsed (demo_done_metadata\<lparr>md_status := Running\<rparr>))\<rparr>)),
      (''job_torn'', JobEntryDir empty_job_dir)]\<rparr>"

section \<open>Properties\<close>

text \<open>C1. In every reachable state of a runner the concurrency rules of the manifests hold among
  the running jobs: beside a global_exclusive job nothing else runs, and no two runs of a
  job_exclusive job overlap, whatever the order of requests, cancellations, failures and
  restarts.\<close>

theorem runner_exclusion:
  assumes "load_from_dir host dir = Inr manifests" and "runner_initial s"
    and "runner_steps pf manifests ast limits s t"
  shows "exclusion (js_running (fst t))"
  using reachable_store_ok [OF assms(2,3) loaded_manifests_keyed [OF assms(1)]]
  by (simp add: store_ok_def)

theorem runner_exclusion_witness: "exclusion (js_running (snd demo_created))"
  using runner_exclusion [OF demo_loaded demo_initial demo_create_step] by simp





text \<open>A different request under a used key is refused: when the job name or the request body
  does not hash to what the key was first used with, the creation reports a conflict and
  changes nothing.\<close>

theorem runner_create_conflict:
  assumes "load_from_dir host dir = Inr manifests" and "runner_initial s"
    and "runner_steps pf manifests ast limits s (st, afs)"
    and "create_job pf io now manifests ast afs limits rq st = (Inr r, st1)"
    and "runner_steps pf manifests ast limits (st1, afs) (st2, afs2)"
    and "create_job_checks pf no_faults now2 manifests ast afs2 limits rq' st2 = Inr c"
    and "rq_key rq' = rq_key rq"
    and "rq_name rq' \<noteq> rq_name rq \<or>
      hash_request pf (rq_name rq') (rq_body rq') \<noteq> hash_request pf (rq_name rq) (rq_body rq)"
  shows "create_job pf no_faults now2 manifests ast afs2 limits rq' st2
    = (Inl (JIdempotencyConflict (rq_key rq)), st2)"
proof -
  note keyed = loaded_manifests_keyed [OF assms(1)]
  have ok: "store_ok manifests st" using reachable_store_ok [OF assms(2,3) keyed] by simp
  obtain m where id: "jcr_job_id r = job_id_for_idempotency_key pf (rq_key rq)"
    and m: "job_meta st1 (jcr_job_id r) = Some m" "md_ident m = created_ident pf rq r"
    using create_job_Inr [OF assms(4) ok keyed] by auto
  have ok1: "store_ok manifests st1" using create_job_ok [OF ok keyed assms(4)] by blast
  have "meta_mono (job_meta st1 (jcr_job_id r)) (job_meta st2 (jcr_job_id r))"
    using runner_steps_ok [OF assms(5) _ keyed] ok1 by simp
  then obtain m2 where m2: "job_meta st2 (jcr_job_id r) = Some m2" "md_ident m2 = created_ident pf rq r"
    using m by (auto simp: meta_mono_def)
  show ?thesis
    using create_job_existing [OF m2(1) [unfolded id, folded assms(7)] assms(6) io_try_no_faults]
      m2(2) assms(7,8)
    by (auto simp: md_ident_def created_ident_def)
qed

theorem runner_create_conflict_witness:
  "create_job demo_platform no_faults 9 demo_manifests demo_artifact_store [] demo_limits
      (demo_request\<lparr>rq_body := ''{x}''\<rparr>) (snd demo_created)
    = (Inl (JIdempotencyConflict (rq_key demo_request)), snd demo_created)"
proof (rule runner_create_conflict [OF demo_loaded demo_initial runner_steps.none _ runner_steps.none])
  show "create_job demo_platform no_faults 0 demo_manifests demo_artifact_store [] demo_limits
      demo_request demo_start = (Inr demo_response, snd demo_created)"
    using demo_created_ok by (metis demo_created_def prod.collapse)
  show "create_job_checks demo_platform no_faults 9 demo_manifests demo_artifact_store [] demo_limits
      (demo_request\<lparr>rq_body := ''{x}''\<rparr>) (snd demo_created) = Inr (demo_manifest, [], 1048576)"
    by code_simp
  show "rq_name (demo_request\<lparr>rq_body := ''{x}''\<rparr>) \<noteq> rq_name demo_request \<or>
      hash_request demo_platform (rq_name (demo_request\<lparr>rq_body := ''{x}''\<rparr>))
        (rq_body (demo_request\<lparr>rq_body := ''{x}''\<rparr>))
      \<noteq> hash_request demo_platform (rq_name demo_request) (rq_body demo_request)"
    by code_simp
qed simp

text \<open>C31. A restart settles every job: when the recovery succeeds, each directory left in the jobs
  directory holds a terminal job, and a job that was interrupted is reported as a shutdown,
  failed when it was running and canceled when a cancellation was under way.\<close>

theorem runner_restart_settles:
  assumes "recover_interrupted_jobs pf io now st = (Inr n, st')" and "idle st"
    and "job_dir_get (js_files st') k \<noteq> None"
  shows "\<exists>m. job_meta st k = Some m \<and> job_meta st' k = Some (settled_metadata pf now m) \<and>
    is_terminal (md_status (settled_metadata pf now m)) \<and>
    (md_status m = Running \<longrightarrow> md_status (settled_metadata pf now m) = Failed \<and>
       md_terminal_reason (settled_metadata pf now m) = Some ReasonShutdown) \<and>
    (md_status m \<in> {CancelRequested, Canceling} \<longrightarrow>
       md_status (settled_metadata pf now m) = Canceled \<and>
       md_terminal_reason (settled_metadata pf now m) = Some ReasonShutdown)"
proof -
  obtain m where "job_meta st k = Some m" "job_meta st' k = Some (settled_metadata pf now m)"
    using recover_settles [OF assms(1,2), of k] assms(3) by (cases "job_meta st k") auto
  then show ?thesis
    using settled_metadata_terminal [of pf now m]
    by (auto simp: settled_metadata_def recovered_metadata_def)
qed

theorem runner_restart_settles_witness:
  "\<exists>m. job_meta (snd (recover_interrupted_jobs demo_platform no_faults 5000000000 demo_interrupted)) ''job_done''
      = Some m \<and> md_status m = Failed \<and> md_terminal_reason m = Some ReasonShutdown"
proof -
  let ?r = "recover_interrupted_jobs demo_platform no_faults 5000000000 demo_interrupted"
  have 1: "fst ?r = Inr 2" by code_simp
  have 2: "job_dir_get (js_files (snd ?r)) ''job_done'' \<noteq> None" by code_simp
  have 3: "idle demo_interrupted"
    by (simp add: idle_def demo_interrupted_def demo_start_def bt_wf_def)
  have 4: "job_meta demo_interrupted ''job_done'' = Some (demo_done_metadata\<lparr>md_status := Running\<rparr>)"
    by (simp add: job_meta_def job_dir_get_def demo_interrupted_def)
  have "?r = (Inr 2, snd ?r)" using 1 prod.collapse [of ?r] by simp
  from runner_restart_settles [OF this 3 2] show ?thesis using 4 by auto
qed

text \<open>A creation that fails while it sets up the job's directory uses up its idempotency key:
  every later creation under that key fails as well, because the directory is there and its
  metadata is not, until a restart removes the directory.\<close>

theorem runner_failed_setup_blocks_key:
  assumes "bt_wf (js_files st)" and "bt_get (js_files st) (job_id_for_idempotency_key pf (rq_key rq)) = None"
    and "create_job pf io now manifests ast afs limits rq st = (Inl e, st')"
    and "bt_contains (job_id_for_idempotency_key pf (rq_key rq)) (js_files st')"
  shows "\<exists>e'. create_job pf io2 now2 manifests ast afs2 limits rq st' = (Inl e', st')"
proof -
  let ?id = "job_id_for_idempotency_key pf (rq_key rq)"
  have "job_meta st' ?id = None"
    using assms(3)
  proof (cases rule: create_job_cases)
    case (failed manifest job st1 e1)
    then show ?thesis
      using setup_job_dir_cases [OF failed(3)] assms(1,2)
      by (auto simp: job_meta_def job_dir_get_def)
  qed (use assms(2) in \<open>auto simp: job_meta_def job_dir_get_def\<close>)
  then have "read_metadata_from_path io2 ?id st' \<noteq> Inr m" for m
    using read_metadata_Inr [of io2 ?id st' m] by auto
  then obtain e' where "read_metadata_from_path io2 ?id st' = Inl e'"
    by (cases "read_metadata_from_path io2 ?id st'") auto
  then show ?thesis
    using assms(4)
    by (auto simp: create_job_def load_existing_job_for_request_def Let_def split: sum.splits prod.splits)
qed

definition failing_log_write :: faults where
  "failing_log_write =
     no_faults\<lparr>io_fail := (\<lambda>oper. case oper of WriteFile p \<Rightarrow>
        if p \<noteq> [] \<and> last p = ''stdout.log'' then Some ''disk full'' else None
      | _ \<Rightarrow> None)\<rparr>"

theorem runner_failed_setup_blocks_key_witness:
  "\<exists>e'. create_job demo_platform no_faults 9 demo_manifests demo_artifact_store [] demo_limits demo_request
      (snd (create_job demo_platform failing_log_write 0 demo_manifests demo_artifact_store [] demo_limits
        demo_request demo_start))
    = (Inl e', snd (create_job demo_platform failing_log_write 0 demo_manifests demo_artifact_store []
        demo_limits demo_request demo_start))"
proof -
  let ?c = "create_job demo_platform failing_log_write 0 demo_manifests demo_artifact_store [] demo_limits
    demo_request demo_start"
  let ?id = "job_id_for_idempotency_key demo_platform (rq_key demo_request)"
  have 1: "fst ?c = Inl (JWriteFile (path_display (job_file demo_start ?id ''stdout.log''))
      (IoError KOther ''disk full''))"
    and 2: "bt_contains ?id (js_files (snd ?c))" by code_simp+
  have 3: "?c = (Inl (JWriteFile (path_display (job_file demo_start ?id ''stdout.log''))
      (IoError KOther ''disk full'')), snd ?c)"
    using 1 prod.collapse [of ?c] by simp
  show ?thesis
    by (rule runner_failed_setup_blocks_key [OF _ _ 3 2]) (simp_all add: demo_start_def)
qed

lemma persist_metadata_no_faults:
  assumes "persist_metadata no_faults k m st = (r, st')" and "job_meta st k \<noteq> None"
  shows "r = Inr ()"
proof -
  obtain d where "bt_get (js_files st) k = Some (JobEntryDir d)"
    using assms(2) by (auto simp: job_meta_def job_dir_get_def split: option.splits JobEntry.splits)
  then show ?thesis
    using assms(1) by (auto simp: persist_metadata_def job_dir_put_def Let_def)
qed

text \<open>C13. Every job that ends is settled: when the execution of a running job returns, by exit,
timeout, cancellation, log limit or error, and no I/O call fails, its metadata on disk gets a
terminal status that agrees with its reason and its failure category, the run keeps its
identity, and its slot is free for the concurrency rules again.\<close>

theorem runner_finished_job_settled:
  assumes "load_from_dir host dir = Inr manifests" and "runner_initial s"
    and "runner_steps pf manifests ast limits s (st, afs)" and "bt_get (js_tasks st) k = Some ex"
    and "run_job pf no_faults now uuids ast spawned started obs ex (st, afs) = Some (st', afs')"
  shows "\<exists>m0 m. job_meta st k = Some m0 \<and> job_meta st' k = Some m \<and> terminal_consistent m
    \<and> md_ident m = md_ident m0 \<and> bt_get (js_running st') k = None \<and> bt_get (js_tasks st') k = None"
proof -
  have ok: "store_ok manifests st"
    using reachable_store_ok [OF assms(2,3) loaded_manifests_keyed [OF assms(1)]] by simp
  obtain outcome where x: "execute_process spawned started obs ex = Some outcome"
    using assms(5) by (auto simp: run_job_def split: option.splits)
  define s1 where "s1 = (if outcome = Inr canceled_outcome then note_canceling no_faults (ex_job_id ex) st else st)"
  have fin: "finish_job pf no_faults now uuids ast ex outcome (s1, afs) = (st', afs')"
    using assms(5) unfolding run_job_def x option.case Let_def s1_def fst_conv snd_conv option.inject .
  have ok1: "store_ok manifests s1" and step: "meta_step (job_meta st k) (job_meta s1 k)"
    using ok note_canceling_ok [OF ok] by (simp_all add: s1_def)
  obtain m0 where m0: "job_meta st k = Some m0" "\<not> is_terminal (md_status m0)"
    "md_ident m0 = md_ident (ex_metadata ex)" and exk: "ex_job_id ex = k"
    using tasks_ok_get [OF _ assms(4)] ok by (auto simp: store_ok_def)
  obtain m1 where m1: "job_meta s1 k = Some m1" using step m0(1) by (auto simp: meta_step_def)
  obtain st1 m r st2 st3 where q1: "quiet s1 st1" and p: "persist_metadata no_faults k m st1 = (r, st2)"
    and q2: "quiet st2 st3" and st': "st' = end_task k st3" and m: "terminal_consistent m"
    "md_ident m = md_ident (ex_metadata ex)"
    by (rule finish_job_shape [OF fin execute_process_terminal [OF x]]) (simp add: exk)
  have 1: "bt_wf (js_files st1)" "job_meta st1 = job_meta s1"
    using q1 store_ok_wf(1) [OF ok1] by (auto simp: quiet_def)
  have "r = Inr ()" using persist_metadata_no_faults [OF p] m1 1(2) by simp
  then have 2: "bt_wf (js_files st2)" "job_meta st2 k = Some m"
    using persist_metadata_cases [OF p 1(1)] by auto
  then have "job_meta st3 k = Some m" using q2 by (simp add: quiet_def)
  then have "job_meta st' k = Some m" "bt_get (js_running st') k = None" "bt_get (js_tasks st') k = None"
    by (simp_all add: st' end_task_def unregister_running_def job_meta_def)
  then show ?thesis using m m0 by auto
qed

theorem runner_finished_job_settled_witness:
  "\<exists>ex st' afs' m. bt_get (js_tasks (snd demo_created)) (jcr_job_id demo_response) = Some ex
     \<and> run_job demo_platform no_faults 9 (\<lambda>_. demo_uuid) demo_artifact_store (Inr ()) 0
         [demo_tick (60 * nanos_per_second)] ex (snd demo_created, []) = Some (st', afs')
     \<and> job_meta st' (jcr_job_id demo_response) = Some m \<and> terminal_consistent m"
proof -
  have "bt_contains (jcr_job_id demo_response) (js_tasks (snd demo_created))
      \<and> map_option (\<lambda>ex. unat (jm_timeout_seconds (ex_manifest ex)))
          (bt_get (js_tasks (snd demo_created)) (jcr_job_id demo_response)) = Some 60"
    by code_simp
  then obtain ex where ex: "bt_get (js_tasks (snd demo_created)) (jcr_job_id demo_response) = Some ex"
    and t: "unat (jm_timeout_seconds (ex_manifest ex)) = 60"
    by (auto simp: bt_contains_def)
  have "execute_process (Inr ()) 0 [demo_tick (60 * nanos_per_second)] ex = Some (Inr timed_out_outcome)"
    by (simp add: execute_process_def demo_tick_def t)
  then obtain st' afs' where run: "run_job demo_platform no_faults 9 (\<lambda>_. demo_uuid) demo_artifact_store
      (Inr ()) 0 [demo_tick (60 * nanos_per_second)] ex (snd demo_created, []) = Some (st', afs')"
    by (auto simp: run_job_def Let_def intro: prod.collapse [symmetric])
  show ?thesis
    using runner_finished_job_settled [OF demo_loaded demo_initial demo_create_step ex run] ex run by blast
qed

end
