(* ===== verification/Runner_Auth.thy ===== *)
theory Runner_Auth
  imports Artifact_Store
begin

text \<open>
  Authentication and authorisation of the runner's API (janus-runner/src/auth.rs): the trusted
  server keys from the configuration, the verification of a signed request with its
  timestamp window and its memory of nonces, and the permission each handler asks for.

  Base64, the parsing of an Ed25519 key and the verification of a signature are third-party
  functions and come as the record Crypto.  Keys and signatures are their bytes.  The code
  reads the clock twice in one verification, for the timestamp and for the nonce; both
  readings, in nanoseconds, are arguments.
\<close>

section \<open>Configuration (config.rs)\<close>

record AuthServerConfig =
  asc_name :: string
  asc_key_id :: string
  asc_public_key :: string
  asc_permissions :: "string list"

record AuthConfig =
  acf_mode :: string
  acf_servers :: "AuthServerConfig list"

record Crypto =
  cp_base64_decode :: "string \<Rightarrow> string option"
  cp_key_from_bytes :: "string \<Rightarrow> string option"
  cp_verify :: "string \<Rightarrow> string \<Rightarrow> string \<Rightarrow> bool"

section \<open>Errors\<close>

datatype AuthError =
    AuUnsupportedMode string
  | AuNoTrustedServers
  | AuDuplicateKeyId string
  | AuEmptyPermissions string
  | AuUnknownPermission string string
  | AuInvalidPublicKey string

fun AuthError_display :: "AuthError \<Rightarrow> string" where
  "AuthError_display (AuUnsupportedMode m) = ''unsupported auth mode: '' @ m"
| "AuthError_display AuNoTrustedServers = ''at least one trusted server key is required''"
| "AuthError_display (AuDuplicateKeyId k) = ''duplicate trusted server key_id '' @ k"
| "AuthError_display (AuEmptyPermissions k) =
     ''trusted server key_id '' @ k @ '' must have permissions''"
| "AuthError_display (AuUnknownPermission k p) =
     ''trusted server key_id '' @ k @ '' has unknown permission '' @ p"
| "AuthError_display (AuInvalidPublicKey k) = ''invalid public key for '' @ k"

datatype AuthRejection =
    MissingAuthorization
  | InvalidAuthorizationHeader
  | InvalidKeyId
  | InvalidSignature
  | InvalidTimestamp
  | InvalidNonce
  | Replay
  | ContentShaMismatch
  | RequestTooLarge
  | InvalidBodyLimit
  | MissingPermission string string

fun AuthRejection_display :: "AuthRejection \<Rightarrow> string" where
  "AuthRejection_display MissingAuthorization = ''missing signed request authentication''"
| "AuthRejection_display InvalidAuthorizationHeader = ''invalid signed request authentication''"
| "AuthRejection_display InvalidKeyId = ''unknown signing key id''"
| "AuthRejection_display InvalidSignature = ''invalid request signature''"
| "AuthRejection_display InvalidTimestamp = ''invalid or expired request timestamp''"
| "AuthRejection_display InvalidNonce = ''invalid request nonce''"
| "AuthRejection_display Replay = ''request nonce was already used''"
| "AuthRejection_display ContentShaMismatch = ''request body checksum does not match''"
| "AuthRejection_display RequestTooLarge = ''signed request body is too large''"
| "AuthRejection_display InvalidBodyLimit = ''invalid signed request body limit''"
| "AuthRejection_display (MissingPermission server permission) =
     ''server '' @ server @ '' does not have required permission '' @ permission"

fun auth_rejection_code :: "AuthRejection \<Rightarrow> string" where
  "auth_rejection_code MissingAuthorization = ''auth_missing_authorization''"
| "auth_rejection_code InvalidAuthorizationHeader = ''auth_invalid_authorization_header''"
| "auth_rejection_code InvalidKeyId = ''auth_invalid_key_id''"
| "auth_rejection_code InvalidSignature = ''auth_invalid_signature''"
| "auth_rejection_code InvalidTimestamp = ''auth_invalid_timestamp''"
| "auth_rejection_code InvalidNonce = ''auth_invalid_nonce''"
| "auth_rejection_code Replay = ''auth_replay''"
| "auth_rejection_code ContentShaMismatch = ''auth_content_sha_mismatch''"
| "auth_rejection_code RequestTooLarge = ''auth_request_too_large''"
| "auth_rejection_code InvalidBodyLimit = ''auth_invalid_body_limit''"
| "auth_rejection_code (MissingPermission _ _) = ''auth_missing_permission''"

definition auth_rejection_status :: "AuthRejection \<Rightarrow> status_code" where
  "auth_rejection_status e =
     (case e of MissingPermission _ _ \<Rightarrow> FORBIDDEN
      | RequestTooLarge \<Rightarrow> PAYLOAD_TOO_LARGE
      | _ \<Rightarrow> UNAUTHORIZED)"

definition auth_rejection_into_response :: "AuthRejection \<Rightarrow> ErrorResponse" where
  "auth_rejection_into_response e =
     \<lparr>er_status = auth_rejection_status e, er_retry_after = None,
      er_code = auth_rejection_code e, er_message = AuthRejection_display e\<rparr>"

section \<open>The trusted keys\<close>

definition KNOWN_PERMISSIONS :: "string list" where
  "KNOWN_PERMISSIONS =
     [''artifacts:write'', ''artifacts:read'', ''jobs:run'', ''jobs:read'', ''logs:read'']"

record PublicKeyRecord =
  pk_name :: string
  pk_verifying_key :: string
  pk_permissions :: "string set"

record AuthStore =
  au_keys :: "(string, PublicKeyRecord) btree_map"
  au_seen_nonces :: "(string, int) btree_map"

record AuthContext =
  ac_key_id :: string
  ac_server_name :: string
  ac_permissions :: "string set"

definition load_server_key ::
    "Crypto \<Rightarrow> AuthServerConfig \<Rightarrow> (string, PublicKeyRecord) btree_map \<Rightarrow>
     (AuthError, (string, PublicKeyRecord) btree_map) result" where
  "load_server_key cp server keys =
     and_then (ensure (\<not> bt_contains (asc_key_id server) keys) (AuDuplicateKeyId (asc_key_id server)))
     (\<lambda>_. and_then (ensure (asc_permissions server \<noteq> []) (AuEmptyPermissions (asc_key_id server)))
     (\<lambda>_. and_then (check_all (\<lambda>p. ensure (p \<in> set KNOWN_PERMISSIONS)
            (AuUnknownPermission (asc_key_id server) p)) (asc_permissions server))
     (\<lambda>_. and_then (ok_or (cp_base64_decode cp (trim (asc_public_key server)))
            (AuInvalidPublicKey (asc_key_id server)))
     (\<lambda>decoded. and_then (ensure (length decoded = 32) (AuInvalidPublicKey (asc_key_id server)))
     (\<lambda>_. and_then (ok_or (cp_key_from_bytes cp decoded) (AuInvalidPublicKey (asc_key_id server)))
     (\<lambda>verifying_key. Inr (bt_insert (asc_key_id server)
            \<lparr>pk_name = asc_name server, pk_verifying_key = verifying_key,
             pk_permissions = set (asc_permissions server)\<rparr> keys)))))))"

definition auth_load_from_config :: "Crypto \<Rightarrow> AuthConfig \<Rightarrow> (AuthError, AuthStore) result" where
  "auth_load_from_config cp config =
     (if acf_mode config \<noteq> ''signed'' then Inl (AuUnsupportedMode (acf_mode config))
      else if acf_servers config = [] then Inl AuNoTrustedServers
      else and_then (for_each (load_server_key cp) (acf_servers config) [])
        (\<lambda>keys. Inr \<lparr>au_keys = keys, au_seen_nonces = []\<rparr>))"

section \<open>Verifying a request\<close>

definition SIGNATURE_TOLERANCE_SECONDS :: int where "SIGNATURE_TOLERANCE_SECONDS = 300"

definition NONCE_RETENTION_SECONDS :: int where
  "NONCE_RETENTION_SECONDS = SIGNATURE_TOLERANCE_SECONDS * 2"

text \<open>HeaderMap::get finds the value of a header, which may be any bytes but line breaks.\<close>

type_synonym headers = "string \<Rightarrow> string option"

definition HEADER_SIGNATURE :: string where "HEADER_SIGNATURE = ''x-janus-signature''"
definition HEADER_SIGNATURE_KEY_ID :: string where "HEADER_SIGNATURE_KEY_ID = ''x-janus-key-id''"
definition HEADER_SIGNATURE_TIMESTAMP :: string where
  "HEADER_SIGNATURE_TIMESTAMP = ''x-janus-timestamp''"
definition HEADER_SIGNATURE_NONCE :: string where "HEADER_SIGNATURE_NONCE = ''x-janus-nonce''"
definition HEADER_SIGNATURE_CONTENT_SHA256 :: string where
  "HEADER_SIGNATURE_CONTENT_SHA256 = ''x-janus-content-sha256''"
definition SIGNATURE_ALGORITHM_ED25519 :: string where "SIGNATURE_ALGORITHM_ED25519 = ''ed25519''"

lemmas signature_headers = HEADER_SIGNATURE_def HEADER_SIGNATURE_KEY_ID_def
  HEADER_SIGNATURE_TIMESTAMP_def HEADER_SIGNATURE_NONCE_def HEADER_SIGNATURE_CONTENT_SHA256_def

definition required_header :: "headers \<Rightarrow> string \<Rightarrow> (AuthRejection, string) result" where
  "required_header headers name =
     and_then (ok_or (headers name) MissingAuthorization)
     (\<lambda>value. map_err (\<lambda>_. InvalidAuthorizationHeader) (header_to_str value))"

text \<open>Duration::num_seconds truncates towards zero.\<close>

definition num_seconds :: "int \<Rightarrow> int" where
  "num_seconds d = sgn d * (\<bar>d\<bar> div 1000000000)"

definition verify_timestamp :: "Platform \<Rightarrow> int \<Rightarrow> string \<Rightarrow> (AuthRejection, unit) result" where
  "verify_timestamp pf now value =
     and_then (map_err (\<lambda>_. InvalidTimestamp) (pf_parse_time pf value))
     (\<lambda>timestamp. if SIGNATURE_TOLERANCE_SECONDS < \<bar>num_seconds (now - timestamp)\<bar>
                   then Inl InvalidTimestamp else Inr ())"

definition replay_key :: "string \<Rightarrow> string \<Rightarrow> string" where
  "replay_key key_id nonce = key_id @ '':'' @ nonce"

definition verify_nonce ::
    "int \<Rightarrow> string \<Rightarrow> string \<Rightarrow> (string, int) btree_map \<Rightarrow> (AuthRejection, unit) result \<times> (string, int) btree_map" where
  "verify_nonce now key_id nonce seen =
     (if trim nonce = [] \<or> length nonce > 128 then (Inl InvalidNonce, seen)
      else
        let cutoff = now - nanos NONCE_RETENTION_SECONDS;
            seen = filter (\<lambda>(_, seen_at). cutoff \<le> seen_at) seen
        in if bt_contains (replay_key key_id nonce) seen then (Inl Replay, seen)
           else (Inr (), bt_insert (replay_key key_id nonce) now seen))"

definition parse_signature :: "Crypto \<Rightarrow> string \<Rightarrow> (AuthRejection, string) result" where
  "parse_signature cp value =
     (case strip_prefix SIGNATURE_ALGORITHM_ED25519 value of
        None \<Rightarrow> Inl InvalidAuthorizationHeader
      | Some rest \<Rightarrow>
        (case strip_prefix '':'' rest of
           None \<Rightarrow> Inl InvalidAuthorizationHeader
         | Some encoded \<Rightarrow>
             and_then (ok_or (cp_base64_decode cp encoded) InvalidAuthorizationHeader)
             (\<lambda>decoded. and_then (ensure (length decoded = 64) InvalidAuthorizationHeader)
             (\<lambda>_. Inr decoded))))"

record SignatureHeaders =
  sh_key_id :: string
  sh_timestamp :: string
  sh_nonce :: string
  sh_content_sha256 :: string
  sh_signature :: string

definition read_signature_headers :: "headers \<Rightarrow> (AuthRejection, SignatureHeaders) result" where
  "read_signature_headers headers =
     and_then (required_header headers HEADER_SIGNATURE_KEY_ID)
     (\<lambda>key_id. and_then (required_header headers HEADER_SIGNATURE_TIMESTAMP)
     (\<lambda>timestamp. and_then (required_header headers HEADER_SIGNATURE_NONCE)
     (\<lambda>nonce. and_then (required_header headers HEADER_SIGNATURE_CONTENT_SHA256)
     (\<lambda>content_sha256. and_then (required_header headers HEADER_SIGNATURE)
     (\<lambda>signature. Inr \<lparr>sh_key_id = key_id, sh_timestamp = timestamp, sh_nonce = nonce,
        sh_content_sha256 = content_sha256, sh_signature = signature\<rparr>)))))"

text \<open>What follows the nonce check: the body's digest, then the signature.\<close>

definition verify_content ::
    "Crypto \<Rightarrow> Platform \<Rightarrow> string \<Rightarrow> string \<Rightarrow> SignatureHeaders \<Rightarrow> PublicKeyRecord \<Rightarrow> string \<Rightarrow>
     (AuthRejection, AuthContext) result" where
  "verify_content cp pf method path_and_query sh key_record body =
     and_then (ensure (eq_ignore_ascii_case (sh_content_sha256 sh) (sha256_hex (pf_digest pf) body))
        ContentShaMismatch)
     (\<lambda>_. and_then (parse_signature cp (sh_signature sh))
     (\<lambda>signature. and_then
        (ensure (cp_verify cp (pk_verifying_key key_record)
           (canonical_signed_request method path_and_query (sh_content_sha256 sh)
              (sh_timestamp sh) (sh_nonce sh)) signature) InvalidSignature)
     (\<lambda>_. Inr \<lparr>ac_key_id = sh_key_id sh, ac_server_name = pk_name key_record,
               ac_permissions = pk_permissions key_record\<rparr>)))"

definition verify_request ::
    "Crypto \<Rightarrow> Platform \<Rightarrow> int \<Rightarrow> int \<Rightarrow> string \<Rightarrow> string \<Rightarrow> headers \<Rightarrow> string \<Rightarrow> AuthStore \<Rightarrow>
     (AuthRejection, AuthContext) result \<times> AuthStore" where
  "verify_request cp pf now_timestamp now_nonce method path_and_query headers body st =
     (case and_then (read_signature_headers headers)
             (\<lambda>sh. and_then (ok_or (bt_get (au_keys st) (sh_key_id sh)) InvalidKeyId)
             (\<lambda>key_record. and_then (verify_timestamp pf now_timestamp (sh_timestamp sh))
             (\<lambda>_. Inr (sh, key_record)))) of
        Inl e \<Rightarrow> (Inl e, st)
      | Inr (sh, key_record) \<Rightarrow>
        (case verify_nonce now_nonce (sh_key_id sh) (sh_nonce sh) (au_seen_nonces st) of
           (Inl e, seen) \<Rightarrow> (Inl e, st\<lparr>au_seen_nonces := seen\<rparr>)
         | (Inr _, seen) \<Rightarrow>
             (verify_content cp pf method path_and_query sh key_record body,
              st\<lparr>au_seen_nonces := seen\<rparr>)))"

section \<open>The middleware and the permissions\<close>

record SignedRequest =
  sr_method :: string
  sr_path_and_query :: string
  sr_headers :: headers
  sr_body :: string

definition max_signed_request_bytes :: "u64 \<Rightarrow> ArtifactStore \<Rightarrow> (AuthRejection, nat) result" where
  "max_signed_request_bytes max_request_body_kb artifacts =
     and_then (ok_or (checked_mul max_request_body_kb 1024) InvalidBodyLimit)
     (\<lambda>job_bytes. Inr (max (unat job_bytes) (unat (as_max_size_bytes artifacts))))"

definition verify_signed_request ::
    "Crypto \<Rightarrow> Platform \<Rightarrow> int \<Rightarrow> int \<Rightarrow> u64 \<Rightarrow> ArtifactStore \<Rightarrow> SignedRequest \<Rightarrow> AuthStore \<Rightarrow>
     (AuthRejection, AuthContext) result \<times> AuthStore" where
  "verify_signed_request cp pf now_timestamp now_nonce max_request_body_kb artifacts rq st =
     (case and_then (max_signed_request_bytes max_request_body_kb artifacts)
             (\<lambda>max_bytes. map_err (\<lambda>_. RequestTooLarge) (read_body_limited max_bytes (sr_body rq))) of
        Inl e \<Rightarrow> (Inl e, st)
      | Inr bytes \<Rightarrow>
          verify_request cp pf now_timestamp now_nonce (sr_method rq) (sr_path_and_query rq)
            (sr_headers rq) bytes st)"

datatype Permission = ArtifactsWrite | ArtifactsRead | JobsRun | JobsRead | LogsRead

fun permission_name :: "Permission \<Rightarrow> string" where
  "permission_name ArtifactsWrite = ''artifacts:write''"
| "permission_name ArtifactsRead = ''artifacts:read''"
| "permission_name JobsRun = ''jobs:run''"
| "permission_name JobsRead = ''jobs:read''"
| "permission_name LogsRead = ''logs:read''"

text \<open>Authorized::from_request_parts; the result is the token name the handler sees.\<close>

definition authorize :: "Permission \<Rightarrow> AuthContext option \<Rightarrow> (AuthRejection, string) result" where
  "authorize p context =
     and_then (ok_or context MissingAuthorization)
     (\<lambda>c. if permission_name p \<notin> ac_permissions c
           then Inl (MissingPermission (ac_server_name c) (permission_name p))
           else Inr (ac_server_name c))"

section \<open>Lemmas\<close>

subsection \<open>The contract of a replay guard\<close>

text \<open>
  A guard remembers when it admitted a key and refuses the key for the retention period: what
  it admits it has recorded, what it has recorded it refuses, and it forgets a record only
  when the period has passed.
\<close>

locale replay_guard =
  fixes check :: "int \<Rightarrow> 'k \<Rightarrow> 's \<Rightarrow> bool \<times> 's"
    and seen_at :: "'s \<Rightarrow> 'k \<Rightarrow> int option"
    and retention :: int
    and inv :: "'s \<Rightarrow> bool"
  assumes check_inv: "inv s \<Longrightarrow> check now k s = (ok, t) \<Longrightarrow> inv t"
    and check_admits: "inv s \<Longrightarrow> check now k s = (True, t) \<Longrightarrow> seen_at t k = Some now"
    and check_refuses: "inv s \<Longrightarrow> seen_at s k = Some t0 \<Longrightarrow> now \<le> t0 + retention \<Longrightarrow>
      check now k s = (ok, t) \<Longrightarrow> \<not> ok"
    and check_keeps: "inv s \<Longrightarrow> seen_at s j = Some t0 \<Longrightarrow> now \<le> t0 + retention \<Longrightarrow>
      check now k s = (ok, t) \<Longrightarrow> seen_at t j = Some t0"
begin

fun checks :: "(int \<times> 'k) list \<Rightarrow> 's \<Rightarrow> 's" where
  "checks [] s = s"
| "checks ((now, k) # cs) s = checks cs (snd (check now k s))"

lemma checks_keep:
  assumes "inv s" and "seen_at s j = Some t0" and "\<forall>(now, k) \<in> set cs. now \<le> t0 + retention"
  shows "inv (checks cs s) \<and> seen_at (checks cs s) j = Some t0"
  using assms
proof (induction cs arbitrary: s)
  case (Cons c cs)
  obtain now k where c: "c = (now, k)" by force
  obtain ok t where t: "check now k s = (ok, t)" by force
  have "inv t" by (rule check_inv [OF Cons.prems(1) t])
  moreover have "seen_at t j = Some t0"
    using check_keeps [OF Cons.prems(1,2) _ t] Cons.prems(3) by (simp add: c)
  ultimately show ?case using Cons.IH [of t] Cons.prems(3) by (simp add: c t)
qed simp

text \<open>A key is admitted at most once in the retention period.\<close>

lemma admitted_once:
  assumes "inv s" and "check t0 k s = (True, s1)"
    and "\<forall>(now, j) \<in> set cs. now \<le> t0 + retention" and "now \<le> t0 + retention"
  shows "\<not> fst (check now k (checks cs s1))"
proof -
  have "inv (checks cs s1) \<and> seen_at (checks cs s1) k = Some t0"
    using checks_keep [OF check_inv [OF assms(1,2)] check_admits [OF assms(1,2)] assms(3)] .
  then show ?thesis
    using check_refuses [OF _ _ assms(4)] by (metis prod.collapse)
qed

end

text \<open>The nonce memory keyed by its replay keys.\<close>

definition nonce_check :: "int \<Rightarrow> string \<times> string \<Rightarrow> (string, int) btree_map \<Rightarrow> bool \<times> (string, int) btree_map" where
  "nonce_check now kn seen = (case verify_nonce now (fst kn) (snd kn) seen of (r, t) \<Rightarrow> (is_ok r, t))"

definition nonce_seen_at :: "(string, int) btree_map \<Rightarrow> string \<times> string \<Rightarrow> int option" where
  "nonce_seen_at seen kn = bt_get seen (replay_key (fst kn) (snd kn))"

lemma bt_get_filter:
  assumes "bt_wf m"
  shows "bt_get (filter (\<lambda>(_, v). P v) m) k = (case bt_get m k of Some v \<Rightarrow> if P v then Some v else None | None \<Rightarrow> None)"
  using assms
proof (induction m)
  case (Cons e m)
  obtain l w where e: "e = (l, w)" by force
  have wf: "bt_wf m" and l: "l \<notin> fst ` set m" using Cons.prems by (auto simp: bt_wf_def e)
  have "bt_get m l = None" using l by (simp add: map_of_eq_None_iff)
  then have "bt_get (filter (\<lambda>(_, v). P v) m) l = None" using Cons.IH [OF wf] l
    by (auto simp: map_of_eq_None_iff)
  then show ?case using Cons.IH [OF wf] by (auto simp: e)
qed simp

interpretation nonces: replay_guard nonce_check nonce_seen_at "nanos NONCE_RETENTION_SECONDS" bt_wf
proof
  fix s t :: "(string, int) btree_map" and now t0 :: int and k j :: "string \<times> string" and ok
  note defs = nonce_check_def nonce_seen_at_def verify_nonce_def Let_def bt_contains_def
  show "bt_wf s \<Longrightarrow> nonce_check now k s = (ok, t) \<Longrightarrow> bt_wf t"
    by (auto simp: defs split: if_splits)
  show "bt_wf s \<Longrightarrow> nonce_check now k s = (True, t) \<Longrightarrow> nonce_seen_at t k = Some now"
    by (auto simp: defs split: if_splits)
  show "\<not> ok" if "bt_wf s" "nonce_seen_at s k = Some t0" "now \<le> t0 + nanos NONCE_RETENTION_SECONDS"
    "nonce_check now k s = (ok, t)"
    using that(4,2,3) by (auto simp: defs bt_get_filter [OF that(1)] split: if_splits)
  show "nonce_seen_at t j = Some t0" if "bt_wf s" "nonce_seen_at s j = Some t0"
    "now \<le> t0 + nanos NONCE_RETENTION_SECONDS" "nonce_check now k s = (ok, t)"
    using that(1,4,2,3) by (auto simp: defs bt_get_filter [OF that(1)] split: if_splits)
qed

subsection \<open>Requests\<close>

text \<open>A verification leaves the keys alone and makes at most one nonce check.\<close>

lemma verify_request_store:
  assumes "verify_request cp pf n n' m p h b st = (r, st')"
  shows "au_keys st' = au_keys st \<and>
    (au_seen_nonces st' = au_seen_nonces st \<or>
     (\<exists>kn. au_seen_nonces st' = snd (nonce_check n' kn (au_seen_nonces st))))"
  using assms
  by (fastforce simp: verify_request_def nonce_check_def split: sum.splits prod.splits)

lemma verify_request_Inr:
  assumes "verify_request cp pf n n' m p h b st = (Inr ctx, st')"
  obtains sh key_record where "read_signature_headers h = Inr sh"
    "bt_get (au_keys st) (sh_key_id sh) = Some key_record"
    "verify_timestamp pf n (sh_timestamp sh) = Inr ()"
    "nonce_check n' (sh_key_id sh, sh_nonce sh) (au_seen_nonces st) = (True, au_seen_nonces st')"
    "verify_content cp pf m p sh key_record b = Inr ctx"
  using assms
  by (auto simp: verify_request_def nonce_check_def split: sum.splits prod.splits)

lemma verify_request_checked:
  assumes "verify_request cp pf n n' m p h b st = (Inr ctx, st')" and "read_signature_headers h = Inr sh"
  shows "verify_timestamp pf n (sh_timestamp sh) = Inr ()"
    and "nonce_check n' (sh_key_id sh, sh_nonce sh) (au_seen_nonces st) = (True, au_seen_nonces st')"
    and "\<exists>r. bt_get (au_keys st) (sh_key_id sh) = Some r \<and> verify_content cp pf m p sh r b = Inr ctx"
  using assms
  by (auto simp: verify_request_def nonce_check_def split: sum.splits prod.splits)

lemma verify_request_accepts:
  assumes "read_signature_headers h = Inr sh" and "bt_get (au_keys st) (sh_key_id sh) = Some key_record"
    and "verify_timestamp pf n (sh_timestamp sh) = Inr ()"
    and "fst (nonce_check n' (sh_key_id sh, sh_nonce sh) (au_seen_nonces st))"
  shows "fst (verify_request cp pf n n' m p h b st) = verify_content cp pf m p sh key_record b"
  using assms by (auto simp: verify_request_def nonce_check_def split: sum.splits prod.splits)

text \<open>A store that serves requests, each with its two clock readings.\<close>

fun serve_requests ::
    "Crypto \<Rightarrow> Platform \<Rightarrow> (int \<times> int \<times> SignedRequest) list \<Rightarrow> AuthStore \<Rightarrow> AuthStore" where
  "serve_requests cp pf [] st = st"
| "serve_requests cp pf ((n, n', rq) # rqs) st =
     serve_requests cp pf rqs
       (snd (verify_request cp pf n n' (sr_method rq) (sr_path_and_query rq) (sr_headers rq) (sr_body rq) st))"

lemma serve_requests_keep:
  assumes "bt_wf (au_seen_nonces st)" and "nonce_seen_at (au_seen_nonces st) kn = Some t0"
    and "\<forall>(n, n', rq) \<in> set rqs. n' \<le> t0 + nanos NONCE_RETENTION_SECONDS"
  shows "bt_wf (au_seen_nonces (serve_requests cp pf rqs st)) \<and>
    nonce_seen_at (au_seen_nonces (serve_requests cp pf rqs st)) kn = Some t0"
  using assms
proof (induction rqs arbitrary: st)
  case (Cons x rqs)
  obtain n n' rq where x: "x = (n, n', rq)" by (cases x)
  obtain r st' where v: "verify_request cp pf n n' (sr_method rq) (sr_path_and_query rq)
      (sr_headers rq) (sr_body rq) st = (r, st')" by force
  have now: "n' \<le> t0 + nanos NONCE_RETENTION_SECONDS" using Cons.prems(3) by (auto simp: x)
  have "bt_wf (au_seen_nonces st') \<and> nonce_seen_at (au_seen_nonces st') kn = Some t0"
    using verify_request_store [OF v] Cons.prems(1,2) now
      nonces.check_inv [OF Cons.prems(1)] nonces.check_keeps [OF Cons.prems(1,2) now]
    by (metis prod.collapse)
  then show ?case using Cons.IH [of st'] Cons.prems(3) by (simp add: x v)
qed simp

lemma timestamp_window:
  "verify_timestamp pf n v = Inr () \<longleftrightarrow>
    (\<exists>ts. pf_parse_time pf v = Inr ts \<and> \<bar>n - ts\<bar> < nanos (SIGNATURE_TOLERANCE_SECONDS + 1))"
proof -
  have "\<bar>num_seconds d\<bar> = \<bar>d\<bar> div 1000000000" for d :: int
    by (simp add: num_seconds_def abs_mult sgn_if)
  moreover have "(\<bar>d\<bar> div 1000000000 \<le> 300) = (\<bar>d\<bar> < 301000000000)" for d :: int by linarith
  ultimately show ?thesis
    by (cases "pf_parse_time pf v")
      (auto simp: verify_timestamp_def SIGNATURE_TOLERANCE_SECONDS_def nanos_def not_less)
qed

lemma header_value_no_newline:
  "header_to_str v = Inr s \<Longrightarrow> CHR 0x0A \<notin> set s"
  by (auto simp: header_to_str_def list_all_iff split: if_splits)

lemma signature_headers_no_newline:
  "read_signature_headers h = Inr sh \<Longrightarrow>
   list_all (\<lambda>s. CHR 0x0A \<notin> set s) [sh_content_sha256 sh, sh_timestamp sh, sh_nonce sh, sh_key_id sh]"
  by (auto simp: read_signature_headers_def required_header_def map_err_eq_Inr
      dest: header_value_no_newline)

section \<open>Properties\<close>

definition server_key_ok :: "AuthServerConfig \<Rightarrow> PublicKeyRecord \<Rightarrow> bool" where
  "server_key_ok server r =
     (pk_name r = asc_name server \<and> pk_permissions r = set (asc_permissions server)
      \<and> pk_permissions r \<noteq> {} \<and> pk_permissions r \<subseteq> set KNOWN_PERMISSIONS)"

lemma load_server_keys:
  assumes "for_each (load_server_key cp) servers keys = Inr keys'" and "bt_wf keys"
  shows "bt_wf keys' \<and> distinct (map asc_key_id servers)
    \<and> (\<forall>k. bt_get keys k \<noteq> None \<longrightarrow> k \<notin> asc_key_id ` set servers \<and> bt_get keys' k = bt_get keys k)
    \<and> (\<forall>k. bt_get keys' k \<noteq> None \<longrightarrow> bt_get keys k \<noteq> None \<or> k \<in> asc_key_id ` set servers)
    \<and> (\<forall>s \<in> set servers. \<exists>r. bt_get keys' (asc_key_id s) = Some r \<and> server_key_ok s r)"
  using assms
proof (induction servers arbitrary: keys)
  case (Cons s servers)
  obtain keys1 where s: "load_server_key cp s keys = Inr keys1"
    and rest: "for_each (load_server_key cp) servers keys1 = Inr keys'"
    using Cons.prems(1) by auto
  from s obtain vk where vk: "keys1 = bt_insert (asc_key_id s)
      \<lparr>pk_name = asc_name s, pk_verifying_key = vk, pk_permissions = set (asc_permissions s)\<rparr> keys"
    "bt_get keys (asc_key_id s) = None" "asc_permissions s \<noteq> []"
    "set (asc_permissions s) \<subseteq> set KNOWN_PERMISSIONS"
    unfolding load_server_key_def by (auto simp: check_all_ok_iff bt_contains_def)
  define r where "r = \<lparr>pk_name = asc_name s, pk_verifying_key = vk, pk_permissions = set (asc_permissions s)\<rparr>"
  have r: "keys1 = bt_insert (asc_key_id s) r keys" "server_key_ok s r"
    "bt_get keys (asc_key_id s) = None" using vk by (simp_all add: r_def server_key_ok_def)
  have wf: "bt_wf keys1" using Cons.prems(2) by (simp add: r)
  note IH = Cons.IH [OF rest wf]
  have get1: "bt_get keys1 k = (if k = asc_key_id s then Some r else bt_get keys k)" for k
    using Cons.prems(2) by (simp add: r)
  have new: "asc_key_id s \<notin> asc_key_id ` set servers" "bt_get keys' (asc_key_id s) = Some r"
    using IH get1 [of "asc_key_id s"] by auto
  show ?case using IH new r(2,3) get1 by (auto split: if_splits)
qed simp

text \<open>The trusted keys are those of the configuration: a store that was loaded holds one key
per configured server, under distinct key ids and nothing else, each with the server's name
and exactly its permissions, which are known ones and at least one; it starts with no nonces.\<close>

theorem loaded_keys_match_config:
  assumes "auth_load_from_config cp config = Inr st"
  shows "distinct (map asc_key_id (acf_servers config)) \<and> au_seen_nonces st = []
    \<and> (\<forall>k. bt_get (au_keys st) k \<noteq> None \<longleftrightarrow> k \<in> asc_key_id ` set (acf_servers config))
    \<and> (\<forall>s \<in> set (acf_servers config). \<exists>r. bt_get (au_keys st) (asc_key_id s) = Some r \<and> server_key_ok s r)"
proof -
  have l: "for_each (load_server_key cp) (acf_servers config) [] = Inr (au_keys st)" "au_seen_nonces st = []"
    using assms by (auto simp: auth_load_from_config_def split: if_splits)
  show ?thesis using load_server_keys [OF l(1) bt_wf_Nil] l(2) by auto
qed

definition demo_crypto :: Crypto where
  "demo_crypto = \<lparr>cp_base64_decode = Some, cp_key_from_bytes = Some,
     cp_verify = (\<lambda>pk msg sig. pk = replicate 32 (CHR ''p'')
       \<and> msg = canonical_signed_request ''GET'' ''/jobs'' ''6162'' [] ''n1'')\<rparr>"

definition demo_auth_config :: AuthConfig where
  "demo_auth_config = \<lparr>acf_mode = ''signed'', acf_servers =
     [\<lparr>asc_name = ''ci'', asc_key_id = ''k1'', asc_public_key = replicate 32 (CHR ''p''),
       asc_permissions = [''jobs:run'', ''jobs:read'']\<rparr>]\<rparr>"

definition demo_auth_store :: AuthStore where
  "demo_auth_store = \<lparr>au_keys = [(''k1'', \<lparr>pk_name = ''ci'', pk_verifying_key = replicate 32 (CHR ''p''),
     pk_permissions = {''jobs:run'', ''jobs:read''}\<rparr>)], au_seen_nonces = []\<rparr>"

lemma demo_auth_loaded: "auth_load_from_config demo_crypto demo_auth_config = Inr demo_auth_store"
proof -
  have "trim (replicate 32 (CHR ''p'')) = replicate 32 (CHR ''p'')" by code_simp
  then show ?thesis
    by (simp add: auth_load_from_config_def load_server_key_def demo_auth_config_def demo_auth_store_def
        demo_crypto_def KNOWN_PERMISSIONS_def bt_contains_def)
qed

theorem loaded_keys_match_config_witness:
  "\<forall>k. bt_get (au_keys demo_auth_store) k \<noteq> None \<longleftrightarrow> k = ''k1''"
  using loaded_keys_match_config [OF demo_auth_loaded] by (auto simp: demo_auth_config_def)

text \<open>C14. An accepted request is authentic: if a signature verifies only for canonical texts that
the holder of the key has signed, then the holder of the configured key has signed precisely
this request, with its method, path and query, body digest, timestamp and nonce; the digest is
that of the received body, and the permissions are those configured for the key.\<close>

theorem accepted_request_authentic:
  assumes "verify_request cp pf n n' method path headers body st = (Inr ctx, st')"
    and "\<And>pk msg sig. cp_verify cp pk msg sig \<Longrightarrow> \<exists>m p h t nonce. (pk, m, p, h, t, nonce) \<in> issued
      \<and> msg = canonical_signed_request m p h t nonce \<and> list_all (\<lambda>s. CHR 0x0A \<notin> set s) [m, p, h, t]"
    and "CHR 0x0A \<notin> set method" and "CHR 0x0A \<notin> set path"
  shows "\<exists>sh r. read_signature_headers headers = Inr sh \<and> bt_get (au_keys st) (sh_key_id sh) = Some r
    \<and> (pk_verifying_key r, method, path, sh_content_sha256 sh, sh_timestamp sh, sh_nonce sh) \<in> issued
    \<and> eq_ignore_ascii_case (sh_content_sha256 sh) (sha256_hex (pf_digest pf) body)
    \<and> ac_permissions ctx = pk_permissions r \<and> ac_key_id ctx = sh_key_id sh"
proof -
  obtain sh r where h: "read_signature_headers headers = Inr sh"
    and r: "bt_get (au_keys st) (sh_key_id sh) = Some r"
    and c: "verify_content cp pf method path sh r body = Inr ctx"
    using verify_request_Inr [OF assms(1)] by blast
  from c obtain sig where sig: "cp_verify cp (pk_verifying_key r)
      (canonical_signed_request method path (sh_content_sha256 sh) (sh_timestamp sh) (sh_nonce sh)) sig"
    and d: "eq_ignore_ascii_case (sh_content_sha256 sh) (sha256_hex (pf_digest pf) body)"
    and ctx: "ac_permissions ctx = pk_permissions r" "ac_key_id ctx = sh_key_id sh"
    by (auto simp: verify_content_def)
  obtain m p hh t nonce where s: "(pk_verifying_key r, m, p, hh, t, nonce) \<in> issued"
    and eq: "canonical_signed_request method path (sh_content_sha256 sh) (sh_timestamp sh) (sh_nonce sh)
      = canonical_signed_request m p hh t nonce"
    and nl: "list_all (\<lambda>s. CHR 0x0A \<notin> set s) [m, p, hh, t]"
    using assms(2) [OF sig] by blast
  have "(method, path, sh_content_sha256 sh, sh_timestamp sh, sh_nonce sh) = (m, p, hh, t, nonce)"
    using canonical_inject [OF eq] assms(3,4) nl signature_headers_no_newline [OF h] by simp
  then show ?thesis using h r s d ctx by auto
qed

definition demo_headers :: headers where
  "demo_headers = map_of
     [(HEADER_SIGNATURE_KEY_ID, ''k1''), (HEADER_SIGNATURE_TIMESTAMP, []), (HEADER_SIGNATURE_NONCE, ''n1''),
      (HEADER_SIGNATURE_CONTENT_SHA256, ''6162''),
      (HEADER_SIGNATURE, ''ed25519:'' @ replicate 64 (CHR ''s''))]"

definition demo_context :: AuthContext where
  "demo_context = \<lparr>ac_key_id = ''k1'', ac_server_name = ''ci'', ac_permissions = {''jobs:run'', ''jobs:read''}\<rparr>"

definition demo_sh :: SignatureHeaders where
  "demo_sh = \<lparr>sh_key_id = ''k1'', sh_timestamp = [], sh_nonce = ''n1'', sh_content_sha256 = ''6162'',
     sh_signature = ''ed25519:'' @ replicate 64 (CHR ''s'')\<rparr>"

lemma demo_headers_read: "read_signature_headers demo_headers = Inr demo_sh"
  by code_simp

lemma demo_verify:
  assumes "\<bar>n\<bar> < nanos 301" and "nonce_seen_at seen (''k1'', ''n1'') = None \<or>
      nonce_seen_at seen (''k1'', ''n1'') = Some t0 \<and> t0 < n' - nanos 600" and "bt_wf seen"
  shows "fst (verify_request demo_crypto demo_platform n n' ''GET'' ''/jobs'' demo_headers ''ab''
    (demo_auth_store\<lparr>au_seen_nonces := seen\<rparr>)) = Inr demo_context"
proof -
  have c: "verify_content demo_crypto demo_platform ''GET'' ''/jobs'' demo_sh
      \<lparr>pk_name = ''ci'', pk_verifying_key = replicate 32 (CHR ''p''), pk_permissions = {''jobs:run'', ''jobs:read''}\<rparr>
      ''ab'' = Inr demo_context"
    by (code_simp) 
  have t: "verify_timestamp demo_platform n (sh_timestamp demo_sh) = Inr ()"
    using assms(1) by (simp add: timestamp_window demo_platform_def demo_sh_def nanos_def
        SIGNATURE_TOLERANCE_SECONDS_def)
  have tr: "trim ''n1'' \<noteq> []" by code_simp
  have n: "fst (nonce_check n' (''k1'', ''n1'') seen)"
    using assms(2) tr
    by (auto simp: nonce_check_def verify_nonce_def Let_def bt_contains_def nonce_seen_at_def
        bt_get_filter [OF assms(3)] NONCE_RETENTION_SECONDS_def SIGNATURE_TOLERANCE_SECONDS_def)
  show ?thesis
    by (rule trans [OF verify_request_accepts [OF demo_headers_read _ t] c])
      (use n in \<open>simp_all add: demo_auth_store_def demo_sh_def\<close>)
qed

theorem accepted_request_authentic_witness:
  "\<exists>ctx st'. verify_request demo_crypto demo_platform 5 6 ''GET'' ''/jobs'' demo_headers ''ab'' demo_auth_store
      = (Inr ctx, st') \<and> ac_key_id ctx = ''k1''"
proof -
  have "fst (verify_request demo_crypto demo_platform 5 6 ''GET'' ''/jobs'' demo_headers ''ab''
      (demo_auth_store\<lparr>au_seen_nonces := []\<rparr>)) = Inr demo_context"
    by (rule demo_verify) (simp_all add: nanos_def nonce_seen_at_def)
  then obtain st' where v: "verify_request demo_crypto demo_platform 5 6 ''GET'' ''/jobs'' demo_headers ''ab''
      demo_auth_store = (Inr demo_context, st')"
    by (auto simp: prod_eq_iff demo_auth_store_def)
  have "\<exists>sh r. read_signature_headers demo_headers = Inr sh \<and> bt_get (au_keys demo_auth_store) (sh_key_id sh) = Some r
    \<and> (pk_verifying_key r, ''GET'', ''/jobs'', sh_content_sha256 sh, sh_timestamp sh, sh_nonce sh)
        \<in> {(replicate 32 (CHR ''p''), ''GET'', ''/jobs'', ''6162'', [], ''n1'')}
    \<and> eq_ignore_ascii_case (sh_content_sha256 sh) (sha256_hex (pf_digest demo_platform) ''ab'')
    \<and> ac_permissions demo_context = pk_permissions r \<and> ac_key_id demo_context = sh_key_id sh"
  proof (rule accepted_request_authentic [OF v])
    show "\<exists>m p h t nonce. (pk, m, p, h, t, nonce)
          \<in> {(replicate 32 (CHR ''p''), ''GET'', ''/jobs'', ''6162'', [], ''n1'')}
        \<and> msg = canonical_signed_request m p h t nonce \<and> list_all (\<lambda>s. CHR 0x0A \<notin> set s) [m, p, h, t]"
      if "cp_verify demo_crypto pk msg sig" for pk msg sig
      using that unfolding demo_crypto_def Crypto.simps
      by (intro exI [where x = "''GET''"] exI [where x = "''/jobs''"] exI [where x = "''6162''"]
          exI [where x = "[]"] exI [where x = "''n1''"] conjI) (elim conjE, simp)+
  qed simp_all
  then show ?thesis using v by (auto simp: demo_context_def)
qed

text \<open>C15. A signed request is accepted once: after a request was accepted, no request with the
same key id and nonce is accepted while the nonce check of none of the requests since, whoever
sent them, reads a clock more than ten minutes later; and the same timestamp is not accepted
602 seconds after the first acceptance or later.\<close>

theorem signed_request_accepted_once:
  assumes "bt_wf (au_seen_nonces st)"
    and "verify_request cp pf n1 n1' m p h b st = (Inr ctx, st1)"
    and "read_signature_headers h = Inr sh" and "read_signature_headers h2 = Inr sh2"
    and "sh_key_id sh2 = sh_key_id sh" and "sh_nonce sh2 = sh_nonce sh"
    and "fst (verify_request cp pf n2 n2' m2 p2 h2 b2 (serve_requests cp pf rqs st1)) = Inr ctx2"
  shows "(\<exists>x \<in> insert n2' ((fst \<circ> snd) ` set rqs). n1' + nanos 600 < x)
    \<and> (sh_timestamp sh2 = sh_timestamp sh \<longrightarrow> n2 < n1 + nanos 602)"
proof (intro conjI impI)
  let ?kn = "(sh_key_id sh, sh_nonce sh)" and ?s2 = "serve_requests cp pf rqs st1"
  obtain st2 where v2: "verify_request cp pf n2 n2' m2 p2 h2 b2 ?s2 = (Inr ctx2, st2)"
    using assms(7) by (cases "verify_request cp pf n2 n2' m2 p2 h2 b2 ?s2") auto
  have c1: "nonce_check n1' ?kn (au_seen_nonces st) = (True, au_seen_nonces st1)"
    and t1: "verify_timestamp pf n1 (sh_timestamp sh) = Inr ()"
    using verify_request_checked [OF assms(2,3)] by simp_all
  have c2: "nonce_check n2' ?kn (au_seen_nonces ?s2) = (True, au_seen_nonces st2)"
    and t2: "verify_timestamp pf n2 (sh_timestamp sh2) = Inr ()"
    using verify_request_checked [OF v2 assms(4)] by (simp_all add: assms(5,6))
  show "\<exists>x \<in> insert n2' ((fst \<circ> snd) ` set rqs). n1' + nanos 600 < x"
  proof (rule ccontr)
    assume neg: "\<not> ?thesis"
    have ret: "nanos NONCE_RETENTION_SECONDS = nanos 600"
      by (simp add: NONCE_RETENTION_SECONDS_def SIGNATURE_TOLERANCE_SECONDS_def)
    have "\<forall>(n, n', rq) \<in> set rqs. n' \<le> n1' + nanos NONCE_RETENTION_SECONDS"
      using neg by (force simp: ret not_less)
    note keep = serve_requests_keep [OF nonces.check_inv [OF assms(1) c1]
        nonces.check_admits [OF assms(1) c1] this, of cp pf]
    show False
      using nonces.check_refuses [OF keep [THEN conjunct1] keep [THEN conjunct2] _ c2] neg
      by (simp add: ret not_less)
  qed
  show "n2 < n1 + nanos 602" if "sh_timestamp sh2 = sh_timestamp sh"
    using t1 t2 that by (auto simp: timestamp_window nanos_def SIGNATURE_TOLERANCE_SECONDS_def)
qed

lemma demo_first: "verify_request demo_crypto demo_platform n n ''GET'' ''/jobs'' demo_headers ''ab'' demo_auth_store
    = (Inr demo_context, snd (verify_request demo_crypto demo_platform n n ''GET'' ''/jobs'' demo_headers ''ab'' demo_auth_store))"
  if "\<bar>n\<bar> < nanos 301"
proof -
  have "demo_auth_store\<lparr>au_seen_nonces := []\<rparr> = demo_auth_store" by (simp add: demo_auth_store_def)
  then show ?thesis
    using demo_verify [OF that, of "[]" 0 n] prod.collapse [of "verify_request demo_crypto demo_platform n n
        ''GET'' ''/jobs'' demo_headers ''ab'' demo_auth_store"]
    by (simp add: nonce_seen_at_def)
qed

theorem signed_request_accepted_once_witness:
  "fst (verify_request demo_crypto demo_platform 9 9 ''GET'' ''/jobs'' demo_headers ''ab''
     (snd (verify_request demo_crypto demo_platform 5 5 ''GET'' ''/jobs'' demo_headers ''ab'' demo_auth_store)))
   \<noteq> Inr demo_context"
proof
  assume "fst (verify_request demo_crypto demo_platform 9 9 ''GET'' ''/jobs'' demo_headers ''ab''
     (snd (verify_request demo_crypto demo_platform 5 5 ''GET'' ''/jobs'' demo_headers ''ab'' demo_auth_store)))
   = Inr demo_context"
  then have second: "fst (verify_request demo_crypto demo_platform 9 9 ''GET'' ''/jobs'' demo_headers ''ab''
     (serve_requests demo_crypto demo_platform []
       (snd (verify_request demo_crypto demo_platform 5 5 ''GET'' ''/jobs'' demo_headers ''ab'' demo_auth_store))))
   = Inr demo_context" by (simp only: serve_requests.simps)
  have wf: "bt_wf (au_seen_nonces demo_auth_store)" by (simp add: demo_auth_store_def)
  have "\<exists>x \<in> insert 9 ((fst \<circ> snd) ` set ([] :: (int \<times> int \<times> SignedRequest) list)). 5 + nanos 600 < x"
    using signed_request_accepted_once [OF wf demo_first demo_headers_read demo_headers_read refl refl second]
    by (simp add: nanos_def)
  then show False by (simp add: nanos_def)
qed

text \<open>The memory of nonces is shorter than the timestamp window: a request whose timestamp is
300.5 seconds ahead of the clock is accepted, and the very same request is accepted again 601
seconds later, because its timestamp is then only 300.5 seconds old and its nonce forgotten.\<close>

theorem signed_request_replayed_after_retention:
  assumes "bt_wf (au_seen_nonces st)"
    and "verify_request cp pf n n m p h b st = (Inr ctx, st1)"
    and "read_signature_headers h = Inr sh"
    and "pf_parse_time pf (sh_timestamp sh) = Inr (n + 300500000000)"
  shows "fst (verify_request cp pf (n + nanos 601) (n + nanos 601) m p h b st1) = Inr ctx"
proof -
  obtain r where r: "bt_get (au_keys st) (sh_key_id sh) = Some r"
    and c: "verify_content cp pf m p sh r b = Inr ctx"
    and n: "nonce_check n (sh_key_id sh, sh_nonce sh) (au_seen_nonces st) = (True, au_seen_nonces st1)"
    using verify_request_checked [OF assms(2,3)] by auto
  have r1: "bt_get (au_keys st1) (sh_key_id sh) = Some r"
    using r verify_request_store [OF assms(2)] by simp
  have t: "verify_timestamp pf (n + nanos 601) (sh_timestamp sh) = Inr ()"
    using assms(4) by (simp add: timestamp_window nanos_def SIGNATURE_TOLERANCE_SECONDS_def)
  have wf: "bt_wf (au_seen_nonces st1)" by (rule nonces.check_inv [OF assms(1) n])
  have "bt_get (au_seen_nonces st1) (replay_key (sh_key_id sh) (sh_nonce sh)) = Some n"
    using nonces.check_admits [OF assms(1) n] by (simp add: nonce_seen_at_def)
  moreover have "\<not> (trim (sh_nonce sh) = [] \<or> length (sh_nonce sh) > 128)"
    using n by (auto simp: nonce_check_def verify_nonce_def)
  ultimately have "fst (nonce_check (n + nanos 601) (sh_key_id sh, sh_nonce sh) (au_seen_nonces st1))"
    by (auto simp: nonce_check_def verify_nonce_def Let_def bt_contains_def bt_get_filter [OF wf]
        NONCE_RETENTION_SECONDS_def SIGNATURE_TOLERANCE_SECONDS_def nanos_def)
  from verify_request_accepts [OF assms(3) r1 t this] c show ?thesis by simp
qed

theorem signed_request_replayed_after_retention_witness:
  "fst (verify_request demo_crypto demo_platform (-300500000000 + nanos 601) (-300500000000 + nanos 601)
     ''GET'' ''/jobs'' demo_headers ''ab''
     (snd (verify_request demo_crypto demo_platform (-300500000000) (-300500000000)
        ''GET'' ''/jobs'' demo_headers ''ab'' demo_auth_store))) = Inr demo_context"
  by (rule signed_request_replayed_after_retention [OF _ demo_first demo_headers_read])
    (simp_all add: demo_auth_store_def nanos_def demo_platform_def demo_sh_def)

text \<open>A permission is never implied: a handler's authorisation succeeds exactly for a
verified context that lists the handler's permission, and every permission a handler asks for
can be configured.\<close>

lemma authorize_iff:
  "(authorize p context = Inr name \<longleftrightarrow>
     (\<exists>c. context = Some c \<and> permission_name p \<in> ac_permissions c \<and> name = ac_server_name c))
   \<and> permission_name p \<in> set KNOWN_PERMISSIONS"
  by (cases p) (auto simp: authorize_def KNOWN_PERMISSIONS_def)

end
