(* ===== verification/Runner_Api.thy ===== *)
theory Runner_Api
  imports Runner_System Runner_Auth
begin

text \<open>
  The runner as a service (janus-runner/src/jobs/api.rs and main.rs): its start, the
  handlers of its protected routes behind the signature check, the health and readiness
  answers, and the periodic removal of expired artifacts.

  The router itself is third-party: an Endpoint is the handler it selects with the parameter
  it cuts from the path.  What a request consumes of the outside world, the I/O faults, the
  clock readings and the random uuid, is its RequestEnv.
\<close>

section \<open>Configuration and state\<close>

record ArtifactsConfig =
  ac_max_size_mb :: u64
  ac_ttl_seconds :: u64
  ac_cleanup_interval_seconds :: u64
  ac_require_checksum_on_upload :: bool
  ac_max_upload_requests_per_minute :: u32

record JobsConfig =
  jc_default_log_limit_mb :: u64
  jc_max_request_body_kb :: u64
  jc_max_run_requests_per_minute :: u32
  jc_cleanup_successful_workdirs :: bool
  jc_keep_failed_workdirs :: bool

record Config =
  cf_data_dir :: path
  cf_manifests_dir :: string
  cf_listen :: string
  cf_auth :: AuthConfig
  cf_artifacts :: ArtifactsConfig
  cf_jobs :: JobsConfig

record StartupValidationStatus =
  sv_completed :: bool
  sv_recovered_artifacts :: nat
  sv_recovered_jobs :: nat

record BackgroundTaskHealth =
  bh_running :: bool
  bh_last_success_at :: "string option"
  bh_last_error :: "string option"

record RuntimeStatus =
  rs_startup :: StartupValidationStatus
  rs_artifact_cleanup :: BackgroundTaskHealth

definition runtime_status_new :: "nat \<Rightarrow> nat \<Rightarrow> RuntimeStatus" where
  "runtime_status_new recovered_artifacts recovered_jobs =
     \<lparr>rs_startup = \<lparr>sv_completed = True, sv_recovered_artifacts = recovered_artifacts,
        sv_recovered_jobs = recovered_jobs\<rparr>,
      rs_artifact_cleanup = \<lparr>bh_running = True, bh_last_success_at = None, bh_last_error = None\<rparr>\<rparr>"

definition record_artifact_cleanup_success :: "Platform \<Rightarrow> int \<Rightarrow> RuntimeStatus \<Rightarrow> RuntimeStatus" where
  "record_artifact_cleanup_success pf now rs =
     rs\<lparr>rs_artifact_cleanup := (rs_artifact_cleanup rs)
          \<lparr>bh_last_success_at := Some (pf_format_time pf now), bh_last_error := None\<rparr>\<rparr>"

definition record_artifact_cleanup_error :: "string \<Rightarrow> RuntimeStatus \<Rightarrow> RuntimeStatus" where
  "record_artifact_cleanup_error e rs =
     rs\<lparr>rs_artifact_cleanup := (rs_artifact_cleanup rs)\<lparr>bh_last_error := Some e\<rparr>\<rparr>"

definition mark_artifact_cleanup_stopped :: "RuntimeStatus \<Rightarrow> RuntimeStatus" where
  "mark_artifact_cleanup_stopped rs =
     rs\<lparr>rs_artifact_cleanup := (rs_artifact_cleanup rs)\<lparr>bh_running := False\<rparr>\<rparr>"

definition runtime_is_ready :: "RuntimeStatus \<Rightarrow> bool" where
  "runtime_is_ready rs =
     (sv_completed (rs_startup rs) \<and> bh_running (rs_artifact_cleanup rs)
      \<and> bh_last_error (rs_artifact_cleanup rs) = None)"

record AppState =
  st_config :: Config
  st_auth :: AuthStore
  st_manifests :: ManifestStore
  st_artifacts :: ArtifactStore
  st_artifact_files :: ArtifactFiles
  st_jobs :: JobStore
  st_rate_limiter :: RateLimiter
  st_runtime_status :: RuntimeStatus

definition job_limits :: "JobsConfig \<Rightarrow> JobLimits" where
  "job_limits c =
     \<lparr>jl_log_limit_mb = jc_default_log_limit_mb c,
      jl_cleanup_successful = jc_cleanup_successful_workdirs c,
      jl_keep_failed = jc_keep_failed_workdirs c\<rparr>"

section \<open>Starting\<close>

datatype StartupError =
    SAuth AuthError
  | SManifest ManifestError
  | SArtifact ArtifactError
  | SJob JobError

text \<open>What is on disk survives a failed start as the calls before the failure left it.\<close>

definition startup ::
    "Crypto \<Rightarrow> Platform \<Rightarrow> faults \<Rightarrow> int \<Rightarrow> ManifestHost \<Rightarrow> Config \<Rightarrow> ArtifactFiles \<Rightarrow> JobFiles \<Rightarrow>
     (StartupError, AppState) result \<times> ArtifactFiles \<times> JobFiles" where
  "startup cp pf io now host config artifacts_on_disk jobs_on_disk =
     (case and_then (map_err SAuth (auth_load_from_config cp (cf_auth config)))
             (\<lambda>auth. and_then (map_err SManifest (load_from_dir host (cf_manifests_dir config)))
             (\<lambda>manifests. and_then (map_err SArtifact
                (artifact_store_new io (cf_data_dir config) (ac_ttl_seconds (cf_artifacts config))
                   (ac_max_size_mb (cf_artifacts config))
                   (ac_require_checksum_on_upload (cf_artifacts config))))
             (\<lambda>artifacts. Inr (auth, manifests, artifacts)))) of
        Inl e \<Rightarrow> (Inl e, artifacts_on_disk, jobs_on_disk)
      | Inr (auth, manifests, artifacts) \<Rightarrow>
        (case recover_incomplete_artifacts pf io artifacts artifacts_on_disk of
           (Inl e, afs) \<Rightarrow> (Inl (SArtifact e), afs, jobs_on_disk)
         | (Inr recovered_artifacts, afs) \<Rightarrow>
           (case map_err SJob (job_store_new io (cf_data_dir config) jobs_on_disk) of
              Inl e \<Rightarrow> (Inl e, afs, jobs_on_disk)
            | Inr jobs \<Rightarrow>
              (case recover_interrupted_jobs pf io now jobs of
                 (Inl e, jobs') \<Rightarrow> (Inl (SJob e), afs, js_files jobs')
               | (Inr recovered_jobs, jobs') \<Rightarrow>
                   (Inr \<lparr>st_config = config, st_auth = auth, st_manifests = manifests,
                         st_artifacts = artifacts, st_artifact_files = afs, st_jobs = jobs',
                         st_rate_limiter = [],
                         st_runtime_status = runtime_status_new recovered_artifacts recovered_jobs\<rparr>,
                    afs, js_files jobs')))))"

section \<open>Handlers\<close>

record RequestEnv =
  re_io :: faults
  re_now_timestamp :: int
  re_now_nonce :: int
  re_now :: int
  re_instant :: nat
  re_uuid :: string

definition ACCEPTED_202 :: status_code where "ACCEPTED_202 = 202"

text \<open>The request of a job run, from its headers and body.\<close>

definition parse_job_request ::
    "Platform \<Rightarrow> u64 \<Rightarrow> string \<Rightarrow> headers \<Rightarrow> string \<Rightarrow> (JobError, JobRequest) result" where
  "parse_job_request pf max_request_body_kb name headers body =
     and_then (ok_or (checked_mul max_request_body_kb 1024) (JInvalidRequestBodyLimit max_request_body_kb))
     (\<lambda>max_bytes. and_then
        (map_err (\<lambda>_. JRequestTooLarge (unat max_bytes)) (read_body_limited (unat max_bytes) body))
     (\<lambda>bytes. and_then (ok_or (headers HEADER_IDEMPOTENCY_KEY) JMissingIdempotencyKey)
     (\<lambda>value. and_then (map_err (\<lambda>_. JInvalidIdempotencyKey ''<invalid header>'') (header_to_str value))
     (\<lambda>key. and_then (map_err JParseRequestBody (pf_json_parse pf bytes))
     (\<lambda>json. case json of
        JObject entries \<Rightarrow>
          Inr \<lparr>rq_name = name, rq_key = key, rq_body = bytes, rq_inputs = bt_of_list entries\<rparr>
      | _ \<Rightarrow> Inl (JInvalidBody ''expected a JSON object''))))))"

definition api_create_job ::
    "Platform \<Rightarrow> RequestEnv \<Rightarrow> string \<Rightarrow> string \<Rightarrow> headers \<Rightarrow> string \<Rightarrow> AppState \<Rightarrow>
     (JobError, status_code \<times> JobCreatedResponse) result \<times> AppState" where
  "api_create_job pf env token_name name headers body st =
     (case rate_limiter_check ''jobs_run'' token_name (jc_max_run_requests_per_minute (cf_jobs (st_config st)))
             (60 * nanos_per_second) (re_instant env) (st_rate_limiter st) of
        (Inl e, limiter) \<Rightarrow>
          (Inl (JRateLimitExceeded token_name (rle_limit e) (of_nat (rle_window_seconds e))),
           st\<lparr>st_rate_limiter := limiter\<rparr>)
      | (Inr _, limiter) \<Rightarrow>
        (let st = st\<lparr>st_rate_limiter := limiter\<rparr> in
         case parse_job_request pf (jc_max_request_body_kb (cf_jobs (st_config st))) name headers body of
           Inl e \<Rightarrow> (Inl e, st)
         | Inr rq \<Rightarrow>
           (case create_job pf (re_io env) (re_now env) (st_manifests st) (st_artifacts st)
                   (st_artifact_files st) (job_limits (cf_jobs (st_config st))) rq (st_jobs st) of
              (Inl e, jobs) \<Rightarrow> (Inl e, st\<lparr>st_jobs := jobs\<rparr>)
            | (Inr created, jobs) \<Rightarrow>
                (Inr (if jcr_status created = Running then CREATED_201 else OK_200, created),
                 st\<lparr>st_jobs := jobs\<rparr>))))"

definition api_list_jobs :: "AppState \<Rightarrow> JobDefinitionResponse list" where
  "api_list_jobs st = map job_definition_response (bt_values (st_manifests st))"

definition api_get_job :: "RequestEnv \<Rightarrow> string \<Rightarrow> AppState \<Rightarrow> (JobError, JobStatusResponse) result" where
  "api_get_job env job_id st =
     and_then (read_job (re_io env) job_id (st_jobs st)) (\<lambda>m. Inr (job_status_response m))"

definition api_get_job_logs :: "RequestEnv \<Rightarrow> string \<Rightarrow> AppState \<Rightarrow> (JobError, JobLogsResponse) result" where
  "api_get_job_logs env job_id st = read_logs (re_io env) job_id (st_jobs st)"

definition api_cancel_job ::
    "RequestEnv \<Rightarrow> string \<Rightarrow> AppState \<Rightarrow> (JobError, status_code) result \<times> AppState" where
  "api_cancel_job env job_id st =
     (case cancel_job (re_io env) job_id (st_jobs st) of
        (Inl e, jobs) \<Rightarrow> (Inl e, st\<lparr>st_jobs := jobs\<rparr>)
      | (Inr _, jobs) \<Rightarrow> (Inr ACCEPTED_202, st\<lparr>st_jobs := jobs\<rparr>))"

definition api_upload_artifact ::
    "Platform \<Rightarrow> RequestEnv \<Rightarrow> string \<Rightarrow> headers \<Rightarrow> string \<Rightarrow> AppState \<Rightarrow>
     (ArtifactError, status_code \<times> ArtifactMetadata) result \<times> AppState" where
  "api_upload_artifact pf env token_name headers body st =
     (case upload_artifact pf (re_io env) (re_now env) (re_uuid env) (st_artifacts st)
             (ac_max_upload_requests_per_minute (cf_artifacts (st_config st))) token_name
             (re_instant env) (headers HEADER_SHA256) body (st_rate_limiter st, st_artifact_files st) of
        (r, limiter, afs) \<Rightarrow> (r, st\<lparr>st_rate_limiter := limiter, st_artifact_files := afs\<rparr>))"

definition api_download_artifact ::
    "Platform \<Rightarrow> RequestEnv \<Rightarrow> string \<Rightarrow> AppState \<Rightarrow> (ArtifactError, status_code \<times> string \<times> string) result" where
  "api_download_artifact pf env artifact_id st =
     download_artifact pf (re_io env) (re_now env) (st_artifacts st) (st_artifact_files st) artifact_id"

section \<open>The protected routes\<close>

datatype Endpoint =
    GetCapabilities
  | ListJobs
  | UploadArtifact
  | DownloadArtifact string
  | CreateJob string
  | GetJob string
  | CancelJob string
  | GetJobLogs string

datatype ApiResponse =
    RespError ErrorResponse
  | RespCapabilities RunnerCapabilitiesResponse
  | RespJobs "JobDefinitionResponse list"
  | RespUploaded "status_code \<times> ArtifactMetadata"
  | RespArtifact "status_code \<times> string \<times> string"
  | RespCreated "status_code \<times> JobCreatedResponse"
  | RespJob JobStatusResponse
  | RespAccepted status_code
  | RespLogs JobLogsResponse

fun endpoint_permission :: "Endpoint \<Rightarrow> Permission option" where
  "endpoint_permission GetCapabilities = None"
| "endpoint_permission ListJobs = Some JobsRead"
| "endpoint_permission UploadArtifact = Some ArtifactsWrite"
| "endpoint_permission (DownloadArtifact _) = Some ArtifactsRead"
| "endpoint_permission (CreateJob _) = Some JobsRun"
| "endpoint_permission (GetJob _) = Some JobsRead"
| "endpoint_permission (CancelJob _) = Some JobsRun"
| "endpoint_permission (GetJobLogs _) = Some LogsRead"

text \<open>The registration of the handlers with build_app: method, route template, handler.\<close>

fun endpoint_route :: "Endpoint \<Rightarrow> string \<times> RunnerRouteTemplate" where
  "endpoint_route GetCapabilities = (''GET'', TCapabilities)"
| "endpoint_route ListJobs = (''GET'', TJobs)"
| "endpoint_route UploadArtifact = (''POST'', TArtifacts)"
| "endpoint_route (DownloadArtifact _) = (''GET'', TArtifact)"
| "endpoint_route (CreateJob _) = (''POST'', TJobRuns)"
| "endpoint_route (GetJob _) = (''GET'', TRun)"
| "endpoint_route (CancelJob _) = (''DELETE'', TRun)"
| "endpoint_route (GetJobLogs _) = (''GET'', TRunLogs)"

definition respond :: "('e \<Rightarrow> ErrorResponse) \<Rightarrow> ('a \<Rightarrow> ApiResponse) \<Rightarrow> ('e, 'a) result \<Rightarrow> ApiResponse" where
  "respond on_error on_ok r = (case r of Inl e \<Rightarrow> RespError (on_error e) | Inr x \<Rightarrow> on_ok x)"

fun run_handler ::
    "Platform \<Rightarrow> RequestEnv \<Rightarrow> string \<Rightarrow> Endpoint \<Rightarrow> headers \<Rightarrow> string \<Rightarrow> AppState \<Rightarrow> ApiResponse \<times> AppState" where
  "run_handler pf env token_name GetCapabilities headers body st = (RespCapabilities capabilities_current, st)"
| "run_handler pf env token_name ListJobs headers body st = (RespJobs (api_list_jobs st), st)"
| "run_handler pf env token_name UploadArtifact headers body st =
     (let (r, st') = api_upload_artifact pf env token_name headers body st
      in (respond artifact_error_into_response RespUploaded r, st'))"
| "run_handler pf env token_name (DownloadArtifact i) headers body st =
     (respond artifact_error_into_response RespArtifact (api_download_artifact pf env i st), st)"
| "run_handler pf env token_name (CreateJob name) headers body st =
     (let (r, st') = api_create_job pf env token_name name headers body st
      in (respond job_error_into_response RespCreated r, st'))"
| "run_handler pf env token_name (GetJob i) headers body st =
     (respond job_error_into_response RespJob (api_get_job env i st), st)"
| "run_handler pf env token_name (CancelJob i) headers body st =
     (let (r, st') = api_cancel_job env i st in (respond job_error_into_response RespAccepted r, st'))"
| "run_handler pf env token_name (GetJobLogs i) headers body st =
     (respond job_error_into_response RespLogs (api_get_job_logs env i st), st)"

definition protected_request ::
    "Crypto \<Rightarrow> Platform \<Rightarrow> RequestEnv \<Rightarrow> Endpoint \<Rightarrow> SignedRequest \<Rightarrow> AppState \<Rightarrow> ApiResponse \<times> AppState" where
  "protected_request cp pf env endpoint rq st =
     (case verify_signed_request cp pf (re_now_timestamp env) (re_now_nonce env)
             (jc_max_request_body_kb (cf_jobs (st_config st))) (st_artifacts st) rq (st_auth st) of
        (Inl e, auth) \<Rightarrow> (RespError (auth_rejection_into_response e), st\<lparr>st_auth := auth\<rparr>)
      | (Inr context, auth) \<Rightarrow>
        (let st = st\<lparr>st_auth := auth\<rparr> in
         case (case endpoint_permission endpoint of
                 None \<Rightarrow> Inr []
               | Some p \<Rightarrow> authorize p (Some context)) of
           Inl e \<Rightarrow> (RespError (auth_rejection_into_response e), st)
         | Inr token_name \<Rightarrow> run_handler pf env token_name endpoint (sr_headers rq) (sr_body rq) st))"

section \<open>Health, readiness and the cleanup task\<close>

definition health_status :: "AppState \<Rightarrow> string" where
  "health_status st = (if js_shutting_down (st_jobs st) then ''shutting_down'' else ''ok'')"

definition readiness :: "AppState \<Rightarrow> status_code \<times> string" where
  "readiness st =
     (let ready = \<not> js_shutting_down (st_jobs st) \<and> runtime_is_ready (st_runtime_status st) in
      (if ready then OK_200 else SERVICE_UNAVAILABLE, if ready then ''ready'' else ''not_ready''))"

text \<open>One tick of run_artifact_cleanup_loop.\<close>

definition artifact_cleanup_tick :: "Platform \<Rightarrow> faults \<Rightarrow> int \<Rightarrow> AppState \<Rightarrow> AppState" where
  "artifact_cleanup_tick pf io now st =
     (case cleanup_expired pf io now (st_artifacts st) (st_artifact_files st) of
        (Inl e, afs) \<Rightarrow> st\<lparr>st_artifact_files := afs,
           st_runtime_status := record_artifact_cleanup_error (ArtifactError_display e) (st_runtime_status st)\<rparr>
      | (Inr _, afs) \<Rightarrow> st\<lparr>st_artifact_files := afs,
           st_runtime_status := record_artifact_cleanup_success pf now (st_runtime_status st)\<rparr>)"

section \<open>The service as a whole\<close>

text \<open>
  What can happen to a started runner: a request to a protected route, a tick of the cleanup
  task, the return of an execution, and the shutdown signal.
\<close>

datatype ServiceEvent =
    EvRequest RequestEnv Endpoint SignedRequest
  | EvCleanup faults int
  | EvExecutionEnd faults int "string \<Rightarrow> string" "(IoError, unit) result" nat "LoopObservation list" string
  | EvShutdown faults

fun service_step :: "Crypto \<Rightarrow> Platform \<Rightarrow> ServiceEvent \<Rightarrow> AppState \<Rightarrow> AppState" where
  "service_step cp pf (EvRequest env endpoint rq) st = snd (protected_request cp pf env endpoint rq st)"
| "service_step cp pf (EvCleanup io now) st = artifact_cleanup_tick pf io now st"
| "service_step cp pf (EvExecutionEnd io now uuids spawned started obs job_id) st =
     (case bt_get (js_tasks (st_jobs st)) job_id of
        None \<Rightarrow> st
      | Some ex \<Rightarrow>
        (case run_job pf io now uuids (st_artifacts st) spawned started obs ex
                (st_jobs st, st_artifact_files st) of
           None \<Rightarrow> st
         | Some (jobs, afs) \<Rightarrow> st\<lparr>st_jobs := jobs, st_artifact_files := afs\<rparr>))"
| "service_step cp pf (EvShutdown io) st = st\<lparr>st_jobs := snd (begin_shutdown io (st_jobs st))\<rparr>"

section \<open>Lemmas\<close>

interpretation auth_report: error_report auth_rejection_status "\<lambda>_. None"
proof
  show "400 \<le> auth_rejection_status e \<and> auth_rejection_status e < 600" for e
    by (cases e) (simp_all add: auth_rejection_status_def status_codes)
  show "(None :: u64 option) \<noteq> None \<longleftrightarrow> auth_rejection_status e = TOO_MANY_REQUESTS" for e
    by (cases e) (simp_all add: auth_rejection_status_def status_codes)
qed

text \<open>The part of the state the transition system of the runner speaks of.\<close>

definition runner_part :: "AppState \<Rightarrow> RunnerState" where
  "runner_part st = (st_jobs st, st_artifact_files st)"

definition same_setup :: "AppState \<Rightarrow> AppState \<Rightarrow> bool" where
  "same_setup st st' =
     (st_config st' = st_config st \<and> st_manifests st' = st_manifests st \<and> st_artifacts st' = st_artifacts st
      \<and> au_keys (st_auth st') = au_keys (st_auth st))"

abbreviation service_steps :: "Platform \<Rightarrow> AppState \<Rightarrow> RunnerState \<Rightarrow> RunnerState \<Rightarrow> bool" where
  "service_steps pf st \<equiv>
     runner_steps pf (st_manifests st) (st_artifacts st) (job_limits (cf_jobs (st_config st)))"

lemma runner_step_steps: "runner_step pf ms ast l s t \<Longrightarrow> runner_steps pf ms ast l s t"
  by (rule runner_steps.more [OF runner_steps.none])

lemma runner_steps_trans:
  assumes "runner_steps pf ms ast l s t" and "runner_steps pf ms ast l t u"
  shows "runner_steps pf ms ast l s u"
  using assms(2,1) by (induction rule: runner_steps.induct) (auto intro: runner_steps.intros)

lemma api_create_job_step:
  assumes "api_create_job pf env tn name headers body st = (r, st')"
  shows "same_setup st st' \<and> service_steps pf st (runner_part st) (runner_part st')"
proof -
  have 1: "same_setup st st' \<and> st_artifact_files st' = st_artifact_files st"
    using assms by (auto simp: api_create_job_def same_setup_def Let_def split: prod.splits sum.splits)
  have "st_jobs st' = st_jobs st \<or>
      (\<exists>rq q. create_job pf (re_io env) (re_now env) (st_manifests st) (st_artifacts st)
        (st_artifact_files st) (job_limits (cf_jobs (st_config st))) rq (st_jobs st) = (q, st_jobs st'))"
    using assms by (auto simp: api_create_job_def Let_def split: prod.splits sum.splits)
  then show ?thesis
  proof (elim disjE exE)
    fix rq q
    assume "create_job pf (re_io env) (re_now env) (st_manifests st) (st_artifacts st)
        (st_artifact_files st) (job_limits (cf_jobs (st_config st))) rq (st_jobs st) = (q, st_jobs st')"
    then show ?thesis
      using 1 by (simp add: runner_part_def runner_step_steps [OF runner_step.create])
  qed (use 1 in \<open>simp add: runner_part_def runner_steps.none\<close>)
qed

lemma api_cancel_job_step:
  assumes "api_cancel_job env i st = (r, st')"
  shows "same_setup st st' \<and> service_steps pf st (runner_part st) (runner_part st')"
  using assms
  by (auto simp: api_cancel_job_def same_setup_def runner_part_def
      split: prod.splits sum.splits intro!: runner_step_steps runner_step.cancel)

lemma upload_artifact_files:
  assumes "upload_artifact pf io now uuid ast limit tn instant h body (rl, afs) = (r, rl', afs')"
  shows "afs' = afs \<or> (\<exists>q bytes c. store_bytes pf io now uuid ast bytes c afs = (q, afs'))"
  using assms by (auto simp: upload_artifact_def split: prod.splits sum.splits)

lemma api_upload_artifact_step:
  assumes "api_upload_artifact pf env tn headers body st = (r, st')"
  shows "same_setup st st' \<and> service_steps pf st (runner_part st) (runner_part st')"
proof -
  obtain rl' afs' where u: "upload_artifact pf (re_io env) (re_now env) (re_uuid env) (st_artifacts st)
      (ac_max_upload_requests_per_minute (cf_artifacts (st_config st))) tn (re_instant env)
      (headers HEADER_SHA256) body (st_rate_limiter st, st_artifact_files st) = (r, rl', afs')"
    and st': "st' = st\<lparr>st_rate_limiter := rl', st_artifact_files := afs'\<rparr>"
    using assms by (auto simp: api_upload_artifact_def split: prod.splits)
  show ?thesis
    using upload_artifact_files [OF u]
  proof (elim disjE exE)
    assume "afs' = st_artifact_files st"
    then show ?thesis by (simp add: st' same_setup_def runner_part_def runner_steps.none)
  next
    fix q bytes c
    assume "store_bytes pf (re_io env) (re_now env) (re_uuid env) (st_artifacts st) bytes c
      (st_artifact_files st) = (q, afs')"
    then show ?thesis
      by (simp add: st' same_setup_def runner_part_def runner_step_steps [OF runner_step.upload])
  qed
qed

lemma run_handler_step:
  assumes "run_handler pf env tn ep headers body st = (r, st')"
  shows "same_setup st st' \<and> service_steps pf st (runner_part st) (runner_part st')"
proof -
  have refl: "same_setup st st \<and> service_steps pf st (runner_part st) (runner_part st)"
    by (simp add: same_setup_def runner_steps.none)
  show ?thesis
    using assms refl api_create_job_step api_cancel_job_step api_upload_artifact_step
    by (cases ep) (auto split: prod.splits)
qed

lemma protected_request_cases:
  assumes "protected_request cp pf env ep rq st = (resp, st')"
  obtains (rejected) e auth where
    "verify_signed_request cp pf (re_now_timestamp env) (re_now_nonce env)
       (jc_max_request_body_kb (cf_jobs (st_config st))) (st_artifacts st) rq (st_auth st) = (Inl e, auth)"
    "resp = RespError (auth_rejection_into_response e)" "st' = st\<lparr>st_auth := auth\<rparr>"
  | (forbidden) ctx auth p where
    "verify_signed_request cp pf (re_now_timestamp env) (re_now_nonce env)
       (jc_max_request_body_kb (cf_jobs (st_config st))) (st_artifacts st) rq (st_auth st) = (Inr ctx, auth)"
    "endpoint_permission ep = Some p" "permission_name p \<notin> ac_permissions ctx"
    "resp = RespError (auth_rejection_into_response (MissingPermission (ac_server_name ctx) (permission_name p)))"
    "st' = st\<lparr>st_auth := auth\<rparr>"
  | (handled) ctx auth tn where
    "verify_signed_request cp pf (re_now_timestamp env) (re_now_nonce env)
       (jc_max_request_body_kb (cf_jobs (st_config st))) (st_artifacts st) rq (st_auth st) = (Inr ctx, auth)"
    "\<forall>p. endpoint_permission ep = Some p \<longrightarrow> permission_name p \<in> ac_permissions ctx"
    "run_handler pf env tn ep (sr_headers rq) (sr_body rq) (st\<lparr>st_auth := auth\<rparr>) = (resp, st')"
  using assms
  by (auto simp: protected_request_def Let_def authorize_def split: prod.splits sum.splits option.splits if_splits)

lemma verify_signed_request_store:
  assumes "verify_signed_request cp pf n n' kb ast rq st = (r, st')"
  shows "au_keys st' = au_keys st"
  using assms verify_request_store
  by (fastforce simp: verify_signed_request_def split: sum.splits)

lemma same_setup_auth: "au_keys auth = au_keys (st_auth st) \<Longrightarrow> same_setup st (st\<lparr>st_auth := auth\<rparr>)"
  by (simp add: same_setup_def)

lemma protected_request_step:
  assumes "protected_request cp pf env ep rq st = (resp, st')"
  shows "same_setup st st' \<and> service_steps pf st (runner_part st) (runner_part st')"
  using assms
proof (cases rule: protected_request_cases)
  case (rejected e auth)
  then show ?thesis
    using verify_signed_request_store [OF rejected(1)]
    by (simp add: same_setup_auth runner_part_def runner_steps.none)
next
  case (forbidden ctx auth p)
  then show ?thesis
    using verify_signed_request_store [OF forbidden(1)]
    by (simp add: same_setup_auth runner_part_def runner_steps.none)
next
  case (handled ctx auth tn)
  then show ?thesis
    using verify_signed_request_store [OF handled(1)] run_handler_step [OF handled(3)]
    by (simp add: same_setup_def runner_part_def)
qed

section \<open>Properties\<close>

lemma note_canceling_tasks [simp]: "js_tasks (note_canceling io k st) = js_tasks st"
  by (simp add: note_canceling_def transition_metadata_status_def persist_metadata_def Let_def
      split: sum.splits)

lemma run_job_steps:
  assumes "bt_get (js_tasks st) k = Some ex" and "ex_job_id ex = k"
    and "run_job pf io now uuids ast spawned started obs ex (st, afs) = Some (st', afs')"
  shows "runner_steps pf ms ast l (st, afs) (st', afs')"
proof -
  obtain outcome where x: "execute_process spawned started obs ex = Some outcome"
    using assms(3) by (auto simp: run_job_def split: option.splits)
  define s1 where "s1 = (if outcome = Inr canceled_outcome then note_canceling io k st else st)"
  have fin: "finish_job pf io now uuids ast ex outcome (s1, afs) = (st', afs')"
    using assms(3) unfolding run_job_def x option.case Let_def s1_def assms(2) fst_conv snd_conv option.inject .
  have "runner_steps pf ms ast l (st, afs) (s1, afs)"
    using runner_step.canceling [OF assms(1)]
    by (auto simp: s1_def runner_steps.none intro: runner_step_steps)
  moreover have "bt_get (js_tasks s1) k = Some ex" using assms(1) by (simp add: s1_def)
  ultimately show ?thesis
    by (rule runner_steps.more [OF _ runner_step.finish [OF _ x fin]])
qed

lemma service_step_steps:
  assumes "store_ok (st_manifests st) (st_jobs st)"
  shows "same_setup st (service_step cp pf ev st) \<and>
    service_steps pf st (runner_part st) (runner_part (service_step cp pf ev st))"
proof (cases ev)
  case (EvRequest env ep rq)
  then show ?thesis using protected_request_step [OF prod.collapse [symmetric]] by simp
next
  case (EvCleanup io now)
  obtain r afs where c: "cleanup_expired pf io now (st_artifacts st) (st_artifact_files st) = (r, afs)"
    by force
  then have "st_artifact_files (artifact_cleanup_tick pf io now st) = afs
      \<and> st_jobs (artifact_cleanup_tick pf io now st) = st_jobs st
      \<and> same_setup st (artifact_cleanup_tick pf io now st)"
    by (cases r) (simp_all add: artifact_cleanup_tick_def same_setup_def)
  then show ?thesis
    by (simp add: EvCleanup runner_part_def runner_step_steps [OF runner_step.cleanup [OF c]])
next
  case (EvExecutionEnd io now uuids spawned started obs k)
  show ?thesis
  proof (cases "service_step cp pf ev st = st")
    case True
    then show ?thesis by (simp add: same_setup_def runner_steps.none)
  next
    case False
    then obtain ex jobs afs where ex: "bt_get (js_tasks (st_jobs st)) k = Some ex"
      and run: "run_job pf io now uuids (st_artifacts st) spawned started obs ex
        (st_jobs st, st_artifact_files st) = Some (jobs, afs)"
      by (auto simp: EvExecutionEnd split: option.splits)
    have "ex_job_id ex = k"
      using tasks_ok_get [OF _ ex] assms by (simp add: store_ok_def)
    from run_job_steps [OF ex this run] show ?thesis
      by (simp add: EvExecutionEnd ex run same_setup_def runner_part_def)
  qed
next
  case (EvShutdown io)
  show ?thesis
    using runner_step.shutdown [OF prod.collapse [symmetric]]
    by (auto simp: EvShutdown same_setup_def runner_part_def intro!: runner_step_steps)
qed

lemma startup_Inr:
  assumes "startup cp pf io now host config afs0 jfs0 = (Inr st, afs, jfs)"
  obtains jobs n m where "auth_load_from_config cp (cf_auth config) = Inr (st_auth st)"
    "load_from_dir host (cf_manifests_dir config) = Inr (st_manifests st)"
    "jobs = \<lparr>js_root_dir = cf_data_dir config @ [''jobs''], js_running = [], js_shutting_down = False,
       js_files = jfs0, js_tasks = []\<rparr>"
    "recover_interrupted_jobs pf io now jobs = (Inr n, st_jobs st)"
    "st_runtime_status st = runtime_status_new m n"
    "recover_incomplete_artifacts pf io (st_artifacts st) afs0 = (Inr m, st_artifact_files st)"
  using assms
  by (auto simp: startup_def job_store_new_def Let_def split: sum.splits prod.splits)

lemma recover_shutting_down:
  assumes "recover_interrupted_jobs pf io now st = (r, st')"
  shows "js_shutting_down st' = js_shutting_down st"
proof -
  have e: "js_shutting_down (fst t) = js_shutting_down (fst s)"
    if "recover_job_entry pf io now name s = (q, t)" for name s q t
    using that
    by (auto simp: recover_job_entry_def recover_with_def remove_job_dir_def persist_metadata_def
        append_recovery_message_def append_to_stderr_def Let_def
        split: sum.splits option.splits json_file.splits JobStatus.splits prod.splits if_splits)
  have "js_shutting_down (fst (snd (each_st (recover_job_entry pf io now) xs (st, 0)))) = js_shutting_down st" for xs
    by (rule each_st_invariant [OF prod.collapse [symmetric],
        where P = "\<lambda>s. js_shutting_down (fst s) = js_shutting_down st"]) (use e in auto)
  then show ?thesis
    using assms by (auto simp: recover_interrupted_jobs_def split: sum.splits prod.splits)
      (metis fst_conv snd_conv)+
qed

lemma startup_idle:
  assumes "startup cp pf io now host config afs0 jfs0 = (Inr st, afs, jfs)" and "bt_wf jfs0"
  shows "idle (st_jobs st) \<and> manifests_keyed (st_manifests st)"
  using assms(1)
proof (rule startup_Inr)
  fix jobs n m
  assume jobs: "jobs = \<lparr>js_root_dir = cf_data_dir config @ [''jobs''], js_running = [], js_shutting_down = False,
       js_files = jfs0, js_tasks = []\<rparr>"
    and r: "recover_interrupted_jobs pf io now jobs = (Inr n, st_jobs st)"
    and l: "load_from_dir host (cf_manifests_dir config) = Inr (st_manifests st)"
  have "idle jobs" using assms(2) by (simp add: jobs idle_def)
  then show ?thesis using recover_ok [OF r] loaded_manifests_keyed [OF l] by simp
qed

lemma service_steps_all:
  assumes "idle (st_jobs st0)" and "manifests_keyed (st_manifests st0)"
  shows "same_setup st0 (fold (service_step cp pf) evs st0) \<and>
    service_steps pf st0 (runner_part st0) (runner_part (fold (service_step cp pf) evs st0)) \<and>
    store_ok (st_manifests st0) (st_jobs (fold (service_step cp pf) evs st0))"
proof (induction evs rule: rev_induct)
  case Nil
  then show ?case using idle_store_ok [OF assms(1)] by (simp add: same_setup_def runner_steps.none)
next
  case (snoc ev evs)
  let ?s = "fold (service_step cp pf) evs st0" and ?t = "fold (service_step cp pf) (evs @ [ev]) st0"
  have ok: "store_ok (st_manifests ?s) (st_jobs ?s)" using snoc by (simp add: same_setup_def)
  have t: "?t = service_step cp pf ev ?s" by simp
  have same: "same_setup st0 ?t" using service_step_steps [OF ok, of cp pf ev] snoc
    by (simp add: same_setup_def)
  have steps: "service_steps pf st0 (runner_part st0) (runner_part ?t)"
    using service_step_steps [OF ok, of cp pf ev] snoc runner_steps_trans
    by (fastforce simp: same_setup_def)
  have "runner_initial (runner_part st0)" using assms(1) by (simp add: runner_initial_def runner_part_def)
  from reachable_store_ok [OF this steps assms(2)] show ?case
    using same steps by (simp add: runner_part_def)
qed

definition demo_config :: Config where
  "demo_config =
     \<lparr>cf_data_dir = [''data''], cf_manifests_dir = ''/etc/janus'', cf_listen = ''127.0.0.1:8080'',
      cf_auth = demo_auth_config,
      cf_artifacts = \<lparr>ac_max_size_mb = 1, ac_ttl_seconds = 60, ac_cleanup_interval_seconds = 5,
        ac_require_checksum_on_upload = False, ac_max_upload_requests_per_minute = 10\<rparr>,
      cf_jobs = \<lparr>jc_default_log_limit_mb = 1, jc_max_request_body_kb = 64,
        jc_max_run_requests_per_minute = 10, jc_cleanup_successful_workdirs = True,
        jc_keep_failed_workdirs = False\<rparr>\<rparr>"

definition demo_service :: AppState where
  "demo_service =
     \<lparr>st_config = demo_config, st_auth = demo_auth_store, st_manifests = demo_manifests,
      st_artifacts = \<lparr>as_root_dir = [''data'', ''artifacts''], as_ttl_seconds = 60,
        as_max_size_bytes = 1048576, as_require_checksum = False\<rparr>,
      st_artifact_files = [], st_jobs = demo_start, st_rate_limiter = [],
      st_runtime_status = runtime_status_new 0 0\<rparr>"

lemma demo_startup:
  "startup demo_crypto demo_platform no_faults 0 demo_host demo_config [] [] = (Inr demo_service, [], [])"
proof -
  have "artifact_store_new no_faults [''data''] 60 1 False = Inr (st_artifacts demo_service)"
    by (simp add: artifact_store_new_def checked_mul_def demo_service_def Let_def)
  moreover have "recover_incomplete_artifacts demo_platform no_faults (st_artifacts demo_service) [] = (Inr 0, [])"
    by (simp add: recover_incomplete_artifacts_def bt_keys_def)
  moreover have "recover_interrupted_jobs demo_platform no_faults 0 demo_start = (Inr 0, demo_start)"
    by (simp add: recover_interrupted_jobs_def demo_start_def bt_keys_def)
  moreover have "job_store_new no_faults [''data''] [] = Inr demo_start"
    by (simp add: job_store_new_def demo_start_def)
  ultimately show ?thesis
    using demo_auth_loaded demo_loaded
    by (simp add: startup_def demo_config_def) (simp add: demo_service_def demo_config_def demo_start_def)
qed

definition demo_env :: RequestEnv where
  "demo_env = \<lparr>re_io = no_faults, re_now_timestamp = 0, re_now_nonce = 0, re_now = 0, re_instant = 0,
     re_uuid = demo_uuid\<rparr>"

text \<open>C4. The service is the verified runner: after a successful start, whatever requests arrive
on the protected routes, and however they interleave with the cleanup task, the ends of
executions and the shutdown, with any I/O failures, the job store and the artifacts take only
steps of the runner's transition system, from an initial state; so the concurrency rules hold
at every moment.\<close>

theorem service_refines_runner:
  assumes "startup cp pf io now host config afs0 jfs0 = (Inr st0, afs, jfs)" and "bt_wf jfs0"
    and "st = fold (service_step cp pf) evs st0"
  shows "runner_initial (runner_part st0)
    \<and> runner_steps pf (st_manifests st0) (st_artifacts st0) (job_limits (cf_jobs (st_config st0)))
        (runner_part st0) (runner_part st)
    \<and> exclusion (js_running (st_jobs st))"
  using service_steps_all [of st0 cp pf evs] startup_idle [OF assms(1,2)]
  by (simp add: assms(3) runner_initial_def runner_part_def store_ok_def)

theorem service_refines_runner_witness:
  "exclusion (js_running (st_jobs (fold (service_step demo_crypto demo_platform)
     [EvRequest demo_env (CreateJob ''build'') \<lparr>sr_method = ''GET'', sr_path_and_query = ''/jobs'',
        sr_headers = demo_headers, sr_body = ''ab''\<rparr>, EvCleanup no_faults 5, EvShutdown no_faults] demo_service)))"
  using service_refines_runner [OF demo_startup bt_wf_Nil refl] by blast

text \<open>A start leaves nothing half done: once the runner has started, every job directory on
disk holds a terminal result, no job runs, and the readiness probe answers ready.\<close>

theorem startup_settles_jobs:
  assumes "startup cp pf io now host config afs0 jfs0 = (Inr st, afs, jfs)" and "bt_wf jfs0"
  shows "(\<forall>k. job_dir_get (js_files (st_jobs st)) k \<noteq> None \<longrightarrow>
      (\<exists>m. job_meta (st_jobs st) k = Some m \<and> is_terminal (md_status m)))
    \<and> js_running (st_jobs st) = [] \<and> readiness st = (OK_200, ''ready'')"
  using assms(1)
proof (rule startup_Inr)
  fix jobs n m
  assume jobs: "jobs = \<lparr>js_root_dir = cf_data_dir config @ [''jobs''], js_running = [], js_shutting_down = False,
       js_files = jfs0, js_tasks = []\<rparr>"
    and r: "recover_interrupted_jobs pf io now jobs = (Inr n, st_jobs st)"
    and rs: "st_runtime_status st = runtime_status_new m n"
  have idle: "idle jobs" using assms(2) by (simp add: jobs idle_def)
  have "\<exists>m. job_meta (st_jobs st) k = Some m \<and> is_terminal (md_status m)"
    if "job_dir_get (js_files (st_jobs st)) k \<noteq> None" for k
    using recover_settles [OF r idle, of k] that settled_metadata_terminal
    by (cases "job_meta jobs k") auto
  moreover have "js_running (st_jobs st) = []" using recover_ok [OF r idle] by (simp add: idle_def)
  moreover have "readiness st = (OK_200, ''ready'')"
    using recover_shutting_down [OF r]
    by (simp add: readiness_def rs runtime_is_ready_def runtime_status_new_def jobs)
  ultimately show ?thesis by blast
qed

theorem startup_settles_jobs_witness: "readiness demo_service = (OK_200, ''ready'')"
  using startup_settles_jobs [OF demo_startup bt_wf_Nil] by simp

text \<open>C24. The gate in front of the handlers: a request that is not verified, or whose server
lacks the permission of the handler, is answered with 401, 403 or 413 and changes nothing but
the memory of nonces; every other effect and answer is the handler's, run for the verified
server.\<close>

theorem protected_request_gate:
  assumes "protected_request cp pf env ep rq st = (resp, st')"
  shows "(\<exists>e auth. resp = RespError (auth_rejection_into_response e) \<and> st' = st\<lparr>st_auth := auth\<rparr>
       \<and> au_keys auth = au_keys (st_auth st)
       \<and> er_status (auth_rejection_into_response e) \<in> {UNAUTHORIZED, FORBIDDEN, PAYLOAD_TOO_LARGE})
    \<or> (\<exists>ctx auth tn. verify_signed_request cp pf (re_now_timestamp env) (re_now_nonce env)
          (jc_max_request_body_kb (cf_jobs (st_config st))) (st_artifacts st) rq (st_auth st) = (Inr ctx, auth)
       \<and> (\<forall>p. endpoint_permission ep = Some p \<longrightarrow> permission_name p \<in> ac_permissions ctx)
       \<and> run_handler pf env tn ep (sr_headers rq) (sr_body rq) (st\<lparr>st_auth := auth\<rparr>) = (resp, st'))"
  using assms
proof (cases rule: protected_request_cases)
  case (rejected e auth)
  moreover have "er_status (auth_rejection_into_response e) \<in> {UNAUTHORIZED, FORBIDDEN, PAYLOAD_TOO_LARGE}"
    by (cases e) (simp_all add: auth_rejection_into_response_def auth_rejection_status_def)
  ultimately show ?thesis using verify_signed_request_store [OF rejected(1)] by blast
next
  case (forbidden ctx auth p)
  let ?e = "MissingPermission (ac_server_name ctx) (permission_name p)"
  have "er_status (auth_rejection_into_response ?e) = FORBIDDEN"
    by (simp add: auth_rejection_into_response_def auth_rejection_status_def)
  then show ?thesis using forbidden(4,5) verify_signed_request_store [OF forbidden(1)] by blast
qed blast

theorem protected_request_gate_witness:
  "\<exists>e. fst (protected_request demo_crypto demo_platform demo_env (CreateJob ''build'')
     \<lparr>sr_method = ''POST'', sr_path_and_query = ''/jobs'', sr_headers = (\<lambda>_. None), sr_body = []\<rparr> demo_service)
     = RespError (auth_rejection_into_response e)"
proof -
  have v: "fst (verify_signed_request demo_crypto demo_platform 0 0 64 (st_artifacts demo_service)
      \<lparr>sr_method = ''POST'', sr_path_and_query = ''/jobs'', sr_headers = (\<lambda>_. None), sr_body = []\<rparr>
      demo_auth_store) = Inl MissingAuthorization"
    by (simp add: verify_signed_request_def max_signed_request_bytes_def checked_mul_def
        read_body_limited_def verify_request_def read_signature_headers_def required_header_def)
  show ?thesis
    using protected_request_gate [OF prod.collapse [symmetric], of demo_crypto demo_platform demo_env "CreateJob ''build''"
        "\<lparr>sr_method = ''POST'', sr_path_and_query = ''/jobs'', sr_headers = (\<lambda>_. None), sr_body = []\<rparr>" demo_service] v
    by (auto simp: demo_env_def demo_service_def demo_config_def)
qed

text \<open>Readiness follows the last tick of the cleanup: a started runner that is not shutting
down answers ready exactly when the tick succeeded; so one stray directory among the
artifacts, on which every tick fails, keeps the whole runner out of service.\<close>

theorem readiness_follows_cleanup:
  assumes "sv_completed (rs_startup (st_runtime_status st))"
    and "bh_running (rs_artifact_cleanup (st_runtime_status st))"
    and "\<not> js_shutting_down (st_jobs st)" and "bt_wf (st_artifact_files st)"
  shows "(fst (readiness (artifact_cleanup_tick pf io now st)) = OK_200 \<longleftrightarrow>
      is_ok (fst (cleanup_expired pf io now (st_artifacts st) (st_artifact_files st))))
    \<and> (\<forall>name d. bt_get (st_artifact_files st) name = Some (ArtifactEntryDir d)
        \<and> \<not> validate_prefixed_hex_id name ''art_'' \<longrightarrow>
      fst (readiness (artifact_cleanup_tick pf no_faults now st)) = SERVICE_UNAVAILABLE)"
proof -
  have iff: "fst (readiness (artifact_cleanup_tick pf io now st)) =
      (if is_ok (fst (cleanup_expired pf io now (st_artifacts st) (st_artifact_files st)))
       then OK_200 else SERVICE_UNAVAILABLE)" for io
    using assms(1-3)
    by (auto simp: artifact_cleanup_tick_def readiness_def runtime_is_ready_def Let_def
        record_artifact_cleanup_error_def record_artifact_cleanup_success_def split: prod.splits sum.splits)
  have "fst (readiness (artifact_cleanup_tick pf no_faults now st)) = SERVICE_UNAVAILABLE"
    if "bt_get (st_artifact_files st) name = Some (ArtifactEntryDir d)"
      "\<not> validate_prefixed_hex_id name ''art_''" for name d
    using cleanup_expired_stray [OF assms(4) that(1), of pf now "st_artifacts st"] that(2)
    by (auto simp: iff)
  then show ?thesis using iff [of io] by (auto simp: status_codes)
qed

theorem readiness_follows_cleanup_witness:
  "fst (readiness (artifact_cleanup_tick demo_platform no_faults 0
     (demo_service\<lparr>st_artifact_files := [(''lost+found'', ArtifactEntryDir empty_artifact_dir)]\<rparr>)))
   = SERVICE_UNAVAILABLE"
  using readiness_follows_cleanup [of "demo_service\<lparr>st_artifact_files :=
      [(''lost+found'', ArtifactEntryDir empty_artifact_dir)]\<rparr>" demo_platform no_faults 0]
  by (simp add: demo_service_def runtime_status_new_def demo_start_def bt_wf_def
      validate_prefixed_hex_id_def strip_prefix_def)

end
