(* ===== verification/Server_Models.thy ===== *)
theory Server_Models
  imports Pipeline_States Janus_Protocol
begin

text \<open>
  The data of the server (janus-server/src/models.rs): the rows of its database and the
  workflow definitions users write.  A status column is text, as in the source; the columns
  that are written by as_str and read back by parse (role, outcome policy, concurrency,
  input and output types) hold the enumeration, since the encodings are inverse to each
  other.  A runner job definition is the protocol's JobDefinitionResponse.
\<close>

datatype UserRole = Admin

fun UserRole_as_str :: "UserRole \<Rightarrow> string" where
  "UserRole_as_str Admin = ''admin''"

definition UserRole_parse :: "string \<Rightarrow> UserRole option" where
  "UserRole_parse s = (if s = ''admin'' then Some Admin else None)"

record Repo =
  repo_id :: string
  repo_name :: string
  repo_normalized_name :: string
  repo_bare_path :: string
  repo_default_branch :: string
  repo_created_at :: string

record Runner =
  rn_id :: string
  rn_name :: string
  rn_base_url :: string
  rn_enabled :: bool
  rn_last_health_state :: string
  rn_last_seen_at :: "string option"
  rn_created_at :: string

record Workflow =
  wf_id :: string
  wf_repo_id :: string
  wf_name :: string
  wf_enabled :: bool
  wf_created_at :: string
  wf_version :: int
  wf_version_id :: string
  wf_trigger_json :: string
  wf_definition_json :: string

record PushEventRef =
  old_rev :: string
  new_rev :: string
  ref_name :: string

record PushEvent =
  pe_id :: string
  pe_repo_id :: string
  pe_received_at :: string
  pe_event_key :: string
  pe_processed_at :: "string option"
  pe_refs :: "PushEventRef list"

record PipelineRun =
  pl_id :: string
  pl_repo_id :: string
  pl_workflow_id :: string
  pl_workflow_version_id :: string
  pl_trigger_type :: string
  pl_trigger_ref :: "string option"
  pl_commit_sha :: "string option"
  pl_status :: string
  pl_started_at :: string
  pl_cancel_reason :: "string option"
  pl_cancel_requested_at :: "string option"
  pl_cancel_started_at :: "string option"
  pl_finished_at :: "string option"

section \<open>Workflow definitions\<close>

datatype WorkflowJobOutcomePolicy = Required | AllowedToFail

fun OutcomePolicy_as_str :: "WorkflowJobOutcomePolicy \<Rightarrow> string" where
  "OutcomePolicy_as_str Required = ''required''"
| "OutcomePolicy_as_str AllowedToFail = ''allowed_to_fail''"

definition OutcomePolicy_parse :: "string \<Rightarrow> WorkflowJobOutcomePolicy option" where
  "OutcomePolicy_parse s =
     (if s = ''required'' then Some Required
      else if s = ''allowed_to_fail'' then Some AllowedToFail
      else None)"

fun allows_failure :: "WorkflowJobOutcomePolicy \<Rightarrow> bool" where
  "allows_failure AllowedToFail = True"
| "allows_failure Required = False"

record WorkflowTrigger =
  trigger_kind :: string
  trigger_branches :: "string list"

datatype WorkflowInputBinding =
    BLiteral json
  | BCommit
  | BBranch
  | BSourceArtifact
  | BPromotedArtifact string string string
  | BJobOutput nat string

record WorkflowJobDefinition =
  wj_runner_id :: string
  wj_runner_job_name :: string
  wj_inputs :: "(string, WorkflowInputBinding) btree_map"
  wj_outcome_policy :: WorkflowJobOutcomePolicy

record WorkflowDefinition =
  wd_jobs :: "WorkflowJobDefinition list"

fun validate_jobs :: "nat \<Rightarrow> WorkflowJobDefinition list \<Rightarrow> (string, unit) result" where
  "validate_jobs n [] = Ok ()"
| "validate_jobs n (job # jobs) =
     (if trim (wj_runner_id job) = []
      then Err (''workflow job '' @ show_nat (n + 1) @ '' must choose a runner'')
      else if trim (wj_runner_job_name job) = []
      then Err (''workflow job '' @ show_nat (n + 1) @ '' must choose a runner job'')
      else validate_jobs (n + 1) jobs)"

definition WorkflowDefinition_validate :: "WorkflowDefinition \<Rightarrow> (string, unit) result" where
  "WorkflowDefinition_validate d =
     (if wd_jobs d = [] then Err ''workflow must contain at least one job''
      else validate_jobs 0 (wd_jobs d))"

record WorkflowRunArtifactSelection =
  sel_job_index :: nat
  sel_input_name :: string
  sel_server_artifact_id :: string

record JobOutputBinding =
  jb_job_index :: nat
  jb_output_name :: string

fun parse_job_output_binding :: "WorkflowInputBinding \<Rightarrow> JobOutputBinding option" where
  "parse_job_output_binding (BJobOutput job_index output_name) =
     (if output_name = [] then None
      else Some \<lparr>jb_job_index = job_index, jb_output_name = output_name\<rparr>)"
| "parse_job_output_binding _ = None"

section \<open>Job runs\<close>

record JobRun =
  jr_id :: string
  jr_pipeline_run_id :: string
  jr_job_index :: int
  jr_runner_id :: string
  jr_runner_job_name :: string
  jr_dispatch_key :: string
  jr_runner_run_id :: "string option"
  jr_status :: string
  jr_outcome_policy :: WorkflowJobOutcomePolicy
  jr_started_at :: "string option"
  jr_duration_ms :: "int option"
  jr_exit_code :: "32 word option"
  jr_terminal_reason :: "string option"
  jr_failure_category :: "string option"
  jr_cancel_reason :: "string option"
  jr_cancel_requested_at :: "string option"
  jr_cancel_started_at :: "string option"
  jr_cancel_retry_count :: int
  jr_last_cancel_retry_at :: "string option"
  jr_infra_retry_count :: int
  jr_last_infra_retry_at :: "string option"
  jr_finished_at :: "string option"
  jr_output_metadata :: JobOutputMetadata

definition display_name :: "JobRun \<Rightarrow> string" where
  "display_name r =
     ''job-'' @ show_int (jr_job_index r + 1) @ '' / '' @ jr_runner_job_name r"

record JobRunOutput =
  jo_output_name :: string
  jo_kind :: string
  jo_runner_artifact_id :: "string option"
  jo_server_artifact_id :: "string option"
  jo_value :: "json option"
  jo_sha256 :: "string option"
  jo_size_bytes :: "int option"

record PreviousJobSummary =
  pj_job_run_id :: string
  pj_job_index :: int
  pj_runner_job_name :: string
  pj_status :: string

record JobRunDetail =
  jd_run :: JobRun
  jd_stdout :: string
  jd_stderr :: string
  jd_outputs :: "JobRunOutput list"
  jd_previous_jobs :: "PreviousJobSummary list"
  jd_resolved_inputs :: "(string, json) btree_map"

record PipelineSnapshot =
  ps_pipeline :: PipelineRun
  ps_jobs :: "JobRunDetail list"
  ps_artifact_selections :: "WorkflowRunArtifactSelection list"

record ServerArtifact =
  art_id :: string
  art_scope_type :: string
  art_scope_id :: string
  art_artifact_name :: string
  art_sha256 :: string
  art_size_bytes :: int
  art_storage_path :: string
  art_created_at :: string

record PromotableArtifact =
  pa_server_artifact_id :: string
  pa_sha256 :: string
  pa_size_bytes :: int
  pa_created_at :: string
  pa_pipeline_run_id :: string
  pa_workflow_name :: string
  pa_job_run_id :: string
  pa_runner_id :: string
  pa_runner_name :: string
  pa_runner_job_name :: string
  pa_output_name :: string
  pa_commit_sha :: "string option"
  pa_trigger_ref :: "string option"

section \<open>Lemmas\<close>

interpretation user_role: text_codec UserRole_as_str UserRole_parse
proof
  show "UserRole_parse (UserRole_as_str x) = Some x" for x
    by (cases x) (simp add: UserRole_parse_def)
  show "UserRole_parse s = Some x \<Longrightarrow> UserRole_as_str x = s" for s x
    by (auto simp: UserRole_parse_def split: if_splits)
qed

interpretation outcome_policy: text_codec OutcomePolicy_as_str OutcomePolicy_parse
proof
  show "OutcomePolicy_parse (OutcomePolicy_as_str x) = Some x" for x
    by (cases x) (simp_all add: OutcomePolicy_parse_def)
  show "OutcomePolicy_parse s = Some x \<Longrightarrow> OutcomePolicy_as_str x = s" for s x
    by (auto simp: OutcomePolicy_parse_def split: if_splits)
qed

lemma validate_jobs_ok:
  "validate_jobs n jobs = Ok u \<longleftrightarrow>
     (\<forall>job \<in> set jobs. trim (wj_runner_id job) \<noteq> [] \<and> trim (wj_runner_job_name job) \<noteq> [])"
  by (induction n jobs rule: validate_jobs.induct) auto

text \<open>A definition is accepted exactly when it has a job and every job names a runner and a
  runner job.\<close>

lemma WorkflowDefinition_validate_ok:
  "WorkflowDefinition_validate d = Ok u \<longleftrightarrow>
     wd_jobs d \<noteq> [] \<and>
     (\<forall>job \<in> set (wd_jobs d). trim (wj_runner_id job) \<noteq> [] \<and> trim (wj_runner_job_name job) \<noteq> [])"
  by (auto simp: WorkflowDefinition_validate_def validate_jobs_ok)

end
