(* ===== verification/Server_Db.thy ===== *)
theory Server_Db
  imports Server_Models
begin

text \<open>
  The server's database (janus-server/src/db.rs).  A table is the list of its rows in
  insertion order, which is the order of a query without ORDER BY; an operation is the
  transaction the method runs, and an operation that fails leaves the tables as they were.
  The constraints of the schema that a caller can violate are kept: foreign keys, and the
  unique keys that are not fresh identifiers.  A row that only its parent row reads
  (references of a push event, inputs and outputs of a job definition) is stored with its
  parent.  I/O faults of SQLite are not modelled.

  Every operation that calls Uuid::now_v7 or Utc::now draws from one sequence: the n-th
  draw is uuid_text n, uuid_simple n or clock n of the platform.
\<close>

section \<open>Tables\<close>

record DbPlat =
  uuid_text :: "nat \<Rightarrow> string"
  uuid_simple :: "nat \<Rightarrow> string"
  clock :: "nat \<Rightarrow> string"

record WorkflowRow =
  wr_id :: string
  wr_repo_id :: string
  wr_name :: string
  wr_enabled :: bool
  wr_created_at :: string

record WorkflowVersionRow =
  wv_id :: string
  wv_workflow_id :: string
  wv_version :: int
  wv_trigger_json :: string
  wv_definition_json :: string
  wv_created_at :: string

record JobLogRow =
  jl_job_run_id :: string
  jl_stdout :: string
  jl_stderr :: string
  jl_updated_at :: string

record PendingArtifact =
  pend_id :: string
  pend_scope_type :: string
  pend_scope_id :: string
  pend_artifact_name :: string
  pend_sha256 :: string
  pend_size_bytes :: int
  pend_storage_path :: string

record Db =
  db_seq :: nat
  db_repos :: "Repo list"
  db_runners :: "Runner list"
  db_runner_jobs :: "(string \<times> JobDefinitionResponse) list"
  db_workflows :: "WorkflowRow list"
  db_versions :: "WorkflowVersionRow list"
  db_schemas :: "(string \<times> int \<times> JobDefinitionResponse) list"
  db_push_events :: "PushEvent list"
  db_pipelines :: "PipelineRun list"
  db_jobs :: "JobRun list"
  db_payloads :: "string \<Rightarrow> json option"
  db_previous :: "(string \<times> string) list"
  db_logs :: "JobLogRow list"
  db_outputs :: "(string \<times> JobRunOutput) list"
  db_artifacts :: "ServerArtifact list"
  db_selections :: "(string \<times> WorkflowRunArtifactSelection) list"

definition empty_db :: Db where
  "empty_db =
     \<lparr>db_seq = 0, db_repos = [], db_runners = [], db_runner_jobs = [], db_workflows = [],
      db_versions = [], db_schemas = [], db_push_events = [], db_pipelines = [], db_jobs = [],
      db_payloads = (\<lambda>_. None), db_previous = [], db_logs = [], db_outputs = [],
      db_artifacts = [], db_selections = []\<rparr>"

abbreviation draw :: "Db \<Rightarrow> Db" where
  "draw d \<equiv> d\<lparr>db_seq := Suc (db_seq d)\<rparr>"

definition update_rows :: "('r \<Rightarrow> 'k) \<Rightarrow> 'k \<Rightarrow> ('r \<Rightarrow> 'r) \<Rightarrow> 'r list \<Rightarrow> 'r list" where
  "update_rows key k f rows = map (\<lambda>r. if key r = k then f r else r) rows"

definition sort_desc :: "('r \<Rightarrow> 'k::linorder) \<Rightarrow> 'r list \<Rightarrow> 'r list" where
  "sort_desc key rows = rev (sort_key key (rev rows))"

definition FK_FAILED :: string where "FK_FAILED = ''FOREIGN KEY constraint failed''"
definition NO_ROWS :: string where "NO_ROWS = ''Query returned no rows''"

section \<open>Repositories and push events\<close>

definition create_repo ::
    "DbPlat \<Rightarrow> string \<Rightarrow> string \<Rightarrow> string \<Rightarrow> string \<Rightarrow> Db \<Rightarrow> (string, string) result \<times> Db" where
  "create_repo P name normalized_name bare_path default_branch d =
     (if list_ex (\<lambda>r. repo_normalized_name r = normalized_name) (db_repos d)
      then (Err ''UNIQUE constraint failed: repos.normalized_name'', d)
      else let id = uuid_text P (db_seq d) in
        (Ok id, (draw d)\<lparr>db_repos := db_repos d @
           [\<lparr>repo_id = id, repo_name = name, repo_normalized_name = normalized_name,
             repo_bare_path = bare_path, repo_default_branch = default_branch,
             repo_created_at = clock P (db_seq d)\<rparr>]\<rparr>))"

definition list_repos :: "Db \<Rightarrow> Repo list" where
  "list_repos d = sort_key repo_normalized_name (db_repos d)"

definition get_repo :: "string \<Rightarrow> Db \<Rightarrow> Repo option" where
  "get_repo i d = find (\<lambda>r. repo_id r = i) (db_repos d)"

definition get_repo_by_normalized_name :: "string \<Rightarrow> Db \<Rightarrow> Repo option" where
  "get_repo_by_normalized_name n d = find (\<lambda>r. repo_normalized_name r = n) (db_repos d)"

definition create_push_event ::
    "DbPlat \<Rightarrow> string \<Rightarrow> string \<Rightarrow> PushEventRef list \<Rightarrow> Db \<Rightarrow> (string, unit) result \<times> Db" where
  "create_push_event P repo key refs d =
     (if list_ex (\<lambda>e. pe_event_key e = key) (db_push_events d) then (Ok (), d)
      else if get_repo repo d = None then (Err FK_FAILED, d)
      else (Ok (), (draw d)\<lparr>db_push_events := db_push_events d @
        [\<lparr>pe_id = uuid_text P (db_seq d), pe_repo_id = repo,
          pe_received_at = clock P (db_seq d), pe_event_key = key, pe_processed_at = None,
          pe_refs = refs\<rparr>]\<rparr>))"

definition list_unprocessed_push_events :: "Db \<Rightarrow> PushEvent list" where
  "list_unprocessed_push_events d =
     map (\<lambda>e. e\<lparr>pe_refs := sort_key ref_name (pe_refs e)\<rparr>)
       (sort_key pe_received_at (filter (\<lambda>e. pe_processed_at e = None) (db_push_events d)))"

definition mark_push_event_processed :: "DbPlat \<Rightarrow> string \<Rightarrow> Db \<Rightarrow> Db" where
  "mark_push_event_processed P i d =
     (draw d)\<lparr>db_push_events :=
        update_rows pe_id i (\<lambda>e. e\<lparr>pe_processed_at := Some (clock P (db_seq d))\<rparr>)
          (db_push_events d)\<rparr>"

section \<open>Runners\<close>

definition create_runner ::
    "DbPlat \<Rightarrow> string \<Rightarrow> string \<Rightarrow> Db \<Rightarrow> (string, string) result \<times> Db" where
  "create_runner P name base_url d =
     (if list_ex (\<lambda>r. rn_name r = name) (db_runners d)
      then (Err ''UNIQUE constraint failed: runners.name'', d)
      else let id = uuid_text P (db_seq d) in
        (Ok id, (draw d)\<lparr>db_runners := db_runners d @
           [\<lparr>rn_id = id, rn_name = name, rn_base_url = base_url, rn_enabled = True,
             rn_last_health_state = ''unknown'', rn_last_seen_at = None,
             rn_created_at = clock P (db_seq d)\<rparr>]\<rparr>))"

definition list_runners :: "Db \<Rightarrow> Runner list" where
  "list_runners d = sort_key rn_name (db_runners d)"

definition get_runner :: "string \<Rightarrow> Db \<Rightarrow> Runner option" where
  "get_runner i d = find (\<lambda>r. rn_id r = i) (db_runners d)"

definition set_runner_enabled :: "string \<Rightarrow> bool \<Rightarrow> Db \<Rightarrow> Db" where
  "set_runner_enabled i enabled d =
     d\<lparr>db_runners := update_rows rn_id i (\<lambda>r. r\<lparr>rn_enabled := enabled\<rparr>) (db_runners d)\<rparr>"

definition update_runner ::
    "string \<Rightarrow> string \<Rightarrow> string \<Rightarrow> Db \<Rightarrow> (string, unit) result \<times> Db" where
  "update_runner i name base_url d =
     (case get_runner i d of
        None \<Rightarrow> (Err NO_ROWS, d)
      | Some old \<Rightarrow>
          if list_ex (\<lambda>r. rn_name r = name \<and> rn_id r \<noteq> i) (db_runners d)
          then (Err ''UNIQUE constraint failed: runners.name'', d)
          else (Ok (), d\<lparr>
            db_runners := update_rows rn_id i
              (\<lambda>r. r\<lparr>rn_name := name, rn_base_url := base_url,
                     rn_last_health_state :=
                       (if rn_base_url r \<noteq> base_url then ''unknown'' else rn_last_health_state r),
                     rn_last_seen_at :=
                       (if rn_base_url r \<noteq> base_url then None else rn_last_seen_at r)\<rparr>)
              (db_runners d),
            db_runner_jobs :=
              (if rn_base_url old \<noteq> base_url
               then filter (\<lambda>j. fst j \<noteq> i) (db_runner_jobs d) else db_runner_jobs d)\<rparr>))"

definition update_runner_health :: "DbPlat \<Rightarrow> string \<Rightarrow> string \<Rightarrow> Db \<Rightarrow> Db" where
  "update_runner_health P i state d =
     (draw d)\<lparr>db_runners := update_rows rn_id i
       (\<lambda>r. r\<lparr>rn_last_health_state := state, rn_last_seen_at := Some (clock P (db_seq d))\<rparr>)
       (db_runners d)\<rparr>"

definition replace_runner_jobs ::
    "string \<Rightarrow> JobDefinitionResponse list \<Rightarrow> Db \<Rightarrow> (string, unit) result \<times> Db" where
  "replace_runner_jobs i jobs d =
     (if jobs \<noteq> [] \<and> get_runner i d = None then (Err FK_FAILED, d)
      else if \<not> distinct (map jdr_name jobs)
      then (Err ''UNIQUE constraint failed: runner_jobs.runner_id, runner_jobs.job_name'', d)
      else (Ok (), d\<lparr>db_runner_jobs :=
        filter (\<lambda>j. fst j \<noteq> i) (db_runner_jobs d) @ map (Pair i) jobs\<rparr>))"

definition list_runner_jobs :: "string \<Rightarrow> Db \<Rightarrow> JobDefinitionResponse list" where
  "list_runner_jobs i d =
     sort_key jdr_name (map snd (filter (\<lambda>j. fst j = i) (db_runner_jobs d)))"

section \<open>Workflows\<close>

text \<open>A workflow joined with one of its versions.\<close>

definition join_version :: "WorkflowRow \<Rightarrow> WorkflowVersionRow \<Rightarrow> Workflow" where
  "join_version w v =
     \<lparr>wf_id = wr_id w, wf_repo_id = wr_repo_id w, wf_name = wr_name w,
      wf_enabled = wr_enabled w, wf_created_at = wr_created_at w, wf_version = wv_version v,
      wf_version_id = wv_id v, wf_trigger_json = wv_trigger_json v,
      wf_definition_json = wv_definition_json v\<rparr>"

definition versions_of :: "string \<Rightarrow> Db \<Rightarrow> WorkflowVersionRow list" where
  "versions_of i d = filter (\<lambda>v. wv_workflow_id v = i) (db_versions d)"

definition max_version :: "string \<Rightarrow> Db \<Rightarrow> int option" where
  "max_version i d =
     (case map wv_version (versions_of i d) of
        [] \<Rightarrow> None | v # vs \<Rightarrow> Some (fold max vs v))"

definition current_versions :: "WorkflowRow list \<Rightarrow> Db \<Rightarrow> Workflow list" where
  "current_versions ws d =
     concat (map (\<lambda>w. map (join_version w)
       (filter (\<lambda>v. Some (wv_version v) = max_version (wr_id w) d) (versions_of (wr_id w) d))) ws)"

definition insert_workflow_version_job_schemas ::
    "string \<Rightarrow> JobDefinitionResponse list \<Rightarrow> (string \<times> int \<times> JobDefinitionResponse) list" where
  "insert_workflow_version_job_schemas version_id schemas =
     map (\<lambda>(i, s). (version_id, int i, s)) (enumerate 0 schemas)"

definition create_workflow ::
    "DbPlat \<Rightarrow> string \<Rightarrow> string \<Rightarrow> bool \<Rightarrow> string \<Rightarrow> string \<Rightarrow> JobDefinitionResponse list
      \<Rightarrow> Db \<Rightarrow> (string, string) result \<times> Db" where
  "create_workflow P repo name enabled trigger_json definition_json job_schemas d =
     (if get_repo repo d = None then (Err FK_FAILED, d)
      else
        let workflow_id = uuid_text P (db_seq d);
            version_id = uuid_text P (Suc (db_seq d));
            now = clock P (Suc (Suc (db_seq d))) in
        (Ok workflow_id, (draw (draw (draw d)))\<lparr>
           db_workflows := db_workflows d @
             [\<lparr>wr_id = workflow_id, wr_repo_id = repo, wr_name = name, wr_enabled = enabled,
               wr_created_at = now\<rparr>],
           db_versions := db_versions d @
             [\<lparr>wv_id = version_id, wv_workflow_id = workflow_id, wv_version = 1,
               wv_trigger_json = trigger_json, wv_definition_json = definition_json,
               wv_created_at = now\<rparr>],
           db_schemas := db_schemas d @
             insert_workflow_version_job_schemas version_id job_schemas\<rparr>))"

definition list_workflows :: "Db \<Rightarrow> Workflow list" where
  "list_workflows d = sort_desc wf_created_at (current_versions (db_workflows d) d)"

definition workflows_for_repo :: "string \<Rightarrow> Db \<Rightarrow> Workflow list" where
  "workflows_for_repo repo d =
     sort_key wf_name
       (current_versions (filter (\<lambda>w. wr_repo_id w = repo) (db_workflows d)) d)"

definition get_workflow :: "string \<Rightarrow> Db \<Rightarrow> Workflow option" where
  "get_workflow i d =
     find (\<lambda>_. True) (current_versions (filter (\<lambda>w. wr_id w = i) (db_workflows d)) d)"

definition get_workflow_by_version_id :: "string \<Rightarrow> Db \<Rightarrow> Workflow option" where
  "get_workflow_by_version_id i d =
     (case find (\<lambda>v. wv_id v = i) (db_versions d) of
        None \<Rightarrow> None
      | Some v \<Rightarrow> map_option (\<lambda>w. join_version w v)
                   (find (\<lambda>w. wr_id w = wv_workflow_id v) (db_workflows d)))"

definition update_workflow ::
    "DbPlat \<Rightarrow> string \<Rightarrow> string \<Rightarrow> bool \<Rightarrow> string \<Rightarrow> string \<Rightarrow> JobDefinitionResponse list
      \<Rightarrow> Db \<Rightarrow> (string, string) result \<times> Db" where
  "update_workflow P i name enabled trigger_json definition_json job_schemas d =
     (let next_version = (case max_version i d of None \<Rightarrow> 1 | Some v \<Rightarrow> v + 1);
          version_id = uuid_text P (db_seq d) in
      if find (\<lambda>w. wr_id w = i) (db_workflows d) = None then (Err FK_FAILED, d)
      else (Ok version_id, (draw (draw d))\<lparr>
         db_workflows := update_rows wr_id i
           (\<lambda>w. w\<lparr>wr_name := name, wr_enabled := enabled\<rparr>) (db_workflows d),
         db_versions := db_versions d @
           [\<lparr>wv_id = version_id, wv_workflow_id = i, wv_version = next_version,
             wv_trigger_json = trigger_json, wv_definition_json = definition_json,
             wv_created_at = clock P (Suc (db_seq d))\<rparr>],
         db_schemas := db_schemas d @
           insert_workflow_version_job_schemas version_id job_schemas\<rparr>))"

definition workflow_definition_json :: "string \<Rightarrow> Db \<Rightarrow> (string, string) result" where
  "workflow_definition_json version_id d =
     ok_or (map_option wv_definition_json (find (\<lambda>v. wv_id v = version_id) (db_versions d)))
       NO_ROWS"

definition workflow_job_schemas :: "string \<Rightarrow> Db \<Rightarrow> JobDefinitionResponse list" where
  "workflow_job_schemas version_id d =
     map (snd \<circ> snd) (sort_key (fst \<circ> snd) (filter (\<lambda>s. fst s = version_id) (db_schemas d)))"

section \<open>Pipelines and job runs\<close>

definition get_pipeline_run :: "string \<Rightarrow> Db \<Rightarrow> PipelineRun option" where
  "get_pipeline_run i d = find (\<lambda>p. pl_id p = i) (db_pipelines d)"

definition list_pipeline_runs :: "Db \<Rightarrow> PipelineRun list" where
  "list_pipeline_runs d = sort_desc pl_started_at (db_pipelines d)"

definition create_pipeline_run ::
    "DbPlat \<Rightarrow> string \<Rightarrow> string \<Rightarrow> string \<Rightarrow> string \<Rightarrow> string option \<Rightarrow> string option
      \<Rightarrow> Db \<Rightarrow> (string, string) result \<times> Db" where
  "create_pipeline_run P repo workflow_id workflow_version_id trigger_type trigger_ref commit_sha d =
     (if get_repo repo d = None \<or> find (\<lambda>w. wr_id w = workflow_id) (db_workflows d) = None
         \<or> find (\<lambda>v. wv_id v = workflow_version_id) (db_versions d) = None
      then (Err FK_FAILED, d)
      else let id = uuid_text P (db_seq d) in
        (Ok id, (draw d)\<lparr>db_pipelines := db_pipelines d @
           [\<lparr>pl_id = id, pl_repo_id = repo, pl_workflow_id = workflow_id,
             pl_workflow_version_id = workflow_version_id, pl_trigger_type = trigger_type,
             pl_trigger_ref = trigger_ref, pl_commit_sha = commit_sha, pl_status = ''running'',
             pl_started_at = clock P (db_seq d), pl_cancel_reason = None,
             pl_cancel_requested_at = None, pl_cancel_started_at = None,
             pl_finished_at = None\<rparr>]\<rparr>))"

definition get_server_artifact_by_id :: "string \<Rightarrow> Db \<Rightarrow> ServerArtifact option" where
  "get_server_artifact_by_id i d = find (\<lambda>a. art_id a = i) (db_artifacts d)"

definition same_selection ::
    "WorkflowRunArtifactSelection \<Rightarrow> WorkflowRunArtifactSelection \<Rightarrow> bool" where
  "same_selection s t =
     (sel_job_index s = sel_job_index t \<and> sel_input_name s = sel_input_name t)"

fun insert_selections ::
    "string \<Rightarrow> WorkflowRunArtifactSelection list \<Rightarrow> Db \<Rightarrow> (string, Db) result" where
  "insert_selections pipeline_run_id [] d = Ok d"
| "insert_selections pipeline_run_id (s # ss) d =
     (if list_ex (\<lambda>(p, t). p = pipeline_run_id \<and> same_selection s t) (db_selections d)
      then Err ''UNIQUE constraint failed: workflow_run_artifact_inputs''
      else if get_pipeline_run pipeline_run_id d = None
        \<or> get_server_artifact_by_id (sel_server_artifact_id s) d = None
      then Err FK_FAILED
      else insert_selections pipeline_run_id ss
        (d\<lparr>db_selections := db_selections d @ [(pipeline_run_id, s)]\<rparr>))"

definition add_workflow_run_artifact_selections ::
    "string \<Rightarrow> WorkflowRunArtifactSelection list \<Rightarrow> Db \<Rightarrow> (string, unit) result \<times> Db" where
  "add_workflow_run_artifact_selections pipeline_run_id selections d =
     (case insert_selections pipeline_run_id selections d of
        Err e \<Rightarrow> (Err e, d)
      | Ok d' \<Rightarrow> (Ok (), d'))"

definition workflow_run_artifact_selections ::
    "string \<Rightarrow> Db \<Rightarrow> WorkflowRunArtifactSelection list" where
  "workflow_run_artifact_selections pipeline_run_id d =
     sort_key sel_job_index (sort_key sel_input_name
       (map snd (filter (\<lambda>s. fst s = pipeline_run_id) (db_selections d))))"

definition workflow_run_artifact_selection ::
    "string \<Rightarrow> nat \<Rightarrow> string \<Rightarrow> Db \<Rightarrow> string option" where
  "workflow_run_artifact_selection pipeline_run_id job_index input_name d =
     map_option (\<lambda>s. sel_server_artifact_id (snd s))
       (find (\<lambda>(p, s). p = pipeline_run_id \<and> sel_job_index s = job_index
                       \<and> sel_input_name s = input_name) (db_selections d))"

definition next_dispatch_idempotency_key :: "DbPlat \<Rightarrow> nat \<Rightarrow> string" where
  "next_dispatch_idempotency_key P n = ''dispatch_'' @ uuid_simple P n"

definition create_job_run ::
    "DbPlat \<Rightarrow> string \<Rightarrow> int \<Rightarrow> string \<Rightarrow> string \<Rightarrow> WorkflowJobOutcomePolicy
      \<Rightarrow> Db \<Rightarrow> (string, string) result \<times> Db" where
  "create_job_run P pipeline_run_id job_index runner_id runner_job_name outcome_policy d =
     (if get_pipeline_run pipeline_run_id d = None \<or> get_runner runner_id d = None
      then (Err FK_FAILED, d)
      else let id = uuid_text P (db_seq d);
               key = next_dispatch_idempotency_key P (Suc (db_seq d)) in
        (Ok id, (draw (draw d))\<lparr>
          db_jobs := db_jobs d @
            [\<lparr>jr_id = id, jr_pipeline_run_id = pipeline_run_id, jr_job_index = job_index,
              jr_runner_id = runner_id, jr_runner_job_name = runner_job_name,
              jr_dispatch_key = key, jr_runner_run_id = None, jr_status = ''pending'',
              jr_outcome_policy = outcome_policy, jr_started_at = None, jr_duration_ms = None,
              jr_exit_code = None, jr_terminal_reason = None, jr_failure_category = None,
              jr_cancel_reason = None, jr_cancel_requested_at = None,
              jr_cancel_started_at = None, jr_cancel_retry_count = 0,
              jr_last_cancel_retry_at = None, jr_infra_retry_count = 0,
              jr_last_infra_retry_at = None, jr_finished_at = None,
              jr_output_metadata = JobOutputMetadata_default\<rparr>],
          db_logs := db_logs d @
            [\<lparr>jl_job_run_id = id, jl_stdout = [], jl_stderr = [],
              jl_updated_at = clock P (Suc (db_seq d))\<rparr>]\<rparr>))"

definition get_job_run :: "string \<Rightarrow> Db \<Rightarrow> JobRun option" where
  "get_job_run i d = find (\<lambda>j. jr_id j = i) (db_jobs d)"

definition add_previous_job ::
    "string \<Rightarrow> string \<Rightarrow> Db \<Rightarrow> (string, unit) result \<times> Db" where
  "add_previous_job job_run_id previous_job_run_id d =
     (if (job_run_id, previous_job_run_id) \<in> set (db_previous d)
      then (Err ''UNIQUE constraint failed: job_run_previous'', d)
      else if get_job_run job_run_id d = None \<or> get_job_run previous_job_run_id d = None
      then (Err FK_FAILED, d)
      else (Ok (), d\<lparr>db_previous := db_previous d @ [(job_run_id, previous_job_run_id)]\<rparr>))"

definition list_job_runs_by_status :: "string list \<Rightarrow> Db \<Rightarrow> JobRun list" where
  "list_job_runs_by_status statuses d = filter (\<lambda>j. jr_status j \<in> set statuses) (db_jobs d)"

definition previous_jobs_for_job_run :: "string \<Rightarrow> Db \<Rightarrow> JobRun list" where
  "previous_jobs_for_job_run job_run_id d =
     sort_key jr_job_index
       (concat (map (\<lambda>(_, p). filter (\<lambda>j. jr_id j = p) (db_jobs d))
         (filter (\<lambda>e. fst e = job_run_id) (db_previous d))))"

definition list_job_runs_for_pipeline :: "string \<Rightarrow> Db \<Rightarrow> JobRun list" where
  "list_job_runs_for_pipeline pipeline_id d =
     sort_key jr_job_index (filter (\<lambda>j. jr_pipeline_run_id j = pipeline_id) (db_jobs d))"

definition pipeline_for_job_run :: "string \<Rightarrow> Db \<Rightarrow> PipelineRun option" where
  "pipeline_for_job_run job_run_id d =
     (case get_job_run job_run_id d of
        None \<Rightarrow> None | Some j \<Rightarrow> get_pipeline_run (jr_pipeline_run_id j) d)"

section \<open>Changes of a job run\<close>

abbreviation update_job :: "string \<Rightarrow> (JobRun \<Rightarrow> JobRun) \<Rightarrow> Db \<Rightarrow> Db" where
  "update_job i f d \<equiv> d\<lparr>db_jobs := update_rows jr_id i f (db_jobs d)\<rparr>"

definition set_job_run_started :: "string \<Rightarrow> string \<Rightarrow> string \<Rightarrow> Db \<Rightarrow> Db" where
  "set_job_run_started i runner_run_id started_at d =
     update_job i (\<lambda>j. j\<lparr>
       jr_status := ''running'', jr_runner_run_id := Some runner_run_id,
       jr_started_at := Some started_at, jr_cancel_reason := None,
       jr_cancel_requested_at := None, jr_cancel_started_at := None,
       jr_cancel_retry_count := 0, jr_last_cancel_retry_at := None\<rparr>) d"

definition set_job_run_input_payload :: "string \<Rightarrow> json \<Rightarrow> Db \<Rightarrow> Db" where
  "set_job_run_input_payload i payload d =
     (if get_job_run i d = None then d
      else d\<lparr>db_payloads := (db_payloads d)(i \<mapsto> payload)\<rparr>)"

definition finish_job_row ::
    "string \<Rightarrow> u64 option \<Rightarrow> 32 word option \<Rightarrow> string option \<Rightarrow> string option
      \<Rightarrow> JobOutputMetadata \<Rightarrow> string \<Rightarrow> JobRun \<Rightarrow> JobRun" where
  "finish_job_row status duration_ms exit_code terminal_reason failure_category metadata now j =
     j\<lparr>jr_status := status, jr_duration_ms := map_option sint duration_ms,
       jr_exit_code := exit_code, jr_terminal_reason := terminal_reason,
       jr_failure_category := failure_category, jr_finished_at := Some now,
       jr_output_metadata := metadata,
       jr_cancel_requested_at := (if status = ''canceled'' then jr_cancel_requested_at j else None),
       jr_cancel_started_at := (if status = ''canceled'' then jr_cancel_started_at j else None),
       jr_cancel_retry_count := (if status = ''canceled'' then jr_cancel_retry_count j else 0),
       jr_last_cancel_retry_at :=
         (if status = ''canceled'' then jr_last_cancel_retry_at j else None)\<rparr>"

definition finish_job_run ::
    "DbPlat \<Rightarrow> string \<Rightarrow> string \<Rightarrow> u64 option \<Rightarrow> 32 word option \<Rightarrow> string option
      \<Rightarrow> string option \<Rightarrow> JobOutputMetadata \<Rightarrow> string \<Rightarrow> string \<Rightarrow> JobRunOutput list
      \<Rightarrow> Db \<Rightarrow> (string, unit) result \<times> Db" where
  "finish_job_run P i status duration_ms exit_code terminal_reason failure_category metadata
     stdout stderr outs d =
     (if outs \<noteq> [] \<and> get_job_run i d = None then (Err FK_FAILED, d)
      else (Ok (), (draw d)\<lparr>
        db_jobs := update_rows jr_id i
          (finish_job_row status duration_ms exit_code terminal_reason failure_category metadata
            (clock P (db_seq d))) (db_jobs d),
        db_logs := update_rows jl_job_run_id i
          (\<lambda>l. l\<lparr>jl_stdout := stdout, jl_stderr := stderr, jl_updated_at := clock P (db_seq d)\<rparr>)
          (db_logs d),
        db_outputs := filter (\<lambda>e. fst e \<noteq> i) (db_outputs d) @ map (Pair i) outs\<rparr>))"

definition job_status_row :: "string \<Rightarrow> string \<Rightarrow> JobRun \<Rightarrow> JobRun" where
  "job_status_row status now j =
     j\<lparr>jr_status := status, jr_duration_ms := None, jr_exit_code := None,
       jr_terminal_reason := None, jr_failure_category := None,
       jr_output_metadata := JobOutputMetadata_default,
       jr_cancel_reason :=
         (if status \<in> {''cancel_requested'', ''canceling'', ''canceled''}
          then jr_cancel_reason j else None),
       jr_cancel_requested_at :=
         (if status = ''cancel_requested'' \<and> jr_cancel_requested_at j = None then Some now
          else if status \<notin> {''cancel_requested'', ''canceling'', ''canceled''} then None
          else jr_cancel_requested_at j),
       jr_cancel_started_at :=
         (if status = ''canceling'' \<and> jr_cancel_started_at j = None then Some now
          else if status \<notin> {''canceling'', ''canceled''} then None
          else jr_cancel_started_at j),
       jr_cancel_retry_count :=
         (if status \<in> {''cancel_requested'', ''canceling'', ''canceled''}
          then jr_cancel_retry_count j else 0),
       jr_last_cancel_retry_at :=
         (if status \<in> {''cancel_requested'', ''canceling'', ''canceled''}
          then jr_last_cancel_retry_at j else None),
       jr_finished_at :=
         (if status \<in> {''success'', ''failed'', ''canceled'', ''blocked'', ''skipped''}
          then Some now else None)\<rparr>"

definition set_job_run_status :: "DbPlat \<Rightarrow> string \<Rightarrow> string \<Rightarrow> Db \<Rightarrow> Db" where
  "set_job_run_status P i status d =
     update_job i (job_status_row status (clock P (db_seq d))) (draw d)"

definition mark_job_run_cancel_requested :: "DbPlat \<Rightarrow> string \<Rightarrow> string \<Rightarrow> Db \<Rightarrow> Db" where
  "mark_job_run_cancel_requested P i reason d =
     update_job i (\<lambda>j. j\<lparr>
       jr_status := ''cancel_requested'', jr_cancel_reason := Some reason,
       jr_cancel_requested_at :=
         (case jr_cancel_requested_at j of
            None \<Rightarrow> Some (clock P (db_seq d)) | Some t \<Rightarrow> Some t),
       jr_finished_at := None\<rparr>) (draw d)"

definition record_cancel_retry :: "DbPlat \<Rightarrow> string \<Rightarrow> Db \<Rightarrow> (string, int) result \<times> Db" where
  "record_cancel_retry P i d =
     (let d' = update_job i (\<lambda>j. j\<lparr>
            jr_cancel_retry_count := jr_cancel_retry_count j + 1,
            jr_last_cancel_retry_at := Some (clock P (db_seq d))\<rparr>) (draw d)
      in (ok_or (map_option jr_cancel_retry_count (get_job_run i d')) NO_ROWS, d'))"

definition infra_retry_row :: "string \<Rightarrow> string \<Rightarrow> JobRun \<Rightarrow> JobRun" where
  "infra_retry_row key now j =
     j\<lparr>jr_status := ''pending'', jr_runner_run_id := None, jr_started_at := None,
       jr_duration_ms := None, jr_exit_code := None, jr_terminal_reason := None,
       jr_failure_category := None, jr_cancel_reason := None, jr_cancel_requested_at := None,
       jr_cancel_started_at := None, jr_cancel_retry_count := 0,
       jr_last_cancel_retry_at := None, jr_dispatch_key := key,
       jr_infra_retry_count := jr_infra_retry_count j + 1,
       jr_last_infra_retry_at := Some now, jr_finished_at := None,
       jr_output_metadata := JobOutputMetadata_default\<rparr>"

definition requeue_job_run_for_infra_retry ::
    "DbPlat \<Rightarrow> string \<Rightarrow> Db \<Rightarrow> (string, int) result \<times> Db" where
  "requeue_job_run_for_infra_retry P i d =
     (let now = clock P (db_seq d);
          d' = (draw d)\<lparr>
            db_jobs := update_rows jr_id i
              (infra_retry_row (next_dispatch_idempotency_key P (db_seq d)) now) (db_jobs d),
            db_logs := update_rows jl_job_run_id i
              (\<lambda>l. l\<lparr>jl_stdout := [], jl_stderr := [], jl_updated_at := now\<rparr>) (db_logs d),
            db_outputs := filter (\<lambda>e. fst e \<noteq> i) (db_outputs d)\<rparr>
      in case get_job_run i d' of
           None \<Rightarrow> (Err NO_ROWS, d)
         | Some j \<Rightarrow> (Ok (jr_infra_retry_count j), d'))"

definition mark_job_run_cancel_retry_exhausted :: "DbPlat \<Rightarrow> string \<Rightarrow> Db \<Rightarrow> Db" where
  "mark_job_run_cancel_retry_exhausted P i d =
     update_job i (\<lambda>j. j\<lparr>
       jr_status := ''failed'', jr_cancel_reason := Some ''stuck_retry_exhausted'',
       jr_terminal_reason := Some ''canceled'', jr_failure_category := Some ''infra'',
       jr_finished_at := Some (clock P (db_seq d))\<rparr>) (draw d)"

definition job_outputs :: "string \<Rightarrow> Db \<Rightarrow> JobRunOutput list" where
  "job_outputs i d =
     sort_key jo_output_name (map snd (filter (\<lambda>e. fst e = i) (db_outputs d)))"

section \<open>Changes of a pipeline\<close>

abbreviation update_pipeline :: "string \<Rightarrow> (PipelineRun \<Rightarrow> PipelineRun) \<Rightarrow> Db \<Rightarrow> Db" where
  "update_pipeline i f d \<equiv> d\<lparr>db_pipelines := update_rows pl_id i f (db_pipelines d)\<rparr>"

definition job_statuses :: "string \<Rightarrow> Db \<Rightarrow> (ServerJobStatus \<times> bool) list" where
  "job_statuses pipeline_id d =
     List.map_filter (\<lambda>j. map_option (\<lambda>s. (s, allows_failure (jr_outcome_policy j)))
         (ServerJobStatus_parse (jr_status j)))
       (filter (\<lambda>j. jr_pipeline_run_id j = pipeline_id) (db_jobs d))"

definition final_pipeline_row :: "string \<Rightarrow> string \<Rightarrow> PipelineRun \<Rightarrow> PipelineRun" where
  "final_pipeline_row status now p =
     p\<lparr>pl_status := status,
       pl_cancel_reason :=
         (if status \<in> {''cancel_requested'', ''canceling'', ''canceled''}
          then pl_cancel_reason p else None),
       pl_cancel_requested_at :=
         (if status \<in> {''cancel_requested'', ''canceling'', ''canceled''}
          then pl_cancel_requested_at p else None),
       pl_cancel_started_at :=
         (if status \<in> {''canceling'', ''canceled''} then pl_cancel_started_at p else None),
       pl_finished_at :=
         (if status \<in> {''success'', ''failed'', ''canceled'', ''blocked''}
          then Some now else None)\<rparr>"

definition finalize_pipeline_status :: "DbPlat \<Rightarrow> string \<Rightarrow> Db \<Rightarrow> Db" where
  "finalize_pipeline_status P pipeline_id d =
     update_pipeline pipeline_id
       (final_pipeline_row
         (PipelineStatus_as_str (terminal_pipeline_status (job_statuses pipeline_id d)))
         (clock P (db_seq d))) (draw d)"

definition pipeline_status_row :: "string \<Rightarrow> string \<Rightarrow> PipelineRun \<Rightarrow> PipelineRun" where
  "pipeline_status_row status now p =
     p\<lparr>pl_status := status,
       pl_cancel_reason :=
         (if status \<in> {''cancel_requested'', ''canceling'', ''canceled''}
          then pl_cancel_reason p else None),
       pl_cancel_requested_at :=
         (if status = ''cancel_requested'' \<and> pl_cancel_requested_at p = None then Some now
          else if status \<notin> {''cancel_requested'', ''canceling'', ''canceled''} then None
          else pl_cancel_requested_at p),
       pl_cancel_started_at :=
         (if status = ''canceling'' \<and> pl_cancel_started_at p = None then Some now
          else if status \<notin> {''canceling'', ''canceled''} then None
          else pl_cancel_started_at p),
       pl_finished_at :=
         (if status \<in> {''success'', ''failed'', ''canceled'', ''blocked''}
          then Some now else None)\<rparr>"

definition set_pipeline_status :: "DbPlat \<Rightarrow> string \<Rightarrow> string \<Rightarrow> Db \<Rightarrow> Db" where
  "set_pipeline_status P pipeline_id status d =
     update_pipeline pipeline_id (pipeline_status_row status (clock P (db_seq d))) (draw d)"

definition mark_pipeline_cancel_requested :: "DbPlat \<Rightarrow> string \<Rightarrow> string \<Rightarrow> Db \<Rightarrow> Db" where
  "mark_pipeline_cancel_requested P pipeline_id reason d =
     update_pipeline pipeline_id (\<lambda>p. p\<lparr>
       pl_status := ''cancel_requested'', pl_cancel_reason := Some reason,
       pl_cancel_requested_at :=
         (case pl_cancel_requested_at p of
            None \<Rightarrow> Some (clock P (db_seq d)) | Some t \<Rightarrow> Some t),
       pl_finished_at := None\<rparr>) (draw d)"

definition pipelines_requiring_recovery :: "Db \<Rightarrow> PipelineRun list" where
  "pipelines_requiring_recovery d =
     filter (\<lambda>p. pl_status p \<in> {''running'', ''cancel_requested'', ''canceling''}
                 \<or> list_ex (\<lambda>j. jr_pipeline_run_id j = pl_id p
                      \<and> jr_status j \<in> {''pending'', ''running'', ''cancel_requested'', ''canceling''})
                     (db_jobs d))
       (db_pipelines d)"

section \<open>Artifacts of the server\<close>

definition same_scope :: "PendingArtifact \<Rightarrow> ServerArtifact \<Rightarrow> bool" where
  "same_scope a r =
     (art_scope_type r = pend_scope_type a \<and> art_scope_id r = pend_scope_id a
      \<and> art_artifact_name r = pend_artifact_name a)"

definition insert_server_artifact :: "DbPlat \<Rightarrow> PendingArtifact \<Rightarrow> Db \<Rightarrow> string \<times> Db" where
  "insert_server_artifact P a d =
     (pend_id a, (draw d)\<lparr>db_artifacts :=
        (if list_ex (same_scope a) (db_artifacts d)
         then map (\<lambda>r. if same_scope a r
                       then r\<lparr>art_sha256 := pend_sha256 a, art_size_bytes := pend_size_bytes a,
                              art_storage_path := pend_storage_path a,
                              art_created_at := clock P (db_seq d)\<rparr>
                       else r) (db_artifacts d)
         else db_artifacts d @
           [\<lparr>art_id = pend_id a, art_scope_type = pend_scope_type a,
             art_scope_id = pend_scope_id a, art_artifact_name = pend_artifact_name a,
             art_sha256 = pend_sha256 a, art_size_bytes = pend_size_bytes a,
             art_storage_path = pend_storage_path a, art_created_at = clock P (db_seq d)\<rparr>])\<rparr>)"

definition get_server_artifact ::
    "string \<Rightarrow> string \<Rightarrow> string \<Rightarrow> Db \<Rightarrow> ServerArtifact option" where
  "get_server_artifact scope_type scope_id artifact_name d =
     find (\<lambda>a. art_scope_type a = scope_type \<and> art_scope_id a = scope_id
              \<and> art_artifact_name a = artifact_name) (db_artifacts d)"

section \<open>The snapshot of a pipeline\<close>

definition job_run_detail :: "Db \<Rightarrow> JobRun \<Rightarrow> (string, JobRunDetail) result" where
  "job_run_detail d run =
     and_then (ok_or (find (\<lambda>l. jl_job_run_id l = jr_id run) (db_logs d)) NO_ROWS) (\<lambda>l.
       Ok \<lparr>jd_run = run, jd_stdout = jl_stdout l, jd_stderr = jl_stderr l,
           jd_outputs = job_outputs (jr_id run) d,
           jd_previous_jobs =
             map (\<lambda>j. \<lparr>pj_job_run_id = jr_id j, pj_job_index = jr_job_index j,
                        pj_runner_job_name = jr_runner_job_name j, pj_status = jr_status j\<rparr>)
               (previous_jobs_for_job_run (jr_id run) d),
           jd_resolved_inputs =
             (case db_payloads d (jr_id run) of Some (JObject m) \<Rightarrow> m | _ \<Rightarrow> [])\<rparr>)"

fun collect_results :: "('a \<Rightarrow> ('e, 'b) result) \<Rightarrow> 'a list \<Rightarrow> ('e, 'b list) result" where
  "collect_results f [] = Ok []"
| "collect_results f (x # xs) =
     and_then (f x) (\<lambda>y. and_then (collect_results f xs) (\<lambda>ys. Ok (y # ys)))"

lemma collect_results_ok:
  "collect_results f xs = Ok ys \<longleftrightarrow> map f xs = map Ok ys"
proof (induction xs arbitrary: ys)
  case (Cons x xs)
  then show ?case by (cases ys) auto
qed auto

definition pipeline_snapshot :: "string \<Rightarrow> Db \<Rightarrow> (string, PipelineSnapshot option) result" where
  "pipeline_snapshot pipeline_id d =
     (case get_pipeline_run pipeline_id d of
        None \<Rightarrow> Ok None
      | Some p \<Rightarrow>
          and_then (collect_results (job_run_detail d) (list_job_runs_for_pipeline pipeline_id d))
            (\<lambda>jobs. Ok (Some \<lparr>ps_pipeline = p, ps_jobs = jobs,
               ps_artifact_selections = workflow_run_artifact_selections pipeline_id d\<rparr>)))"

section \<open>Deleting a repository\<close>

text \<open>The foreign keys cascade from a repository to all that belongs to it.\<close>

definition delete_repo :: "string \<Rightarrow> Db \<Rightarrow> Db" where
  "delete_repo i d =
     (let ws = map wr_id (filter (\<lambda>w. wr_repo_id w = i) (db_workflows d));
          vs = map wv_id (filter (\<lambda>v. wv_workflow_id v \<in> set ws) (db_versions d));
          gone = (\<lambda>p. pl_repo_id p = i \<or> pl_workflow_id p \<in> set ws
                       \<or> pl_workflow_version_id p \<in> set vs);
          ps = map pl_id (filter gone (db_pipelines d));
          js = map jr_id (filter (\<lambda>j. jr_pipeline_run_id j \<in> set ps) (db_jobs d)) in
      d\<lparr>db_repos := filter (\<lambda>r. repo_id r \<noteq> i) (db_repos d),
        db_workflows := filter (\<lambda>w. wr_id w \<notin> set ws) (db_workflows d),
        db_versions := filter (\<lambda>v. wv_id v \<notin> set vs) (db_versions d),
        db_schemas := filter (\<lambda>s. fst s \<notin> set vs) (db_schemas d),
        db_push_events := filter (\<lambda>e. pe_repo_id e \<noteq> i) (db_push_events d),
        db_pipelines := filter (\<lambda>p. pl_id p \<notin> set ps) (db_pipelines d),
        db_jobs := filter (\<lambda>j. jr_id j \<notin> set js) (db_jobs d),
        db_payloads := (\<lambda>j. if j \<in> set js then None else db_payloads d j),
        db_previous :=
          filter (\<lambda>(j, p). j \<notin> set js \<and> p \<notin> set js) (db_previous d),
        db_logs := filter (\<lambda>l. jl_job_run_id l \<notin> set js) (db_logs d),
        db_outputs := filter (\<lambda>e. fst e \<notin> set js) (db_outputs d),
        db_selections := filter (\<lambda>s. fst s \<notin> set ps) (db_selections d)\<rparr>)"
end
