(* ===== verification/Schema_Diff.thy ===== *)
theory Schema_Diff
  imports Server_Db
begin

text \<open>
  The comparison of a workflow's saved job schemas with what its runners advertise now
  (janus-server/src/schema_diff.rs).  Parsing the definition is serde_json's work and a
  parameter.
\<close>

datatype WorkflowSchemaStatus = Current | Stale | Incompatible

fun WorkflowSchemaStatus_as_str :: "WorkflowSchemaStatus \<Rightarrow> string" where
  "WorkflowSchemaStatus_as_str Current = ''current''"
| "WorkflowSchemaStatus_as_str Stale = ''stale''"
| "WorkflowSchemaStatus_as_str Incompatible = ''incompatible''"

fun WorkflowSchemaStatus_tone :: "WorkflowSchemaStatus \<Rightarrow> string" where
  "WorkflowSchemaStatus_tone Current = ''success''"
| "WorkflowSchemaStatus_tone Stale = ''warning''"
| "WorkflowSchemaStatus_tone Incompatible = ''danger''"

datatype WorkflowSchemaDiffKind =
    JobRemoved | InputAdded | InputRemoved | OutputAdded | OutputRemoved
  | InputTypeChanged | OutputTypeChanged | InputRequirednessChanged
  | OutputRequirednessChanged

record WorkflowSchemaDiff =
  sd_kind :: WorkflowSchemaDiffKind
  sd_job_index :: nat
  sd_job_name :: string
  sd_field_name :: "string option"
  sd_saved :: "string option"
  sd_current :: "string option"
  sd_incompatible :: bool
  sd_message :: string

record WorkflowSchemaReport =
  sp_status :: WorkflowSchemaStatus
  sp_diff :: "WorkflowSchemaDiff list"

definition requiredness :: "bool \<Rightarrow> string" where
  "requiredness required = (if required then ''required'' else ''optional'')"

definition is_stale :: "WorkflowSchemaDiff \<Rightarrow> bool" where
  "is_stale x = (\<not> sd_incompatible x \<and> sd_kind x \<notin> {InputAdded, OutputAdded})"

definition workflow_bound_inputs :: "WorkflowDefinition \<Rightarrow> nat \<Rightarrow> string list" where
  "workflow_bound_inputs d job_index =
     (if job_index < length (wd_jobs d) then map fst (wj_inputs (wd_jobs d ! job_index)) else [])"

fun referenced_output :: "nat \<Rightarrow> WorkflowInputBinding \<Rightarrow> string option" where
  "referenced_output upstream (BJobOutput job_index output_name) =
     (if job_index = upstream then Some output_name else None)"
| "referenced_output upstream _ = None"

definition workflow_referenced_outputs :: "WorkflowDefinition \<Rightarrow> nat \<Rightarrow> string list" where
  "workflow_referenced_outputs d upstream =
     List.map_filter (referenced_output upstream)
       (concat (map (\<lambda>job. map snd (wj_inputs job)) (wd_jobs d)))"

section \<open>The difference of two schemas\<close>

definition job_label :: "nat \<Rightarrow> string" where
  "job_label job_index = ''job-'' @ show_nat (job_index + 1)"

definition diff_added_input ::
    "nat \<Rightarrow> string \<Rightarrow> JobDefinitionResponse \<Rightarrow> string \<times> JobInputDefinitionResponse
      \<Rightarrow> WorkflowSchemaDiff list" where
  "diff_added_input job_index job_name saved = (\<lambda>(name, cur).
     if bt_contains name (jdr_inputs saved) then []
     else [\<lparr>sd_kind = InputAdded, sd_job_index = job_index, sd_job_name = job_name,
            sd_field_name = Some name, sd_saved = None,
            sd_current = Some (requiredness (jid_required cur)),
            sd_incompatible = jid_required cur,
            sd_message = job_label job_index @ '' input '' @ name @
              (if jid_required cur then '' was added and is required''
               else '' was added and is optional'')\<rparr>])"

definition diff_saved_input ::
    "nat \<Rightarrow> string \<Rightarrow> JobDefinitionResponse \<Rightarrow> string list
      \<Rightarrow> string \<times> JobInputDefinitionResponse \<Rightarrow> WorkflowSchemaDiff list" where
  "diff_saved_input job_index job_name current bound = (\<lambda>(name, saved).
     case bt_get (jdr_inputs current) name of
       None \<Rightarrow>
         [\<lparr>sd_kind = InputRemoved, sd_job_index = job_index, sd_job_name = job_name,
           sd_field_name = Some name, sd_saved = Some (InputType_as_str (jid_kind saved)),
           sd_current = None,
           sd_incompatible = (jid_required saved \<or> name \<in> set bound),
           sd_message = job_label job_index @ '' input '' @ name @ '' was removed''\<rparr>]
     | Some cur \<Rightarrow>
         (if jid_kind saved \<noteq> jid_kind cur
          then [\<lparr>sd_kind = InputTypeChanged, sd_job_index = job_index, sd_job_name = job_name,
                 sd_field_name = Some name, sd_saved = Some (InputType_as_str (jid_kind saved)),
                 sd_current = Some (InputType_as_str (jid_kind cur)),
                 sd_incompatible = (jid_required saved \<or> name \<in> set bound),
                 sd_message = job_label job_index @ '' input '' @ name @ '' changed type from ''
                   @ InputType_as_str (jid_kind saved) @ '' to ''
                   @ InputType_as_str (jid_kind cur)\<rparr>]
          else [])
         @ (if jid_required saved \<noteq> jid_required cur
            then [\<lparr>sd_kind = InputRequirednessChanged, sd_job_index = job_index,
                   sd_job_name = job_name, sd_field_name = Some name,
                   sd_saved = Some (requiredness (jid_required saved)),
                   sd_current = Some (requiredness (jid_required cur)),
                   sd_incompatible = (jid_required cur \<and> \<not> jid_required saved),
                   sd_message = job_label job_index @ '' input '' @ name
                     @ '' changed requiredness from '' @ requiredness (jid_required saved)
                     @ '' to '' @ requiredness (jid_required cur)\<rparr>]
            else []))"

definition diff_added_output ::
    "nat \<Rightarrow> string \<Rightarrow> JobDefinitionResponse \<Rightarrow> string \<times> JobOutputDefinitionResponse
      \<Rightarrow> WorkflowSchemaDiff list" where
  "diff_added_output job_index job_name saved = (\<lambda>(name, cur).
     if bt_contains name (jdr_outputs saved) then []
     else [\<lparr>sd_kind = OutputAdded, sd_job_index = job_index, sd_job_name = job_name,
            sd_field_name = Some name, sd_saved = None,
            sd_current = Some (OutputType_as_str (jod_kind cur) @ '' ''
              @ requiredness (jod_required cur)),
            sd_incompatible = False,
            sd_message = job_label job_index @ '' output '' @ name @ '' was added''\<rparr>])"

definition diff_saved_output ::
    "nat \<Rightarrow> string \<Rightarrow> JobDefinitionResponse \<Rightarrow> string list
      \<Rightarrow> string \<times> JobOutputDefinitionResponse \<Rightarrow> WorkflowSchemaDiff list" where
  "diff_saved_output job_index job_name current referenced = (\<lambda>(name, saved).
     case bt_get (jdr_outputs current) name of
       None \<Rightarrow>
         [\<lparr>sd_kind = OutputRemoved, sd_job_index = job_index, sd_job_name = job_name,
           sd_field_name = Some name, sd_saved = Some (OutputType_as_str (jod_kind saved)),
           sd_current = None,
           sd_incompatible = (jod_required saved \<or> name \<in> set referenced),
           sd_message = job_label job_index @ '' output '' @ name @ '' was removed''\<rparr>]
     | Some cur \<Rightarrow>
         (if jod_kind saved \<noteq> jod_kind cur
          then [\<lparr>sd_kind = OutputTypeChanged, sd_job_index = job_index, sd_job_name = job_name,
                 sd_field_name = Some name, sd_saved = Some (OutputType_as_str (jod_kind saved)),
                 sd_current = Some (OutputType_as_str (jod_kind cur)),
                 sd_incompatible = (jod_required saved \<or> name \<in> set referenced),
                 sd_message = job_label job_index @ '' output '' @ name @ '' changed type from ''
                   @ OutputType_as_str (jod_kind saved) @ '' to ''
                   @ OutputType_as_str (jod_kind cur)\<rparr>]
          else [])
         @ (if jod_required saved \<noteq> jod_required cur
            then [\<lparr>sd_kind = OutputRequirednessChanged, sd_job_index = job_index,
                   sd_job_name = job_name, sd_field_name = Some name,
                   sd_saved = Some (requiredness (jod_required saved)),
                   sd_current = Some (requiredness (jod_required cur)),
                   sd_incompatible = (jod_required saved \<and> \<not> jod_required cur),
                   sd_message = job_label job_index @ '' output '' @ name
                     @ '' changed requiredness from '' @ requiredness (jod_required saved)
                     @ '' to '' @ requiredness (jod_required cur)\<rparr>]
            else []))"

definition diff_job_schema ::
    "nat \<Rightarrow> string \<Rightarrow> JobDefinitionResponse \<Rightarrow> JobDefinitionResponse
      \<Rightarrow> string list \<Rightarrow> string list \<Rightarrow> WorkflowSchemaDiff list" where
  "diff_job_schema job_index job_name saved current bound referenced =
     concat (map (diff_added_input job_index job_name saved) (jdr_inputs current))
     @ concat (map (diff_saved_input job_index job_name current bound) (jdr_inputs saved))
     @ concat (map (diff_added_output job_index job_name saved) (jdr_outputs current))
     @ concat (map (diff_saved_output job_index job_name current referenced) (jdr_outputs saved))"

definition job_removed ::
    "nat \<Rightarrow> string \<Rightarrow> string \<Rightarrow> string \<Rightarrow> WorkflowSchemaDiff" where
  "job_removed job_index job_name saved msg =
     \<lparr>sd_kind = JobRemoved, sd_job_index = job_index, sd_job_name = job_name,
      sd_field_name = None, sd_saved = Some saved, sd_current = None, sd_incompatible = True,
      sd_message = job_label job_index @ '' '' @ job_name @ msg\<rparr>"

definition diff_workflow_job ::
    "Db \<Rightarrow> WorkflowDefinition \<Rightarrow> JobDefinitionResponse list
      \<Rightarrow> nat \<times> WorkflowJobDefinition \<Rightarrow> WorkflowSchemaDiff list" where
  "diff_workflow_job d def snapshot = (\<lambda>(job_index, job).
     if length snapshot \<le> job_index
     then [job_removed job_index (wj_runner_job_name job) (wj_runner_job_name job)
             '' is missing from the saved schema snapshot'']
     else
       case find (\<lambda>s. jdr_name s = wj_runner_job_name job)
              (list_runner_jobs (wj_runner_id job) d) of
         None \<Rightarrow> [job_removed job_index (wj_runner_job_name job)
                   (jdr_name (snapshot ! job_index))
                   '' is no longer advertised by its runner'']
       | Some cur \<Rightarrow>
           diff_job_schema job_index (wj_runner_job_name job) (snapshot ! job_index) cur
             (workflow_bound_inputs def job_index) (workflow_referenced_outputs def job_index))"

definition diff_workflow ::
    "Db \<Rightarrow> WorkflowDefinition \<Rightarrow> JobDefinitionResponse list \<Rightarrow> WorkflowSchemaDiff list" where
  "diff_workflow d def snapshot =
     concat (map (diff_workflow_job d def snapshot) (enumerate 0 (wd_jobs def)))
     @ map (\<lambda>(i, extra). job_removed i (jdr_name extra) (jdr_name extra)
              '' exists in the saved schema snapshot but not in the workflow definition'')
         (drop (length (wd_jobs def)) (enumerate 0 snapshot))"

definition workflow_schema_report ::
    "(string \<Rightarrow> (string, WorkflowDefinition) result) \<Rightarrow> Db \<Rightarrow> Workflow
      \<Rightarrow> (string, WorkflowSchemaReport) result" where
  "workflow_schema_report parse_definition d workflow =
     and_then (parse_definition (wf_definition_json workflow)) (\<lambda>def.
       let diff = diff_workflow d def (workflow_job_schemas (wf_version_id workflow) d)
       in Ok \<lparr>sp_status =
              (if list_ex sd_incompatible diff then Incompatible
               else if list_ex is_stale diff then Stale
               else Current),
            sp_diff = diff\<rparr>)"

section \<open>What the report says\<close>

text \<open>A schema compared with itself shows no difference.\<close>

lemma diff_job_schema_same:
  assumes "bt_wf (jdr_inputs s)" and "bt_wf (jdr_outputs s)"
  shows "diff_job_schema i n s s b r = []"
proof -
  have "map_of (jdr_inputs s) k = Some v" if "(k, v) \<in> set (jdr_inputs s)" for k v
    using that bt_get_eq_Some [OF assms(1)] by blast
  moreover have "map_of (jdr_outputs s) k = Some v" if "(k, v) \<in> set (jdr_outputs s)" for k v
    using that bt_get_eq_Some [OF assms(2)] by blast
  ultimately show ?thesis
    by (auto simp: diff_job_schema_def diff_added_input_def diff_saved_input_def
        diff_added_output_def diff_saved_output_def bt_contains_def)
qed

text \<open>
  The contract between a caller's saved schema and the runner's current one: every input the
  runner needs was already there with the same need, every input the workflow relies on is
  still there with its type, and the same for the outputs.
\<close>

definition input_compatible ::
    "JobDefinitionResponse \<Rightarrow> JobDefinitionResponse \<Rightarrow> string list \<Rightarrow> bool" where
  "input_compatible saved current bound =
     ((\<forall>(n, c) \<in> set (jdr_inputs current). jid_required c \<longrightarrow>
         (\<exists>s. bt_get (jdr_inputs saved) n = Some s \<and> jid_required s))
      \<and> (\<forall>(n, s) \<in> set (jdr_inputs saved). jid_required s \<or> n \<in> set bound \<longrightarrow>
         (\<exists>c. bt_get (jdr_inputs current) n = Some c \<and> jid_kind c = jid_kind s)))"

definition output_compatible ::
    "JobDefinitionResponse \<Rightarrow> JobDefinitionResponse \<Rightarrow> string list \<Rightarrow> bool" where
  "output_compatible saved current referenced =
     ((\<forall>(n, s) \<in> set (jdr_outputs saved). jod_required s \<or> n \<in> set referenced \<longrightarrow>
         (\<exists>c. bt_get (jdr_outputs current) n = Some c \<and> jod_kind c = jod_kind s))
      \<and> (\<forall>(n, s) \<in> set (jdr_outputs saved). jod_required s \<longrightarrow>
         (\<forall>c. bt_get (jdr_outputs current) n = Some c \<longrightarrow> jod_required c)))"

lemma saved_input_compatible:
  "(\<forall>x \<in> set (diff_saved_input i n current bound (k, s)). \<not> sd_incompatible x) \<longleftrightarrow>
     (jid_required s \<or> k \<in> set bound \<longrightarrow>
        (\<exists>c. bt_get (jdr_inputs current) k = Some c \<and> jid_kind c = jid_kind s))
     \<and> (\<forall>c. bt_get (jdr_inputs current) k = Some c \<longrightarrow> jid_required c \<longrightarrow> jid_required s)"
  by (cases "bt_get (jdr_inputs current) k") (simp_all add: diff_saved_input_def ball_Un, auto)

lemma saved_output_compatible:
  "(\<forall>x \<in> set (diff_saved_output i n current referenced (k, s)). \<not> sd_incompatible x) \<longleftrightarrow>
     (jod_required s \<or> k \<in> set referenced \<longrightarrow>
        (\<exists>c. bt_get (jdr_outputs current) k = Some c \<and> jod_kind c = jod_kind s))
     \<and> (\<forall>c. bt_get (jdr_outputs current) k = Some c \<longrightarrow> jod_required s \<longrightarrow> jod_required c)"
  by (cases "bt_get (jdr_outputs current) k") (simp_all add: diff_saved_output_def ball_Un, auto)

lemma added_input_compatible:
  "(\<forall>x \<in> set (diff_added_input i n saved (k, c)). \<not> sd_incompatible x) \<longleftrightarrow>
     (jid_required c \<longrightarrow> bt_contains k (jdr_inputs saved))"
  by (auto simp: diff_added_input_def)

lemma added_output_compatible:
  "\<forall>x \<in> set (diff_added_output i n saved e). \<not> sd_incompatible x"
  by (auto simp: diff_added_output_def split: prod.splits)

text \<open>The code's entry-by-entry test is the contract.\<close>

lemma diff_job_schema_compatible:
  assumes "bt_wf (jdr_inputs saved)" "bt_wf (jdr_inputs current)"
  shows "(\<forall>x \<in> set (diff_job_schema i n saved current b r). \<not> sd_incompatible x) \<longleftrightarrow>
    input_compatible saved current b \<and> output_compatible saved current r"
proof -
  have all: "(\<forall>x \<in> set (concat (map f es)). Q x) \<longleftrightarrow> (\<forall>(k, v) \<in> set es. \<forall>x \<in> set (f (k, v)). Q x)"
    for f :: "string \<times> 'b \<Rightarrow> WorkflowSchemaDiff list" and es Q by auto
  have cur: "bt_get (jdr_inputs current) k = Some c \<longleftrightarrow> (k, c) \<in> set (jdr_inputs current)" for k c
    using bt_get_eq_Some [OF assms(2)] .
  have sav: "bt_get (jdr_inputs saved) k = Some s \<longleftrightarrow> (k, s) \<in> set (jdr_inputs saved)" for k s
    using bt_get_eq_Some [OF assms(1)] .
  have uniq: "s = t" if "(k, s) \<in> set (jdr_inputs saved)" "(k, t) \<in> set (jdr_inputs saved)" for k s t
    using that unfolding sav [symmetric] by simp
  have ins: "(\<forall>(k, c) \<in> set (jdr_inputs current). jid_required c \<longrightarrow> bt_contains k (jdr_inputs saved))
      \<and> (\<forall>(k, s) \<in> set (jdr_inputs saved).
           (jid_required s \<or> k \<in> set b \<longrightarrow>
             (\<exists>c. bt_get (jdr_inputs current) k = Some c \<and> jid_kind c = jid_kind s))
           \<and> (\<forall>c. bt_get (jdr_inputs current) k = Some c \<longrightarrow> jid_required c \<longrightarrow> jid_required s))
      \<longleftrightarrow> input_compatible saved current b"
    unfolding input_compatible_def bt_contains_def not_None_eq cur sav using uniq by blast
  have outs: "(\<forall>(k, s) \<in> set (jdr_outputs saved).
           (jod_required s \<or> k \<in> set r \<longrightarrow>
             (\<exists>c. bt_get (jdr_outputs current) k = Some c \<and> jod_kind c = jod_kind s))
           \<and> (\<forall>c. bt_get (jdr_outputs current) k = Some c \<longrightarrow> jod_required s \<longrightarrow> jod_required c))
      \<longleftrightarrow> output_compatible saved current r"
    unfolding output_compatible_def by blast
  show ?thesis
    unfolding diff_job_schema_def set_append ball_Un all added_input_compatible
      saved_input_compatible saved_output_compatible ins [symmetric] outs [symmetric]
    using added_output_compatible by blast
qed

text \<open>The same for a whole workflow: job by job, and no job of the snapshot is left over.\<close>

definition advertised :: "Db \<Rightarrow> WorkflowJobDefinition \<Rightarrow> JobDefinitionResponse option" where
  "advertised d job =
     find (\<lambda>s. jdr_name s = wj_runner_job_name job) (list_runner_jobs (wj_runner_id job) d)"

definition job_compatible ::
    "Db \<Rightarrow> WorkflowDefinition \<Rightarrow> JobDefinitionResponse list \<Rightarrow> nat \<Rightarrow> bool" where
  "job_compatible d def snapshot i =
     (\<exists>cur. advertised d (wd_jobs def ! i) = Some cur
        \<and> input_compatible (snapshot ! i) cur (workflow_bound_inputs def i)
        \<and> output_compatible (snapshot ! i) cur (workflow_referenced_outputs def i))"

definition schemas_wf :: "Db \<Rightarrow> bool" where
  "schemas_wf d =
     ((\<forall>(r, s) \<in> set (db_runner_jobs d). bt_wf (jdr_inputs s) \<and> bt_wf (jdr_outputs s))
      \<and> (\<forall>(v, i, s) \<in> set (db_schemas d). bt_wf (jdr_inputs s) \<and> bt_wf (jdr_outputs s)))"

lemma advertised_wf:
  assumes "schemas_wf d" and "advertised d job = Some cur"
  shows "bt_wf (jdr_inputs cur)" "bt_wf (jdr_outputs cur)"
proof -
  have "cur \<in> set (list_runner_jobs (wj_runner_id job) d)"
    using assms(2) by (auto simp: advertised_def find_Some_iff in_set_conv_nth)
  then show "bt_wf (jdr_inputs cur)" "bt_wf (jdr_outputs cur)"
    using assms(1) by (auto simp: list_runner_jobs_def schemas_wf_def)
qed

lemma saved_schema_wf:
  assumes "schemas_wf d" and "i < length (workflow_job_schemas v d)"
  shows "bt_wf (jdr_inputs (workflow_job_schemas v d ! i))"
    and "bt_wf (jdr_outputs (workflow_job_schemas v d ! i))"
proof -
  have "workflow_job_schemas v d ! i \<in> set (workflow_job_schemas v d)" using assms(2) by simp
  then show "bt_wf (jdr_inputs (workflow_job_schemas v d ! i))"
    "bt_wf (jdr_outputs (workflow_job_schemas v d ! i))"
    using assms(1) by (auto simp: workflow_job_schemas_def schemas_wf_def)
qed

lemma diff_workflow_job_compatible:
  assumes "schemas_wf d" and s: "snapshot = workflow_job_schemas v d"
    and i: "i < length (wd_jobs def)"
  shows "(\<forall>x \<in> set (diff_workflow_job d def snapshot (i, wd_jobs def ! i)). \<not> sd_incompatible x)
    \<longleftrightarrow> i < length snapshot \<and> job_compatible d def snapshot i"
proof (cases "i < length snapshot")
  case True
  show ?thesis
  proof (cases "advertised d (wd_jobs def ! i)")
    case None
    then show ?thesis
      using True by (simp add: diff_workflow_job_def advertised_def job_compatible_def job_removed_def)
  next
    case (Some cur)
    then show ?thesis
      using True diff_job_schema_compatible [of "snapshot ! i" cur]
        advertised_wf [OF assms(1) Some] saved_schema_wf [OF assms(1), of i v]
      by (simp add: diff_workflow_job_def advertised_def job_compatible_def s)
  qed
qed (simp add: diff_workflow_job_def job_removed_def)

lemma enumerate_nth: "enumerate 0 xs = map (\<lambda>i. (i, xs ! i)) [0..<length xs]"
  by (rule nth_equalityI) (simp_all add: nth_enumerate_eq)

lemma diff_workflow_compatible:
  assumes "schemas_wf d" and s: "snapshot = workflow_job_schemas v d"
  shows "(\<forall>x \<in> set (diff_workflow d def snapshot). \<not> sd_incompatible x) \<longleftrightarrow>
    length snapshot = length (wd_jobs def) \<and>
    (\<forall>i < length snapshot. job_compatible d def snapshot i)"
proof -
  let ?n = "length (wd_jobs def)"
  have jobs: "(\<forall>x \<in> set (concat (map (diff_workflow_job d def snapshot)
        (enumerate 0 (wd_jobs def)))). \<not> sd_incompatible x) \<longleftrightarrow>
      (\<forall>i < ?n. i < length snapshot \<and> job_compatible d def snapshot i)"
    using diff_workflow_job_compatible [OF assms] by (auto simp: enumerate_nth)
  have extra: "(\<forall>x \<in> set (map (\<lambda>(i, e). job_removed i (jdr_name e) (jdr_name e) m)
        (drop ?n (enumerate 0 snapshot))). \<not> sd_incompatible x) \<longleftrightarrow> length snapshot \<le> ?n" for m
  proof (cases "drop ?n (enumerate 0 snapshot)")
    case Nil
    then show ?thesis by (simp add: job_removed_def)
  next
    case (Cons e es)
    then have "0 < length (drop ?n (enumerate 0 snapshot))" by simp
    then have "\<not> length snapshot \<le> ?n" by simp
    then show ?thesis using Cons by (simp add: job_removed_def case_prod_unfold)
  qed
  have len: "(\<forall>i < ?n. i < length snapshot) \<longleftrightarrow> ?n \<le> length snapshot"
    by (meson leI less_irrefl order.strict_trans2)
  have "(\<forall>i < ?n. i < length snapshot \<and> job_compatible d def snapshot i) \<and> length snapshot \<le> ?n
      \<longleftrightarrow> length snapshot = ?n \<and> (\<forall>i < length snapshot. job_compatible d def snapshot i)"
    using len by (metis le_antisym order_refl)
  then show ?thesis unfolding diff_workflow_def set_append ball_Un jobs extra .
qed

text \<open>Saved schemas that the runners still advertise show no difference.\<close>

lemma advertised_snapshot_no_diff:
  assumes "schemas_wf d" and eq: "map (advertised d) (wd_jobs def) = map Some snapshot"
  shows "diff_workflow d def snapshot = []"
proof -
  have len: "length snapshot = length (wd_jobs def)" using eq by (metis length_map)
  have "diff_workflow_job d def snapshot (i, wd_jobs def ! i) = []" if "i < length (wd_jobs def)" for i
  proof -
    have adv: "advertised d (wd_jobs def ! i) = Some (snapshot ! i)"
      using arg_cong [OF eq, of "\<lambda>xs. xs ! i"] that len by simp
    show ?thesis
      using that len adv diff_job_schema_same advertised_wf [OF assms(1) adv]
      by (simp add: diff_workflow_job_def advertised_def)
  qed
  then show ?thesis using len by (simp add: diff_workflow_def enumerate_nth)
qed

section \<open>Properties\<close>

text \<open>C18. The report on a workflow calls it incompatible exactly when the jobs it was saved
with no longer fit what the runners advertise: the number of saved schemas differs, a job is
gone, a job needs an input it did not need before, or an input or output the workflow relies on
was removed, changed its type, or is no longer guaranteed.  A workflow whose runners advertise
the saved schemas unchanged is current.\<close>

theorem schema_report_decision:
  assumes "parse_definition (wf_definition_json w) = Ok def"
    and "schemas_wf d" and "snapshot = workflow_job_schemas (wf_version_id w) d"
    and "workflow_schema_report parse_definition d w = Ok report"
  shows "(sp_status report = Incompatible \<longleftrightarrow>
      \<not> (length snapshot = length (wd_jobs def)
         \<and> (\<forall>i < length snapshot. job_compatible d def snapshot i)))
    \<and> (map (advertised d) (wd_jobs def) = map Some snapshot \<longrightarrow>
        sp_status report = Current \<and> sp_diff report = [])"
proof
  have rep: "report = \<lparr>sp_status =
      (if list_ex sd_incompatible (diff_workflow d def snapshot) then Incompatible
       else if list_ex is_stale (diff_workflow d def snapshot) then Stale else Current),
      sp_diff = diff_workflow d def snapshot\<rparr>"
    using assms(4) by (simp add: workflow_schema_report_def assms(1) Let_def assms(3) [symmetric])
  have "sp_status report = Incompatible \<longleftrightarrow>
      \<not> (\<forall>x \<in> set (diff_workflow d def snapshot). \<not> sd_incompatible x)"
    by (simp add: rep list_ex_iff)
  then show "sp_status report = Incompatible \<longleftrightarrow>
      \<not> (length snapshot = length (wd_jobs def)
         \<and> (\<forall>i < length snapshot. job_compatible d def snapshot i))"
    unfolding diff_workflow_compatible [OF assms(2,3)] .
  show "map (advertised d) (wd_jobs def) = map Some snapshot \<longrightarrow>
      sp_status report = Current \<and> sp_diff report = []"
    using advertised_snapshot_no_diff [OF assms(2)] by (simp add: rep)
qed

text \<open>A job that produces an integer, saved with its schema; its runner now advertises the
job with a new required input.\<close>

definition demo_schema :: "(string \<times> JobInputDefinitionResponse) list \<Rightarrow> JobDefinitionResponse" where
  "demo_schema ins =
     \<lparr>jdr_name = ''build'', jdr_concurrency = Parallel, jdr_timeout_seconds = 60,
      jdr_inputs = ins, jdr_outputs = [(''n'', \<lparr>jod_kind = TypeInteger, jod_path = ''n'', jod_required = True\<rparr>)]\<rparr>"

definition demo_input :: JobInputDefinitionResponse where
  "demo_input =
     \<lparr>jid_kind = InString, jid_required = True, jid_sensitive = False, jid_max_length = None,
      jid_pattern = None, jid_max_json_bytes = None\<rparr>"

definition demo_workflow :: Workflow where
  "demo_workflow =
     \<lparr>wf_id = ''w'', wf_repo_id = ''r'', wf_name = ''ci'', wf_enabled = True,
      wf_created_at = ''t'', wf_version = 1, wf_version_id = ''v'', wf_trigger_json = [],
      wf_definition_json = []\<rparr>"

definition demo_definition :: WorkflowDefinition where
  "demo_definition =
     \<lparr>wd_jobs = [\<lparr>wj_runner_id = ''rn'', wj_runner_job_name = ''build'', wj_inputs = [],
                  wj_outcome_policy = Required\<rparr>]\<rparr>"

definition demo_db :: "(string \<times> JobInputDefinitionResponse) list \<Rightarrow> Db" where
  "demo_db ins = empty_db\<lparr>db_runner_jobs := [(''rn'', demo_schema ins)],
     db_schemas := [(''v'', 0, demo_schema [])]\<rparr>"

lemma demo_report:
  "workflow_schema_report (\<lambda>_. Ok demo_definition) (demo_db []) demo_workflow =
     Ok \<lparr>sp_status = Current, sp_diff = []\<rparr>"
  "map_err (\<lambda>e. e) (and_then (workflow_schema_report (\<lambda>_. Ok demo_definition)
     (demo_db [(''token'', demo_input)]) demo_workflow) (\<lambda>r. Ok (sp_status r))) = Ok Incompatible"
  by code_simp+

theorem schema_report_decision_witness:
  "sp_status \<lparr>sp_status = Current, sp_diff = []\<rparr> \<noteq> Incompatible
   \<and> (\<exists>r. workflow_schema_report (\<lambda>_. Ok demo_definition)
        (demo_db [(''token'', demo_input)]) demo_workflow = Ok r \<and> sp_status r = Incompatible)"
proof
  have ad: "advertised (demo_db []) (wd_jobs demo_definition ! 0) = Some (demo_schema [])"
    and sn: "workflow_job_schemas ''v'' (demo_db []) = [demo_schema []]"
    by code_simp+
  have "schemas_wf (demo_db [])" by code_simp
  from schema_report_decision [OF _ this refl demo_report(1), of demo_definition] ad
  show "sp_status \<lparr>sp_status = Current, sp_diff = []\<rparr> \<noteq> Incompatible"
    by (simp add: sn demo_workflow_def demo_definition_def)
  show "\<exists>r. workflow_schema_report (\<lambda>_. Ok demo_definition)
        (demo_db [(''token'', demo_input)]) demo_workflow = Ok r \<and> sp_status r = Incompatible"
    using demo_report(2) by (auto simp: and_then_eq_Inr)
qed

end
