(* ===== verification/Runner_Client.thy ===== *)
theory Runner_Client
  imports Server_Models
begin

text \<open>
  The server's HTTP client for its runners (janus-server/src/runner.rs).  The network, the
  signature, the JSON library and the reason phrases of the http crate are parameters; the
  n-th request of the server is answered by cl_send n.  An operation returns its result
  together with the list of all requests sent so far.  A response body is the list of its
  chunks and possibly the error that ended it.
\<close>

record ClientRequest =
  cq_method :: string
  cq_url :: string
  cq_headers :: "(string \<times> string) list"
  cq_body :: string

record HttpReply =
  hr_status :: nat
  hr_retry_after :: "string option"
  hr_content_length :: "u64 option"
  hr_chunks :: "string list"
  hr_fault :: "string option"

record RunnerClient =
  cl_send :: "nat \<Rightarrow> ClientRequest \<Rightarrow> (string, HttpReply) result"
  cl_sign :: "nat \<Rightarrow> string \<Rightarrow> string \<Rightarrow> string \<Rightarrow> (string \<times> string) list"
  cl_reason :: "nat \<Rightarrow> string"
  cl_lossy :: "string \<Rightarrow> string"
  cl_json_text :: "json \<Rightarrow> string"
  cl_parse_json :: "string \<Rightarrow> json option"
  cl_parse_created :: "string \<Rightarrow> (string, JobCreatedResponse) result"
  cl_parse_status :: "string \<Rightarrow> (string, JobStatusResponse) result"
  cl_parse_logs :: "string \<Rightarrow> (string, JobLogsResponse) result"
  cl_parse_upload :: "string \<Rightarrow> (string, ArtifactUploadResponse) result"
  cl_parse_capabilities :: "string \<Rightarrow> (string, RunnerCapabilitiesResponse) result"
  cl_parse_jobs :: "string \<Rightarrow> (string, JobDefinitionResponse list) result"
  cl_runner_json_bytes :: nat
  cl_runner_logs_bytes :: nat
  cl_runner_artifact_bytes :: nat
  cl_runner_error_bytes :: nat

type_synonym sent = "ClientRequest list"

section \<open>Responses\<close>

definition too_long :: "nat \<Rightarrow> string" where
  "too_long max_bytes = ''runner response exceeded '' @ show_nat max_bytes @ '' bytes''"

fun read_chunks :: "nat \<Rightarrow> string \<Rightarrow> string list \<Rightarrow> string option \<Rightarrow> (string, string) result" where
  "read_chunks max_bytes bytes [] fault =
     (case fault of None \<Rightarrow> Ok bytes | Some e \<Rightarrow> Err e)"
| "read_chunks max_bytes bytes (c # cs) fault =
     (if max_bytes < length bytes + length c then Err (too_long max_bytes)
      else read_chunks max_bytes (bytes @ c) cs fault)"

definition read_response_bytes :: "HttpReply \<Rightarrow> nat \<Rightarrow> (string, string) result" where
  "read_response_bytes response max_bytes =
     (case hr_content_length response of
        Some n \<Rightarrow> if max_bytes < unat n then Err (too_long max_bytes)
                  else read_chunks max_bytes [] (hr_chunks response) (hr_fault response)
      | None \<Rightarrow> read_chunks max_bytes [] (hr_chunks response) (hr_fault response))"

definition read_json_response ::
    "(string \<Rightarrow> (string, 'a) result) \<Rightarrow> HttpReply \<Rightarrow> nat \<Rightarrow> (string, 'a) result" where
  "read_json_response parse response max_bytes =
     and_then (read_response_bytes response max_bytes) parse"

definition status_text :: "RunnerClient \<Rightarrow> nat \<Rightarrow> string" where
  "status_text C code = show_nat code @ '' '' @ cl_reason C code"

fun json_field :: "json \<Rightarrow> string \<Rightarrow> json option" where
  "json_field (JObject m) k = bt_get m k"
| "json_field _ k = None"

definition error_detail :: "json \<Rightarrow> string option" where
  "error_detail v =
     (case (Option.bind (json_field v ''code'') json_as_str,
            Option.bind (json_field v ''message'') json_as_str) of
        (Some code, Some message) \<Rightarrow> Some (code @ '': '' @ message)
      | (Some code, None) \<Rightarrow> Some code
      | (None, Some message) \<Rightarrow> Some message
      | (None, None) \<Rightarrow> None)"

definition runner_http_error :: "RunnerClient \<Rightarrow> string \<Rightarrow> HttpReply \<Rightarrow> string" where
  "runner_http_error C context response =
     (let body = (case read_response_bytes response (cl_runner_error_bytes C) of
                    Ok bytes \<Rightarrow> cl_lossy C bytes | Err _ \<Rightarrow> []);
          detail = (case Option.bind (cl_parse_json C body) error_detail of
                      Some t \<Rightarrow> Some t
                    | None \<Rightarrow> (if trim body = [] then None else Some (trim body)));
          retry_after = (case hr_retry_after response of
                           Some v \<Rightarrow> '' retry_after='' @ v @ ''s'' | None \<Rightarrow> []);
          status = status_text C (hr_status response)
      in case detail of
           Some t \<Rightarrow> context @ '' with '' @ status @ '': '' @ t @ retry_after
         | None \<Rightarrow> context @ '' with '' @ status @ retry_after)"

section \<open>Requests\<close>

definition trim_end_slashes :: "string \<Rightarrow> string" where
  "trim_end_slashes s = rev (dropWhile (\<lambda>c. c = CHR ''/'') (rev s))"

definition runner_url_from_path :: "Runner \<Rightarrow> string \<Rightarrow> string" where
  "runner_url_from_path runner path = trim_end_slashes (rn_base_url runner) @ path"

definition signed_request ::
    "RunnerClient \<Rightarrow> Runner \<Rightarrow> string \<Rightarrow> RunnerRoute \<Rightarrow> string \<Rightarrow> (string \<times> string) list
      \<Rightarrow> sent \<Rightarrow> ClientRequest" where
  "signed_request C runner mthd route body headers sent =
     (let path = RunnerRoute_path route in
      \<lparr>cq_method = mthd, cq_url = runner_url_from_path runner path,
       cq_headers = cl_sign C (length sent) mthd path body @ headers, cq_body = body\<rparr>)"

definition send :: "RunnerClient \<Rightarrow> ClientRequest \<Rightarrow> sent \<Rightarrow> (string, HttpReply) result \<times> sent" where
  "send C request sent = (cl_send C (length sent) request, sent @ [request])"

definition capabilities ::
    "RunnerClient \<Rightarrow> Runner \<Rightarrow> sent \<Rightarrow> (string, RunnerCapabilitiesResponse) result \<times> sent" where
  "capabilities C runner sent =
     (let (reply, sent') = send C (signed_request C runner ''GET'' RCapabilities [] [] sent) sent
      in (and_then reply (\<lambda>response.
            if hr_status response \<noteq> 200
            then Err (''runner capabilities returned '' @ status_text C (hr_status response))
            else read_json_response (cl_parse_capabilities C) response (cl_runner_json_bytes C)),
          sent'))"

definition list_jobs ::
    "RunnerClient \<Rightarrow> Runner \<Rightarrow> sent \<Rightarrow> (string, JobDefinitionResponse list) result \<times> sent" where
  "list_jobs C runner sent =
     (let (reply, sent') = send C (signed_request C runner ''GET'' RJobs [] [] sent) sent
      in (and_then reply (\<lambda>response.
            if hr_status response \<noteq> 200
            then Err (''runner returned '' @ status_text C (hr_status response))
            else read_json_response (cl_parse_jobs C) response (cl_runner_json_bytes C)),
          sent'))"

definition client_upload_artifact ::
    "RunnerClient \<Rightarrow> Runner \<Rightarrow> string \<Rightarrow> string \<Rightarrow> sent
      \<Rightarrow> (string, ArtifactUploadResponse) result \<times> sent" where
  "client_upload_artifact C runner bytes sha256 sent =
     (let (reply, sent') = send C (signed_request C runner ''POST'' RArtifacts bytes
            [(HEADER_SHA256, sha256)] sent) sent
      in (and_then reply (\<lambda>response.
            if hr_status response \<noteq> 201
            then Err (runner_http_error C ''runner artifact upload failed'' response)
            else read_json_response (cl_parse_upload C) response (cl_runner_json_bytes C)),
          sent'))"

definition client_create_job_run ::
    "RunnerClient \<Rightarrow> Runner \<Rightarrow> string \<Rightarrow> string \<Rightarrow> json \<Rightarrow> sent
      \<Rightarrow> (string, JobCreatedResponse) result \<times> sent" where
  "client_create_job_run C runner runner_job_name idempotency_key body sent =
     (let (reply, sent') = send C (signed_request C runner ''POST'' (RJobRuns runner_job_name)
            (cl_json_text C body)
            [(HEADER_IDEMPOTENCY_KEY, idempotency_key), (''content-type'', ''application/json'')]
            sent) sent
      in (and_then reply (\<lambda>response.
            if hr_status response \<notin> {201, 200}
            then Err (runner_http_error C ''runner create job failed'' response)
            else read_json_response (cl_parse_created C) response (cl_runner_json_bytes C)),
          sent'))"

definition client_get_job_run ::
    "RunnerClient \<Rightarrow> Runner \<Rightarrow> string \<Rightarrow> sent \<Rightarrow> (string, JobStatusResponse) result \<times> sent" where
  "client_get_job_run C runner runner_run_id sent =
     (let (reply, sent') = send C (signed_request C runner ''GET'' (RRun runner_run_id) [] [] sent) sent
      in (and_then reply (\<lambda>response.
            if hr_status response \<noteq> 200
            then Err (''runner get run failed with '' @ status_text C (hr_status response))
            else read_json_response (cl_parse_status C) response (cl_runner_json_bytes C)),
          sent'))"

definition client_get_job_logs ::
    "RunnerClient \<Rightarrow> Runner \<Rightarrow> string \<Rightarrow> sent \<Rightarrow> (string, JobLogsResponse) result \<times> sent" where
  "client_get_job_logs C runner runner_run_id sent =
     (let (reply, sent') = send C (signed_request C runner ''GET'' (RRunLogs runner_run_id) [] [] sent) sent
      in (and_then reply (\<lambda>response.
            if hr_status response \<noteq> 200
            then Err (''runner logs failed with '' @ status_text C (hr_status response))
            else read_json_response (cl_parse_logs C) response (cl_runner_logs_bytes C)),
          sent'))"

definition client_cancel_job_run ::
    "RunnerClient \<Rightarrow> Runner \<Rightarrow> string \<Rightarrow> sent \<Rightarrow> (string, unit) result \<times> sent" where
  "client_cancel_job_run C runner runner_run_id sent =
     (let (reply, sent') = send C (signed_request C runner ''DELETE'' (RRun runner_run_id) [] [] sent) sent
      in (and_then reply (\<lambda>response.
            if hr_status response \<noteq> 202
            then Err (''runner cancel failed with '' @ status_text C (hr_status response))
            else Ok ()),
          sent'))"

definition client_download_artifact ::
    "RunnerClient \<Rightarrow> Runner \<Rightarrow> string \<Rightarrow> sent \<Rightarrow> (string, string) result \<times> sent" where
  "client_download_artifact C runner artifact_id sent =
     (let (reply, sent') = send C (signed_request C runner ''GET'' (RArtifact artifact_id) [] [] sent) sent
      in (and_then reply (\<lambda>response.
            if hr_status response \<noteq> 200
            then Err (runner_http_error C ''runner artifact download failed'' response)
            else read_response_bytes response (cl_runner_artifact_bytes C)),
          sent'))"

section \<open>Lemmas\<close>

text \<open>A body that is accepted is the concatenation of its chunks, and within the limit.\<close>

lemma read_chunks_ok:
  "read_chunks m bytes cs fault = Ok r \<Longrightarrow> length bytes \<le> m \<Longrightarrow>
     r = bytes @ concat cs \<and> length r \<le> m \<and> fault = None"
  by (induction m bytes cs fault rule: read_chunks.induct) (auto split: option.splits if_splits)

lemma read_chunks_complete:
  "length bytes + length (concat cs) \<le> m \<Longrightarrow> read_chunks m bytes cs None = Ok (bytes @ concat cs)"
  by (induction m bytes cs "None :: string option" rule: read_chunks.induct) auto

lemma read_response_bytes_ok:
  "read_response_bytes response m = Ok r \<Longrightarrow>
     r = concat (hr_chunks response) \<and> length r \<le> m \<and> hr_fault response = None"
  using read_chunks_ok [of m "[]" "hr_chunks response" "hr_fault response" r]
  by (auto simp: read_response_bytes_def split: option.splits if_splits)

text \<open>The text of an error response names what failed and the status, then the detail.\<close>

lemma runner_http_error_shape:
  "\<exists>rest. runner_http_error C context response =
     context @ '' with '' @ status_text C (hr_status response) @ rest"
  by (auto simp: runner_http_error_def Let_def split: option.splits)

end
