(* ===== verification/Scheduler.thy ===== *)
theory Scheduler
  imports Schema_Diff Runner_Client
begin

text \<open>
  The scheduler of the server (janus-server/src/scheduler.rs) with the server's artifact
  store (janus-server/src/artifacts.rs).  A server is its database, its files and the
  requests it has sent to runners; an operation returns its result and the server as it
  leaves it, also when it fails.  Parameters are the platform, the HTTP client, serde_json
  (parsing definitions and triggers), the glob crate, SHA-256, git archive, the canonical
  form of a path and the age of a timestamp.
\<close>

record Server =
  srv_db :: Db
  srv_sent :: sent
  srv_files :: "string \<Rightarrow> string option"

record SchedEnv =
  se_plat :: DbPlat
  se_client :: RunnerClient
  se_parse_definition :: "string \<Rightarrow> (string, WorkflowDefinition) result"
  se_parse_trigger :: "string \<Rightarrow> (string, WorkflowTrigger) result"
  se_glob :: "string \<Rightarrow> (string \<Rightarrow> bool) option"
  se_elapsed_seconds :: "nat \<Rightarrow> string \<Rightarrow> (string, int) result"
  se_sha256_hex :: "string \<Rightarrow> string"
  se_canonicalize :: "string \<Rightarrow> (string, string) result"
  se_write_fault :: "string \<Rightarrow> string option"
  se_git_archive :: "nat \<Rightarrow> string \<Rightarrow> string \<Rightarrow> string \<Rightarrow> string option \<times> (string, unit) result"
  se_data_dir :: string
  se_artifact_root :: string
  se_max_artifact_bytes :: nat
  se_cancel_stuck_timeout_seconds :: u64
  se_max_cancel_retries :: u32
  se_max_infra_retries :: u32

type_synonym 'a server_op = "Server \<Rightarrow> (string, 'a) result \<times> Server"

definition on_db :: "(Db \<Rightarrow> (string, 'a) result \<times> Db) \<Rightarrow> 'a server_op" where
  "on_db f s = (case f (srv_db s) of (r, d) \<Rightarrow> (r, s\<lparr>srv_db := d\<rparr>))"

definition with_db :: "(Db \<Rightarrow> Db) \<Rightarrow> Server \<Rightarrow> Server" where
  "with_db f s = s\<lparr>srv_db := f (srv_db s)\<rparr>"

definition on_runner :: "(sent \<Rightarrow> (string, 'a) result \<times> sent) \<Rightarrow> 'a server_op" where
  "on_runner f s = (case f (srv_sent s) of (r, t) \<Rightarrow> (r, s\<lparr>srv_sent := t\<rparr>))"

section \<open>Text tests\<close>

fun str_contains :: "string \<Rightarrow> string \<Rightarrow> bool" where
  "str_contains p [] = (p = [])"
| "str_contains p (c # s) = (starts_with p (c # s) \<or> str_contains p s)"

function trim_start_matches :: "string \<Rightarrow> string \<Rightarrow> string" where
  "trim_start_matches p s =
     (if p \<noteq> [] \<and> starts_with p s then trim_start_matches p (drop (length p) s) else s)"
  by auto
termination
proof (relation "measure (\<lambda>(p, s). length s)")
  fix p s :: string
  assume "p \<noteq> [] \<and> starts_with p s"
  then have "0 < length p" "length p \<le> length s" by (auto simp: starts_with_iff)
  then have "length s - length p < length s" by linarith
  then show "((p, drop (length p) s), p, s) \<in> measure (\<lambda>(p, s). length s)" by simp
qed simp

declare trim_start_matches.simps [simp del]

definition matches_branch :: "SchedEnv \<Rightarrow> string list \<Rightarrow> string \<Rightarrow> bool" where
  "matches_branch E patterns ref =
     (patterns = []
      \<or> (let branch = trim_start_matches ''refs/heads/'' ref in
         list_ex (\<lambda>p. case se_glob E p of Some m \<Rightarrow> m branch \<or> m ref | None \<Rightarrow> False) patterns))"

definition is_scheduler_artifact_transfer_error :: "string \<Rightarrow> bool" where
  "is_scheduler_artifact_transfer_error message =
     (str_contains ''runner artifact upload failed'' message
      \<or> str_contains ''runner artifact download failed'' message
      \<or> str_contains ''pipeline missing commit sha'' message
      \<or> str_contains ''git archive failed'' message)"

definition is_runner_create_terminal_rejection :: "string \<Rightarrow> bool" where
  "is_runner_create_terminal_rejection message =
     list_ex (\<lambda>status. str_contains status message)
       [''400 Bad Request'', ''401 Unauthorized'', ''403 Forbidden'', ''404 Not Found'',
        ''422 Unprocessable Entity'']"

section \<open>The artifact store (artifacts.rs)\<close>

definition server_store_bytes ::
    "SchedEnv \<Rightarrow> string \<Rightarrow> string \<Rightarrow> string \<Rightarrow> string \<Rightarrow> PendingArtifact server_op" where
  "server_store_bytes E scope_type scope_id artifact_name bytes s =
     (if se_max_artifact_bytes E < length bytes
      then (Err (''artifact exceeds maximum size of '' @ show_nat (se_max_artifact_bytes E)
              @ '' bytes''), s)
      else
        let artifact_id = ''srvart_'' @ uuid_simple (se_plat E) (db_seq (srv_db s));
            storage_path = se_artifact_root E @ ''/'' @ artifact_id @ ''.bin'';
            s1 = with_db (\<lambda>d. draw d) s in
        case se_write_fault E storage_path of
          Some e \<Rightarrow> (Err e, s1)
        | None \<Rightarrow>
            let s2 = s1\<lparr>srv_files := (srv_files s1)(storage_path \<mapsto> bytes)\<rparr> in
            if i64_max < int (length bytes)
            then (Err ''out of range integral type conversion attempted'', s2)
            else (Ok \<lparr>pend_id = artifact_id, pend_scope_type = scope_type,
                      pend_scope_id = scope_id, pend_artifact_name = artifact_name,
                      pend_sha256 = se_sha256_hex E bytes,
                      pend_size_bytes = int (length bytes),
                      pend_storage_path = storage_path\<rparr>, s2))"

definition NO_FILE :: string where "NO_FILE = ''No such file or directory (os error 2)''"

definition server_store_file ::
    "SchedEnv \<Rightarrow> string \<Rightarrow> string \<Rightarrow> string \<Rightarrow> string \<Rightarrow> PendingArtifact server_op" where
  "server_store_file E scope_type scope_id artifact_name source_path s =
     (case srv_files s source_path of
        None \<Rightarrow> (Err NO_FILE, s)
      | Some bytes \<Rightarrow> server_store_bytes E scope_type scope_id artifact_name bytes s)"

definition path_starts_with :: "string \<Rightarrow> string \<Rightarrow> bool" where
  "path_starts_with root path = (path = root \<or> starts_with (root @ ''/'') path)"

definition server_read_bytes :: "SchedEnv \<Rightarrow> ServerArtifact \<Rightarrow> Server \<Rightarrow> (string, string) result" where
  "server_read_bytes E artifact s =
     and_then (se_canonicalize E (art_storage_path artifact)) (\<lambda>path.
       if \<not> path_starts_with (se_artifact_root E) path
       then Err ''artifact storage path escapes artifact root''
       else ok_or (srv_files s path) NO_FILE)"

section \<open>Starting a pipeline\<close>

fun enqueue_jobs ::
    "SchedEnv \<Rightarrow> string \<Rightarrow> nat \<Rightarrow> string option \<Rightarrow> WorkflowJobDefinition list \<Rightarrow> unit server_op"
where
  "enqueue_jobs E pipeline_id job_index previous [] s = (Ok (), s)"
| "enqueue_jobs E pipeline_id job_index previous (job # jobs) s =
     try_then (on_db (create_job_run (se_plat E) pipeline_id (int job_index) (wj_runner_id job)
                 (wj_runner_job_name job) (wj_outcome_policy job)) s)
       (\<lambda>run_id s1.
         try_then
           (case previous of
              None \<Rightarrow> (Ok (), s1)
            | Some p \<Rightarrow> on_db (add_previous_job run_id p) s1)
           (\<lambda>_. enqueue_jobs E pipeline_id (job_index + 1) (Some run_id) jobs))"

definition enqueue_workflow_run_with_artifacts ::
    "SchedEnv \<Rightarrow> Workflow \<Rightarrow> string \<Rightarrow> string option \<Rightarrow> string option
      \<Rightarrow> WorkflowRunArtifactSelection list \<Rightarrow> string server_op" where
  "enqueue_workflow_run_with_artifacts E workflow trigger_type trigger_ref commit_sha selections s =
     try_then (workflow_schema_report (se_parse_definition E) (srv_db s) workflow, s)
       (\<lambda>report s.
         if sp_status report = Incompatible
         then (Err (''incompatible workflow schema for workflow '' @ wf_name workflow), s)
         else
           try_then (se_parse_definition E (wf_definition_json workflow), s) (\<lambda>def s.
           try_then (WorkflowDefinition_validate def, s) (\<lambda>_ s.
           try_then (on_db (create_pipeline_run (se_plat E) (wf_repo_id workflow) (wf_id workflow)
                       (wf_version_id workflow) trigger_type trigger_ref commit_sha) s)
             (\<lambda>pipeline_id s.
           try_then (on_db (add_workflow_run_artifact_selections pipeline_id selections) s) (\<lambda>_ s.
           try_then (enqueue_jobs E pipeline_id 0 None (wd_jobs def) s) (\<lambda>_ s.
             (Ok pipeline_id, s)))))))"

definition enqueue_workflow_run ::
    "SchedEnv \<Rightarrow> Workflow \<Rightarrow> string \<Rightarrow> string option \<Rightarrow> string option \<Rightarrow> string server_op" where
  "enqueue_workflow_run E workflow trigger_type trigger_ref commit_sha =
     enqueue_workflow_run_with_artifacts E workflow trigger_type trigger_ref commit_sha []"

definition process_push_ref ::
    "SchedEnv \<Rightarrow> Workflow \<Rightarrow> WorkflowTrigger \<Rightarrow> PushEventRef \<Rightarrow> unit server_op" where
  "process_push_ref E workflow trigger ref_update s =
     (if \<not> matches_branch E (trigger_branches trigger) (ref_name ref_update) then (Ok (), s)
      else
        case enqueue_workflow_run E workflow ''push'' (Some (ref_name ref_update))
               (Some (new_rev ref_update)) s of
          (Ok pipeline_id, s') \<Rightarrow> (Ok (), s')
        | (Err e, s') \<Rightarrow>
            (if str_contains ''incompatible workflow schema for workflow'' e then (Ok (), s')
             else (Err e, s')))"

definition process_push_workflow ::
    "SchedEnv \<Rightarrow> PushEvent \<Rightarrow> Workflow \<Rightarrow> unit server_op" where
  "process_push_workflow E event workflow s =
     try_then (se_parse_trigger E (wf_trigger_json workflow), s) (\<lambda>trigger s.
       if trigger_kind trigger \<noteq> ''push'' then (Ok (), s)
       else each_st (process_push_ref E workflow trigger) (pe_refs event) s)"

definition process_push_event :: "SchedEnv \<Rightarrow> PushEvent \<Rightarrow> unit server_op" where
  "process_push_event E event s =
     try_then (each_st (process_push_workflow E event)
                (filter wf_enabled (workflows_for_repo (pe_repo_id event) (srv_db s))) s)
       (\<lambda>_ s. (Ok (), with_db (mark_push_event_processed (se_plat E) (pe_id event)) s))"

definition process_push_events :: "SchedEnv \<Rightarrow> unit server_op" where
  "process_push_events E s =
     each_st (process_push_event E) (list_unprocessed_push_events (srv_db s)) s"

section \<open>Cancelling and recovering pipelines\<close>

fun cancel_jobs :: "SchedEnv \<Rightarrow> JobRun list \<Rightarrow> bool \<Rightarrow> bool server_op" where
  "cancel_jobs E [] requested s = (Ok requested, s)"
| "cancel_jobs E (job # jobs) requested s =
     try_then
       (case (jr_status job = ''running'', get_runner (jr_runner_id job) (srv_db s),
              jr_runner_run_id job) of
          (True, Some runner, Some runner_run_id) \<Rightarrow>
            try_then (on_runner (client_cancel_job_run (se_client E) runner runner_run_id) s)
              (\<lambda>_ s. (Ok True, with_db
                 (mark_job_run_cancel_requested (se_plat E) (jr_id job) ''user_requested'') s))
        | _ \<Rightarrow> (Ok requested, s))
       (\<lambda>requested s.
         cancel_jobs E jobs requested
           (if jr_status job = ''pending''
            then with_db (set_job_run_status (se_plat E) (jr_id job) ''canceled'') s else s))"

definition cancel_pipeline :: "SchedEnv \<Rightarrow> string \<Rightarrow> unit server_op" where
  "cancel_pipeline E pipeline_id s =
     try_then (cancel_jobs E (list_job_runs_for_pipeline pipeline_id (srv_db s)) False s)
       (\<lambda>requested s. (Ok (), with_db
          (if requested then mark_pipeline_cancel_requested (se_plat E) pipeline_id ''user_requested''
           else set_pipeline_status (se_plat E) pipeline_id ''canceled'') s))"

definition recovered_status :: "string \<Rightarrow> PipelineStatus" where
  "recovered_status status =
     (if status = ''cancel_requested'' then PCancelRequested
      else if status = ''canceling'' then PCanceling else PRunning)"

definition recover_incomplete_pipelines :: "SchedEnv \<Rightarrow> Server \<Rightarrow> Server" where
  "recover_incomplete_pipelines E s =
     fold (\<lambda>p. with_db (set_pipeline_status (se_plat E) (pl_id p)
             (PipelineStatus_as_str (recovered_status (pl_status p)))))
       (pipelines_requiring_recovery (srv_db s)) s"

section \<open>The inputs of a job\<close>

definition find_job_run_id :: "Db \<Rightarrow> string \<Rightarrow> nat \<Rightarrow> (string, string) result" where
  "find_job_run_id d pipeline_id job_index =
     and_then (pipeline_snapshot pipeline_id d) (\<lambda>snap.
     and_then (ok_or snap (''missing pipeline '' @ pipeline_id)) (\<lambda>snapshot.
       ok_or (map_option (\<lambda>item. jr_id (jd_run item))
                (find (\<lambda>item. jr_job_index (jd_run item) = int job_index) (ps_jobs snapshot)))
         (''missing upstream job-'' @ show_nat (job_index + 1))))"

definition source_archive_path :: "SchedEnv \<Rightarrow> PipelineRun \<Rightarrow> string \<Rightarrow> string" where
  "source_archive_path E pipeline commit_sha =
     se_data_dir E @ ''/source-archives/'' @ pl_id pipeline @ ''-'' @ commit_sha @ ''.tar.gz''"

definition ensure_server_source_artifact :: "SchedEnv \<Rightarrow> PipelineRun \<Rightarrow> ServerArtifact server_op" where
  "ensure_server_source_artifact E pipeline s =
     (case get_server_artifact ''pipeline_source'' (pl_id pipeline) ''source'' (srv_db s) of
        Some existing \<Rightarrow> (Ok existing, s)
      | None \<Rightarrow>
     (case get_repo (pl_repo_id pipeline) (srv_db s) of
        None \<Rightarrow> (Err (''missing repo '' @ pl_repo_id pipeline), s)
      | Some repo \<Rightarrow>
     (case pl_commit_sha pipeline of
        None \<Rightarrow> (Err ''pipeline missing commit sha'', s)
      | Some commit_sha \<Rightarrow>
          let archive_path = source_archive_path E pipeline commit_sha in
          try_then
            (if srv_files s archive_path \<noteq> None then (Ok (), s)
             else case se_git_archive E (db_seq (srv_db s)) (repo_bare_path repo) commit_sha
                         archive_path of
               (None, r) \<Rightarrow> (r, s)
             | (Some bytes, r) \<Rightarrow>
                 (r, s\<lparr>srv_files := (srv_files s)(archive_path \<mapsto> bytes)\<rparr>))
            (\<lambda>_ s.
          try_then (server_store_file E ''pipeline_source'' (pl_id pipeline) ''source'' archive_path s)
            (\<lambda>pending s.
              let s = with_db (\<lambda>d. snd (insert_server_artifact (se_plat E) pending d)) s in
              (ok_or (get_server_artifact_by_id (pend_id pending) (srv_db s))
                 ''missing stored source artifact'', s))))))"

definition upload_to ::
    "SchedEnv \<Rightarrow> Runner \<Rightarrow> ServerArtifact \<Rightarrow> string \<Rightarrow> string server_op" where
  "upload_to E runner artifact bytes s =
     try_then (on_runner (client_upload_artifact (se_client E) runner bytes (art_sha256 artifact)) s)
       (\<lambda>upload s. (Ok (aur_artifact_id upload), s))"

definition ensure_source_artifact :: "SchedEnv \<Rightarrow> PipelineRun \<Rightarrow> string \<Rightarrow> string server_op" where
  "ensure_source_artifact E pipeline runner_id s =
     try_then (ensure_server_source_artifact E pipeline s) (\<lambda>server_artifact s.
     try_then (server_read_bytes E server_artifact s, s) (\<lambda>bytes s.
       case get_runner runner_id (srv_db s) of
         None \<Rightarrow> (Err (''missing runner '' @ runner_id), s)
       | Some runner \<Rightarrow> upload_to E runner server_artifact bytes s))"

definition ensure_runner_has_artifact ::
    "SchedEnv \<Rightarrow> string \<Rightarrow> string \<Rightarrow> string \<Rightarrow> string server_op" where
  "ensure_runner_has_artifact E target_runner_id source_artifact_id upstream_job_run_id s =
     try_then (ok_or (pipeline_for_job_run upstream_job_run_id (srv_db s))
                 ''missing pipeline for job'', s) (\<lambda>pipeline s.
     try_then (pipeline_snapshot (pl_id pipeline) (srv_db s), s) (\<lambda>snap s.
     try_then (ok_or snap ''missing pipeline snapshot'', s) (\<lambda>snapshot s.
     try_then (ok_or (find (\<lambda>item. jr_id (jd_run item) = upstream_job_run_id) (ps_jobs snapshot))
                 ''missing upstream run'', s) (\<lambda>upstream s.
       if jr_runner_id (jd_run upstream) = target_runner_id then (Ok source_artifact_id, s)
       else
         try_then (ok_or (get_runner target_runner_id (srv_db s)) ''missing target runner'', s)
           (\<lambda>target_runner s.
         try_then (ok_or (Option.bind
                      (find (\<lambda>item. jo_runner_artifact_id item = Some source_artifact_id)
                        (jd_outputs upstream)) jo_server_artifact_id)
                    ''missing server-managed artifact mirror'', s) (\<lambda>server_artifact_id s.
         try_then (ok_or (get_server_artifact_by_id server_artifact_id (srv_db s))
                    ''missing server artifact record'', s) (\<lambda>server_artifact s.
         try_then (server_read_bytes E server_artifact s, s) (\<lambda>bytes s.
           upload_to E target_runner server_artifact bytes s))))))))"

definition resolve_promoted ::
    "SchedEnv \<Rightarrow> PipelineRun \<Rightarrow> nat \<Rightarrow> string \<Rightarrow> string \<Rightarrow> json server_op" where
  "resolve_promoted E pipeline job_index runner_id key s =
     try_then (ok_or (workflow_run_artifact_selection (pl_id pipeline) job_index key (srv_db s))
                (''missing promoted artifact selection for job-'' @ show_nat (job_index + 1)
                   @ ''.'' @ key), s) (\<lambda>server_artifact_id s.
     try_then (ok_or (get_server_artifact_by_id server_artifact_id (srv_db s))
                (''missing selected server artifact '' @ server_artifact_id), s) (\<lambda>artifact s.
     try_then (server_read_bytes E artifact s, s) (\<lambda>bytes s.
     try_then (ok_or (get_runner runner_id (srv_db s)) (''missing runner '' @ runner_id), s)
       (\<lambda>target_runner s.
     try_then (upload_to E target_runner artifact bytes s) (\<lambda>artifact_id s.
       (Ok (JString artifact_id), s))))))"

definition resolve_job_output ::
    "SchedEnv \<Rightarrow> PipelineRun \<Rightarrow> string option \<Rightarrow> string \<Rightarrow> string \<Rightarrow> nat \<Rightarrow> string
      \<Rightarrow> json server_op" where
  "resolve_job_output E pipeline expected_kind runner_id key job_index output_name s =
     try_then (find_job_run_id (srv_db s) (pl_id pipeline) job_index, s) (\<lambda>upstream_run_id s.
     try_then (ok_or (find (\<lambda>item. jo_output_name item = output_name)
                       (job_outputs upstream_run_id (srv_db s)))
                (''missing output '' @ output_name @ '' from job-'' @ show_nat (job_index + 1)), s)
       (\<lambda>out s.
       case (case expected_kind of
               Some k \<Rightarrow> if jo_kind out \<noteq> k
                 then Some (''workflow input '' @ key @ '' expects '' @ k @ '' but job-''
                        @ show_nat (job_index + 1) @ ''.'' @ output_name @ '' is '' @ jo_kind out)
                 else None
             | None \<Rightarrow> None) of
         Some e \<Rightarrow> (Err e, s)
       | None \<Rightarrow>
           if jo_kind out = ''artifact''
           then
             try_then (ok_or (jo_runner_artifact_id out)
                        (''artifact output '' @ output_name @ '' missing artifact id''), s)
               (\<lambda>source_artifact_id s.
             try_then (ensure_runner_has_artifact E runner_id source_artifact_id upstream_run_id s)
               (\<lambda>artifact_id s. (Ok (JString artifact_id), s)))
           else (ok_or (jo_value out) (''typed output '' @ output_name @ '' missing value''), s)))"

fun resolve_binding ::
    "SchedEnv \<Rightarrow> PipelineRun \<Rightarrow> nat \<Rightarrow> WorkflowJobDefinition \<Rightarrow> JobDefinitionResponse
      \<Rightarrow> string \<Rightarrow> WorkflowInputBinding \<Rightarrow> json server_op" where
  "resolve_binding E pipeline job_index job schema key BCommit s =
     (Ok (JString (case pl_commit_sha pipeline of Some c \<Rightarrow> c | None \<Rightarrow> [])), s)"
| "resolve_binding E pipeline job_index job schema key BBranch s =
     (Ok (JString (case pl_trigger_ref pipeline of Some c \<Rightarrow> c | None \<Rightarrow> [])), s)"
| "resolve_binding E pipeline job_index job schema key BSourceArtifact s =
     try_then (ensure_source_artifact E pipeline (wj_runner_id job) s) (\<lambda>artifact_id s.
       (Ok (JString artifact_id), s))"
| "resolve_binding E pipeline job_index job schema key (BPromotedArtifact _ _ _) s =
     resolve_promoted E pipeline job_index (wj_runner_id job) key s"
| "resolve_binding E pipeline job_index job schema key (BJobOutput upstream output_name) s =
     resolve_job_output E pipeline
       (map_option (\<lambda>i. InputType_as_str (jid_kind i)) (bt_get (jdr_inputs schema) key))
       (wj_runner_id job) key upstream output_name s"
| "resolve_binding E pipeline job_index job schema key (BLiteral value) s = (Ok value, s)"

fun resolve_bindings ::
    "SchedEnv \<Rightarrow> PipelineRun \<Rightarrow> nat \<Rightarrow> WorkflowJobDefinition \<Rightarrow> JobDefinitionResponse
      \<Rightarrow> (string \<times> WorkflowInputBinding) list \<Rightarrow> (string, json) btree_map
      \<Rightarrow> (string, json) btree_map server_op" where
  "resolve_bindings E pipeline job_index job schema [] resolved s = (Ok resolved, s)"
| "resolve_bindings E pipeline job_index job schema ((key, binding) # rest) resolved s =
     try_then (resolve_binding E pipeline job_index job schema key binding s) (\<lambda>v s.
       resolve_bindings E pipeline job_index job schema rest (bt_insert key v resolved) s)"

definition resolve_job_inputs ::
    "SchedEnv \<Rightarrow> PipelineRun \<Rightarrow> string \<Rightarrow> nat \<Rightarrow> WorkflowJobDefinition \<Rightarrow> JobDefinitionResponse
      \<Rightarrow> (string, json) btree_map server_op" where
  "resolve_job_inputs E pipeline job_run_id job_index job schema s =
     try_then (resolve_bindings E pipeline job_index job schema (wj_inputs job) [] s)
       (\<lambda>resolved s.
         (Ok (if bt_contains ''janus_job_run_id'' resolved then resolved
              else bt_insert ''janus_job_run_id'' (JString job_run_id) resolved), s))"

section \<open>Failures and retries\<close>

definition fail_job_after_runner_create_rejection ::
    "SchedEnv \<Rightarrow> JobRun \<Rightarrow> string \<Rightarrow> unit server_op" where
  "fail_job_after_runner_create_rejection E job stderr s =
     try_then (on_db (finish_job_run (se_plat E) (jr_id job) ''failed'' None None
                 (Some ''spawn_error'') (Some ''job'') JobOutputMetadata_default [] stderr []) s)
       (\<lambda>_ s. (Ok (), with_db (finalize_pipeline_status (se_plat E) (jr_pipeline_run_id job)) s))"

definition retry_or_fail_infra_error ::
    "SchedEnv \<Rightarrow> JobRun \<Rightarrow> string \<Rightarrow> string \<Rightarrow> JobOutputMetadata \<Rightarrow> string \<Rightarrow> unit server_op" where
  "retry_or_fail_infra_error E job terminal_reason stderr metadata stdout s =
     try_then
       (if jr_infra_retry_count job < uint (se_max_infra_retries E)
        then try_then (on_db (requeue_job_run_for_infra_retry (se_plat E) (jr_id job)) s)
               (\<lambda>_ s. (Ok (), s))
        else on_db (finish_job_run (se_plat E) (jr_id job) ''failed'' None None
               (Some terminal_reason) (Some ''infra'') metadata stdout stderr []) s)
       (\<lambda>_ s. (Ok (), with_db (finalize_pipeline_status (se_plat E) (jr_pipeline_run_id job)) s))"

definition should_retry_infra_failure :: "JobRun \<Rightarrow> JobStatusResponse \<Rightarrow> u32 \<Rightarrow> bool" where
  "should_retry_infra_failure job status max_infra_retries =
     (jsr_status status = Failed \<and> jsr_failure_category status = Some CategoryInfra
      \<and> jr_infra_retry_count job < uint max_infra_retries)"

definition retry_stuck_cancellation ::
    "SchedEnv \<Rightarrow> JobRun \<Rightarrow> Runner \<Rightarrow> string \<Rightarrow> bool server_op" where
  "retry_stuck_cancellation E job runner runner_run_id s =
     (if ServerJobStatus_parse (jr_status job) \<notin> {Some SCancelRequested, Some SCanceling}
      then (Ok False, s)
      else
        case (case jr_cancel_started_at job of
                Some t \<Rightarrow> Some t | None \<Rightarrow> jr_cancel_requested_at job) of
          None \<Rightarrow> (Ok False, s)
        | Some started_at \<Rightarrow>
            try_then (se_elapsed_seconds E (db_seq (srv_db s)) started_at, s) (\<lambda>elapsed s.
              if elapsed < sint (se_cancel_stuck_timeout_seconds E) then (Ok False, s)
              else if uint (se_max_cancel_retries E) \<le> jr_cancel_retry_count job
              then (Ok True, with_db (mark_job_run_cancel_retry_exhausted (se_plat E) (jr_id job)) s)
              else
                try_then (on_runner (client_cancel_job_run (se_client E) runner runner_run_id) s)
                  (\<lambda>_ s.
                try_then (on_db (record_cancel_retry (se_plat E) (jr_id job)) s) (\<lambda>_ s.
                  (Ok False, s)))))"

section \<open>Dispatching pending jobs\<close>

definition previous_statuses :: "string \<Rightarrow> Db \<Rightarrow> (ServerJobStatus \<times> bool) list" where
  "previous_statuses job_run_id d =
     List.map_filter (\<lambda>j. map_option (\<lambda>status. (status, allows_failure (jr_outcome_policy j)))
         (ServerJobStatus_parse (jr_status j)))
       (previous_jobs_for_job_run job_run_id d)"

definition create_on_runner ::
    "SchedEnv \<Rightarrow> JobRun \<Rightarrow> Runner \<Rightarrow> (string, json) btree_map \<Rightarrow> unit server_op" where
  "create_on_runner E job runner payload s =
     (let s = with_db (set_job_run_input_payload (jr_id job) (JObject payload)) s in
      case on_runner (client_create_job_run (se_client E) runner (jr_runner_job_name job)
             (jr_dispatch_key job) (JObject payload)) s of
        (Ok created, s) \<Rightarrow>
          (Ok (), with_db (set_job_run_started (jr_id job) (jcr_job_id created)
             (jcr_started_at created)) s)
      | (Err message, s) \<Rightarrow>
          (if is_runner_create_terminal_rejection message
           then fail_job_after_runner_create_rejection E job
                  (''failed to create runner job: '' @ message) s
           else (Err message, s)))"

definition start_job ::
    "SchedEnv \<Rightarrow> JobRun \<Rightarrow> Runner \<Rightarrow> PipelineRun \<Rightarrow> WorkflowJobDefinition
      \<Rightarrow> JobDefinitionResponse \<Rightarrow> unit server_op" where
  "start_job E job runner pipeline definition schema s =
     (case resolve_job_inputs E pipeline (jr_id job) (nat (jr_job_index job)) definition schema s of
        (Ok payload, s) \<Rightarrow> create_on_runner E job runner payload s
      | (Err message, s) \<Rightarrow>
          (if \<not> is_scheduler_artifact_transfer_error message then (Err message, s)
           else retry_or_fail_infra_error E job ''spawn_error''
                  (''failed to prepare job inputs: '' @ message) JobOutputMetadata_default [] s))"

definition dispatch_ready_job :: "SchedEnv \<Rightarrow> JobRun \<Rightarrow> unit server_op" where
  "dispatch_ready_job E job s =
     (case get_runner (jr_runner_id job) (srv_db s) of
        None \<Rightarrow> (Ok (), with_db (set_job_run_status (se_plat E) (jr_id job) ''failed'') s)
      | Some runner \<Rightarrow>
          if \<not> rn_enabled runner then (Ok (), s)
          else
            (case pipeline_for_job_run (jr_id job) (srv_db s) of
              None \<Rightarrow> (Ok (), s)
            | Some pipeline \<Rightarrow>
                try_then (workflow_definition_json (pl_workflow_version_id pipeline) (srv_db s), s)
                  (\<lambda>json s.
                try_then (se_parse_definition E json, s) (\<lambda>definition s.
                  let schemas = workflow_job_schemas (pl_workflow_version_id pipeline) (srv_db s);
                      i = nat (jr_job_index job) in
                  if jr_job_index job < 0 \<or> length (wd_jobs definition) \<le> i then (Ok (), s)
                  else if length schemas \<le> i then (Ok (), s)
                  else start_job E job runner pipeline (wd_jobs definition ! i) (schemas ! i) s))))"

definition dispatch_job :: "SchedEnv \<Rightarrow> JobRun \<Rightarrow> unit server_op" where
  "dispatch_job E job s =
     (let state = next_ready_job_status (previous_statuses (jr_id job) (srv_db s)) in
      if state = Some SBlocked
      then (Ok (), with_db (\<lambda>d. finalize_pipeline_status (se_plat E) (jr_pipeline_run_id job)
                              (set_job_run_status (se_plat E) (jr_id job) ''blocked'' d)) s)
      else if state = None then (Ok (), s)
      else dispatch_ready_job E job s)"

definition dispatch_pending_jobs :: "SchedEnv \<Rightarrow> unit server_op" where
  "dispatch_pending_jobs E s =
     each_st (dispatch_job E) (list_job_runs_by_status [''pending''] (srv_db s)) s"

section \<open>Polling running jobs\<close>

definition json_i64 :: "64 word \<Rightarrow> json" where
  "json_i64 w = JNumber (if 0 \<le> sint w then PosInt w else NegInt w)"

definition typed_output :: "string \<Rightarrow> string \<Rightarrow> json \<Rightarrow> JobRunOutput" where
  "typed_output name kind v =
     \<lparr>jo_output_name = name, jo_kind = kind, jo_runner_artifact_id = None,
      jo_server_artifact_id = None, jo_value = Some v, jo_sha256 = None, jo_size_bytes = None\<rparr>"

fun persist_output ::
    "SchedEnv \<Rightarrow> Runner \<Rightarrow> string \<Rightarrow> string \<Rightarrow> JobOutput \<Rightarrow> JobRunOutput server_op" where
  "persist_output E runner job_run_id name (OutArtifact artifact_id sha256 nbytes) s =
     try_then (on_runner (client_download_artifact (se_client E) runner artifact_id) s)
       (\<lambda>bytes s.
     try_then (server_store_bytes E ''job_output'' job_run_id name bytes s) (\<lambda>pending s.
       let (server_artifact_id, d) = insert_server_artifact (se_plat E) pending (srv_db s) in
       (Ok \<lparr>jo_output_name = name, jo_kind = ''artifact'',
            jo_runner_artifact_id = Some artifact_id,
            jo_server_artifact_id = Some server_artifact_id, jo_value = None,
            jo_sha256 = Some sha256, jo_size_bytes = Some (sint nbytes)\<rparr>, s\<lparr>srv_db := d\<rparr>)))"
| "persist_output E runner job_run_id name (OutString v) s =
     (Ok (typed_output name ''string'' (JString v)), s)"
| "persist_output E runner job_run_id name (OutInteger v) s =
     (Ok (typed_output name ''integer'' (json_i64 v)), s)"
| "persist_output E runner job_run_id name (OutBoolean v) s =
     (Ok (typed_output name ''boolean'' (JBool v)), s)"
| "persist_output E runner job_run_id name (OutJson v) s =
     (Ok (typed_output name ''json'' v), s)"

fun persist_job_outputs ::
    "SchedEnv \<Rightarrow> Runner \<Rightarrow> string \<Rightarrow> (string \<times> JobOutput) list \<Rightarrow> JobRunOutput list server_op" where
  "persist_job_outputs E runner job_run_id [] s = (Ok [], s)"
| "persist_job_outputs E runner job_run_id ((name, out) # rest) s =
     try_then (persist_output E runner job_run_id name out s) (\<lambda>x s.
     try_then (persist_job_outputs E runner job_run_id rest s) (\<lambda>xs s. (Ok (x # xs), s)))"

definition polled_status :: "string \<Rightarrow> JobStatus \<Rightarrow> ServerJobStatus" where
  "polled_status local remote =
     (if remote = Canceling then SCanceling
      else if remote = CancelRequested
      then (if local = ''canceling'' then SCanceling else SCancelRequested)
      else if local \<in> {''cancel_requested'', ''canceling''}
      then (case ServerJobStatus_parse local of Some x \<Rightarrow> x | None \<Rightarrow> SRunning)
      else SRunning)"

fun terminal_job_status :: "JobStatus \<Rightarrow> ServerJobStatus" where
  "terminal_job_status Success = SSuccess"
| "terminal_job_status Canceled = SCanceled"
| "terminal_job_status _ = SFailed"

definition finish_polled_job ::
    "SchedEnv \<Rightarrow> JobRun \<Rightarrow> Runner \<Rightarrow> string \<Rightarrow> JobStatusResponse \<Rightarrow> unit server_op" where
  "finish_polled_job E job runner runner_run_id status s =
     (case on_runner (client_get_job_logs (se_client E) runner runner_run_id) s of (log_result, s) \<Rightarrow>
      let logs = (case log_result of Ok l \<Rightarrow> l | Err _ \<Rightarrow> \<lparr>jlr_stdout = [], jlr_stderr = []\<rparr>) in
      if should_retry_infra_failure job status (se_max_infra_retries E)
      then try_then (on_db (requeue_job_run_for_infra_retry (se_plat E) (jr_id job)) s)
             (\<lambda>_ s. (Ok (), with_db (finalize_pipeline_status (se_plat E) (jr_pipeline_run_id job)) s))
      else
        case persist_job_outputs E runner (jr_id job) (jsr_outputs status) s of
          (Err e, s) \<Rightarrow>
            retry_or_fail_infra_error E job ''output_registration_failed''
              (''failed to persist job outputs: '' @ e) (jsr_output_metadata status)
              (jlr_stdout logs) s
        | (Ok outs, s) \<Rightarrow>
            try_then (on_db (finish_job_run (se_plat E) (jr_id job)
                (ServerJobStatus_as_str (terminal_job_status (jsr_status status)))
                (jsr_duration_ms status) (jsr_exit_code status)
                (map_option TerminalReason_as_str (jsr_terminal_reason status))
                (map_option FailureCategory_as_str (jsr_failure_category status))
                (jsr_output_metadata status) (jlr_stdout logs) (jlr_stderr logs) outs) s)
              (\<lambda>_ s. (Ok (), with_db (finalize_pipeline_status (se_plat E) (jr_pipeline_run_id job)) s)))"

definition poll_job :: "SchedEnv \<Rightarrow> JobRun \<Rightarrow> unit server_op" where
  "poll_job E job s =
     (case (get_runner (jr_runner_id job) (srv_db s), jr_runner_run_id job) of
        (Some runner, Some runner_run_id) \<Rightarrow>
          try_then (retry_stuck_cancellation E job runner runner_run_id s) (\<lambda>exhausted s.
            if exhausted
            then (Ok (), with_db (finalize_pipeline_status (se_plat E) (jr_pipeline_run_id job)) s)
            else
              case on_runner (client_get_job_run (se_client E) runner runner_run_id) s of
                (Err e, s) \<Rightarrow> (Ok (), s)
              | (Ok status, s) \<Rightarrow>
                  if jsr_status status \<in> {Running, CancelRequested, Canceling}
                  then
                    let next = ServerJobStatus_as_str (polled_status (jr_status job) (jsr_status status)) in
                    (Ok (), if jr_status job \<noteq> next
                      then with_db (\<lambda>d. finalize_pipeline_status (se_plat E) (jr_pipeline_run_id job)
                             (set_job_run_status (se_plat E) (jr_id job) next d)) s
                      else s)
                  else finish_polled_job E job runner runner_run_id status s)
      | _ \<Rightarrow> (Ok (), s))"

definition poll_running_jobs :: "SchedEnv \<Rightarrow> unit server_op" where
  "poll_running_jobs E s =
     each_st (poll_job E)
       (list_job_runs_by_status [''running'', ''cancel_requested'', ''canceling''] (srv_db s)) s"

section \<open>The tick, and runner health\<close>

definition reconcile_once :: "SchedEnv \<Rightarrow> unit server_op" where
  "reconcile_once E s =
     try_then (process_push_events E (recover_incomplete_pipelines E s)) (\<lambda>_ s.
     try_then (dispatch_pending_jobs E s) (\<lambda>_ s.
       poll_running_jobs E s))"

definition refresh_one_runner :: "SchedEnv \<Rightarrow> Runner \<Rightarrow> unit server_op" where
  "refresh_one_runner E runner s =
     (case on_runner (capabilities (se_client E) runner) s of
        (Err e, s) \<Rightarrow>
          (Ok (), with_db (update_runner_health (se_plat E) (rn_id runner) ''unreachable'') s)
      | (Ok caps, s) \<Rightarrow>
          if \<not> is_compatible_with_supported_versions caps SUPPORTED_RUNNER_PROTOCOL_VERSIONS
          then (Ok (), with_db (update_runner_health (se_plat E) (rn_id runner) ''incompatible'') s)
          else
            case on_runner (list_jobs (se_client E) runner) s of
              (Err e, s) \<Rightarrow>
                (Ok (), with_db (update_runner_health (se_plat E) (rn_id runner) ''unreachable'') s)
            | (Ok jobs, s) \<Rightarrow>
                try_then (on_db (replace_runner_jobs (rn_id runner) jobs) s) (\<lambda>_ s.
                  (Ok (), with_db (update_runner_health (se_plat E) (rn_id runner) ''healthy'') s)))"

definition refresh_runner_health :: "SchedEnv \<Rightarrow> unit server_op" where
  "refresh_runner_health E s =
     each_st (refresh_one_runner E) (filter rn_enabled (list_runners (srv_db s))) s"
end
