(* ===== verification/Scheduler_Effects.thy ===== *)
theory Scheduler_Effects
  imports Scheduler
begin

text \<open>
  What the operations of the scheduler can change.  Resolving inputs and storing outputs is
  quiet: it draws identifiers and stores artifacts, and leaves every other table alone.
  Everything the tick does for one job is an effect on that job's row and on its pipeline's
  status; a flag says whether the effect may use up one infra retry, another whether it may
  use up one cancel retry.  Effects compose, so the invariants of the server follow from the
  effects of its steps.
\<close>

named_theorems server_frames \<open>what an operation of the server leaves unchanged\<close>

section \<open>Composition\<close>

lemma try_then_snd:
  assumes "R s (snd p)"
    and "\<And>x. fst p = Ok x \<Longrightarrow> R (snd p) (snd (f x (snd p)))"
    and "\<And>a b c. R a b \<Longrightarrow> R b c \<Longrightarrow> R a c"
  shows "R s (snd (try_then p f))"
proof (cases p)
  case (Pair r t)
  then show ?thesis using assms by (cases r) auto
qed

text \<open>Quiet steps.\<close>

definition quiet :: "Server \<Rightarrow> Server \<Rightarrow> bool" where
  "quiet s t =
     (\<exists>n a. db_seq (srv_db s) \<le> n \<and> srv_db t = (srv_db s)\<lparr>db_seq := n, db_artifacts := a\<rparr>)"

lemma quiet_refl [simp]: "quiet s s"
proof -
  have "srv_db s = (srv_db s)\<lparr>db_seq := db_seq (srv_db s), db_artifacts := db_artifacts (srv_db s)\<rparr>"
    by simp
  then show ?thesis unfolding quiet_def by blast
qed

lemma quiet_trans: "quiet r s \<Longrightarrow> quiet s t \<Longrightarrow> quiet r t"
  by (auto simp: quiet_def) (metis le_trans)

lemma quiet_eq: "srv_db t = srv_db s \<Longrightarrow> quiet s t"
  using quiet_refl [of s] unfolding quiet_def by simp

lemma quiet_try [intro]:
  "quiet s (snd p) \<Longrightarrow> (\<And>x. fst p = Ok x \<Longrightarrow> quiet (snd p) (snd (f x (snd p))))
    \<Longrightarrow> quiet s (snd (try_then p f))"
  by (rule try_then_snd [where R = quiet]) (blast intro: quiet_trans)+

lemma quiet_on_runner [simp, server_frames]: "quiet s (snd (on_runner f s))"
  by (auto simp: on_runner_def intro: quiet_eq split: prod.splits)

lemma quiet_insert_artifact:
  "quiet s (with_db (\<lambda>d. snd (insert_server_artifact P a d)) s)"
  unfolding quiet_def with_db_def insert_server_artifact_def
  by (rule exI [of _ "Suc (db_seq (srv_db s))"]) auto

lemma quiet_store_bytes [simp, server_frames]:
  "quiet s (snd (server_store_bytes E scope i n bytes s))"
proof -
  have "quiet s (with_db (\<lambda>d. draw d) s)"
    unfolding quiet_def with_db_def
    by (rule exI [of _ "Suc (db_seq (srv_db s))"], rule exI [of _ "db_artifacts (srv_db s)"]) simp
  moreover have "quiet t (t\<lparr>srv_files := fs\<rparr>)" for t fs by (rule quiet_eq) simp
  ultimately show ?thesis
    unfolding server_store_bytes_def Let_def by (auto intro: quiet_trans split: option.splits)
qed

lemma quiet_store_file [simp, server_frames]:
  "quiet s (snd (server_store_file E scope i n p s))"
  by (simp add: server_store_file_def split: option.splits)

lemma quiet_const [simp]: "quiet s (snd (r, s))"
  by simp

lemma quiet_source_artifact [simp, server_frames]:
  "quiet s (snd (ensure_server_source_artifact E p s))"
  unfolding ensure_server_source_artifact_def Let_def
  by (auto split: option.splits prod.splits intro!: quiet_try intro: quiet_eq quiet_insert_artifact)

lemma quiet_upload [simp, server_frames]: "quiet s (snd (upload_to E r a b s))"
  unfolding upload_to_def by (intro quiet_try) simp_all

lemma quiet_ensure_source [simp, server_frames]: "quiet s (snd (ensure_source_artifact E p r s))"
  unfolding ensure_source_artifact_def by (intro quiet_try) (simp_all split: option.splits)

lemma quiet_ensure_runner [simp, server_frames]:
  "quiet s (snd (ensure_runner_has_artifact E t a u s))"
  unfolding ensure_runner_has_artifact_def
  by (intro quiet_try) (auto intro!: quiet_try)

lemma quiet_promoted [simp, server_frames]: "quiet s (snd (resolve_promoted E p i r k s))"
  unfolding resolve_promoted_def by (intro quiet_try) simp_all

lemma quiet_job_output [simp, server_frames]:
  "quiet s (snd (resolve_job_output E p x r k i n s))"
  unfolding resolve_job_output_def
  by (intro quiet_try) (auto split: option.splits intro!: quiet_try)

lemma quiet_binding [simp, server_frames]: "quiet s (snd (resolve_binding E p i j sc k b s))"
  by (cases b) (auto intro!: quiet_try)

lemma quiet_bindings [simp, server_frames]: "quiet s (snd (resolve_bindings E p i j sc bs m s))"
proof (induction E p i j sc bs m s rule: resolve_bindings.induct)
  case (2 E p i j sc key b rest m s)
  show ?case using 2 by (auto intro!: quiet_try)
qed simp

lemma quiet_inputs [simp, server_frames]: "quiet s (snd (resolve_job_inputs E p j i w sc s))"
  unfolding resolve_job_inputs_def by (intro quiet_try) simp_all

lemma quiet_persist [simp, server_frames]: "quiet s (snd (persist_output E r j n x s))"
proof (cases x)
  case (OutArtifact a h z)
  have "quiet t (t\<lparr>srv_db := snd (insert_server_artifact P p (srv_db t))\<rparr>)" for t P p
    using quiet_insert_artifact [of t P p] by (simp add: with_db_def)
  then show ?thesis
    by (auto simp: OutArtifact case_prod_unfold Let_def intro!: quiet_try)
qed simp_all

lemma quiet_persist_all [simp, server_frames]: "quiet s (snd (persist_job_outputs E r j xs s))"
proof (induction E r j xs s rule: persist_job_outputs.induct)
  case (2 E r j n x rest s)
  show ?case using 2 by (auto intro!: quiet_try)
qed simp

section \<open>Effects\<close>

text \<open>
  The change f of a job's row, made while the draws m to n were made: it keeps what
  identifies the job, its dispatch key is kept or fresh, and each retry counter is kept or
  reset, or raised by one (after a possible reset) where the flag says so and the budget, as
  the caller read it, has room.
\<close>

definition row_change ::
    "SchedEnv \<Rightarrow> JobRun \<Rightarrow> bool \<Rightarrow> bool \<Rightarrow> nat \<Rightarrow> nat \<Rightarrow> (JobRun \<Rightarrow> JobRun) \<Rightarrow> bool" where
  "row_change E job infra cancel m n f =
     (\<forall>j. jr_id (f j) = jr_id j \<and> jr_pipeline_run_id (f j) = jr_pipeline_run_id j
        \<and> jr_job_index (f j) = jr_job_index j \<and> jr_runner_id (f j) = jr_runner_id j
        \<and> jr_outcome_policy (f j) = jr_outcome_policy j
        \<and> (jr_dispatch_key (f j) = jr_dispatch_key j \<or>
           (\<exists>i. m \<le> i \<and> i < n \<and> jr_dispatch_key (f j) = next_dispatch_idempotency_key (se_plat E) i))
        \<and> (jr_infra_retry_count (f j) = jr_infra_retry_count j \<or>
           infra \<and> jr_infra_retry_count job < uint (se_max_infra_retries E)
             \<and> jr_infra_retry_count (f j) = jr_infra_retry_count j + 1)
        \<and> (jr_cancel_retry_count (f j) \<in> {jr_cancel_retry_count j, 0} \<or>
           cancel \<and> jr_cancel_retry_count job < uint (se_max_cancel_retries E)
             \<and> jr_cancel_retry_count (f j) \<in> {jr_cancel_retry_count j + 1, 1}))"

definition status_change :: "(PipelineRun \<Rightarrow> PipelineRun) \<Rightarrow> bool" where
  "status_change g =
     (\<forall>p. pl_id (g p) = pl_id p \<and> pl_repo_id (g p) = pl_repo_id p
        \<and> pl_workflow_id (g p) = pl_workflow_id p
        \<and> pl_workflow_version_id (g p) = pl_workflow_version_id p
        \<and> pl_trigger_ref (g p) = pl_trigger_ref p \<and> pl_commit_sha (g p) = pl_commit_sha p)"

definition same_tables :: "Db \<Rightarrow> Db \<Rightarrow> bool" where
  "same_tables d e =
     (db_seq d \<le> db_seq e \<and> db_repos e = db_repos d \<and> db_runners e = db_runners d
      \<and> db_runner_jobs e = db_runner_jobs d \<and> db_workflows e = db_workflows d
      \<and> db_versions e = db_versions d \<and> db_schemas e = db_schemas d
      \<and> db_push_events e = db_push_events d \<and> db_previous e = db_previous d
      \<and> db_selections e = db_selections d
      \<and> map jl_job_run_id (db_logs e) = map jl_job_run_id (db_logs d))"

definition job_effect :: "SchedEnv \<Rightarrow> JobRun \<Rightarrow> bool \<Rightarrow> bool \<Rightarrow> Db \<Rightarrow> Db \<Rightarrow> bool" where
  "job_effect E job infra cancel d e =
     (same_tables d e
      \<and> (\<exists>f. row_change E job infra cancel (db_seq d) (db_seq e) f
             \<and> db_jobs e = update_rows jr_id (jr_id job) f (db_jobs d))
      \<and> (\<exists>g. status_change g
             \<and> db_pipelines e = update_rows pl_id (jr_pipeline_run_id job) g (db_pipelines d)))"

lemma update_rows_id [simp]: "update_rows key i (\<lambda>r. r) rows = rows"
  by (simp add: update_rows_def map_idI)

lemma update_rows_comp:
  "(\<And>r. key (f r) = key r) \<Longrightarrow>
     update_rows key i g (update_rows key i f rows) = update_rows key i (g \<circ> f) rows"
  by (auto simp: update_rows_def)

lemma map_update_rows [simp]: "(\<And>r. h (f r) = h r) \<Longrightarrow> map h (update_rows key i f rows) = map h rows"
  by (auto simp: update_rows_def)

lemma row_change_id [simp]: "row_change E job a b m n (\<lambda>j. j)"
  by (simp add: row_change_def)

lemma status_change_id [simp]: "status_change (\<lambda>p. p)"
  by (simp add: status_change_def)

lemma same_tables_refl [simp]: "same_tables d d"
  by (simp add: same_tables_def)

lemma same_tables_trans: "same_tables c d \<Longrightarrow> same_tables d e \<Longrightarrow> same_tables c e"
  by (auto simp: same_tables_def)

lemma row_change_comp:
  assumes "row_change E job a b l m f" and "row_change E job a' b' m n g"
    and "l \<le> m" "m \<le> n" and "\<not> (a \<and> a')" "\<not> (b \<and> b')"
  shows "row_change E job (a \<or> a') (b \<or> b') l n (g \<circ> f)"
proof -
  have keys: "jr_dispatch_key (g (f j)) = jr_dispatch_key j \<or>
      (\<exists>i. l \<le> i \<and> i < n \<and> jr_dispatch_key (g (f j)) = next_dispatch_idempotency_key (se_plat E) i)" for j
  proof (cases "jr_dispatch_key (g (f j)) = jr_dispatch_key (f j)")
    case True
    then show ?thesis
      using assms(1,4) unfolding row_change_def by (metis order_less_le_trans)
  next
    case False
    then show ?thesis
      using assms(2,3) unfolding row_change_def by (meson le_trans)
  qed
  have infra: "jr_infra_retry_count (g (f j)) = jr_infra_retry_count j \<or>
      (a \<or> a') \<and> jr_infra_retry_count job < uint (se_max_infra_retries E)
        \<and> jr_infra_retry_count (g (f j)) = jr_infra_retry_count j + 1" for j
    using assms(1,2,5) unfolding row_change_def by metis
  have cancel: "jr_cancel_retry_count (g (f j)) \<in> {jr_cancel_retry_count j, 0} \<or>
      (b \<or> b') \<and> jr_cancel_retry_count job < uint (se_max_cancel_retries E)
        \<and> jr_cancel_retry_count (g (f j)) \<in> {jr_cancel_retry_count j + 1, 1}" for j
  proof -
    have "jr_cancel_retry_count (f j) \<in> {jr_cancel_retry_count j, 0} \<or>
        b \<and> jr_cancel_retry_count job < uint (se_max_cancel_retries E)
          \<and> jr_cancel_retry_count (f j) \<in> {jr_cancel_retry_count j + 1, 1}"
      using assms(1) unfolding row_change_def by blast
    moreover have "jr_cancel_retry_count (g (f j)) \<in> {jr_cancel_retry_count (f j), 0} \<or>
        b' \<and> jr_cancel_retry_count job < uint (se_max_cancel_retries E)
          \<and> jr_cancel_retry_count (g (f j)) \<in> {jr_cancel_retry_count (f j) + 1, 1}"
      using assms(2) unfolding row_change_def by blast
    ultimately show ?thesis using assms(6) by auto
  qed
  show ?thesis
    using assms(1,2) keys infra cancel unfolding row_change_def by simp
qed

lemma job_effect_refl [simp]: "job_effect E job a b d d"
  unfolding job_effect_def using row_change_id status_change_id
  by (metis same_tables_refl update_rows_id)

lemma job_effect_comp:
  assumes "job_effect E job a b c d" and "job_effect E job a' b' d e"
    and "\<not> (a \<and> a')" "\<not> (b \<and> b')"
  shows "job_effect E job (a \<or> a') (b \<or> b') c e"
proof -
  from assms(1) obtain f g where fg: "same_tables c d"
    "row_change E job a b (db_seq c) (db_seq d) f"
    "db_jobs d = update_rows jr_id (jr_id job) f (db_jobs c)"
    "status_change g" "db_pipelines d = update_rows pl_id (jr_pipeline_run_id job) g (db_pipelines c)"
    unfolding job_effect_def by blast
  from assms(2) obtain f' g' where fg': "same_tables d e"
    "row_change E job a' b' (db_seq d) (db_seq e) f'"
    "db_jobs e = update_rows jr_id (jr_id job) f' (db_jobs d)"
    "status_change g'" "db_pipelines e = update_rows pl_id (jr_pipeline_run_id job) g' (db_pipelines d)"
    unfolding job_effect_def by blast
  have le: "db_seq c \<le> db_seq d" "db_seq d \<le> db_seq e"
    using fg(1) fg'(1) by (simp_all add: same_tables_def)
  have jobs: "db_jobs e = update_rows jr_id (jr_id job) (f' \<circ> f) (db_jobs c)"
    using fg(2,3) fg'(3) update_rows_comp [of jr_id f] by (simp add: row_change_def)
  have pipes: "db_pipelines e = update_rows pl_id (jr_pipeline_run_id job) (g' \<circ> g) (db_pipelines c)"
    using fg(4,5) fg'(5) update_rows_comp [of pl_id g] by (simp add: status_change_def)
  have "status_change (g' \<circ> g)" using fg(4) fg'(4) by (simp add: status_change_def)
  then show ?thesis
    unfolding job_effect_def
    using same_tables_trans [OF fg(1) fg'(1)] row_change_comp [OF fg(2) fg'(2) le assms(3,4)]
      jobs pipes by blast
qed

lemma job_effect_weaken:
  "job_effect E job a b d e \<Longrightarrow> (a \<longrightarrow> a') \<Longrightarrow> (b \<longrightarrow> b') \<Longrightarrow> job_effect E job a' b' d e"
  unfolding job_effect_def row_change_def by blast

lemma quiet_effect: "quiet s t \<Longrightarrow> job_effect E job a b (srv_db s) (srv_db t)"
proof -
  assume "quiet s t"
  then have "same_tables (srv_db s) (srv_db t)" "db_jobs (srv_db t) = db_jobs (srv_db s)"
    "db_pipelines (srv_db t) = db_pipelines (srv_db s)"
    by (auto simp: quiet_def same_tables_def)
  then show ?thesis
    unfolding job_effect_def using row_change_id status_change_id by (metis update_rows_id)
qed

subsection \<open>The database operations\<close>

lemma job_effectI:
  assumes "same_tables d e" and "row_change E job a b (db_seq d) (db_seq e) f"
    and "db_jobs e = update_rows jr_id (jr_id job) f (db_jobs d)"
    and "db_pipelines e = db_pipelines d"
  shows "job_effect E job a b d e"
  unfolding job_effect_def using assms status_change_id by (metis update_rows_id)

lemma effect_started [server_frames]:
  "job_effect E job a b d (set_job_run_started (jr_id job) r t d)"
  by (rule job_effectI [where f = "\<lambda>j. j\<lparr>
        jr_status := ''running'', jr_runner_run_id := Some r, jr_started_at := Some t,
        jr_cancel_reason := None, jr_cancel_requested_at := None, jr_cancel_started_at := None,
        jr_cancel_retry_count := 0, jr_last_cancel_retry_at := None\<rparr>"])
    (auto simp: set_job_run_started_def same_tables_def row_change_def)

lemma effect_payload [server_frames]:
  "job_effect E job a b d (set_job_run_input_payload (jr_id job) v d)"
  by (rule job_effectI [where f = "\<lambda>j. j"])
    (auto simp: set_job_run_input_payload_def same_tables_def)

lemma effect_finish [server_frames]:
  "job_effect E job a b d (snd (finish_job_run P (jr_id job) st du ex tr fc me so se outs d))"
proof (cases "outs \<noteq> [] \<and> get_job_run (jr_id job) d = None")
  case False
  then show ?thesis
    by (intro job_effectI [where f = "finish_job_row st du ex tr fc me (clock P (db_seq d))"])
      (auto simp: finish_job_run_def finish_job_row_def same_tables_def row_change_def)
qed (simp add: finish_job_run_def)

lemma effect_status [server_frames]:
  "job_effect E job a b d (set_job_run_status P (jr_id job) st d)"
  by (rule job_effectI [where f = "job_status_row st (clock P (db_seq d))"])
    (auto simp: set_job_run_status_def job_status_row_def same_tables_def row_change_def)

lemma effect_requeue [server_frames]:
  assumes "jr_infra_retry_count job < uint (se_max_infra_retries E)"
  shows "job_effect E job True b d (snd (requeue_job_run_for_infra_retry (se_plat E) (jr_id job) d))"
proof -
  let ?k = "next_dispatch_idempotency_key (se_plat E) (db_seq d)"
  let ?f = "infra_retry_row ?k (clock (se_plat E) (db_seq d))"
  let ?e = "snd (requeue_job_run_for_infra_retry (se_plat E) (jr_id job) d)"
  have "?e = d \<or> same_tables d ?e \<and> db_seq ?e = Suc (db_seq d) \<and> db_pipelines ?e = db_pipelines d
      \<and> db_jobs ?e = update_rows jr_id (jr_id job) ?f (db_jobs d)"
    by (auto simp: requeue_job_run_for_infra_retry_def Let_def same_tables_def split: option.splits)
  moreover have "row_change E job True b (db_seq d) (Suc (db_seq d)) ?f"
    using assms by (auto simp: row_change_def infra_retry_row_def intro!: exI [of _ "db_seq d"])
  ultimately show ?thesis
    by (metis job_effectI job_effect_refl)
qed

lemma effect_cancel_retry [server_frames]:
  assumes "jr_cancel_retry_count job < uint (se_max_cancel_retries E)"
  shows "job_effect E job a True d (snd (record_cancel_retry (se_plat E) (jr_id job) d))"
  using assms
  by (intro job_effectI [OF _ _ _ _, where f = "\<lambda>j. j\<lparr>
        jr_cancel_retry_count := jr_cancel_retry_count j + 1,
        jr_last_cancel_retry_at := Some (clock (se_plat E) (db_seq d))\<rparr>"])
    (auto simp: record_cancel_retry_def Let_def same_tables_def row_change_def)

lemma effect_exhausted [server_frames]:
  "job_effect E job a b d (mark_job_run_cancel_retry_exhausted P (jr_id job) d)"
  by (rule job_effectI [where f = "\<lambda>j. j\<lparr>
        jr_status := ''failed'', jr_cancel_reason := Some ''stuck_retry_exhausted'',
        jr_terminal_reason := Some ''canceled'', jr_failure_category := Some ''infra'',
        jr_finished_at := Some (clock P (db_seq d))\<rparr>"])
    (auto simp: mark_job_run_cancel_retry_exhausted_def same_tables_def row_change_def)

lemma effect_finalize [server_frames]:
  "job_effect E job a b d (finalize_pipeline_status P (jr_pipeline_run_id job) d)"
proof -
  let ?g = "final_pipeline_row (PipelineStatus_as_str
      (terminal_pipeline_status (job_statuses (jr_pipeline_run_id job) d))) (clock P (db_seq d))"
  have "status_change ?g" by (simp add: status_change_def final_pipeline_row_def)
  moreover have "same_tables d (finalize_pipeline_status P (jr_pipeline_run_id job) d)"
    by (simp add: finalize_pipeline_status_def same_tables_def)
  ultimately show ?thesis
    unfolding job_effect_def finalize_pipeline_status_def
    by (auto intro!: exI [of _ "\<lambda>j. j"] exI [of _ ?g])
qed

subsection \<open>The steps of the tick\<close>

definition server_effect :: "SchedEnv \<Rightarrow> JobRun \<Rightarrow> bool \<Rightarrow> bool \<Rightarrow> Server \<Rightarrow> Server \<Rightarrow> bool" where
  "server_effect E job a b s t = job_effect E job a b (srv_db s) (srv_db t)"

lemma server_effect_refl [simp]: "server_effect E job a b s s"
  by (simp add: server_effect_def)

lemma server_effect_quiet: "quiet s t \<Longrightarrow> server_effect E job a b s t"
  by (simp add: server_effect_def quiet_effect)

lemma server_effect_after:
  assumes "server_effect E job False False s t" and "server_effect E job a b t u"
  shows "server_effect E job a b s u"
  using job_effect_comp [of E job False False "srv_db s" "srv_db t" a b "srv_db u"] assms
  by (simp add: server_effect_def)

lemma server_effect_then:
  assumes "server_effect E job a b s t" and "server_effect E job False False t u"
  shows "server_effect E job a b s u"
  using job_effect_comp [of E job a b "srv_db s" "srv_db t" False False "srv_db u"] assms
  by (simp add: server_effect_def)

lemma server_effect_try:
  assumes "server_effect E job a b s (snd p)"
    and "\<And>x. fst p = Ok x \<Longrightarrow> server_effect E job False False (snd p) (snd (f x (snd p)))"
  shows "server_effect E job a b s (snd (try_then p f))"
proof (cases p)
  case (Pair r t)
  then show ?thesis using assms server_effect_then by (cases r) auto
qed

lemma snd_on_db: "srv_db (snd (on_db f s)) = snd (f (srv_db s))"
  by (simp add: on_db_def split: prod.splits)

lemma effect_with_db: "job_effect E job a b (srv_db s) (g (srv_db s)) \<Longrightarrow>
    server_effect E job a b s (with_db g s)"
  by (simp add: server_effect_def with_db_def)

lemma effect_on_db: "job_effect E job a b (srv_db s) (snd (g (srv_db s))) \<Longrightarrow>
    server_effect E job a b s (snd (on_db g s))"
  by (simp add: server_effect_def snd_on_db)

lemma step_effects:
  "server_effect E job a b s (with_db (set_job_run_started (jr_id job) r t) s)"
  "server_effect E job a b s (with_db (set_job_run_input_payload (jr_id job) v) s)"
  "server_effect E job a b s (with_db (set_job_run_status P (jr_id job) st) s)"
  "server_effect E job a b s (with_db (mark_job_run_cancel_retry_exhausted P (jr_id job)) s)"
  "server_effect E job a b s (with_db (finalize_pipeline_status P (jr_pipeline_run_id job)) s)"
  "server_effect E job a b s
     (snd (on_db (finish_job_run P (jr_id job) st du ex tr fc me so se outs) s))"
  by (simp_all add: server_effect_def with_db_def snd_on_db effect_started effect_payload
      effect_status effect_exhausted effect_finalize effect_finish)

lemma step_effect_requeue:
  "jr_infra_retry_count job < uint (se_max_infra_retries E) \<Longrightarrow>
   server_effect E job True b s
     (snd (on_db (requeue_job_run_for_infra_retry (se_plat E) (jr_id job)) s))"
  by (simp add: server_effect_def snd_on_db effect_requeue)

lemma step_effect_cancel_retry:
  "jr_cancel_retry_count job < uint (se_max_cancel_retries E) \<Longrightarrow>
   server_effect E job a True s (snd (on_db (record_cancel_retry (se_plat E) (jr_id job)) s))"
  by (simp add: server_effect_def snd_on_db effect_cancel_retry)

lemma fail_rejected_effect:
  "server_effect E job a b s (snd (fail_job_after_runner_create_rejection E job t s))"
  unfolding fail_job_after_runner_create_rejection_def
  by (rule server_effect_try) (simp_all add: step_effects)

lemma retry_or_fail_effect:
  "server_effect E job True b s (snd (retry_or_fail_infra_error E job tr se me so s))"
  unfolding retry_or_fail_infra_error_def
  by (intro server_effect_try)
    (auto simp: step_effects intro!: server_effect_try step_effect_requeue)

lemma create_on_runner_effect:
  "server_effect E job a b s (snd (create_on_runner E job runner payload s))"
proof -
  let ?s1 = "with_db (set_job_run_input_payload (jr_id job) (JObject payload)) s"
  let ?p = "on_runner (client_create_job_run (se_client E) runner (jr_runner_job_name job)
      (jr_dispatch_key job) (JObject payload)) ?s1"
  have 1: "server_effect E job False False s ?s1" by (rule step_effects)
  have 2: "server_effect E job False False ?s1 (snd ?p)"
    by (rule server_effect_quiet) simp
  note 3 = server_effect_after [OF server_effect_after [OF 1 2]]
  show ?thesis
  proof (cases ?p)
    case (Pair r t)
    have "server_effect E job a b s u" if "server_effect E job a b t u" for u
      using 3 that Pair by simp
    then show ?thesis
      using Pair unfolding create_on_runner_def Let_def
      by (cases r) (simp_all add: step_effects fail_rejected_effect)
  qed
qed

lemma start_job_effect:
  "server_effect E job True b s (snd (start_job E job runner pipeline def schema s))"
proof -
  let ?p = "resolve_job_inputs E pipeline (jr_id job) (nat (jr_job_index job)) def schema s"
  have 1: "server_effect E job False False s (snd ?p)" by (rule server_effect_quiet) simp
  show ?thesis
  proof (cases ?p)
    case (Pair r t)
    have "server_effect E job True b s u" if "server_effect E job True b t u" for u
      using server_effect_after [OF 1] that Pair by simp
    then show ?thesis
      using Pair unfolding start_job_def
      by (cases r) (simp_all add: create_on_runner_effect retry_or_fail_effect)
  qed
qed

lemma dispatch_ready_effect:
  "server_effect E job True b s (snd (dispatch_ready_job E job s))"
proof -
  have "server_effect E job True b s
      (snd (try_then (x, s) (\<lambda>json s. try_then (f json, s) (g s))))"
    if "\<And>def. server_effect E job True b s (snd (g s def s))" for x :: "(string, string) result"
      and f :: "string \<Rightarrow> (string, WorkflowDefinition) result" and g
    using that by (cases x; cases "f (projr x)") auto
  note two = this
  show ?thesis
    unfolding dispatch_ready_job_def
    by (auto simp: step_effects Let_def start_job_effect split: option.splits intro!: two)
qed

lemma dispatch_job_effect:
  "server_effect E job True b s (snd (dispatch_job E job s))"
proof -
  have "server_effect E job True b s (with_db (\<lambda>d. finalize_pipeline_status P (jr_pipeline_run_id job)
      (set_job_run_status P (jr_id job) st d)) s)" for P st
  proof -
    have 1: "server_effect E job False False s (with_db (set_job_run_status P (jr_id job) st) s)"
      by (rule step_effects)
    show ?thesis
      using server_effect_after [OF 1 step_effects(5)] by (simp add: with_db_def)
  qed
  then show ?thesis
    unfolding dispatch_job_def Let_def by (simp add: dispatch_ready_effect)
qed

lemma finish_polled_effect:
  "server_effect E job True b s (snd (finish_polled_job E job runner rid status s))"
proof -
  let ?p = "on_runner (client_get_job_logs (se_client E) runner rid) s"
  obtain lr t where p: "?p = (lr, t)" by force
  have 1: "server_effect E job False False s t"
    using server_effect_quiet [OF quiet_on_runner] p by (metis snd_conv)
  let ?q = "persist_job_outputs E runner (jr_id job) (jsr_outputs status) t"
  obtain orr u where q: "?q = (orr, u)" by force
  have 2: "server_effect E job False False t u"
    using server_effect_quiet [OF quiet_persist_all] q by (metis snd_conv)
  have fin: "server_effect E job True b t
      (snd (try_then (on_db (requeue_job_run_for_infra_retry (se_plat E) (jr_id job)) t)
        (\<lambda>_ s. (Ok (), with_db (finalize_pipeline_status (se_plat E) (jr_pipeline_run_id job)) s))))"
    if "should_retry_infra_failure job status (se_max_infra_retries E)"
    using that
    by (intro server_effect_try step_effect_requeue)
      (simp_all add: should_retry_infra_failure_def step_effects)
  have fin2: "server_effect E job True b u (snd (try_then
      (on_db (finish_job_run P (jr_id job) st du ex tr fc me so se outs) u)
      (\<lambda>_ s. (Ok (), with_db (finalize_pipeline_status P (jr_pipeline_run_id job)) s))))"
    for P st du ex tr fc me so se outs
    by (intro server_effect_try) (simp_all add: step_effects)
  have "server_effect E job True b t (snd (finish_polled_job E job runner rid status s))"
    unfolding finish_polled_job_def p prod.case Let_def q
    using fin server_effect_after [OF 2 fin2] server_effect_after [OF 2 retry_or_fail_effect]
    by (auto split: sum.splits)
  then show ?thesis by (rule server_effect_after [OF 1])
qed

lemma stuck_cancellation_effect:
  "server_effect E job False True s (snd (retry_stuck_cancellation E job runner rid s))"
proof -
  have again: "server_effect E job False True s (snd (try_then
      (on_runner (client_cancel_job_run (se_client E) runner rid) s) (\<lambda>_ s.
         try_then (on_db (record_cancel_retry (se_plat E) (jr_id job)) s) (\<lambda>_ s. (Ok False, s)))))"
    if "\<not> uint (se_max_cancel_retries E) \<le> jr_cancel_retry_count job"
  proof -
    let ?p = "on_runner (client_cancel_job_run (se_client E) runner rid) s"
    obtain r t where p: "?p = (r, t)" by force
    have 1: "server_effect E job False False s t"
      using server_effect_quiet [OF quiet_on_runner] p by (metis snd_conv)
    have "server_effect E job False True t
        (snd (try_then (on_db (record_cancel_retry (se_plat E) (jr_id job)) t) (\<lambda>_ s. (Ok False, s))))"
      using that by (intro server_effect_try step_effect_cancel_retry) auto
    from server_effect_after [OF 1 this] show ?thesis
      using p server_effect_after [OF 1 server_effect_refl] by (cases r) auto
  qed
  have start: "server_effect E job False True s (snd (try_then (x, s) f))"
    if "\<And>y. server_effect E job False True s (snd (f y s))" for x :: "(string, int) result" and f
    using that by (cases x) auto
  show ?thesis
    unfolding retry_stuck_cancellation_def
    by (auto simp: step_effects again split: option.splits intro!: start)
qed

lemma server_effect_comp:
  assumes "server_effect E job a b s t" and "server_effect E job a' b' t u"
    and "\<not> (a \<and> a')" "\<not> (b \<and> b')"
  shows "server_effect E job (a \<or> a') (b \<or> b') s u"
  using job_effect_comp assms unfolding server_effect_def by blast

lemma poll_job_effect: "server_effect E job True True s (snd (poll_job E job s))"
proof -
  have main: "server_effect E job True True s (snd (try_then
      (retry_stuck_cancellation E job runner rid s) (\<lambda>exhausted s.
         if exhausted
         then (Ok (), with_db (finalize_pipeline_status (se_plat E) (jr_pipeline_run_id job)) s)
         else F s)))"
    if F: "\<And>s. server_effect E job True False s (snd (F s))" for runner rid F
  proof -
    obtain r t where p: "retry_stuck_cancellation E job runner rid s = (r, t)" by force
    have 1: "server_effect E job False True s t"
      using stuck_cancellation_effect [of E job s runner rid] p by simp
    have "server_effect E job True True s u" if "server_effect E job True False t u" for u
      using server_effect_comp [OF 1 that] by simp
    then show ?thesis
      using p F by (cases r) (simp_all add: step_effects)
  qed
  have next_status: "server_effect E job a b s (with_db (\<lambda>d.
      finalize_pipeline_status P (jr_pipeline_run_id job) (set_job_run_status P (jr_id job) st d)) s)"
    for a b P st s
  proof -
    have 1: "server_effect E job False False s (with_db (set_job_run_status P (jr_id job) st) s)"
      by (rule step_effects)
    show ?thesis
      using server_effect_after [OF 1 step_effects(5)] by (simp add: with_db_def)
  qed
  have poll: "server_effect E job True False s (snd
      (case on_runner (client_get_job_run (se_client E) runner rid) s of
         (Err e, s) \<Rightarrow> (Ok (), s)
       | (Ok status, s) \<Rightarrow>
           if jsr_status status \<in> {Running, CancelRequested, Canceling}
           then (let next = ServerJobStatus_as_str (polled_status (jr_status job) (jsr_status status)) in
                 (Ok (), if jr_status job \<noteq> next
                   then with_db (\<lambda>d. finalize_pipeline_status (se_plat E) (jr_pipeline_run_id job)
                          (set_job_run_status (se_plat E) (jr_id job) next d)) s
                   else s))
           else finish_polled_job E job runner rid status s))" for runner rid s
  proof -
    obtain r t where p: "on_runner (client_get_job_run (se_client E) runner rid) s = (r, t)"
      by force
    have 1: "server_effect E job False False s t"
      using server_effect_quiet [OF quiet_on_runner] p by (metis snd_conv)
    show ?thesis
      unfolding p
      using server_effect_after [OF 1 next_status] server_effect_after [OF 1 finish_polled_effect]
        server_effect_after [OF 1 server_effect_refl]
      by (cases r) (simp_all add: Let_def)
  qed
  show ?thesis
    unfolding poll_job_def using main [OF poll] by (auto split: option.splits)
qed

lemma cancel_mark_effect:
  "server_effect E job a b s (with_db (mark_job_run_cancel_requested P (jr_id job) reason) s)"
  unfolding server_effect_def with_db_def
  by (rule job_effectI [where f = "\<lambda>j. j\<lparr>
       jr_status := ''cancel_requested'', jr_cancel_reason := Some reason,
       jr_cancel_requested_at :=
         (case jr_cancel_requested_at j of
            None \<Rightarrow> Some (clock P (db_seq (srv_db s))) | Some t \<Rightarrow> Some t),
       jr_finished_at := None\<rparr>"])
    (auto simp: mark_job_run_cancel_requested_def same_tables_def row_change_def)

end
