(* ===== verification/Scheduler_Invariants.thy ===== *)
theory Scheduler_Invariants
  imports Scheduler_Effects
begin

text \<open>
  Invariants of the server under everything the scheduler does, and the properties of the
  tick that follow from them.
\<close>

section \<open>Invariants of the server\<close>

text \<open>
  An invariant of the database that every operation of a tick keeps.  The operations of the
  scheduler come in through what they do to the database: a job step through its effect on
  the job's row, provided the row still has the retry counters the step has read.
\<close>

definition counters_current :: "JobRun \<Rightarrow> Db \<Rightarrow> bool" where
  "counters_current job d =
     (\<forall>j \<in> set (db_jobs d). jr_id j = jr_id job \<longrightarrow>
        jr_infra_retry_count j = jr_infra_retry_count job
        \<and> jr_cancel_retry_count j = jr_cancel_retry_count job)"

locale server_invariant =
  fixes E :: SchedEnv and I :: "Db \<Rightarrow> bool"
  assumes I_ids: "I d \<Longrightarrow> distinct (map jr_id (db_jobs d))"
    and I_effect: "I d \<Longrightarrow> counters_current job d \<Longrightarrow> job_effect E job True True d e \<Longrightarrow> I e"
    and I_quiet_effect: "I d \<Longrightarrow> job_effect E job False False d e \<Longrightarrow> I e"
    and I_pipeline: "I d \<Longrightarrow> I (snd (create_pipeline_run (se_plat E) r w v tt tr c d))"
    and I_selections: "I d \<Longrightarrow> I (snd (add_workflow_run_artifact_selections p sels d))"
    and I_job: "I d \<Longrightarrow> I (snd (create_job_run (se_plat E) p i rn n pol d))"
    and I_previous: "I d \<Longrightarrow> I (snd (add_previous_job j k d))"
    and I_event: "I d \<Longrightarrow> I (mark_push_event_processed (se_plat E) ev d)"
    and I_status: "I d \<Longrightarrow> I (set_pipeline_status (se_plat E) p st d)"
    and I_cancel: "I d \<Longrightarrow> I (mark_pipeline_cancel_requested (se_plat E) p reason d)"
    and I_health: "I d \<Longrightarrow> I (update_runner_health (se_plat E) rn h d)"
    and I_jobs: "I d \<Longrightarrow> I (snd (replace_runner_jobs rn js d))"
begin

definition holds :: "Server \<Rightarrow> bool" where "holds s = I (srv_db s)"

lemma holds_ops:
  assumes "holds s"
  shows "holds (snd (on_db (create_pipeline_run (se_plat E) r w v tt tr c) s))"
    and "holds (snd (on_db (add_workflow_run_artifact_selections p sels) s))"
    and "holds (snd (on_db (create_job_run (se_plat E) p i rn n pol) s))"
    and "holds (snd (on_db (add_previous_job j k) s))"
    and "holds (snd (on_db (replace_runner_jobs rid js) s))"
    and "holds (snd (on_runner f s))"
  using assms
  by (simp_all add: holds_def snd_on_db I_pipeline I_selections I_job I_previous I_jobs
      on_runner_def split: prod.splits)

lemma holds_with_db: "holds s \<Longrightarrow> (\<And>d. I d \<Longrightarrow> I (f d)) \<Longrightarrow> holds (with_db f s)"
  by (simp add: holds_def with_db_def)

lemma holds_try:
  assumes "holds (snd p)" and "\<And>x s. p = (Ok x, s) \<Longrightarrow> holds s \<Longrightarrow> holds (snd (f x s))"
  shows "holds (snd (try_then p f))"
  using assms by (cases "(p, f)" rule: try_then.cases) auto

lemma holds_each:
  assumes "holds s" and "\<And>x s. x \<in> set xs \<Longrightarrow> holds s \<Longrightarrow> holds (snd (f x s))"
  shows "holds (snd (each_st f xs s))"
  using assms
proof (induction xs arbitrary: s)
  case (Cons x xs)
  have "holds (snd (f x s))" using Cons.prems by simp
  then show ?case by (auto intro!: holds_try Cons.IH simp: Cons.prems(2))
qed simp

lemma holds_enqueue_jobs: "holds s \<Longrightarrow> holds (snd (enqueue_jobs E p i prev jobs s))"
proof (induction jobs arbitrary: i prev s)
  case (Cons job jobs)
  have "holds t \<Longrightarrow> holds (snd (case prev of None \<Rightarrow> (Ok (), t)
      | Some q \<Rightarrow> on_db (add_previous_job r q) t))" for t r
    by (simp add: holds_ops split: option.splits)
  then show ?case
    unfolding enqueue_jobs.simps by (intro holds_try holds_ops(3) Cons.IH Cons.prems)
qed simp

lemma holds_enqueue:
  assumes "holds s"
  shows "holds (snd (enqueue_workflow_run_with_artifacts E w tt tr c sels s))"
proof -
  have "holds t \<Longrightarrow> holds (snd (try_then (se_parse_definition E js, t) (\<lambda>def s.
      try_then (WorkflowDefinition_validate def, s) (\<lambda>_ s.
      try_then (on_db (create_pipeline_run (se_plat E) r w v tt tr c) s) (\<lambda>pid s.
      try_then (on_db (add_workflow_run_artifact_selections pid sels) s) (\<lambda>_ s.
      try_then (enqueue_jobs E pid 0 None (wd_jobs def) s) (\<lambda>_ s. (Ok pid, s))))))))"
    for t js r w v
    by (intro holds_try holds_ops(1,2) holds_enqueue_jobs) simp_all
  then show ?thesis
    unfolding enqueue_workflow_run_with_artifacts_def
    by (intro holds_try) (simp_all add: assms)
qed

lemma holds_push_events: "holds s \<Longrightarrow> holds (snd (process_push_events E s))"
proof -
  have ref: "holds t \<Longrightarrow> holds (snd (process_push_ref E w trig r t))" for t w trig r
    using holds_enqueue [of t w "''push''" "Some (ref_name r)" "Some (new_rev r)" "[]"]
    by (auto simp: process_push_ref_def enqueue_workflow_run_def split: prod.splits sum.splits)
  have wf: "holds t \<Longrightarrow> holds (snd (process_push_workflow E ev w t))" for t ev w
    unfolding process_push_workflow_def by (intro holds_try) (auto intro!: holds_each ref)
  have ev: "holds t \<Longrightarrow> holds (snd (process_push_event E ev t))" for t ev
    unfolding process_push_event_def
    by (intro holds_try) (auto intro!: holds_each wf holds_with_db I_event)
  show "holds s \<Longrightarrow> holds (snd (process_push_events E s))"
    unfolding process_push_events_def by (intro holds_each ev)
qed

lemma holds_recover: "holds s \<Longrightarrow> holds (recover_incomplete_pipelines E s)"
proof -
  have "holds t \<Longrightarrow> holds (fold (\<lambda>p. with_db (set_pipeline_status (se_plat E) (pl_id p)
      (PipelineStatus_as_str (recovered_status (pl_status p))))) ps t)" for ps t
    by (induction ps arbitrary: t) (auto intro!: holds_with_db I_status)
  then show "holds s \<Longrightarrow> holds (recover_incomplete_pipelines E s)"
    by (simp add: recover_incomplete_pipelines_def)
qed

text \<open>
  The loops over jobs: the jobs were read at the start, and a step for one of them leaves the
  rows of the others alone, so each step still finds the counters it has read.
\<close>

lemma counters_current_other:
  assumes "job_effect E job a b d e" and "jr_id other \<noteq> jr_id job" and "counters_current other d"
  shows "counters_current other e"
proof -
  obtain f where f: "row_change E job a b (db_seq d) (db_seq e) f"
    "db_jobs e = update_rows jr_id (jr_id job) f (db_jobs d)"
    using assms(1) unfolding job_effect_def by blast
  then show ?thesis
    using assms(2,3) by (auto simp: counters_current_def update_rows_def row_change_def)
qed

lemma holds_job_loop:
  assumes "distinct (map jr_id jobs)" and "\<forall>job \<in> set jobs. counters_current job (srv_db s)"
    and "holds s" and step: "\<And>job s. server_effect E job True True s (snd (f job s))"
  shows "holds (snd (each_st f jobs s))"
  using assms(1-3)
proof (induction jobs arbitrary: s)
  case (Cons job jobs)
  obtain r t where fs: "f job s = (r, t)" by force
  have eff: "job_effect E job True True (srv_db s) (srv_db t)"
    using step [of job s] fs by (simp add: server_effect_def)
  have "holds t"
    using I_effect [OF _ _ eff] Cons.prems by (simp add: holds_def)
  moreover have "\<forall>other \<in> set jobs. counters_current other (srv_db t)"
    using counters_current_other [OF eff] Cons.prems(1,2) by (auto simp: image_iff)
  ultimately have "holds (snd (each_st f jobs t))" using Cons.IH [of t] Cons.prems(1) by simp
  then show ?case using fs \<open>holds t\<close> by (cases r) simp_all
qed simp

lemma listed_jobs_current:
  assumes "holds s"
  shows "distinct (map jr_id (list_job_runs_by_status sts (srv_db s)))"
    and "\<forall>job \<in> set (list_job_runs_by_status sts (srv_db s)). counters_current job (srv_db s)"
proof -
  have d: "distinct (map jr_id (db_jobs (srv_db s)))" using assms I_ids by (simp add: holds_def)
  then show "distinct (map jr_id (list_job_runs_by_status sts (srv_db s)))"
    by (auto simp: list_job_runs_by_status_def intro: distinct_map_filter)
  show "\<forall>job \<in> set (list_job_runs_by_status sts (srv_db s)). counters_current job (srv_db s)"
    using d by (auto simp: list_job_runs_by_status_def counters_current_def distinct_map dest: inj_onD)
qed

lemma holds_dispatch: "holds s \<Longrightarrow> holds (snd (dispatch_pending_jobs E s))"
  unfolding dispatch_pending_jobs_def
  by (rule holds_job_loop [OF listed_jobs_current _ dispatch_job_effect])

lemma holds_poll: "holds s \<Longrightarrow> holds (snd (poll_running_jobs E s))"
  unfolding poll_running_jobs_def
  by (rule holds_job_loop [OF listed_jobs_current _ poll_job_effect])

lemma holds_tick: "holds s \<Longrightarrow> holds (snd (reconcile_once E s))"
  unfolding reconcile_once_def
  by (intro holds_try holds_push_events holds_recover holds_dispatch holds_poll)

lemma holds_cancel_jobs: "holds s \<Longrightarrow> holds (snd (cancel_jobs E jobs req s))"
proof (induction jobs arbitrary: req s)
  case (Cons job jobs)
  have mark: "holds t \<Longrightarrow> holds (with_db (mark_job_run_cancel_requested (se_plat E) (jr_id job) reason) t)"
    for t reason
    using cancel_mark_effect [of E job False False t] I_quiet_effect
    unfolding server_effect_def holds_def by blast
  have status: "holds t \<Longrightarrow> holds (with_db (set_job_run_status (se_plat E) (jr_id job) st) t)" for t st
    using step_effects(3) [of E job False False t] I_quiet_effect
    unfolding server_effect_def holds_def by blast
  have tail: "holds t \<Longrightarrow> holds (snd (cancel_jobs E jobs req (if jr_status job = ''pending''
      then with_db (set_job_run_status (se_plat E) (jr_id job) ''canceled'') t else t)))" for req t
    by (simp add: Cons.IH status)
  have "holds (snd (try_then (on_runner f s)
      (\<lambda>_ s. (Ok True, with_db (mark_job_run_cancel_requested (se_plat E) (jr_id job) r) s))))"
    for f :: "sent \<Rightarrow> (string, unit) result \<times> sent" and r
    by (intro holds_try holds_ops(6) Cons.prems) (simp add: mark)
  then show ?case
    unfolding cancel_jobs.simps
    by (intro holds_try tail) (simp_all add: Cons.prems split: option.splits bool.splits)
qed simp

lemma holds_cancel: "holds s \<Longrightarrow> holds (snd (cancel_pipeline E p s))"
  unfolding cancel_pipeline_def
  by (intro holds_try holds_cancel_jobs) (auto intro!: holds_with_db I_status I_cancel)

lemma holds_runner_step: "on_runner f t = (r, u) \<Longrightarrow> holds t \<Longrightarrow> holds u"
  using holds_ops(6) [of t f] by simp

lemma holds_health: "holds s \<Longrightarrow> holds (snd (refresh_runner_health E s))"
proof -
  have "holds t \<Longrightarrow> holds (snd (refresh_one_runner E r t))" for t r
  proof -
    assume t: "holds t"
    obtain x u where p: "on_runner (capabilities (se_client E) r) t = (x, u)" by force
    obtain y v where q: "on_runner (list_jobs (se_client E) r) u = (y, v)" by force
    have u: "holds u" by (rule holds_runner_step [OF p t])
    have v: "holds v" by (rule holds_runner_step [OF q u])
    have "holds (snd (try_then (on_db (replace_runner_jobs (rn_id r) js) v)
        (\<lambda>_ s. (Ok (), with_db (update_runner_health (se_plat E) (rn_id r) ''healthy'') s))))" for js
      by (intro holds_try holds_ops(5) v) (simp add: holds_with_db I_health)
    then show ?thesis
      unfolding refresh_one_runner_def p using q u v
      by (cases x; cases y) (simp_all add: holds_with_db I_health)
  qed
  then show "holds s \<Longrightarrow> holds (snd (refresh_runner_health E s))"
    unfolding refresh_runner_health_def by (intro holds_each)
qed

end

section \<open>The tables stay well-formed\<close>

text \<open>
  Identifiers and dispatch keys are unique and were drawn before; every job belongs to a
  pipeline and a runner that exist and has its row of logs; predecessors exist.
\<close>

definition issued :: "(nat \<Rightarrow> string) \<Rightarrow> nat \<Rightarrow> string \<Rightarrow> bool" where
  "issued ids n x = (\<exists>m < n. x = ids m)"

definition job_row_ok :: "DbPlat \<Rightarrow> nat \<Rightarrow> string set \<Rightarrow> string set \<Rightarrow> JobRun \<Rightarrow> bool" where
  "job_row_ok P n pids rids j =
     (issued (uuid_text P) n (jr_id j)
      \<and> issued (next_dispatch_idempotency_key P) n (jr_dispatch_key j)
      \<and> jr_pipeline_run_id j \<in> pids \<and> jr_runner_id j \<in> rids)"

definition db_wf :: "DbPlat \<Rightarrow> Db \<Rightarrow> bool" where
  "db_wf P d =
     (distinct (map jr_id (db_jobs d)) \<and> distinct (map jr_dispatch_key (db_jobs d))
      \<and> distinct (map pl_id (db_pipelines d))
      \<and> (\<forall>j \<in> set (db_jobs d). job_row_ok P (db_seq d) (set (map pl_id (db_pipelines d)))
             (set (map rn_id (db_runners d))) j)
      \<and> (\<forall>i \<in> set (map pl_id (db_pipelines d)). issued (uuid_text P) (db_seq d) i)
      \<and> set (db_previous d) \<subseteq> set (map jr_id (db_jobs d)) \<times> set (map jr_id (db_jobs d))
      \<and> map jl_job_run_id (db_logs d) = map jr_id (db_jobs d))"

lemma issued_mono: "issued ids m x \<Longrightarrow> m \<le> n \<Longrightarrow> issued ids n x"
  by (auto simp: issued_def intro: order_less_le_trans)

lemma issued_fresh: "inj ids \<Longrightarrow> issued ids m x \<Longrightarrow> m \<le> n \<Longrightarrow> x \<noteq> ids n"
  by (auto simp: issued_def inj_eq)

lemma issued_new: "m < n \<Longrightarrow> issued ids n (ids m)"
  by (auto simp: issued_def)

lemma job_row_ok_mono:
  "job_row_ok P m ps rs j \<Longrightarrow> m \<le> n \<Longrightarrow> ps \<subseteq> ps' \<Longrightarrow> rs \<subseteq> rs' \<Longrightarrow> job_row_ok P n ps' rs' j"
  by (auto simp: job_row_ok_def intro: issued_mono)

lemma inj_dispatch_key: "inj (uuid_simple P) \<Longrightarrow> inj (next_dispatch_idempotency_key P)"
  by (auto simp: inj_def next_dispatch_idempotency_key_def)

lemma distinct_update_rows:
  assumes "distinct (map idf rows)" and "distinct (map key rows)"
    and "\<forall>r \<in> set rows. key (f r) = key r \<or> key (f r) \<notin> key ` set rows"
  shows "distinct (map key (update_rows idf i f rows))"
  using assms
proof (induction rows)
  case (Cons r rows)
  have IH: "distinct (map key (update_rows idf i f rows))" using Cons by auto
  show ?case
  proof (cases "idf r = i")
    case True
    then have "i \<notin> idf ` set rows" using Cons.prems(1) by auto
    then have same: "update_rows idf i f rows = rows"
      by (auto simp: update_rows_def intro!: map_idI)
    show ?thesis
      using Cons.prems(2,3) IH True same by (auto simp: update_rows_def)
  next
    case False
    have "key r \<noteq> key x" "key r \<noteq> key (f x)" if "x \<in> set rows" for x
      using Cons.prems(2,3) that by (auto simp: image_iff) metis+
    then have "key r \<noteq> key (if idf x = i then f x else x)" if "x \<in> set rows" for x
      using that by simp
    then have "key r \<notin> set (map key (update_rows idf i f rows))"
      unfolding update_rows_def set_map by blast
    moreover have "update_rows idf i f (r # rows) = r # update_rows idf i f rows"
      using False by (simp add: update_rows_def)
    ultimately show ?thesis using IH by simp
  qed
qed (simp add: update_rows_def)

lemma set_update_rows: "set (update_rows key i f rows) = (\<lambda>r. if key r = i then f r else r) ` set rows"
  by (simp add: update_rows_def)

lemma db_wf_effect:
  assumes wf: "db_wf (se_plat E) d" and inj: "inj (uuid_simple (se_plat E))"
    and eff: "job_effect E job a b d e"
  shows "db_wf (se_plat E) e"
proof -
  let ?key = "next_dispatch_idempotency_key (se_plat E)"
  obtain f g where tables: "same_tables d e"
    and f: "row_change E job a b (db_seq d) (db_seq e) f"
    and jobs: "db_jobs e = update_rows jr_id (jr_id job) f (db_jobs d)"
    and g: "status_change g"
    and pipes: "db_pipelines e = update_rows pl_id (jr_pipeline_run_id job) g (db_pipelines d)"
    using eff unfolding job_effect_def by blast
  have ids: "map jr_id (db_jobs e) = map jr_id (db_jobs d)"
    using f jobs by (simp add: row_change_def)
  have pids: "map pl_id (db_pipelines e) = map pl_id (db_pipelines d)"
    using g pipes by (simp add: status_change_def)
  have seq: "db_seq d \<le> db_seq e" and runners: "db_runners e = db_runners d"
    using tables by (simp_all add: same_tables_def)
  have key: "jr_dispatch_key (f j) = jr_dispatch_key j \<or>
      (\<exists>i. db_seq d \<le> i \<and> i < db_seq e \<and> jr_dispatch_key (f j) = ?key i)" for j
    using f by (simp add: row_change_def)
  have old: "issued ?key (db_seq d) (jr_dispatch_key j)" if "j \<in> set (db_jobs d)" for j
    using wf that by (simp add: db_wf_def job_row_ok_def)
  have "jr_dispatch_key (f r) = jr_dispatch_key r \<or>
      jr_dispatch_key (f r) \<notin> jr_dispatch_key ` set (db_jobs d)" for r
    using key [of r] issued_fresh [OF inj_dispatch_key [OF inj] old] by force
  then have keys: "distinct (map jr_dispatch_key (db_jobs e))"
    using wf distinct_update_rows [of jr_id "db_jobs d" jr_dispatch_key f]
    unfolding jobs db_wf_def by blast
  have rows: "job_row_ok (se_plat E) (db_seq e) (set (map pl_id (db_pipelines e)))
      (set (map rn_id (db_runners e))) j" if j: "j \<in> set (db_jobs e)" for j
  proof -
    obtain r where r: "r \<in> set (db_jobs d)" "j = r \<or> j = f r"
      using j unfolding jobs set_update_rows by auto
    have "job_row_ok (se_plat E) (db_seq d) (set (map pl_id (db_pipelines d)))
        (set (map rn_id (db_runners d))) r"
      using wf r(1) by (simp add: db_wf_def)
    then have ok: "job_row_ok (se_plat E) (db_seq e) (set (map pl_id (db_pipelines e)))
        (set (map rn_id (db_runners e))) r"
      using seq job_row_ok_mono unfolding pids runners by blast
    have "issued ?key (db_seq e) (jr_dispatch_key (f r))"
      using key [of r] ok issued_new [of _ "db_seq e" ?key] by (auto simp: job_row_ok_def)
    then show ?thesis
      using ok r(2) f by (auto simp: job_row_ok_def row_change_def)
  qed
  show ?thesis
    using wf rows keys seq tables issued_mono [OF _ seq]
    unfolding db_wf_def same_tables_def ids pids by auto
qed

lemma db_wf_cong:
  assumes "db_wf P d" and "db_seq d \<le> db_seq e" and "db_jobs e = db_jobs d"
    and "map pl_id (db_pipelines e) = map pl_id (db_pipelines d)"
    and "map rn_id (db_runners e) = map rn_id (db_runners d)"
    and "db_previous e = db_previous d" and "db_logs e = db_logs d"
  shows "db_wf P e"
  using assms(1) job_row_ok_mono [OF _ assms(2) subset_refl subset_refl] issued_mono [OF _ assms(2)]
  unfolding db_wf_def assms(3-7) by blast

lemma db_wf_create_pipeline:
  assumes "db_wf P d" and "inj (uuid_text P)"
  shows "db_wf P (snd (create_pipeline_run P r w v tt tr c d))"
proof -
  have fresh: "uuid_text P (db_seq d) \<notin> set (map pl_id (db_pipelines d))"
    using assms issued_fresh [OF assms(2)] unfolding db_wf_def by blast
  have rows: "job_row_ok P (db_seq d) ps rs j \<Longrightarrow>
      job_row_ok P (Suc (db_seq d)) (insert x ps) rs j" for x ps rs j
    by (rule job_row_ok_mono) auto
  show ?thesis
    using assms(1) fresh rows issued_mono [of _ "db_seq d" _ "Suc (db_seq d)"] issued_new
    unfolding create_pipeline_run_def db_wf_def Let_def by auto
qed

lemma find_present: "find Q xs \<noteq> None \<Longrightarrow> \<exists>x \<in> set xs. Q x"
  by (auto simp: find_None_iff)

lemma db_wf_append_job:
  assumes wf: "db_wf P d" and inj: "inj (uuid_text P)" "inj (uuid_simple P)"
    and new: "db_jobs e = db_jobs d @ [j]" "db_logs e = db_logs d @ [l]" "jl_job_run_id l = jr_id j"
      "jr_id j = uuid_text P m" "jr_dispatch_key j = next_dispatch_idempotency_key P n"
      "db_seq d \<le> m" "db_seq d \<le> n" "m < db_seq e" "n < db_seq e"
      "jr_pipeline_run_id j \<in> set (map pl_id (db_pipelines d))"
      "jr_runner_id j \<in> set (map rn_id (db_runners d))"
    and same: "db_pipelines e = db_pipelines d" "db_runners e = db_runners d"
      "db_previous e = db_previous d"
  shows "db_wf P e"
proof -
  have seq: "db_seq d \<le> db_seq e" using new by simp
  have rows: "job_row_ok P (db_seq e) (set (map pl_id (db_pipelines e)))
      (set (map rn_id (db_runners e))) k" if "k \<in> set (db_jobs d)" for k
    using wf that job_row_ok_mono [OF _ seq subset_refl subset_refl] unfolding db_wf_def same by blast
  have row: "job_row_ok P (db_seq e) (set (map pl_id (db_pipelines e)))
      (set (map rn_id (db_runners e))) j"
    using new issued_new [of m "db_seq e"] issued_new [of n "db_seq e"]
    unfolding job_row_ok_def same by (auto simp: issued_def)
  have ids: "jr_id j \<notin> set (map jr_id (db_jobs d))"
    using wf issued_fresh [OF inj(1) _ new(6)] new(4)
    unfolding db_wf_def job_row_ok_def set_map by (metis imageE)
  have keys: "jr_dispatch_key j \<notin> set (map jr_dispatch_key (db_jobs d))"
    using wf issued_fresh [OF inj_dispatch_key [OF inj(2)] _ new(7)] new(5)
    unfolding db_wf_def job_row_ok_def set_map by (metis imageE)
  have pids: "\<forall>i \<in> set (map pl_id (db_pipelines d)). issued (uuid_text P) (db_seq e) i"
    using wf issued_mono [OF _ seq] unfolding db_wf_def by blast
  show ?thesis
    using wf rows row ids keys pids unfolding db_wf_def new(1,2) same by (auto simp: new(3))
qed

lemma db_wf_create_job:
  assumes wf: "db_wf P d" and inj: "inj (uuid_text P)" "inj (uuid_simple P)"
  shows "db_wf P (snd (create_job_run P p i rn n pol d))"
proof (cases "get_pipeline_run p d = None \<or> get_runner rn d = None")
  case False
  then have p: "p \<in> set (map pl_id (db_pipelines d))" and r: "rn \<in> set (map rn_id (db_runners d))"
    using find_present [of "\<lambda>q. pl_id q = p" "db_pipelines d"]
      find_present [of "\<lambda>q. rn_id q = rn" "db_runners d"]
    by (auto simp: get_pipeline_run_def get_runner_def)
  show ?thesis
    unfolding create_job_run_def if_not_P [OF False] Let_def
    by (rule db_wf_append_job [OF wf inj, where m = "db_seq d" and n = "Suc (db_seq d)"],
        simp, simp, use p r in simp_all)
qed (simp add: create_job_run_def wf)

lemma db_wf_add_previous:
  assumes "db_wf P d"
  shows "db_wf P (snd (add_previous_job j k d))"
  using assms find_present [of "\<lambda>r. jr_id r = j" "db_jobs d"]
    find_present [of "\<lambda>r. jr_id r = k" "db_jobs d"]
  unfolding add_previous_job_def db_wf_def get_job_run_def by auto

lemma insert_selections_tables:
  "insert_selections p sels d = Ok e \<Longrightarrow> \<exists>x. e = d\<lparr>db_selections := x\<rparr>"
proof (induction p sels d rule: insert_selections.induct)
  case (1 p d)
  then have "e = d\<lparr>db_selections := db_selections d\<rparr>" by simp
  then show ?case by blast
next
  case (2 p s ss d)
  then show ?case by (auto split: if_splits)
qed

lemma db_wf_selections:
  assumes "db_wf P d"
  shows "db_wf P (snd (add_workflow_run_artifact_selections p sels d))"
proof (cases "insert_selections p sels d")
  case (Inr e)
  then show ?thesis
    using insert_selections_tables [OF Inr] assms db_wf_cong [OF assms]
    by (auto simp: add_workflow_run_artifact_selections_def)
qed (simp add: add_workflow_run_artifact_selections_def assms)

text \<open>The retry counters stay within the budgets of the configuration.\<close>

definition within_budgets :: "SchedEnv \<Rightarrow> Db \<Rightarrow> bool" where
  "within_budgets E d =
     (\<forall>j \<in> set (db_jobs d).
        0 \<le> jr_infra_retry_count j \<and> jr_infra_retry_count j \<le> uint (se_max_infra_retries E)
        \<and> 0 \<le> jr_cancel_retry_count j \<and> jr_cancel_retry_count j \<le> uint (se_max_cancel_retries E))"

lemma within_budgets_cong: "db_jobs e = db_jobs d \<Longrightarrow> within_budgets E e = within_budgets E d"
  by (simp add: within_budgets_def)

lemma within_budgets_effect:
  assumes "within_budgets E d" and eff: "job_effect E job a b d e"
    and cur: "a \<or> b \<longrightarrow> counters_current job d"
  shows "within_budgets E e"
proof -
  obtain f where f: "row_change E job a b (db_seq d) (db_seq e) f"
    and jobs: "db_jobs e = update_rows jr_id (jr_id job) f (db_jobs d)"
    using eff unfolding job_effect_def by blast
  have "0 \<le> jr_infra_retry_count (f j) \<and> jr_infra_retry_count (f j) \<le> uint (se_max_infra_retries E)
      \<and> 0 \<le> jr_cancel_retry_count (f j) \<and> jr_cancel_retry_count (f j) \<le> uint (se_max_cancel_retries E)"
    if j: "j \<in> set (db_jobs d)" "jr_id j = jr_id job" for j
  proof -
    have old: "0 \<le> jr_infra_retry_count j" "jr_infra_retry_count j \<le> uint (se_max_infra_retries E)"
      "0 \<le> jr_cancel_retry_count j" "jr_cancel_retry_count j \<le> uint (se_max_cancel_retries E)"
      using assms(1) j(1) by (auto simp: within_budgets_def)
    have same: "a \<or> b \<longrightarrow> jr_infra_retry_count j = jr_infra_retry_count job
        \<and> jr_cancel_retry_count j = jr_cancel_retry_count job"
      using cur j by (auto simp: counters_current_def)
    have infra: "jr_infra_retry_count (f j) = jr_infra_retry_count j \<or>
        a \<and> jr_infra_retry_count job < uint (se_max_infra_retries E)
          \<and> jr_infra_retry_count (f j) = jr_infra_retry_count j + 1"
      using f unfolding row_change_def by blast
    have cancel: "jr_cancel_retry_count (f j) \<in> {jr_cancel_retry_count j, 0} \<or>
        b \<and> jr_cancel_retry_count job < uint (se_max_cancel_retries E)
          \<and> jr_cancel_retry_count (f j) \<in> {jr_cancel_retry_count j + 1, 1}"
      using f unfolding row_change_def by blast
    show ?thesis using old same infra cancel by auto
  qed
  then show ?thesis
    using assms(1) by (auto simp: within_budgets_def jobs update_rows_def)
qed

lemma within_budgets_create_job:
  "within_budgets E d \<Longrightarrow> within_budgets E (snd (create_job_run P p i rn n pol d))"
  by (auto simp: within_budgets_def create_job_run_def Let_def)

lemma other_ops_jobs [server_frames]:
  "db_jobs (snd (create_pipeline_run P r w v tt tr c d)) = db_jobs d"
  "db_jobs (snd (add_workflow_run_artifact_selections p sels d)) = db_jobs d"
  "db_jobs (snd (add_previous_job j k d)) = db_jobs d"
  "db_jobs (mark_push_event_processed P ev d) = db_jobs d"
  "db_jobs (set_pipeline_status P p st d) = db_jobs d"
  "db_jobs (mark_pipeline_cancel_requested P p reason d) = db_jobs d"
  "db_jobs (update_runner_health P rn h d) = db_jobs d"
  "db_jobs (snd (replace_runner_jobs rn js d)) = db_jobs d"
  by (auto simp: create_pipeline_run_def add_workflow_run_artifact_selections_def
      add_previous_job_def mark_push_event_processed_def set_pipeline_status_def
      mark_pipeline_cancel_requested_def update_runner_health_def replace_runner_jobs_def Let_def
      split: sum.splits dest: insert_selections_tables)

lemma db_wf_other_ops:
  assumes "db_wf P d"
  shows "db_wf P (mark_push_event_processed P ev d)" "db_wf P (set_pipeline_status P p st d)"
    "db_wf P (mark_pipeline_cancel_requested P p reason d)"
    "db_wf P (update_runner_health P rn h d)" "db_wf P (snd (replace_runner_jobs rn js d))"
  by (rule db_wf_cong [OF assms];
      simp add: mark_push_event_processed_def set_pipeline_status_def pipeline_status_row_def
        mark_pipeline_cancel_requested_def update_runner_health_def replace_runner_jobs_def)+

text \<open>The two invariants, and with them that the platform's identifiers do not repeat.\<close>

definition server_wf :: "SchedEnv \<Rightarrow> Db \<Rightarrow> bool" where
  "server_wf E d =
     (inj (uuid_text (se_plat E)) \<and> inj (uuid_simple (se_plat E)) \<and> db_wf (se_plat E) d)"

lemma server_wf_ids: "server_wf E d \<Longrightarrow> distinct (map jr_id (db_jobs d))"
  by (simp add: server_wf_def db_wf_def)

lemma server_wf_effect: "server_wf E d \<Longrightarrow> job_effect E job a b d e \<Longrightarrow> server_wf E e"
  by (auto simp: server_wf_def intro: db_wf_effect)

interpretation tables: server_invariant E "server_wf E" for E
proof
  show "distinct (map jr_id (db_jobs d))" if "server_wf E d" for d
    using that by (rule server_wf_ids)
  show "server_wf E e" if "server_wf E d" "job_effect E job False False d e" for job d e
    using that by (rule server_wf_effect)
  show "server_wf E e" if "server_wf E d" "job_effect E job True True d e" for job d e
    using that by (rule server_wf_effect)
qed (simp_all add: server_wf_def db_wf_other_ops db_wf_create_pipeline db_wf_create_job
      db_wf_add_previous db_wf_selections)

interpretation budgets: server_invariant E "\<lambda>d. server_wf E d \<and> within_budgets E d" for E
proof
  show "distinct (map jr_id (db_jobs d))" if "server_wf E d \<and> within_budgets E d" for d
    using that server_wf_ids by blast
  show "server_wf E e \<and> within_budgets E e"
    if "server_wf E d \<and> within_budgets E d" "job_effect E job False False d e" for job d e
    using that server_wf_effect within_budgets_effect [of E d job False False e] by blast
  show "server_wf E e \<and> within_budgets E e"
    if "server_wf E d \<and> within_budgets E d" "counters_current job d" "job_effect E job True True d e"
    for job d e
    using that server_wf_effect within_budgets_effect by blast
qed (simp_all add: tables.I_pipeline tables.I_selections tables.I_job tables.I_previous
      tables.I_event tables.I_status tables.I_cancel tables.I_health tables.I_jobs
      other_ops_jobs within_budgets_create_job within_budgets_cong [OF other_ops_jobs(1)]
      within_budgets_cong [OF other_ops_jobs(2)] within_budgets_cong [OF other_ops_jobs(3)]
      within_budgets_cong [OF other_ops_jobs(4)] within_budgets_cong [OF other_ops_jobs(5)]
      within_budgets_cong [OF other_ops_jobs(6)] within_budgets_cong [OF other_ops_jobs(7)]
      within_budgets_cong [OF other_ops_jobs(8)])

end
