(* ===== verification/Scheduler_Demo.thy ===== *)
theory Scheduler_Demo
  imports Scheduler
begin

text \<open>
  A small concrete server, on which the properties of the scheduler are instantiated: one
  repository, two runners and a workflow of three jobs, with a run of it whose jobs have the
  given statuses.  The network is a parameter.
\<close>

definition uid :: "nat \<Rightarrow> string" where "uid n = replicate n (CHR ''u'')"

definition demo_plat :: DbPlat where
  "demo_plat = \<lparr>uuid_text = uid, uuid_simple = uid, clock = (\<lambda>n. replicate n (CHR ''t''))\<rparr>"

definition demo_reply :: "nat \<Rightarrow> string \<Rightarrow> HttpReply" where
  "demo_reply status body =
     \<lparr>hr_status = status, hr_retry_after = None, hr_content_length = None,
      hr_chunks = [body], hr_fault = None\<rparr>"

definition demo_created :: "string \<Rightarrow> JobCreatedResponse" where
  "demo_created body = \<lparr>jcr_job_id = body, jcr_status = Running, jcr_started_at = ''t''\<rparr>"

definition demo_status :: "JobStatus \<Rightarrow> FailureCategory option \<Rightarrow> (string \<times> JobOutput) list \<Rightarrow> JobStatusResponse" where
  "demo_status st cat outs =
     \<lparr>jsr_job_id = ''x'', jsr_name = ''build'', jsr_status = st, jsr_started_at = ''t'',
      jsr_finished_at = None, jsr_duration_ms = None, jsr_exit_code = None,
      jsr_terminal_reason = None, jsr_failure_category = cat, jsr_outputs = outs,
      jsr_output_metadata = JobOutputMetadata_default\<rparr>"

definition demo_client ::
    "(nat \<Rightarrow> ClientRequest \<Rightarrow> (string, HttpReply) result) \<Rightarrow> RunnerClient" where
  "demo_client net =
     \<lparr>cl_send = net, cl_sign = (\<lambda>_ _ _ _. []),
      cl_reason = (\<lambda>n. if n = 409 then ''Conflict'' else ''Status''),
      cl_lossy = (\<lambda>s. s), cl_json_text = (\<lambda>_. []), cl_parse_json = (\<lambda>_. None),
      cl_parse_created = (\<lambda>b. Ok (demo_created b)),
      cl_parse_status = (\<lambda>b. Ok (demo_status Success None [])),
      cl_parse_logs = (\<lambda>b. Ok \<lparr>jlr_stdout = b, jlr_stderr = []\<rparr>),
      cl_parse_upload = (\<lambda>b. Ok \<lparr>aur_artifact_id = b, aur_sha256 = [], aur_size = 0,
                                aur_expires_at = []\<rparr>),
      cl_parse_capabilities = (\<lambda>_. Err ''bad''), cl_parse_jobs = (\<lambda>_. Err ''bad''),
      cl_runner_json_bytes = 100, cl_runner_logs_bytes = 100, cl_runner_artifact_bytes = 100,
      cl_runner_error_bytes = 100\<rparr>"

definition demo_schema3 :: "string \<Rightarrow> JobDefinitionResponse" where
  "demo_schema3 name = JobDefinitionResponse_default\<lparr>jdr_name := name\<rparr>"

definition demo_wjob :: "string \<Rightarrow> string \<Rightarrow> WorkflowJobDefinition" where
  "demo_wjob runner name =
     \<lparr>wj_runner_id = runner, wj_runner_job_name = name, wj_inputs = [],
      wj_outcome_policy = Required\<rparr>"

definition demo_def3 :: WorkflowDefinition where
  "demo_def3 = \<lparr>wd_jobs = [demo_wjob (uid 1) ''build'', demo_wjob (uid 8) ''test'',
                           demo_wjob (uid 1) ''deploy'']\<rparr>"

definition demo_env ::
    "(nat \<Rightarrow> ClientRequest \<Rightarrow> (string, HttpReply) result) \<Rightarrow> SchedEnv" where
  "demo_env net =
     \<lparr>se_plat = demo_plat, se_client = demo_client net,
      se_parse_definition = (\<lambda>_. Ok demo_def3),
      se_parse_trigger = (\<lambda>_. Ok \<lparr>trigger_kind = ''push'', trigger_branches = []\<rparr>),
      se_glob = (\<lambda>_. None), se_elapsed_seconds = (\<lambda>_ _. Ok 0),
      se_sha256_hex = (\<lambda>_. []), se_canonicalize = Ok, se_write_fault = (\<lambda>_. None),
      se_git_archive = (\<lambda>_ _ _ _. (None, Err ''git archive failed'')),
      se_data_dir = ''/data'', se_artifact_root = ''/data/server-artifacts'',
      se_max_artifact_bytes = 100, se_cancel_stuck_timeout_seconds = 60,
      se_max_cancel_retries = 2, se_max_infra_retries = 2\<rparr>"

definition demo_job :: "nat \<Rightarrow> nat \<Rightarrow> string \<Rightarrow> string \<Rightarrow> string \<Rightarrow> JobRun" where
  "demo_job n i runner name status =
     \<lparr>jr_id = uid n, jr_pipeline_run_id = uid 4, jr_job_index = int i, jr_runner_id = runner,
      jr_runner_job_name = name, jr_dispatch_key = next_dispatch_idempotency_key demo_plat n,
      jr_runner_run_id = (if status = ''running'' then Some ''x'' else None),
      jr_status = status, jr_outcome_policy = Required, jr_started_at = None,
      jr_duration_ms = None, jr_exit_code = None, jr_terminal_reason = None,
      jr_failure_category = None, jr_cancel_reason = None, jr_cancel_requested_at = None,
      jr_cancel_started_at = None, jr_cancel_retry_count = 0, jr_last_cancel_retry_at = None,
      jr_infra_retry_count = 1, jr_last_infra_retry_at = None, jr_finished_at = None,
      jr_output_metadata = JobOutputMetadata_default\<rparr>"

definition demo_pipeline :: "string \<Rightarrow> PipelineRun" where
  "demo_pipeline status =
     \<lparr>pl_id = uid 4, pl_repo_id = uid 0, pl_workflow_id = uid 2,
      pl_workflow_version_id = uid 3, pl_trigger_type = ''push'', pl_trigger_ref = None,
      pl_commit_sha = Some ''c'', pl_status = status, pl_started_at = ''t'',
      pl_cancel_reason = None, pl_cancel_requested_at = None, pl_cancel_started_at = None,
      pl_finished_at = None\<rparr>"

definition demo_runner :: "nat \<Rightarrow> string \<Rightarrow> Runner" where
  "demo_runner n name =
     \<lparr>rn_id = uid n, rn_name = name, rn_base_url = ''http://'' @ name, rn_enabled = True,
      rn_last_health_state = ''healthy'', rn_last_seen_at = None, rn_created_at = ''t''\<rparr>"

definition demo_wf3 :: Workflow where
  "demo_wf3 =
     \<lparr>wf_id = uid 2, wf_repo_id = uid 0, wf_name = ''ci'', wf_enabled = True,
      wf_created_at = ''t'', wf_version = 1, wf_version_id = uid 3, wf_trigger_json = [],
      wf_definition_json = []\<rparr>"

definition demo_db3 :: "string \<Rightarrow> string \<Rightarrow> string \<Rightarrow> string \<Rightarrow> Db" where
  "demo_db3 pst a b c = empty_db\<lparr>
     db_seq := 10,
     db_repos := [\<lparr>repo_id = uid 0, repo_name = ''r'', repo_normalized_name = ''r'',
       repo_bare_path = ''/r'', repo_default_branch = ''main'', repo_created_at = ''t''\<rparr>],
     db_runners := [demo_runner 1 ''one'', demo_runner 8 ''two''],
     db_runner_jobs := [(uid 1, demo_schema3 ''build''), (uid 1, demo_schema3 ''deploy''),
       (uid 8, demo_schema3 ''test'')],
     db_workflows := [\<lparr>wr_id = uid 2, wr_repo_id = uid 0, wr_name = ''ci'', wr_enabled = True,
       wr_created_at = ''t''\<rparr>],
     db_versions := [\<lparr>wv_id = uid 3, wv_workflow_id = uid 2, wv_version = 1,
       wv_trigger_json = [], wv_definition_json = [], wv_created_at = ''t''\<rparr>],
     db_schemas := [(uid 3, 0, demo_schema3 ''build''), (uid 3, 1, demo_schema3 ''test''),
       (uid 3, 2, demo_schema3 ''deploy'')],
     db_pipelines := [demo_pipeline pst],
     db_jobs := [demo_job 5 0 (uid 1) ''build'' a, demo_job 6 1 (uid 8) ''test'' b,
       demo_job 7 2 (uid 1) ''deploy'' c],
     db_previous := [(uid 6, uid 5), (uid 7, uid 6)],
     db_logs := map (\<lambda>n. \<lparr>jl_job_run_id = uid n, jl_stdout = [], jl_stderr = [],
       jl_updated_at = ''t''\<rparr>) [5, 6, 7]\<rparr>"

definition demo_server :: "string \<Rightarrow> string \<Rightarrow> string \<Rightarrow> string \<Rightarrow> Server" where
  "demo_server pst a b c =
     \<lparr>srv_db = demo_db3 pst a b c, srv_sent = [], srv_files = (\<lambda>_. None)\<rparr>"

definition accept_all :: "nat \<Rightarrow> ClientRequest \<Rightarrow> (string, HttpReply) result" where
  "accept_all n r = Ok (demo_reply (if cq_method r = ''DELETE'' then 202 else
     if cq_method r = ''POST'' then 201 else 200) ''x'')"

definition no_network :: "nat \<Rightarrow> ClientRequest \<Rightarrow> (string, HttpReply) result" where
  "no_network n r = Err ''connection refused''"

lemma uid_inj: "inj uid"
  by (rule injI) (metis length_replicate uid_def)

lemma uid_eq [simp]: "uid m = uid n \<longleftrightarrow> m = n"
  using uid_inj by (simp add: inj_eq)

lemma demo_env_simps [simp]:
  "se_plat (demo_env net) = demo_plat" "se_client (demo_env net) = demo_client net"
  "uuid_text demo_plat = uid" "uuid_simple demo_plat = uid"
  by (simp_all add: demo_env_def demo_plat_def)

end
