(* ===== verification/Pipeline_Start.thy ===== *)
theory Pipeline_Start
  imports Scheduler_Invariants Scheduler_Demo
begin

text \<open>
  Starting a pipeline: the jobs enqueue_workflow_run_with_artifacts creates and the order it
  records between them, and what happens to a push event whose processing fails half-way.
\<close>

section \<open>The chain of jobs\<close>

text \<open>The pairs (job, predecessor) recorded for jobs created in this order.\<close>

fun chain :: "string option \<Rightarrow> string list \<Rightarrow> (string \<times> string) list" where
  "chain prev [] = []"
| "chain None (i # is) = chain (Some i) is"
| "chain (Some p) (i # is) = (i, p) # chain (Some i) is"

definition created_job ::
    "string \<Rightarrow> nat \<Rightarrow> WorkflowJobDefinition \<Rightarrow> JobRun \<Rightarrow> bool" where
  "created_job p i w j =
     (jr_pipeline_run_id j = p \<and> jr_job_index j = int i \<and> jr_runner_id j = wj_runner_id w
      \<and> jr_runner_job_name j = wj_runner_job_name w \<and> jr_outcome_policy j = wj_outcome_policy w
      \<and> jr_status j = ''pending'' \<and> jr_runner_run_id j = None
      \<and> jr_infra_retry_count j = 0 \<and> jr_cancel_retry_count j = 0)"

lemma create_job_run_ok:
  assumes "create_job_run P p i rn n pol d = (Ok r, e)"
  shows "\<exists>j. db_jobs e = db_jobs d @ [j] \<and> jr_id j = r \<and> r = uuid_text P (db_seq d)
    \<and> db_seq e = Suc (Suc (db_seq d)) \<and> db_previous e = db_previous d
    \<and> db_pipelines e = db_pipelines d
    \<and> jr_pipeline_run_id j = p \<and> jr_job_index j = i \<and> jr_runner_id j = rn
    \<and> jr_runner_job_name j = n \<and> jr_outcome_policy j = pol \<and> jr_status j = ''pending''
    \<and> jr_runner_run_id j = None \<and> jr_infra_retry_count j = 0 \<and> jr_cancel_retry_count j = 0"
  using assms by (auto simp: create_job_run_def Let_def split: if_splits)

lemma on_db_Ok: "on_db f s = (Ok x, t) \<longleftrightarrow> (\<exists>d. f (srv_db s) = (Ok x, d) \<and> t = s\<lparr>srv_db := d\<rparr>)"
  by (auto simp: on_db_def split: prod.splits)

lemma add_previous_ok:
  "add_previous_job j k d = (Ok u, e) \<Longrightarrow>
     e = d\<lparr>db_previous := db_previous d @ [(j, k)]\<rparr>"
  by (auto simp: add_previous_job_def split: if_splits)

lemma enqueue_jobs_ok:
  assumes "enqueue_jobs E p i prev jobs s = (Ok u, t)"
  shows "\<exists>new. db_jobs (srv_db t) = db_jobs (srv_db s) @ new
    \<and> list_all2 (\<lambda>k j. created_job p (fst k) (snd k) j) (enumerate i jobs) new
    \<and> (\<forall>j \<in> set new. \<exists>m \<ge> db_seq (srv_db s). jr_id j = uuid_text (se_plat E) m)
    \<and> db_previous (srv_db t) = db_previous (srv_db s) @ chain prev (map jr_id new)
    \<and> db_pipelines (srv_db t) = db_pipelines (srv_db s)"
  using assms
proof (induction jobs arbitrary: i prev s)
  case Nil
  then show ?case by (cases prev) auto
next
  case (Cons job jobs)
  from Cons.prems obtain r s1 where
    1: "on_db (create_job_run (se_plat E) p (int i) (wj_runner_id job)
          (wj_runner_job_name job) (wj_outcome_policy job)) s = (Ok r, s1)"
    and rest: "try_then (case prev of None \<Rightarrow> (Ok (), s1)
        | Some q \<Rightarrow> on_db (add_previous_job r q) s1)
        (\<lambda>_. enqueue_jobs E p (i + 1) (Some r) jobs) = (Ok u, t)"
    by (auto simp: try_then_Inr)
  then obtain s2 where
    2: "(case prev of None \<Rightarrow> (Ok (), s1) | Some q \<Rightarrow> on_db (add_previous_job r q) s1) = (Ok (), s2)"
    and 3: "enqueue_jobs E p (i + 1) (Some r) jobs s2 = (Ok u, t)"
    by (auto simp: try_then_Inr)
  obtain j where j: "db_jobs (srv_db s1) = db_jobs (srv_db s) @ [j]" "jr_id j = r"
    "r = uuid_text (se_plat E) (db_seq (srv_db s))"
    "db_seq (srv_db s1) = Suc (Suc (db_seq (srv_db s)))"
    "db_previous (srv_db s1) = db_previous (srv_db s)"
    "db_pipelines (srv_db s1) = db_pipelines (srv_db s)" "created_job p i job j"
    using 1 create_job_run_ok unfolding on_db_Ok created_job_def by fastforce
  have s2: "db_jobs (srv_db s2) = db_jobs (srv_db s1)" "db_seq (srv_db s2) = db_seq (srv_db s1)"
    "db_pipelines (srv_db s2) = db_pipelines (srv_db s1)"
    "db_previous (srv_db s2) = db_previous (srv_db s1)
       @ (case prev of None \<Rightarrow> [] | Some q \<Rightarrow> [(r, q)])"
    using 2 by (auto simp: on_db_Ok dest: add_previous_ok split: option.splits)
  obtain new where new: "db_jobs (srv_db t) = db_jobs (srv_db s2) @ new"
    "list_all2 (\<lambda>k j. created_job p (fst k) (snd k) j) (enumerate (i + 1) jobs) new"
    "\<forall>j \<in> set new. \<exists>m \<ge> db_seq (srv_db s2). jr_id j = uuid_text (se_plat E) m"
    "db_previous (srv_db t) = db_previous (srv_db s2) @ chain (Some r) (map jr_id new)"
    "db_pipelines (srv_db t) = db_pipelines (srv_db s2)"
    using Cons.IH [OF 3] by blast
  have ids: "\<exists>m \<ge> db_seq (srv_db s). jr_id k = uuid_text (se_plat E) m" if "k \<in> set (j # new)" for k
    using that new(3) j(2-4) s2(2) by (metis Suc_leD le_refl set_ConsD)
  show ?case
    using new j s2 ids by (intro exI [of _ "j # new"]) (auto split: option.splits)
qed

text \<open>What the chain records: nothing for the first job, its predecessor for every other.\<close>

lemma chain_filter:
  assumes "distinct is" and "k < length is"
  shows "filter (\<lambda>e. fst e = is ! k) (chain prev is) =
    (if k = 0 then (case prev of None \<Rightarrow> [] | Some p \<Rightarrow> [(is ! 0, p)])
     else [(is ! k, is ! (k - 1))])"
  using assms
proof (induction "is" arbitrary: k prev)
  case (Cons i "is")
  have none: "filter (\<lambda>e. fst e = x) (chain q is) = []" if "x \<notin> set is" for x q
    using that by (induction q "is" rule: chain.induct) auto
  show ?case
  proof (cases k)
    case 0
    then show ?thesis using Cons.prems(1) none by (cases prev) auto
  next
    case (Suc l)
    then have l: "l < length is" "is ! l \<noteq> i" using Cons.prems by (auto simp: in_set_conv_nth)
    have "filter (\<lambda>e. fst e = is ! l) (chain prev (i # is)) =
        filter (\<lambda>e. fst e = is ! l) (chain (Some i) is)"
      using l(2) by (cases prev) auto
    then show ?thesis
      using Cons.IH [OF _ l(1), of "Some i"] Cons.prems(1) Suc by (auto simp: nth_Cons split: nat.splits)
  qed
qed simp

lemma chain_fst: "e \<in> set (chain prev is) \<Longrightarrow> fst e \<in> set is"
  by (induction prev "is" rule: chain.induct) auto

section \<open>Starting a pipeline\<close>

lemma enqueue_ok:
  assumes "enqueue_workflow_run_with_artifacts E w tt tr c sels s = (Ok pid, t)"
    and "se_parse_definition E (wf_definition_json w) = Ok def"
  shows "\<exists>s1 u. wd_jobs def \<noteq> [] \<and> pid = uuid_text (se_plat E) (db_seq (srv_db s))
    \<and> db_seq (srv_db s) < db_seq (srv_db s1)
    \<and> db_jobs (srv_db s1) = db_jobs (srv_db s) \<and> db_previous (srv_db s1) = db_previous (srv_db s)
    \<and> (\<exists>p. db_pipelines (srv_db s1) = db_pipelines (srv_db s) @ [p] \<and> pl_id p = pid
         \<and> pl_status p = ''running'' \<and> pl_workflow_version_id p = wf_version_id w
         \<and> pl_trigger_ref p = tr \<and> pl_commit_sha p = c)
    \<and> enqueue_jobs E pid 0 None (wd_jobs def) s1 = (Ok u, t)"
proof -
  from assms obtain s0 s1 u where
    v: "WorkflowDefinition_validate def = Ok ()"
    and 0: "on_db (create_pipeline_run (se_plat E) (wf_repo_id w) (wf_id w) (wf_version_id w) tt tr c) s
       = (Ok pid, s0)"
    and 1: "on_db (add_workflow_run_artifact_selections pid sels) s0 = (Ok (), s1)"
    and 2: "enqueue_jobs E pid 0 None (wd_jobs def) s1 = (Ok u, t)"
    unfolding enqueue_workflow_run_with_artifacts_def
    by (auto simp: try_then_Inr split: if_splits)
  have "wd_jobs def \<noteq> []" using v WorkflowDefinition_validate_ok by blast
  moreover obtain x where "srv_db s1 = (srv_db s0)\<lparr>db_selections := x\<rparr>"
    using 1 insert_selections_tables
    by (auto simp: on_db_Ok add_workflow_run_artifact_selections_def split: sum.splits) blast
  moreover have "pid = uuid_text (se_plat E) (db_seq (srv_db s))"
    "db_seq (srv_db s) < db_seq (srv_db s0)" "db_jobs (srv_db s0) = db_jobs (srv_db s)"
    "db_previous (srv_db s0) = db_previous (srv_db s)"
    "\<exists>p. db_pipelines (srv_db s0) = db_pipelines (srv_db s) @ [p] \<and> pl_id p = pid
       \<and> pl_status p = ''running'' \<and> pl_workflow_version_id p = wf_version_id w
       \<and> pl_trigger_ref p = tr \<and> pl_commit_sha p = c"
    using 0 by (auto simp: on_db_Ok create_pipeline_run_def Let_def split: if_splits)
  ultimately show ?thesis using 2 by (intro exI [of _ s1] exI [of _ u]) simp
qed

lemma sorted_created:
  assumes "list_all2 (\<lambda>k j. created_job p (fst k) (snd k) j) (enumerate i ws) js"
  shows "sorted (map jr_job_index js)" and "\<forall>j \<in> set js. int i \<le> jr_job_index j"
proof -
  have nth: "k < length js \<Longrightarrow> jr_job_index (js ! k) = int (i + k)" for k
    using list_all2_nthD2 [OF assms, of k] assms
    by (auto simp: created_job_def nth_enumerate_eq dest: list_all2_lengthD)
  then show "sorted (map jr_job_index js)" by (simp add: sorted_iff_nth_mono)
  show "\<forall>j \<in> set js. int i \<le> jr_job_index j" using nth by (auto simp: in_set_conv_nth)
qed

lemma filter_id_singleton:
  assumes "distinct (map jr_id (db_jobs d))" and "j \<in> set (db_jobs d)"
  shows "filter (\<lambda>k. jr_id k = jr_id j) (db_jobs d) = [j]"
proof -
  have "filter (\<lambda>k. jr_id k = jr_id j) js = [j]" if "distinct (map jr_id js)" "j \<in> set js" for js
    using that
  proof (induction js)
    case (Cons k ks)
    then show ?case
      by (cases "k = j") (auto simp: image_iff filter_empty_conv)
  qed simp
  then show ?thesis using assms by simp
qed

lemma previous_of_new_job:
  assumes wf: "db_wf P d" and prev: "db_previous d = old @ chain None (map jr_id new)"
    and jobs: "db_jobs d = rest @ new" and old: "\<forall>e \<in> set old. fst e \<notin> jr_id ` set new"
    and k: "k < length new"
  shows "previous_jobs_for_job_run (jr_id (new ! k)) d = (if k = 0 then [] else [new ! (k - 1)])"
proof -
  have dist: "distinct (map jr_id (db_jobs d))" using wf by (simp add: db_wf_def)
  then have "distinct (map jr_id new)" by (simp add: jobs)
  then have "filter (\<lambda>e. fst e = jr_id (new ! k)) (chain None (map jr_id new)) =
      (if k = 0 then [] else [(jr_id (new ! k), jr_id (new ! (k - 1)))])"
    using chain_filter [of "map jr_id new" k None] k by auto
  moreover have "filter (\<lambda>e. fst e = jr_id (new ! k)) old = []"
    using old k by (auto simp: filter_empty_conv)
  moreover have "filter (\<lambda>j. jr_id j = jr_id (new ! (k - 1))) (db_jobs d) = [new ! (k - 1)]"
    by (rule filter_id_singleton [OF dist]) (use k in \<open>simp add: jobs\<close>)
  ultimately show ?thesis
    unfolding previous_jobs_for_job_run_def prev by simp
qed

text \<open>C9. Starting a workflow creates exactly the jobs of its definition, in order: each is
pending, unretried, carries the runner, the runner job and the outcome policy of its entry, and
waits for exactly one job, the one created just before it (the first waits for none).  The
pipeline is new and running, and no other job is touched.\<close>

theorem enqueue_creates_chain:
  assumes wf: "server_wf E (srv_db s)"
    and run: "enqueue_workflow_run_with_artifacts E w tt tr c sels s = (Ok pid, t)"
    and def: "se_parse_definition E (wf_definition_json w) = Ok def"
  shows "\<exists>jobs. list_job_runs_for_pipeline pid (srv_db t) = jobs
    \<and> db_jobs (srv_db t) = db_jobs (srv_db s) @ jobs
    \<and> length jobs = length (wd_jobs def) \<and> jobs \<noteq> []
    \<and> (\<forall>k < length jobs. created_job pid k (wd_jobs def ! k) (jobs ! k)
         \<and> previous_jobs_for_job_run (jr_id (jobs ! k)) (srv_db t) =
             (if k = 0 then [] else [jobs ! (k - 1)]))
    \<and> (\<exists>p. db_pipelines (srv_db t) = db_pipelines (srv_db s) @ [p] \<and> pl_id p = pid
         \<and> pl_status p = ''running'')"
proof -
  obtain s1 u where s1: "wd_jobs def \<noteq> []" "pid = uuid_text (se_plat E) (db_seq (srv_db s))"
    "db_seq (srv_db s) < db_seq (srv_db s1)" "db_jobs (srv_db s1) = db_jobs (srv_db s)"
    "db_previous (srv_db s1) = db_previous (srv_db s)"
    "\<exists>p. db_pipelines (srv_db s1) = db_pipelines (srv_db s) @ [p] \<and> pl_id p = pid
       \<and> pl_status p = ''running''"
    "enqueue_jobs E pid 0 None (wd_jobs def) s1 = (Ok u, t)"
    using enqueue_ok [OF run def] by blast
  obtain new where new: "db_jobs (srv_db t) = db_jobs (srv_db s) @ new"
    "list_all2 (\<lambda>k j. created_job pid (fst k) (snd k) j) (enumerate 0 (wd_jobs def)) new"
    "\<forall>j \<in> set new. \<exists>m \<ge> db_seq (srv_db s1). jr_id j = uuid_text (se_plat E) m"
    "db_previous (srv_db t) = db_previous (srv_db s) @ chain None (map jr_id new)"
    "db_pipelines (srv_db t) = db_pipelines (srv_db s1)"
    using enqueue_jobs_ok [OF s1(7)] s1(4,5) by auto
  have inj: "inj (uuid_text (se_plat E))" and dbwf: "db_wf (se_plat E) (srv_db s)"
    using wf by (simp_all add: server_wf_def)
  have wft: "db_wf (se_plat E) (srv_db t)"
    using tables.holds_enqueue [of E s w tt tr c sels] wf run
    by (simp add: tables.holds_def server_wf_def)
  have len: "length new = length (wd_jobs def)"
    using list_all2_lengthD [OF new(2)] by simp
  have nth: "created_job pid k (wd_jobs def ! k) (new ! k)" if "k < length new" for k
    using list_all2_nthD2 [OF new(2) that] len that by (simp add: nth_enumerate_eq)
  have "pid \<notin> set (map pl_id (db_pipelines (srv_db s)))"
    using dbwf issued_fresh [OF inj] s1(2) unfolding db_wf_def by blast
  then have "filter (\<lambda>j. jr_pipeline_run_id j = pid) (db_jobs (srv_db s)) = []"
    using dbwf by (auto simp: filter_empty_conv db_wf_def job_row_ok_def)
  moreover have "filter (\<lambda>j. jr_pipeline_run_id j = pid) new = new"
    using nth by (auto simp: created_job_def filter_id_conv in_set_conv_nth)
  ultimately have jobs: "list_job_runs_for_pipeline pid (srv_db t) = new"
    using sorted_created(1) [OF new(2)]
    by (simp add: list_job_runs_for_pipeline_def new(1) sorted_sort_id sort_key_id_if_sorted)
  have "fst e \<notin> jr_id ` set new" if "e \<in> set (db_previous (srv_db s))" for e
  proof
    assume "fst e \<in> jr_id ` set new"
    then obtain m where m: "db_seq (srv_db s1) \<le> m" "fst e = uuid_text (se_plat E) m"
      using new(3) by auto
    have "fst e \<in> set (map jr_id (db_jobs (srv_db s)))"
      using dbwf that by (auto simp: db_wf_def mem_Times_iff)
    then have "issued (uuid_text (se_plat E)) (db_seq (srv_db s)) (fst e)"
      using dbwf by (auto simp: db_wf_def job_row_ok_def)
    from issued_fresh [OF inj this, of m] show False using m s1(3) by simp
  qed
  then have "previous_jobs_for_job_run (jr_id (new ! k)) (srv_db t) = (if k = 0 then [] else [new ! (k - 1)])"
    if "k < length new" for k
    using previous_of_new_job [OF wft new(4) new(1) _ that] by blast
  then show ?thesis using jobs new(1,5) len nth s1(1,6) by auto
qed

lemma demo_server_wf:
  "server_wf (demo_env net) (demo_db3 p a b c)"
proof -
  have key: "inj (next_dispatch_idempotency_key demo_plat)"
    by (rule inj_dispatch_key) (simp add: uid_inj)
  have "issued uid 10 (uid n)" "issued (next_dispatch_idempotency_key demo_plat) 10
      (next_dispatch_idempotency_key demo_plat n)" if "n < 10" for n
    using that by (auto intro: issued_new)
  then show ?thesis
    using key
    by (simp add: server_wf_def uid_inj db_wf_def demo_db3_def empty_db_def demo_job_def
        demo_pipeline_def demo_runner_def job_row_ok_def inj_eq)
qed

theorem enqueue_creates_chain_witness:
  "\<exists>t jobs. enqueue_workflow_run_with_artifacts (demo_env accept_all) demo_wf3 ''push'' None
        (Some ''c'') [] (demo_server ''success'' ''success'' ''success'' ''success'') = (Ok (uid 10), t)
    \<and> list_job_runs_for_pipeline (uid 10) (srv_db t) = jobs \<and> length jobs = 3
    \<and> previous_jobs_for_job_run (jr_id (jobs ! 2)) (srv_db t) = [jobs ! 1]"
proof -
  let ?E = "demo_env accept_all"
  let ?s = "demo_server ''success'' ''success'' ''success'' ''success''"
  let ?p = "enqueue_workflow_run_with_artifacts ?E demo_wf3 ''push'' None (Some ''c'') [] ?s"
  have "fst ?p = Ok (uid 10)" by code_simp
  then have run: "?p = (Ok (uid 10), snd ?p)" by (metis prod.collapse)
  have wf: "server_wf ?E (srv_db ?s)" by (simp add: demo_server_def demo_server_wf)
  have def: "se_parse_definition ?E (wf_definition_json demo_wf3) = Ok demo_def3"
    by (simp add: demo_env_def)
  have "length (wd_jobs demo_def3) = 3" by (simp add: demo_def3_def)
  with enqueue_creates_chain [OF wf run def] obtain jobs where
    "list_job_runs_for_pipeline (uid 10) (srv_db (snd ?p)) = jobs" "length jobs = 3"
    "\<forall>k < 3. previous_jobs_for_job_run (jr_id (jobs ! k)) (srv_db (snd ?p)) =
       (if k = 0 then [] else [jobs ! (k - 1)])"
    by auto
  then show ?thesis using run by (intro exI [of _ "snd ?p"] exI [of _ jobs]) simp
qed

section \<open>A push event that cannot be processed\<close>

text \<open>What starting pipelines leaves alone, and that it only adds pipelines.\<close>

definition starts_pipelines :: "Server \<Rightarrow> Server \<Rightarrow> bool" where
  "starts_pipelines s t =
     (srv_sent t = srv_sent s \<and> db_push_events (srv_db t) = db_push_events (srv_db s)
      \<and> (\<exists>new. db_pipelines (srv_db t) = db_pipelines (srv_db s) @ new))"

lemma starts_refl [simp]: "starts_pipelines s s"
  by (simp add: starts_pipelines_def)

lemma starts_trans: "starts_pipelines r s \<Longrightarrow> starts_pipelines s t \<Longrightarrow> starts_pipelines r t"
  by (auto simp: starts_pipelines_def)

lemma starts_try:
  "starts_pipelines s (snd p) \<Longrightarrow> (\<And>x. fst p = Ok x \<Longrightarrow> starts_pipelines (snd p) (snd (f x (snd p))))
    \<Longrightarrow> starts_pipelines s (snd (try_then p f))"
  by (rule try_then_snd [where R = starts_pipelines]) (blast intro: starts_trans)+

lemma starts_each:
  assumes "\<And>x s. starts_pipelines s (snd (f x s))"
  shows "starts_pipelines s (snd (each_st f xs s))"
proof (induction xs arbitrary: s)
  case (Cons x xs)
  show ?case unfolding each_st.simps by (intro starts_try assms Cons.IH)
qed simp

lemma starts_ops:
  "starts_pipelines s (snd (on_db (create_pipeline_run P r w v tt tr c) s))"
  "starts_pipelines s (snd (on_db (add_workflow_run_artifact_selections p sels) s))"
  "starts_pipelines s (snd (on_db (create_job_run P p i rn n pol) s))"
  "starts_pipelines s (snd (on_db (add_previous_job j k) s))"
  by (auto simp: starts_pipelines_def on_db_def create_pipeline_run_def create_job_run_def
      add_workflow_run_artifact_selections_def add_previous_job_def Let_def
      split: prod.splits sum.splits dest: insert_selections_tables)

lemma starts_enqueue_jobs: "starts_pipelines s (snd (enqueue_jobs E p i prev jobs s))"
proof (induction jobs arbitrary: i prev s)
  case (Cons job jobs)
  have "starts_pipelines t (snd (case prev of None \<Rightarrow> (Ok (), t) | Some q \<Rightarrow> on_db (add_previous_job r q) t))"
    for t r
    by (simp add: starts_ops split: option.splits)
  then show ?case unfolding enqueue_jobs.simps by (intro starts_try starts_ops Cons.IH)
qed simp

lemma starts_enqueue: "starts_pipelines s (snd (enqueue_workflow_run_with_artifacts E w tt tr c sels s))"
proof -
  have "starts_pipelines t (snd (try_then (se_parse_definition E js, t) (\<lambda>def s.
      try_then (WorkflowDefinition_validate def, s) (\<lambda>_ s.
      try_then (on_db (create_pipeline_run P r w v tt tr c) s) (\<lambda>pid s.
      try_then (on_db (add_workflow_run_artifact_selections pid sels) s) (\<lambda>_ s.
      try_then (enqueue_jobs E pid 0 None (wd_jobs def) s) (\<lambda>_ s. (Ok pid, s))))))))"
    for t js P r w v
    by (intro starts_try starts_ops starts_enqueue_jobs) simp_all
  then show ?thesis
    unfolding enqueue_workflow_run_with_artifacts_def by (intro starts_try) simp_all
qed

lemma starts_process_workflow: "starts_pipelines s (snd (process_push_workflow E ev w s))"
proof -
  have "starts_pipelines t (snd (process_push_ref E w trig r t))" for t trig r
    using starts_enqueue [of t E w "''push''" "Some (ref_name r)" "Some (new_rev r)" "[]"]
    by (auto simp: process_push_ref_def enqueue_workflow_run_def split: prod.splits sum.splits)
  then show ?thesis
    unfolding process_push_workflow_def by (intro starts_try) (simp_all add: starts_each)
qed

lemma recover_frame:
  "srv_sent (recover_incomplete_pipelines E s) = srv_sent s
   \<and> db_push_events (srv_db (recover_incomplete_pipelines E s)) = db_push_events (srv_db s)
   \<and> map pl_id (db_pipelines (srv_db (recover_incomplete_pipelines E s)))
       = map pl_id (db_pipelines (srv_db s))"
proof -
  let ?f = "\<lambda>p. with_db (set_pipeline_status (se_plat E) (pl_id p)
      (PipelineStatus_as_str (recovered_status (pl_status p))))"
  have "srv_sent (fold ?f ps t) = srv_sent t
      \<and> db_push_events (srv_db (fold ?f ps t)) = db_push_events (srv_db t)
      \<and> map pl_id (db_pipelines (srv_db (fold ?f ps t))) = map pl_id (db_pipelines (srv_db t))" for ps t
    by (induction ps arbitrary: t)
      (simp_all add: with_db_def set_pipeline_status_def pipeline_status_row_def)
  then show ?thesis by (simp add: recover_incomplete_pipelines_def)
qed

text \<open>A push event that cannot be processed to the end stops the server's work: when the
oldest unprocessed event fails (a workflow of its repository with an unreadable trigger is
enough), the tick ends there, no request goes to any runner, so no job is dispatched and no job
is polled; the event stays unprocessed although the pipelines already started for it stay, so
every later tick fails at it again and starts those pipelines once more.\<close>

theorem failing_push_event_stops_tick:
  assumes first: "list_unprocessed_push_events (srv_db (recover_incomplete_pipelines E s)) = ev # rest"
    and fails: "process_push_event E ev (recover_incomplete_pipelines E s) = (Err e, t)"
  shows "reconcile_once E s = (Err e, t) \<and> srv_sent t = srv_sent s
    \<and> list_unprocessed_push_events (srv_db t) = ev # rest
    \<and> (\<exists>new. map pl_id (db_pipelines (srv_db t)) = map pl_id (db_pipelines (srv_db s)) @ new)"
proof -
  let ?s = "recover_incomplete_pipelines E s"
  let ?p = "each_st (process_push_workflow E ev)
      (filter wf_enabled (workflows_for_repo (pe_repo_id ev) (srv_db ?s))) ?s"
  have "process_push_events E ?s = (Err e, t)"
    unfolding process_push_events_def first by (simp add: fails)
  then have tick: "reconcile_once E s = (Err e, t)" by (simp add: reconcile_once_def)
  have "?p = (Err e, t)"
    using fails unfolding process_push_event_def by (auto elim!: try_then_cases)
  then have "starts_pipelines ?s t"
    using starts_each [of "process_push_workflow E ev", OF starts_process_workflow] by (metis snd_conv)
  then obtain new where "srv_sent t = srv_sent ?s"
    "db_push_events (srv_db t) = db_push_events (srv_db ?s)"
    "db_pipelines (srv_db t) = db_pipelines (srv_db ?s) @ new"
    unfolding starts_pipelines_def by blast
  then show ?thesis
    using tick first recover_frame [of E s] by (auto simp: list_unprocessed_push_events_def)
qed

text \<open>A repository with two workflows, the second with a trigger that does not parse.\<close>

definition demo_bad_env :: SchedEnv where
  "demo_bad_env = (demo_env accept_all)\<lparr>se_parse_trigger := (\<lambda>json.
     if json = ''bad'' then Err ''expected value'' else Ok \<lparr>trigger_kind = ''push'', trigger_branches = []\<rparr>)\<rparr>"

definition demo_push :: PushEvent where
  "demo_push =
     \<lparr>pe_id = ''e'', pe_repo_id = uid 0, pe_received_at = ''t'', pe_event_key = ''k'',
      pe_processed_at = None,
      pe_refs = [\<lparr>old_rev = ''a'', new_rev = ''b'', ref_name = ''refs/heads/main''\<rparr>]\<rparr>"

definition demo_bad_server :: Server where
  "demo_bad_server = with_db (\<lambda>d. d\<lparr>
     db_push_events := [demo_push],
     db_workflows := db_workflows d @ [\<lparr>wr_id = uid 9, wr_repo_id = uid 0, wr_name = ''zz'',
       wr_enabled = True, wr_created_at = ''t''\<rparr>],
     db_versions := db_versions d @ [\<lparr>wv_id = uid 9, wv_workflow_id = uid 9, wv_version = 1,
       wv_trigger_json = ''bad'', wv_definition_json = [], wv_created_at = ''t''\<rparr>]\<rparr>)
     (demo_server ''success'' ''success'' ''success'' ''success'')"

theorem failing_push_event_stops_tick_witness:
  "fst (reconcile_once demo_bad_env demo_bad_server) = Err ''expected value''
   \<and> list_unprocessed_push_events (srv_db (snd (reconcile_once demo_bad_env demo_bad_server)))
       = [demo_push]
   \<and> length (db_pipelines (srv_db demo_bad_server)) = 1
   \<and> length (db_pipelines (srv_db (snd (reconcile_once demo_bad_env
        (snd (reconcile_once demo_bad_env demo_bad_server)))))) = 3"
proof -
  let ?s = "recover_incomplete_pipelines demo_bad_env demo_bad_server"
  have 1: "list_unprocessed_push_events (srv_db ?s) = demo_push # []" by code_simp
  have "fst (process_push_event demo_bad_env demo_push ?s) = Err ''expected value''" by code_simp
  then have 2: "process_push_event demo_bad_env demo_push ?s =
      (Err ''expected value'', snd (process_push_event demo_bad_env demo_push ?s))"
    by (metis prod.collapse)
  have "length (db_pipelines (srv_db demo_bad_server)) = 1" by code_simp
  moreover have "length (db_pipelines (srv_db (snd (reconcile_once demo_bad_env
        (snd (reconcile_once demo_bad_env demo_bad_server)))))) = 3" by code_simp
  ultimately show ?thesis
    using failing_push_event_stops_tick [OF 1 2] by simp
qed

end
