(* ===== verification/Job_Dispatch.thy ===== *)
theory Job_Dispatch
  imports Pipeline_Start
begin

text \<open>
  Dispatching pending jobs: what a job waits for, what a failed dispatch leaves behind, and
  what it does to the rest of the tick.
\<close>

section \<open>Waiting for predecessors\<close>

lemma dispatch_job_ready:
  "next_ready_job_status (previous_statuses (jr_id job) (srv_db s)) = Some SPending \<Longrightarrow>
     dispatch_job E job s = dispatch_ready_job E job s"
  by (simp add: dispatch_job_def Let_def)

lemma dispatch_job_blocked:
  "next_ready_job_status (previous_statuses (jr_id job) (srv_db s)) = Some SBlocked \<Longrightarrow>
     dispatch_job E job s = (Ok (), with_db (\<lambda>d. finalize_pipeline_status (se_plat E)
       (jr_pipeline_run_id job) (set_job_run_status (se_plat E) (jr_id job) ''blocked'' d)) s)"
  by (simp add: dispatch_job_def Let_def)

lemma dispatch_job_waits:
  "next_ready_job_status (previous_statuses (jr_id job) (srv_db s)) = None \<Longrightarrow>
     dispatch_job E job s = (Ok (), s)"
  by (simp add: dispatch_job_def Let_def)

lemma set_job_run_status_jobs:
  "db_jobs (set_job_run_status P i st d) =
     update_rows jr_id i (job_status_row st (clock P (db_seq d))) (db_jobs d)"
  by (simp add: set_job_run_status_def)

lemma blocked_row:
  "j \<in> set (db_jobs (set_job_run_status P i ''blocked'' d)) \<Longrightarrow> jr_id j = i \<Longrightarrow> jr_status j = ''blocked''"
proof -
  let ?f = "job_status_row ''blocked'' (clock P (db_seq d))"
  assume "j \<in> set (db_jobs (set_job_run_status P i ''blocked'' d))" and i: "jr_id j = i"
  then obtain k where "j = (if jr_id k = i then ?f k else k)"
    unfolding set_job_run_status_jobs set_update_rows by blast
  then show "jr_status j = ''blocked''"
    using i by (cases "jr_id k = i") (simp_all add: job_status_row_def)
qed

lemma finalize_jobs [simp]: "db_jobs (finalize_pipeline_status P p d) = db_jobs d"
  by (simp add: finalize_pipeline_status_def)

lemma next_ready_alternatives:
  "next_ready_job_status ps = Some SPending \<or> next_ready_job_status ps = Some SBlocked
    \<or> next_ready_job_status ps = None"
  using next_ready_cases [of ps] by auto

text \<open>C7. A job is started only after its recorded predecessors: if dispatching it sends any
request to a runner, then every predecessor has settled, none was canceled and none failed
without being allowed to.  If a predecessor failed for good the job is marked blocked, without
any request; if one is still going, nothing happens at all.\<close>

theorem dispatch_waits_for_predecessors:
  assumes "dispatch_job E job s = (r, t)" and "ps = set (previous_statuses (jr_id job) (srv_db s))"
  shows "(srv_sent t \<noteq> srv_sent s \<longrightarrow>
      (\<forall>(st, can_fail) \<in> ps. job_settled st \<and> st \<noteq> SCanceled \<and> (st = SFailed \<longrightarrow> can_fail)))
    \<and> ((SFailed, False) \<in> ps \<longrightarrow> r = Ok () \<and> srv_sent t = srv_sent s
      \<and> (\<forall>j \<in> set (db_jobs (srv_db t)). jr_id j = jr_id job \<longrightarrow> jr_status j = ''blocked''))
    \<and> ((SFailed, False) \<notin> ps \<and> (\<exists>(st, f) \<in> ps. \<not> job_settled st) \<longrightarrow> r = Ok () \<and> t = s)"
proof -
  let ?ps = "previous_statuses (jr_id job) (srv_db s)"
  have ex: "(\<exists>x \<in> status_set ?ps. P x) \<longleftrightarrow> (\<exists>(x, f) \<in> ps. P x)" for P
    unfolding status_set_def assms(2) by force
  have all: "(\<forall>x \<in> status_set ?ps. P x) \<longleftrightarrow> (\<forall>(x, f) \<in> ps. P x)" for P
    unfolding status_set_def assms(2) by force
  from next_ready_alternatives [of ?ps] show ?thesis
  proof (elim disjE)
    assume p: "next_ready_job_status ?ps = Some SPending"
    then have none: "(SFailed, False) \<notin> ps" and ok: "\<forall>(x, f) \<in> ps. job_settled x \<and> x \<noteq> SCanceled"
      unfolding next_ready_Pending_iff all assms(2) [symmetric] by blast+
    have "can_fail" if "(SFailed, can_fail) \<in> ps" for can_fail
      using none that by (cases can_fail) auto
    then show ?thesis using none ok by auto
  next
    assume b: "next_ready_job_status ?ps = Some SBlocked"
    have r: "r = Ok ()" "srv_sent t = srv_sent s"
      and jobs: "db_jobs (srv_db t) =
        db_jobs (set_job_run_status (se_plat E) (jr_id job) ''blocked'' (srv_db s))"
      using assms(1) unfolding dispatch_job_blocked [OF b] by (auto simp: with_db_def)
    have rows: "\<forall>j \<in> set (db_jobs (srv_db t)). jr_id j = jr_id job \<longrightarrow> jr_status j = ''blocked''"
      unfolding jobs using blocked_row by blast
    have "(SFailed, False) \<in> ps \<or> \<not> (\<exists>(st, f) \<in> ps. \<not> job_settled st)"
      using b unfolding next_ready_Blocked_iff all ex assms(2) [symmetric] by auto
    then show ?thesis using r rows by auto
  next
    assume n: "next_ready_job_status ?ps = None"
    then show ?thesis
      using assms(1) unfolding dispatch_job_waits [OF n] next_ready_None_iff ex assms(2) [symmetric]
      by auto
  qed
qed

theorem dispatch_waits_for_predecessors_witness:
  "dispatch_job (demo_env accept_all) (demo_job 6 1 (uid 8) ''test'' ''pending'')
     (demo_server ''running'' ''running'' ''pending'' ''pending'')
   = (Ok (), demo_server ''running'' ''running'' ''pending'' ''pending'')"
proof -
  let ?s = "demo_server ''running'' ''running'' ''pending'' ''pending''"
  let ?job = "demo_job 6 1 (uid 8) ''test'' ''pending''"
  have ps: "set (previous_statuses (jr_id ?job) (srv_db ?s)) = {(SRunning, False)}" by code_simp
  show ?thesis
    using dispatch_waits_for_predecessors [of "demo_env accept_all" ?job ?s _ _ "{(SRunning, False)}",
        OF prod.collapse [symmetric] ps [symmetric]]
    by (simp add: job_settled_def prod_eq_iff)
qed

section \<open>The job after a blocked job\<close>

lemma map_sort_key: "(\<And>x. k (f x) = k x) \<Longrightarrow> map f (sort_key k xs) = sort_key k (map f xs)"
proof (induction xs)
  case (Cons x xs)
  have "map f (insort_key k x ys) = insort_key k (f x) (map f ys)" for ys
    using Cons.prems by (induction ys) auto
  then show ?case using Cons by simp
qed simp

text \<open>A change of one job's row shows in the predecessors of the others.\<close>

lemma previous_jobs_update:
  assumes "\<And>j. jr_id (f j) = jr_id j" and "\<And>j. jr_job_index (f j) = jr_job_index j"
  shows "previous_jobs_for_job_run i (d\<lparr>db_jobs := update_rows jr_id k f (db_jobs d)\<rparr>)
    = map (\<lambda>j. if jr_id j = k then f j else j) (previous_jobs_for_job_run i d)"
proof -
  let ?g = "\<lambda>j. if jr_id j = k then f j else j"
  have "filter (\<lambda>j. jr_id j = p) (map ?g js) = map ?g (filter (\<lambda>j. jr_id j = p) js)" for p js
    using assms(1) by (induction js) auto
  then show ?thesis
    using assms map_sort_key [of jr_job_index ?g]
    by (simp add: previous_jobs_for_job_run_def update_rows_def map_concat comp_def case_prod_unfold)
qed

lemma previous_jobs_cong:
  "db_jobs e = db_jobs d \<Longrightarrow> db_previous e = db_previous d \<Longrightarrow>
     previous_jobs_for_job_run i e = previous_jobs_for_job_run i d"
  by (simp add: previous_jobs_for_job_run_def)

text \<open>C12. A required failure holds back only the next job.  Take three jobs in a chain, the
first failed for good, the other two pending: dispatching the second marks it blocked, and then
the third, whose only recorded predecessor is that blocked job, is dispatched like a job with
nothing to wait for, in the same tick.  So the jobs of a pipeline from the third on run after
a failure that should have stopped it.\<close>

theorem job_after_blocked_job_is_dispatched:
  assumes prev_b: "previous_jobs_for_job_run (jr_id b) (srv_db s) = [a]"
    and failed: "jr_status a = ''failed''" "jr_outcome_policy a = Required"
    and prev_c: "previous_jobs_for_job_run (jr_id c) (srv_db s) = [b]"
    and step: "dispatch_job E b s = (r, t)"
  shows "r = Ok () \<and> previous_statuses (jr_id c) (srv_db t)
      = [(SBlocked, allows_failure (jr_outcome_policy b))]
    \<and> dispatch_job E c t = dispatch_ready_job E c t"
proof -
  have "previous_statuses (jr_id b) (srv_db s) = [(SFailed, False)]"
    by (simp add: previous_statuses_def prev_b failed ServerJobStatus_parse_def List.map_filter_def)
  then have "next_ready_job_status (previous_statuses (jr_id b) (srv_db s)) = Some SBlocked"
    by (simp add: next_ready_Blocked_iff)
  from dispatch_job_blocked [OF this] step
  have t: "r = Ok ()" "t = with_db (\<lambda>d. finalize_pipeline_status (se_plat E) (jr_pipeline_run_id b)
      (set_job_run_status (se_plat E) (jr_id b) ''blocked'' d)) s"
    by simp_all
  let ?f = "job_status_row ''blocked'' (clock (se_plat E) (db_seq (srv_db s)))"
  have "previous_jobs_for_job_run (jr_id c) (srv_db t) =
      previous_jobs_for_job_run (jr_id c)
        ((srv_db s)\<lparr>db_jobs := update_rows jr_id (jr_id b) ?f (db_jobs (srv_db s))\<rparr>)"
    by (rule previous_jobs_cong)
      (simp_all add: t(2) with_db_def finalize_pipeline_status_def set_job_run_status_def)
  also have "\<dots> = [?f b]"
    by (subst previous_jobs_update) (simp_all add: prev_c job_status_row_def)
  finally have "previous_statuses (jr_id c) (srv_db t)
      = [(SBlocked, allows_failure (jr_outcome_policy b))]"
    by (simp add: previous_statuses_def List.map_filter_def job_status_row_def
        ServerJobStatus_parse_def)
  then show ?thesis
    using t(1) dispatch_job_ready [of c t E]
    by (simp add: next_ready_Pending_iff status_set_def job_settled_def)
qed

text \<open>On the demonstration server: the build failed, the test is blocked, and the deployment
is sent to its runner and runs.\<close>

theorem job_after_blocked_job_is_dispatched_witness:
  "let s = demo_server ''failed'' ''failed'' ''pending'' ''pending'';
       E = demo_env accept_all;
       t = snd (dispatch_job E (demo_job 6 1 (uid 8) ''test'' ''pending'') s);
       c = demo_job 7 2 (uid 1) ''deploy'' ''pending'' in
   dispatch_job E c t = dispatch_ready_job E c t
   \<and> map jr_status (db_jobs (srv_db (snd (dispatch_pending_jobs E s))))
       = [''failed'', ''blocked'', ''running'']"
proof -
  let ?s = "demo_server ''failed'' ''failed'' ''pending'' ''pending''"
  let ?E = "demo_env accept_all"
  let ?a = "demo_job 5 0 (uid 1) ''build'' ''failed''"
  let ?b = "demo_job 6 1 (uid 8) ''test'' ''pending''"
  let ?c = "demo_job 7 2 (uid 1) ''deploy'' ''pending''"
  have 1: "previous_jobs_for_job_run (jr_id ?b) (srv_db ?s) = [?a]"
    and 2: "previous_jobs_for_job_run (jr_id ?c) (srv_db ?s) = [?b]"
    by (simp_all add: previous_jobs_for_job_run_def demo_server_def demo_db3_def demo_job_def)
  have "map jr_status (db_jobs (srv_db (snd (dispatch_pending_jobs ?E ?s))))
      = [''failed'', ''blocked'', ''running'']" by code_simp
  then show ?thesis
    using job_after_blocked_job_is_dispatched [OF 1 _ _ 2 prod.collapse [symmetric], of ?E]
    by (simp add: Let_def demo_job_def)
qed

section \<open>A dispatch that fails\<close>

lemma on_db_Err: "on_db f s = (Err e, t) \<longleftrightarrow> (\<exists>d. f (srv_db s) = (Err e, d) \<and> t = s\<lparr>srv_db := d\<rparr>)"
  by (auto simp: on_db_def split: prod.splits)

lemma finish_no_outputs_ok: "finish_job_run P i st du ex tr fc me so se [] d \<noteq> (Err e, d')"
  by (simp add: finish_job_run_def)

lemma retry_or_fail_error:
  assumes "retry_or_fail_infra_error E job tr se me so s = (Err e, t)"
  shows "t = s"
proof -
  from assms have "(if jr_infra_retry_count job < uint (se_max_infra_retries E)
        then try_then (on_db (requeue_job_run_for_infra_retry (se_plat E) (jr_id job)) s)
               (\<lambda>_ s. (Ok (), s))
        else on_db (finish_job_run (se_plat E) (jr_id job) ''failed'' None None
               (Some tr) (Some ''infra'') me so se []) s) = (Err e, t)"
    unfolding retry_or_fail_infra_error_def by (auto elim!: try_then_cases)
  then have "on_db (requeue_job_run_for_infra_retry (se_plat E) (jr_id job)) s = (Err e, t)"
    by (auto simp: on_db_Err finish_no_outputs_ok elim!: try_then_cases split: if_splits)
  then show ?thesis
    by (auto simp: on_db_Err requeue_job_run_for_infra_retry_def Let_def split: option.splits)
qed

lemma quiet_jobs: "quiet s t \<Longrightarrow> db_jobs (srv_db t) = db_jobs (srv_db s)"
  by (auto simp: quiet_def)

lemma on_runner_db: "on_runner f s = (r, t) \<Longrightarrow> srv_db t = srv_db s"
  by (auto simp: on_runner_def split: prod.splits)

lemma create_on_runner_error:
  assumes "create_on_runner E job runner payload s = (Err e, t)"
  shows "db_jobs (srv_db t) = db_jobs (srv_db s)"
proof -
  let ?s1 = "with_db (set_job_run_input_payload (jr_id job) (JObject payload)) s"
  obtain r s2 where p: "on_runner (client_create_job_run (se_client E) runner (jr_runner_job_name job)
      (jr_dispatch_key job) (JObject payload)) ?s1 = (r, s2)" by force
  have "fail_job_after_runner_create_rejection E job m s2 \<noteq> (Err e, t)" for m
    by (auto simp: fail_job_after_runner_create_rejection_def on_db_Err finish_no_outputs_ok
        elim!: try_then_cases)
  then have "t = s2"
    using assms p unfolding create_on_runner_def Let_def
    by (cases r) (auto split: if_splits)
  then show ?thesis
    using on_runner_db [OF p] by (simp add: with_db_def set_job_run_input_payload_def)
qed

lemma dispatch_error_keeps_jobs:
  assumes "dispatch_job E job s = (Err e, t)"
  shows "db_jobs (srv_db t) = db_jobs (srv_db s)"
proof -
  have start: "db_jobs (srv_db t) = db_jobs (srv_db s)"
    if run: "start_job E job runner pipeline def schema s = (Err e, t)" for runner pipeline def schema
  proof -
    obtain r s1 where p: "resolve_job_inputs E pipeline (jr_id job) (nat (jr_job_index job)) def schema s
        = (r, s1)" by force
    have "db_jobs (srv_db s1) = db_jobs (srv_db s)"
      using quiet_jobs [OF quiet_inputs] p by (metis snd_conv)
    then show ?thesis
      using run p unfolding start_job_def
      by (cases r) (auto split: if_splits dest: create_on_runner_error retry_or_fail_error)
  qed
  from assms have "dispatch_ready_job E job s = (Err e, t)"
    unfolding dispatch_job_def Let_def by (auto split: if_splits)
  then show ?thesis
    using start unfolding dispatch_ready_job_def Let_def
    by (auto elim!: try_then_cases split: option.splits if_splits)
qed

text \<open>C28. A dispatch that fails ends the tick.  When sending one pending job to its runner fails
with anything but a terminal rejection (the runner is unreachable, answers 409 or 500, a
required output is missing), no row of a job changes any more: the job itself stays pending with
the same idempotency key, but no later job is dispatched and no running job of any pipeline is
polled, in this tick and in every later one as long as the failure lasts.\<close>

theorem failing_dispatch_stops_tick:
  assumes "process_push_events E (recover_incomplete_pipelines E s) = (Ok (), s1)"
    and "list_job_runs_by_status [''pending''] (srv_db s1) = before @ job # after"
    and "each_st (dispatch_job E) before s1 = (Ok (), s2)"
    and "dispatch_job E job s2 = (Err e, t)"
  shows "reconcile_once E s = (Err e, t) \<and> db_jobs (srv_db t) = db_jobs (srv_db s2)"
proof -
  have "each_st f (xs @ ys) u = try_then (each_st f xs u) (\<lambda>_. each_st f ys)"
    for f :: "JobRun \<Rightarrow> unit server_op" and xs ys u
  proof (induction xs arbitrary: u)
    case (Cons x xs)
    then show ?case by (cases "f x u"; cases "fst (f x u)") auto
  qed simp
  then have "dispatch_pending_jobs E s1 = (Err e, t)"
    using assms(2-4) by (simp add: dispatch_pending_jobs_def)
  then show ?thesis
    using assms(1) dispatch_error_keeps_jobs [OF assms(4)] by (simp add: reconcile_once_def)
qed

text \<open>One runner that answers 409 to a create request: the job running on the other runner,
which has succeeded, is not polled.\<close>

definition conflict_network :: "nat \<Rightarrow> ClientRequest \<Rightarrow> (string, HttpReply) result" where
  "conflict_network n r = Ok (demo_reply (if cq_method r = ''POST'' then 409 else 200) ''x'')"

theorem failing_dispatch_stops_tick_witness:
  "let s = demo_server ''running'' ''pending'' ''running'' ''running'';
       p = reconcile_once (demo_env conflict_network) s in
   fst p = Err ''runner create job failed with 409 Conflict: x''
   \<and> map jr_status (db_jobs (srv_db (snd p))) = [''pending'', ''running'', ''running'']
   \<and> length (srv_sent (snd p)) = 1"
proof -
  let ?E = "demo_env conflict_network"
  let ?s = "demo_server ''running'' ''pending'' ''running'' ''running''"
  let ?j = "demo_job 5 0 (uid 1) ''build'' ''pending''"
  let ?s1 = "recover_incomplete_pipelines ?E ?s"
  have "fst (process_push_events ?E ?s1) = Ok ()" by code_simp
  then have 1: "process_push_events ?E ?s1 = (Ok (), snd (process_push_events ?E ?s1))"
    by (metis prod.collapse)
  have 2: "list_job_runs_by_status [''pending''] (srv_db (snd (process_push_events ?E ?s1))) = [] @ ?j # []"
    by code_simp
  let ?q = "dispatch_job ?E ?j (snd (process_push_events ?E ?s1))"
  have f: "fst ?q = Err ''runner create job failed with 409 Conflict: x''" by code_simp
  then have 3: "?q = (Err ''runner create job failed with 409 Conflict: x'', snd ?q)"
    by (metis prod.collapse)
  have 4: "map jr_status (db_jobs (srv_db (snd (process_push_events ?E ?s1)))) =
      [''pending'', ''running'', ''running'']" by code_simp
  have 5: "length (srv_sent (snd ?q)) = 1" by code_simp
  from failing_dispatch_stops_tick [OF 1 2 _ 3] 4 5 show ?thesis by (simp add: Let_def)
qed

section \<open>A job canceled while the tick runs\<close>

lemma create_on_runner_ok:
  assumes "client_create_job_run (se_client E) runner (jr_runner_job_name job)
      (jr_dispatch_key job) (JObject payload) (srv_sent s) = (Ok created, sent)"
  shows "create_on_runner E job runner payload s =
    (Ok (), with_db (set_job_run_started (jr_id job) (jcr_job_id created) (jcr_started_at created))
      (with_db (set_job_run_input_payload (jr_id job) (JObject payload)) s\<lparr>srv_sent := sent\<rparr>))"
  using assms by (simp add: create_on_runner_def Let_def on_runner_def with_db_def)

text \<open>Starting a job overwrites its status: once the runner has accepted it, the row says
running and has lost its cancel reason and cancel times, whatever it said before.  The tick works
on the rows it read at its start, so a job that a user cancels while the tick waits for a runner
is started all the same, and nothing remembers that it was to be canceled.\<close>

theorem started_job_forgets_cancellation:
  assumes "client_create_job_run (se_client E) runner (jr_runner_job_name job)
      (jr_dispatch_key job) (JObject payload) (srv_sent s) = (Ok created, sent)"
    and "create_on_runner E job runner payload s = (r, t)"
  shows "r = Ok () \<and> srv_sent t = sent
    \<and> db_pipelines (srv_db t) = db_pipelines (srv_db s)
    \<and> (\<forall>j \<in> set (db_jobs (srv_db t)). jr_id j = jr_id job \<longrightarrow>
         jr_status j = ''running'' \<and> jr_runner_run_id j = Some (jcr_job_id created)
         \<and> jr_cancel_reason j = None \<and> jr_cancel_requested_at j = None)"
proof -
  have "db_jobs (srv_db t) = update_rows jr_id (jr_id job) (\<lambda>j. j\<lparr>
       jr_status := ''running'', jr_runner_run_id := Some (jcr_job_id created),
       jr_started_at := Some (jcr_started_at created), jr_cancel_reason := None,
       jr_cancel_requested_at := None, jr_cancel_started_at := None,
       jr_cancel_retry_count := 0, jr_last_cancel_retry_at := None\<rparr>) (db_jobs (srv_db s))"
    and "r = Ok ()" "srv_sent t = sent" "db_pipelines (srv_db t) = db_pipelines (srv_db s)"
    using assms(2) unfolding create_on_runner_ok [OF assms(1)]
    by (auto simp: with_db_def set_job_run_started_def set_job_run_input_payload_def)
  then show ?thesis by (auto simp: set_update_rows)
qed

text \<open>The pipeline is canceled, and its first job, which the tick had read as pending, starts.\<close>

theorem started_job_forgets_cancellation_witness:
  "let E = demo_env accept_all;
       s = snd (cancel_pipeline E (uid 4) (demo_server ''running'' ''pending'' ''pending'' ''pending''));
       job = demo_job 5 0 (uid 1) ''build'' ''pending'';
       t = snd (create_on_runner E job (demo_runner 1 ''one'') [] s) in
   map jr_status (db_jobs (srv_db s)) = [''canceled'', ''canceled'', ''canceled'']
   \<and> map pl_status (db_pipelines (srv_db t)) = [''canceled'']
   \<and> map jr_status (db_jobs (srv_db t)) = [''running'', ''canceled'', ''canceled'']"
proof -
  let ?E = "demo_env accept_all"
  let ?s = "snd (cancel_pipeline ?E (uid 4) (demo_server ''running'' ''pending'' ''pending'' ''pending''))"
  let ?job = "demo_job 5 0 (uid 1) ''build'' ''pending''"
  let ?c = "client_create_job_run (se_client ?E) (demo_runner 1 ''one'') (jr_runner_job_name ?job)
      (jr_dispatch_key ?job) (JObject []) (srv_sent ?s)"
  have "fst ?c = Ok (demo_created ''x'')" by code_simp
  then have 1: "?c = (Ok (demo_created ''x''), snd ?c)" by (metis prod.collapse)
  have 2: "map jr_status (db_jobs (srv_db ?s)) = [''canceled'', ''canceled'', ''canceled'']"
    and 3: "map pl_status (db_pipelines (srv_db ?s)) = [''canceled'']"
    and 4: "map jr_status (db_jobs (srv_db (snd (create_on_runner ?E ?job (demo_runner 1 ''one'') [] ?s))))
      = [''running'', ''canceled'', ''canceled'']"
    by code_simp+
  from started_job_forgets_cancellation [OF 1 prod.collapse [symmetric]] 2 3 4
  show ?thesis by (simp add: Let_def)
qed
end
