(* ===== verification/Job_Polling.thy ===== *)
theory Job_Polling
  imports Pipeline_Start
begin

text \<open>
  Polling running jobs, cancelling pipelines, the artifacts the server keeps, and the
  invariants of the server under all of it.
\<close>

section \<open>The invariants\<close>

text \<open>C3. Whatever the scheduler does, the tables stay well-formed: after a tick, after a
cancellation, after a refresh of the runners and after starting a workflow, all also when they
fail, identifiers and dispatch keys are still unique, every job still belongs to an existing
pipeline and runner and has its log row, and recorded predecessors exist.  In particular no two
job runs, and no two attempts of a job run, share an idempotency key.\<close>

theorem server_tables_stay_well_formed:
  assumes "server_wf E (srv_db s)"
  shows "server_wf E (srv_db (snd (reconcile_once E s)))
    \<and> server_wf E (srv_db (snd (cancel_pipeline E p s)))
    \<and> server_wf E (srv_db (snd (refresh_runner_health E s)))
    \<and> server_wf E (srv_db (snd (enqueue_workflow_run_with_artifacts E w tt tr c sels s)))"
  using tables.holds_tick [of E s] tables.holds_cancel [of E s p] tables.holds_health [of E s]
    tables.holds_enqueue [of E s w tt tr c sels] assms
  by (simp add: tables.holds_def)

theorem server_tables_stay_well_formed_witness:
  "server_wf (demo_env accept_all) (srv_db (snd (reconcile_once (demo_env accept_all)
     (demo_server ''running'' ''success'' ''running'' ''pending''))))"
  using server_tables_stay_well_formed [of "demo_env accept_all"
      "demo_server ''running'' ''success'' ''running'' ''pending''"] demo_server_wf
  by (simp add: demo_server_def)



section \<open>Polling\<close>

text \<open>The status of a pipeline's row is the decision over the rows of its jobs.\<close>

definition pipeline_current :: "string \<Rightarrow> Db \<Rightarrow> bool" where
  "pipeline_current i d =
     (\<forall>p \<in> set (db_pipelines d). pl_id p = i \<longrightarrow>
        pl_status p = PipelineStatus_as_str (terminal_pipeline_status (job_statuses i d)))"

lemma updated_row:
  assumes "r \<in> set (update_rows key i f rows)" and "key r = i"
  shows "\<exists>q \<in> set rows. r = f q"
  using assms by (auto simp: set_update_rows split: if_splits)

lemma finalize_current: "pipeline_current i (finalize_pipeline_status P i d)"
proof -
  let ?f = "final_pipeline_row (PipelineStatus_as_str (terminal_pipeline_status (job_statuses i d)))
      (clock P (db_seq d))"
  have st: "job_statuses i (finalize_pipeline_status P i d) = job_statuses i d"
    by (simp add: job_statuses_def finalize_pipeline_status_def)
  have rows: "db_pipelines (finalize_pipeline_status P i d) = update_rows pl_id i ?f (db_pipelines d)"
    by (simp add: finalize_pipeline_status_def)
  have "pl_status (?f q) = PipelineStatus_as_str (terminal_pipeline_status (job_statuses i d))" for q
    by (simp add: final_pipeline_row_def)
  then show ?thesis
    unfolding pipeline_current_def st rows using updated_row [of _ pl_id i ?f] by metis
qed

lemma finalized:
  assumes "try_then p (\<lambda>_ s. (Ok (), with_db (finalize_pipeline_status P i) s)) = (Ok u, t)"
  shows "\<exists>x s. p = (Ok x, s) \<and> pipeline_current i (srv_db t) \<and> db_jobs (srv_db t) = db_jobs (srv_db s)"
proof -
  obtain x s where p: "p = (Ok x, s)" and t: "t = with_db (finalize_pipeline_status P i) s"
    using assms by (auto simp: try_then_Inr)
  have "pipeline_current i (srv_db t)" unfolding t with_db_def by (simp add: finalize_current)
  moreover have "db_jobs (srv_db t) = db_jobs (srv_db s)"
    by (simp add: t with_db_def finalize_pipeline_status_def)
  ultimately show ?thesis using p by blast
qed

text \<open>What a job's row may say after its runner reported the end of the run.\<close>

definition ended_row :: "SchedEnv \<Rightarrow> JobRun \<Rightarrow> JobRun \<Rightarrow> bool" where
  "ended_row E job j =
     (jr_status j \<in> {''success'', ''failed'', ''canceled''} \<and> jr_finished_at j \<noteq> None
      \<or> jr_status j = ''pending'' \<and> jr_runner_run_id j = None \<and> jr_finished_at j = None
        \<and> jr_infra_retry_count job < uint (se_max_infra_retries E))"

lemma ended_finish:
  assumes "on_db (finish_job_run P (jr_id job) st du ex tr fc me so se outs) s = (Ok u, t)"
    and "st \<in> {''success'', ''failed'', ''canceled''}"
    and "j \<in> set (db_jobs (srv_db t))" and "jr_id j = jr_id job"
  shows "ended_row E job j"
proof -
  let ?f = "finish_job_row st du ex tr fc me (clock P (db_seq (srv_db s)))"
  have "db_jobs (srv_db t) = update_rows jr_id (jr_id job) ?f (db_jobs (srv_db s))"
    using assms(1) by (auto simp: on_db_def finish_job_run_def split: if_splits)
  then obtain k where "j = ?f k"
    using assms(3,4) updated_row [of j jr_id "jr_id job" ?f] by auto
  then show ?thesis using assms(2) by (auto simp: ended_row_def finish_job_row_def)
qed

lemma ended_requeue:
  assumes "on_db (requeue_job_run_for_infra_retry P (jr_id job)) s = (Ok n, t)"
    and "jr_infra_retry_count job < uint (se_max_infra_retries E)"
    and "j \<in> set (db_jobs (srv_db t))" and "jr_id j = jr_id job"
  shows "ended_row E job j"
proof -
  let ?f = "infra_retry_row (next_dispatch_idempotency_key P (db_seq (srv_db s)))
      (clock P (db_seq (srv_db s)))"
  have "db_jobs (srv_db t) = update_rows jr_id (jr_id job) ?f (db_jobs (srv_db s))"
    using assms(1)
    by (auto simp: on_db_def requeue_job_run_for_infra_retry_def Let_def split: option.splits)
  then obtain k where "j = ?f k"
    using assms(3,4) updated_row [of j jr_id "jr_id job" ?f] by auto
  then show ?thesis using assms(2) by (simp add: ended_row_def infra_retry_row_def)
qed

lemma ended_retry_or_fail:
  assumes "retry_or_fail_infra_error E job tr se me so s = (Ok u, t)"
  shows "pipeline_current (jr_pipeline_run_id job) (srv_db t)
    \<and> (\<forall>j \<in> set (db_jobs (srv_db t)). jr_id j = jr_id job \<longrightarrow> ended_row E job j)"
proof -
  let ?p = "if jr_infra_retry_count job < uint (se_max_infra_retries E)
      then try_then (on_db (requeue_job_run_for_infra_retry (se_plat E) (jr_id job)) s)
             (\<lambda>_ s. (Ok (), s))
      else on_db (finish_job_run (se_plat E) (jr_id job) ''failed'' None None
             (Some tr) (Some ''infra'') me so se []) s"
  obtain x s1 where p: "?p = (Ok x, s1)"
    and cur: "pipeline_current (jr_pipeline_run_id job) (srv_db t)"
    and jobs: "db_jobs (srv_db t) = db_jobs (srv_db s1)"
    using finalized [OF assms [unfolded retry_or_fail_infra_error_def]] by blast
  have "ended_row E job j" if "j \<in> set (db_jobs (srv_db s1))" "jr_id j = jr_id job" for j
  proof (cases "jr_infra_retry_count job < uint (se_max_infra_retries E)")
    case True
    then obtain n where "on_db (requeue_job_run_for_infra_retry (se_plat E) (jr_id job)) s = (Ok n, s1)"
      using p by (auto simp: try_then_Inr)
    then show ?thesis using ended_requeue True that by blast
  next
    case False
    then have "on_db (finish_job_run (se_plat E) (jr_id job) ''failed'' None None
        (Some tr) (Some ''infra'') me so se []) s = (Ok x, s1)"
      using p by simp
    then show ?thesis using ended_finish that by blast
  qed
  then show ?thesis using cur jobs by simp
qed

lemma terminal_status_texts:
  "ServerJobStatus_as_str (terminal_job_status st) \<in> {''success'', ''failed'', ''canceled''}"
  by (cases st) simp_all

text \<open>C8. A run that has ended on its runner is settled on the server: once the tick has handled
the runner's report, the job's row is finished as success, failed or canceled, or it is pending
again for another attempt that the retry budget allowed, without a runner run; it is never left
running, whether or not its logs or outputs could be fetched.  And the row of its pipeline says
what the statuses of all its jobs decide.\<close>

theorem ended_run_is_settled:
  assumes "finish_polled_job E job runner rid status s = (Ok u, t)"
  shows "pipeline_current (jr_pipeline_run_id job) (srv_db t)
    \<and> (\<forall>j \<in> set (db_jobs (srv_db t)). jr_id j = jr_id job \<longrightarrow> ended_row E job j)"
proof -
  obtain lr s1 where p: "on_runner (client_get_job_logs (se_client E) runner rid) s = (lr, s1)"
    by force
  obtain q s2 where q: "persist_job_outputs E runner (jr_id job) (jsr_outputs status) s1 = (q, s2)"
    by force
  show ?thesis
  proof (cases "should_retry_infra_failure job status (se_max_infra_retries E)")
    case True
    then have "try_then (on_db (requeue_job_run_for_infra_retry (se_plat E) (jr_id job)) s1)
        (\<lambda>_ s. (Ok (), with_db (finalize_pipeline_status (se_plat E) (jr_pipeline_run_id job)) s))
        = (Ok u, t)"
      using assms p by (simp add: finish_polled_job_def Let_def)
    from finalized [OF this] ended_requeue [of "se_plat E" job s1 _ _ E] True
    show ?thesis by (force simp: should_retry_infra_failure_def)
  next
    case False
    show ?thesis
    proof (cases q)
      case (Inl e)
      then show ?thesis
        using assms p q False ended_retry_or_fail by (simp add: finish_polled_job_def Let_def)
    next
      case (Inr outs)
      let ?fin = "finish_job_run (se_plat E) (jr_id job)
          (ServerJobStatus_as_str (terminal_job_status (jsr_status status)))
          (jsr_duration_ms status) (jsr_exit_code status)
          (map_option TerminalReason_as_str (jsr_terminal_reason status))
          (map_option FailureCategory_as_str (jsr_failure_category status))
          (jsr_output_metadata status)
          (jlr_stdout (case lr of Ok l \<Rightarrow> l | Err _ \<Rightarrow> \<lparr>jlr_stdout = [], jlr_stderr = []\<rparr>))
          (jlr_stderr (case lr of Ok l \<Rightarrow> l | Err _ \<Rightarrow> \<lparr>jlr_stdout = [], jlr_stderr = []\<rparr>)) outs"
      have "try_then (on_db ?fin s2) (\<lambda>_ s. (Ok (),
          with_db (finalize_pipeline_status (se_plat E) (jr_pipeline_run_id job)) s)) = (Ok u, t)"
        using assms p q False Inr by (simp add: finish_polled_job_def Let_def)
      from finalized [OF this] obtain x s3 where
        "on_db ?fin s2 = (Ok x, s3)" "pipeline_current (jr_pipeline_run_id job) (srv_db t)"
        "db_jobs (srv_db t) = db_jobs (srv_db s3)" by blast
      then show ?thesis using ended_finish [OF _ terminal_status_texts] by auto
    qed
  qed
qed

theorem ended_run_is_settled_witness:
  "let job = demo_job 5 0 (uid 1) ''build'' ''running'';
       t = snd (finish_polled_job (demo_env accept_all) job (demo_runner 1 ''one'') ''x''
         (demo_status Failed (Some CategoryInfra) [])
         (demo_server ''running'' ''running'' ''pending'' ''pending'')) in
   (\<forall>j \<in> set (db_jobs (srv_db t)). jr_id j = uid 5 \<longrightarrow> ended_row (demo_env accept_all) job j)
   \<and> map jr_infra_retry_count (db_jobs (srv_db t)) = [2, 1, 1]"
proof -
  let ?job = "demo_job 5 0 (uid 1) ''build'' ''running''"
  let ?p = "finish_polled_job (demo_env accept_all) ?job (demo_runner 1 ''one'') ''x''
      (demo_status Failed (Some CategoryInfra) [])
      (demo_server ''running'' ''running'' ''pending'' ''pending'')"
  have "fst ?p = Ok ()" by code_simp
  then have 1: "?p = (Ok (), snd ?p)" by (metis prod.collapse)
  have 2: "map jr_infra_retry_count (db_jobs (srv_db (snd ?p))) = [2, 1, 1]" by code_simp
  have "jr_id ?job = uid 5" by (simp add: demo_job_def)
  then show ?thesis using ended_run_is_settled [OF 1] 2 by (simp add: Let_def)
qed

text \<open>How far a cancellation has come.\<close>

fun cancel_rank :: "ServerJobStatus \<Rightarrow> nat" where
  "cancel_rank SCancelRequested = 1"
| "cancel_rank SCanceling = 2"
| "cancel_rank _ = 0"

fun runner_cancel_rank :: "JobStatus \<Rightarrow> nat" where
  "runner_cancel_rank CancelRequested = 1"
| "runner_cancel_rank Canceling = 2"
| "runner_cancel_rank _ = 0"

text \<open>A cancellation never goes back: for a job that still runs on its runner, the status the
server keeps is the further advanced of its own and the runner's, in the order running, cancel
requested, canceling.\<close>

theorem polled_status_advances:
  assumes "local \<in> {SRunning, SCancelRequested, SCanceling}"
    and "remote \<in> {Running, CancelRequested, Canceling}"
  shows "polled_status (ServerJobStatus_as_str local) remote \<in> {SRunning, SCancelRequested, SCanceling}
    \<and> cancel_rank (polled_status (ServerJobStatus_as_str local) remote)
        = max (cancel_rank local) (runner_cancel_rank remote)"
  using assms by (auto simp: polled_status_def ServerJobStatus_parse_def)

theorem polled_status_advances_witness:
  "cancel_rank (polled_status ''canceling'' CancelRequested) = 2"
  using polled_status_advances [of SCanceling CancelRequested] by simp

section \<open>Cancelling\<close>

definition cancel_pending :: "SchedEnv \<Rightarrow> JobRun \<Rightarrow> Server \<Rightarrow> Server" where
  "cancel_pending E job s =
     (if jr_status job = ''pending''
      then with_db (set_job_run_status (se_plat E) (jr_id job) ''canceled'') s else s)"

lemma cancel_jobs_none_running:
  "\<forall>j \<in> set jobs. jr_status j \<noteq> ''running'' \<Longrightarrow>
     cancel_jobs E jobs req s = (Ok req, fold (cancel_pending E) jobs s)"
  by (induction jobs arbitrary: s) (simp_all add: cancel_pending_def)

lemma cancel_pending_frame:
  "srv_sent (fold (cancel_pending E) jobs s) = srv_sent s
   \<and> db_pipelines (srv_db (fold (cancel_pending E) jobs s)) = db_pipelines (srv_db s)"
  by (induction jobs arbitrary: s)
    (simp_all add: cancel_pending_def with_db_def set_job_run_status_def)

lemma cancel_pending_other:
  assumes "j \<in> set (db_jobs (srv_db s))"
    and "\<forall>k \<in> set jobs. jr_status k = ''pending'' \<longrightarrow> jr_id k \<noteq> jr_id j"
  shows "j \<in> set (db_jobs (srv_db (fold (cancel_pending E) jobs s)))"
  using assms
proof (induction jobs arbitrary: s)
  case (Cons k jobs)
  have "j \<in> set (db_jobs (srv_db (cancel_pending E k s)))"
  proof (cases "jr_status k = ''pending''")
    case True
    then have "jr_id j \<noteq> jr_id k" using Cons.prems(2) by auto
    then have "j \<in> set (update_rows jr_id (jr_id k) f (db_jobs (srv_db s)))" for f
      using Cons.prems(1) unfolding set_update_rows by (auto intro!: image_eqI [of _ _ j])
    then show ?thesis
      using True by (simp add: cancel_pending_def with_db_def set_job_run_status_def)
  qed (simp add: cancel_pending_def Cons.prems(1))
  then show ?case using Cons.IH Cons.prems(2) by simp
qed simp

text \<open>C36. Cancelling a pipeline none of whose jobs is running asks no runner for anything and
marks the pipeline canceled and finished, whatever it was: a pipeline that had succeeded or
failed is rewritten to canceled, and a pipeline whose jobs are still being cancelled on their
runners (the user clicks a second time) is shown as over while they run.  The rows of the jobs
that are not pending stay as they are.\<close>

theorem cancel_rewrites_settled_pipeline:
  assumes wf: "server_wf E (srv_db s)"
    and none: "\<forall>j \<in> set (list_job_runs_for_pipeline pid (srv_db s)). jr_status j \<noteq> ''running''"
    and run: "cancel_pipeline E pid s = (r, t)"
  shows "r = Ok () \<and> srv_sent t = srv_sent s
    \<and> (\<forall>p \<in> set (db_pipelines (srv_db t)). pl_id p = pid \<longrightarrow>
         pl_status p = ''canceled'' \<and> pl_finished_at p \<noteq> None)
    \<and> (\<forall>j \<in> set (db_jobs (srv_db s)). jr_status j \<noteq> ''pending'' \<longrightarrow> j \<in> set (db_jobs (srv_db t)))"
proof -
  let ?jobs = "list_job_runs_for_pipeline pid (srv_db s)"
  let ?u = "fold (cancel_pending E) ?jobs s"
  let ?f = "pipeline_status_row ''canceled'' (clock (se_plat E) (db_seq (srv_db ?u)))"
  have t: "r = Ok ()" "t = with_db (set_pipeline_status (se_plat E) pid ''canceled'') ?u"
    using run unfolding cancel_pipeline_def cancel_jobs_none_running [OF none] by simp_all
  have rows: "db_pipelines (srv_db t) = update_rows pl_id pid ?f (db_pipelines (srv_db ?u))"
    by (simp add: t(2) with_db_def set_pipeline_status_def)
  have row: "pl_status (?f q) = ''canceled'' \<and> pl_finished_at (?f q) \<noteq> None" for q
    by (simp add: pipeline_status_row_def)
  have "\<forall>p \<in> set (db_pipelines (srv_db t)). pl_id p = pid \<longrightarrow>
      pl_status p = ''canceled'' \<and> pl_finished_at p \<noteq> None"
    unfolding rows using row updated_row [of _ pl_id pid ?f] by metis
  moreover have "j \<in> set (db_jobs (srv_db t))"
    if j: "j \<in> set (db_jobs (srv_db s))" "jr_status j \<noteq> ''pending''" for j
  proof -
    have dist: "inj_on jr_id (set (db_jobs (srv_db s)))"
      using server_wf_ids [OF wf] by (simp add: distinct_map)
    have "jr_id k \<noteq> jr_id j" if "k \<in> set ?jobs" "jr_status k = ''pending''" for k
      using that j inj_onD [OF dist, of k j] by (auto simp: list_job_runs_for_pipeline_def)
    then have "j \<in> set (db_jobs (srv_db ?u))" by (intro cancel_pending_other j(1)) blast
    then show ?thesis by (simp add: t(2) with_db_def set_pipeline_status_def)
  qed
  ultimately show ?thesis
    using t cancel_pending_frame [of E ?jobs s] by (simp add: with_db_def)
qed

text \<open>A pipeline that has succeeded; and a second click while the runner is still cancelling.\<close>

theorem cancel_rewrites_settled_pipeline_witness:
  "map pl_status (db_pipelines (srv_db (snd (cancel_pipeline (demo_env accept_all) (uid 4)
     (demo_server ''success'' ''success'' ''success'' ''success''))))) = [''canceled'']
   \<and> (let s = snd (cancel_pipeline (demo_env accept_all) (uid 4)
               (demo_server ''running'' ''success'' ''running'' ''pending''));
          t = snd (cancel_pipeline (demo_env accept_all) (uid 4) s) in
      map pl_status (db_pipelines (srv_db s)) = [''cancel_requested'']
      \<and> map pl_status (db_pipelines (srv_db t)) = [''canceled'']
      \<and> map jr_status (db_jobs (srv_db t)) = [''success'', ''cancel_requested'', ''canceled''])"
proof -
  let ?E = "demo_env accept_all"
  let ?s = "demo_server ''success'' ''success'' ''success'' ''success''"
  let ?t = "snd (cancel_pipeline ?E (uid 4) ?s)"
  have "list_all (\<lambda>j. jr_status j \<noteq> ''running'')
      (list_job_runs_for_pipeline (uid 4) (srv_db ?s))" by code_simp
  then have none: "\<forall>j \<in> set (list_job_runs_for_pipeline (uid 4) (srv_db ?s)).
      jr_status j \<noteq> ''running''" by (simp only: list_all_iff)
  have ids: "map pl_id (db_pipelines (srv_db ?t)) = [uid 4]" by code_simp
  have wf: "server_wf ?E (srv_db ?s)" by (simp add: demo_server_def demo_server_wf)
  have "\<forall>p \<in> set (db_pipelines (srv_db ?t)). pl_id p = uid 4 \<longrightarrow> pl_status p = ''canceled''"
    using cancel_rewrites_settled_pipeline [OF wf none prod.collapse [symmetric]] by blast
  then have 1: "map pl_status (db_pipelines (srv_db ?t)) = [''canceled'']"
    using ids by (cases "db_pipelines (srv_db ?t)") auto
  have 2: "let s = snd (cancel_pipeline ?E (uid 4) (demo_server ''running'' ''success'' ''running'' ''pending''));
          t = snd (cancel_pipeline ?E (uid 4) s) in
      map pl_status (db_pipelines (srv_db s)) = [''cancel_requested'']
      \<and> map pl_status (db_pipelines (srv_db t)) = [''canceled'']
      \<and> map jr_status (db_jobs (srv_db t)) = [''success'', ''cancel_requested'', ''canceled'']"
    by code_simp
  from 1 2 show ?thesis by blast
qed
end
