(* ===== verification/Server_Artifacts.thy ===== *)
theory Server_Artifacts
  imports Pipeline_Start
begin

text \<open>
  The artifacts the server keeps for its pipelines: what is stored can be read back, and only
  from below the artifact directory; and what goes wrong when a job is retried.
\<close>

section \<open>Storing and reading\<close>

text \<open>The identifiers of the stored artifacts have been drawn before.\<close>

definition artifacts_issued :: "DbPlat \<Rightarrow> Db \<Rightarrow> bool" where
  "artifacts_issued P d =
     (\<forall>a \<in> set (db_artifacts d). issued (\<lambda>n. ''srvart_'' @ uuid_simple P n) (db_seq d) (art_id a))"

lemma inj_artifact_id: "inj (uuid_simple P) \<Longrightarrow> inj (\<lambda>n. ''srvart_'' @ uuid_simple P n)"
  by (auto simp: inj_def)

lemma store_bytes_ok:
  assumes "server_store_bytes E st si n bytes s = (Ok pend, t)"
  shows "pend_id pend = ''srvart_'' @ uuid_simple (se_plat E) (db_seq (srv_db s))
    \<and> pend_storage_path pend = se_artifact_root E @ ''/'' @ pend_id pend @ ''.bin''
    \<and> pend_scope_type pend = st \<and> pend_scope_id pend = si \<and> pend_artifact_name pend = n
    \<and> pend_sha256 pend = se_sha256_hex E bytes \<and> pend_size_bytes pend = int (length bytes)
    \<and> srv_files t = (srv_files s)(pend_storage_path pend \<mapsto> bytes)
    \<and> srv_db t = draw (srv_db s) \<and> srv_sent t = srv_sent s
    \<and> length bytes \<le> se_max_artifact_bytes E"
  using assms
  by (auto simp: server_store_bytes_def Let_def with_db_def split: if_splits option.splits)

lemma issued_not_found:
  assumes "artifacts_issued P d" and "inj (uuid_simple P)" and "db_seq d \<le> n"
  shows "\<forall>a \<in> set (db_artifacts d). art_id a \<noteq> ''srvart_'' @ uuid_simple P n"
  using assms issued_fresh [OF inj_artifact_id [OF assms(2)]] unfolding artifacts_issued_def by blast

text \<open>C33. What the server stores it can serve: after an artifact of a new scope was stored and
recorded, its record is found under the returned identifier, holds the digest and the size of
the bytes, and reading it returns the bytes, provided the file system resolves the path of the
file to itself.\<close>

theorem stored_artifact_is_read_back:
  assumes "inj (uuid_simple (se_plat E))" and "artifacts_issued (se_plat E) (srv_db s)"
    and "server_store_bytes E st si n bytes s = (Ok pend, t)"
    and "get_server_artifact st si n (srv_db s) = None"
    and "insert_server_artifact (se_plat E) pend (srv_db t) = (i, d)"
    and "se_canonicalize E (pend_storage_path pend) = Ok (pend_storage_path pend)"
  shows "\<exists>a. get_server_artifact_by_id i d = Some a \<and> art_sha256 a = se_sha256_hex E bytes
    \<and> art_size_bytes a = int (length bytes)
    \<and> server_read_bytes E a (t\<lparr>srv_db := d\<rparr>) = Ok bytes"
proof -
  note pend = store_bytes_ok [OF assms(3)]
  have arts: "db_artifacts (srv_db t) = db_artifacts (srv_db s)" using pend by simp
  have new: "\<not> list_ex (same_scope pend) (db_artifacts (srv_db t))"
    using assms(4) pend arts
    by (auto simp: get_server_artifact_def find_None_iff same_scope_def list_ex_iff)
  have fresh: "\<forall>a \<in> set (db_artifacts (srv_db t)). art_id a \<noteq> pend_id pend"
    using issued_not_found [OF assms(2,1)] pend arts by simp
  let ?a = "\<lparr>art_id = pend_id pend, art_scope_type = pend_scope_type pend,
      art_scope_id = pend_scope_id pend, art_artifact_name = pend_artifact_name pend,
      art_sha256 = pend_sha256 pend, art_size_bytes = pend_size_bytes pend,
      art_storage_path = pend_storage_path pend,
      art_created_at = clock (se_plat E) (db_seq (srv_db t))\<rparr>"
  have ins: "i = pend_id pend" "db_artifacts d = db_artifacts (srv_db t) @ [?a]"
    using assms(5) new by (auto simp: insert_server_artifact_def)
  have "find (\<lambda>a. art_id a = i) (xs @ [?a]) = Some ?a" if "\<forall>a \<in> set xs. art_id a \<noteq> i" for xs
    using that ins(1) by (induction xs) auto
  then have "get_server_artifact_by_id i d = Some ?a"
    using fresh ins by (simp add: get_server_artifact_by_id_def)
  moreover have "path_starts_with (se_artifact_root E) (pend_storage_path pend)"
    using pend by (auto simp: path_starts_with_def starts_with_iff)
  then have "server_read_bytes E ?a (t\<lparr>srv_db := d\<rparr>) = Ok bytes"
    using pend assms(6) by (simp add: server_read_bytes_def)
  ultimately show ?thesis using pend by auto
qed

theorem stored_artifact_is_read_back_witness:
  "let E = demo_env accept_all;
       p = server_store_bytes E ''job_output'' (uid 5) ''app'' ''data''
             (demo_server ''running'' ''running'' ''pending'' ''pending'');
       q = insert_server_artifact demo_plat (projr (fst p)) (srv_db (snd p)) in
   \<exists>a. get_server_artifact_by_id (fst q) (snd q) = Some a
     \<and> server_read_bytes E a (snd p\<lparr>srv_db := snd q\<rparr>) = Ok ''data''"
proof -
  let ?E = "demo_env accept_all"
  let ?s = "demo_server ''running'' ''running'' ''pending'' ''pending''"
  let ?p = "server_store_bytes ?E ''job_output'' (uid 5) ''app'' ''data'' ?s"
  have "is_ok (fst ?p)" by code_simp
  then have 1: "?p = (Ok (projr (fst ?p)), snd ?p)"
    by (metis is_ok_iff prod.collapse sum.sel(2))
  have 2: "inj (uuid_simple (se_plat ?E))" "artifacts_issued (se_plat ?E) (srv_db ?s)"
    by (simp_all add: uid_inj artifacts_issued_def demo_server_def demo_db3_def empty_db_def)
  have 3: "get_server_artifact ''job_output'' (uid 5) ''app'' (srv_db ?s) = None" by code_simp
  have 4: "se_canonicalize ?E x = Ok x" for x by (simp add: demo_env_def)
  from stored_artifact_is_read_back [OF 2 1 3 prod.collapse [symmetric] 4]
  show ?thesis by (auto simp: Let_def)
qed

text \<open>An artifact is read only from below the server's artifact directory: whatever path its
record holds, bytes are returned only when the path, with symbolic links resolved, is in that
directory.\<close>

theorem artifact_reads_are_confined:
  assumes "server_read_bytes E a s = Ok bytes"
  shows "\<exists>path. se_canonicalize E (art_storage_path a) = Ok path
    \<and> (path = se_artifact_root E \<or> (\<exists>rest. path = se_artifact_root E @ ''/'' @ rest))
    \<and> srv_files s path = Some bytes"
  using assms
  by (auto simp: server_read_bytes_def path_starts_with_def starts_with_iff split: if_splits)

definition demo_stored :: ServerArtifact where
  "demo_stored =
     \<lparr>art_id = ''srvart_1'', art_scope_type = ''job_output'', art_scope_id = uid 5,
      art_artifact_name = ''app'', art_sha256 = [], art_size_bytes = 1,
      art_storage_path = ''/data/server-artifacts/1.bin'', art_created_at = ''t''\<rparr>"

theorem artifact_reads_are_confined_witness:
  "\<exists>rest. ''/data/server-artifacts/1.bin'' = se_artifact_root (demo_env accept_all) @ ''/'' @ rest"
proof -
  let ?s = "(demo_server ''a'' ''a'' ''a'' ''a'')\<lparr>srv_files := [''/data/server-artifacts/1.bin'' \<mapsto> ''z'']\<rparr>"
  have "server_read_bytes (demo_env accept_all) demo_stored ?s = Ok ''z''" by code_simp
  from artifact_reads_are_confined [OF this] show ?thesis
    by (auto simp: demo_env_def demo_stored_def)
qed

section \<open>An output stored twice\<close>

text \<open>C30. When a job is retried, an output artifact that an earlier attempt had stored gets an
identifier that no record has.  Storing it again keeps the old record with the old identifier and
only points it at the new file, but the output of the job is recorded with the identifier of the
new upload; so a later job of the pipeline that needs the artifact on another runner fails with
'missing server artifact record'.\<close>

theorem restored_output_has_no_record:
  assumes "inj (uuid_simple (se_plat E))" and "artifacts_issued (se_plat E) (srv_db s)"
    and "get_server_artifact ''job_output'' job_run_id name (srv_db s) = Some old"
    and "persist_output E runner job_run_id name (OutArtifact artifact_id sha256 nbytes) s = (Ok out, t)"
  shows "\<exists>i. jo_server_artifact_id out = Some i \<and> get_server_artifact_by_id i (srv_db t) = None
    \<and> map art_id (db_artifacts (srv_db t)) = map art_id (db_artifacts (srv_db s))"
proof -
  obtain bytes s1 pend s2 where
    1: "on_runner (client_download_artifact (se_client E) runner artifact_id) s = (Ok bytes, s1)"
    and 2: "server_store_bytes E ''job_output'' job_run_id name bytes s1 = (Ok pend, s2)"
    and 3: "jo_server_artifact_id out = Some (fst (insert_server_artifact (se_plat E) pend (srv_db s2)))"
      "srv_db t = snd (insert_server_artifact (se_plat E) pend (srv_db s2))"
    using assms(4) by (auto simp: try_then_Inr case_prod_unfold Let_def)
  note pend = store_bytes_ok [OF 2]
  have s1: "srv_db s1 = srv_db s" using 1 by (auto simp: on_runner_def split: prod.splits)
  have arts: "db_artifacts (srv_db s2) = db_artifacts (srv_db s)" using pend s1 by simp
  have "list_ex (same_scope pend) (db_artifacts (srv_db s2))"
    using assms(3) pend arts find_present [of "\<lambda>a. art_scope_type a = ''job_output''
        \<and> art_scope_id a = job_run_id \<and> art_artifact_name a = name" "db_artifacts (srv_db s)"]
    by (auto simp: get_server_artifact_def same_scope_def list_ex_iff)
  then have ids: "map art_id (db_artifacts (srv_db t)) = map art_id (db_artifacts (srv_db s))"
    using 3(2) arts by (simp add: insert_server_artifact_def comp_def if_distrib [of art_id] cong: if_cong)
  have "art_id a \<noteq> pend_id pend" if "a \<in> set (db_artifacts (srv_db t))" for a
  proof -
    have "art_id a \<in> set (map art_id (db_artifacts (srv_db t)))" using that by simp
    then show ?thesis
      using issued_not_found [OF assms(2,1) order_refl] pend s1 unfolding ids by auto
  qed
  then have "get_server_artifact_by_id (pend_id pend) (srv_db t) = None"
    by (auto simp: get_server_artifact_by_id_def find_None_iff)
  then show ?thesis using 3(1) ids by (auto simp: insert_server_artifact_def)
qed

theorem restored_output_has_no_record_witness:
  "let E = demo_env accept_all;
       s = with_db (\<lambda>d. d\<lparr>db_artifacts := [demo_stored\<lparr>art_id := ''srvart_'' @ uid 3\<rparr>]\<rparr>)
             (demo_server ''running'' ''running'' ''pending'' ''pending'');
       p = persist_output E (demo_runner 1 ''one'') (uid 5) ''app'' (OutArtifact ''a'' [] 1) s in
   \<exists>i. jo_server_artifact_id (projr (fst p)) = Some i
     \<and> get_server_artifact_by_id i (srv_db (snd p)) = None"
proof -
  let ?E = "demo_env accept_all"
  let ?old = "demo_stored\<lparr>art_id := ''srvart_'' @ uid 3\<rparr>"
  let ?s = "with_db (\<lambda>d. d\<lparr>db_artifacts := [?old]\<rparr>)
      (demo_server ''running'' ''running'' ''pending'' ''pending'')"
  let ?p = "persist_output ?E (demo_runner 1 ''one'') (uid 5) ''app'' (OutArtifact ''a'' [] 1) ?s"
  have "is_ok (fst ?p)" by code_simp
  then have 1: "?p = (Ok (projr (fst ?p)), snd ?p)"
    by (metis is_ok_iff prod.collapse sum.sel(2))
  have "issued (\<lambda>n. ''srvart_'' @ uid n) 10 (''srvart_'' @ uid 3)" unfolding issued_def by auto
  then have 2: "inj (uuid_simple (se_plat ?E))" "artifacts_issued (se_plat ?E) (srv_db ?s)"
    by (simp_all add: uid_inj artifacts_issued_def demo_server_def demo_db3_def with_db_def)
  have 3: "get_server_artifact ''job_output'' (uid 5) ''app'' (srv_db ?s) = Some ?old" by code_simp
  from restored_output_has_no_record [OF 2 3 1] show ?thesis by (auto simp: Let_def)
qed

section \<open>The source archive of a pipeline\<close>

text \<open>A source archive that was left unfinished is used all the same.  When git archive fails,
or the server is stopped while it runs, with some bytes already at the target path, the first
attempt to provide the source of a pipeline fails; the next one finds the file, does not run git
again, and stores those bytes as the source of the pipeline, for all its jobs.\<close>

theorem partial_archive_becomes_source:
  assumes repo: "get_repo (pl_repo_id p) (srv_db s) = Some repo" and sha: "pl_commit_sha p = Some c"
    and none: "get_server_artifact ''pipeline_source'' (pl_id p) ''source'' (srv_db s) = None"
    and path: "path = source_archive_path E p c"
    and missing: "srv_files s path = None"
    and git: "se_git_archive E (db_seq (srv_db s)) (repo_bare_path repo) c path = (Some junk, Err e)"
    and inj: "inj (uuid_simple (se_plat E))" and ids: "artifacts_issued (se_plat E) (srv_db s)"
    and size: "length junk \<le> se_max_artifact_bytes E" "int (length junk) \<le> i64_max"
    and disk: "\<forall>q. se_write_fault E q = None"
  shows "\<exists>s1 a s2. ensure_server_source_artifact E p s = (Err e, s1)
    \<and> ensure_server_source_artifact E p s1 = (Ok a, s2)
    \<and> srv_files s2 (art_storage_path a) = Some junk
    \<and> art_sha256 a = se_sha256_hex E junk \<and> srv_sent s2 = srv_sent s"
proof -
  let ?s1 = "s\<lparr>srv_files := (srv_files s)(path \<mapsto> junk)\<rparr>"
  have 1: "ensure_server_source_artifact E p s = (Err e, ?s1)"
    by (simp add: ensure_server_source_artifact_def none repo sha Let_def path [symmetric]
        missing git)
  obtain pend s2 where st: "server_store_bytes E ''pipeline_source'' (pl_id p) ''source'' junk ?s1
      = (Ok pend, s2)"
    using size disk by (force simp: server_store_bytes_def Let_def)
  note pend = store_bytes_ok [OF st]
  let ?d = "snd (insert_server_artifact (se_plat E) pend (srv_db s2))"
  have arts: "db_artifacts (srv_db s2) = db_artifacts (srv_db s)" using pend by simp
  have new: "\<not> list_ex (same_scope pend) (db_artifacts (srv_db s2))"
    using none pend arts
    by (auto simp: get_server_artifact_def find_None_iff same_scope_def list_ex_iff)
  have fresh: "\<forall>a \<in> set (db_artifacts (srv_db s2)). art_id a \<noteq> pend_id pend"
    using issued_not_found [OF ids inj] pend arts by simp
  let ?a = "\<lparr>art_id = pend_id pend, art_scope_type = pend_scope_type pend,
      art_scope_id = pend_scope_id pend, art_artifact_name = pend_artifact_name pend,
      art_sha256 = pend_sha256 pend, art_size_bytes = pend_size_bytes pend,
      art_storage_path = pend_storage_path pend,
      art_created_at = clock (se_plat E) (db_seq (srv_db s2))\<rparr>"
  have "find (\<lambda>a. art_id a = pend_id pend) (xs @ [?a]) = Some ?a"
    if "\<forall>a \<in> set xs. art_id a \<noteq> pend_id pend" for xs
    using that by (induction xs) auto
  then have found: "get_server_artifact_by_id (pend_id pend) ?d = Some ?a"
    using fresh new by (simp add: insert_server_artifact_def get_server_artifact_by_id_def)
  have 2: "ensure_server_source_artifact E p ?s1 = (Ok ?a, s2\<lparr>srv_db := ?d\<rparr>)"
    using found
    by (simp add: ensure_server_source_artifact_def none repo sha Let_def path [symmetric]
        server_store_file_def st with_db_def)
  show ?thesis using 1 2 pend by auto
qed

text \<open>git archive has opened its output file before it finds out that the commit is unknown.\<close>

theorem partial_archive_becomes_source_witness:
  "let E = (demo_env accept_all)\<lparr>se_git_archive := (\<lambda>_ _ _ _. (Some [], Err ''git archive failed''))\<rparr>;
       p = demo_pipeline ''running'';
       s = demo_server ''running'' ''pending'' ''pending'' ''pending'' in
   \<exists>s1 a s2. ensure_server_source_artifact E p s = (Err ''git archive failed'', s1)
     \<and> ensure_server_source_artifact E p s1 = (Ok a, s2)
     \<and> srv_files s2 (art_storage_path a) = Some []"
proof -
  let ?E = "(demo_env accept_all)\<lparr>se_git_archive := (\<lambda>_ _ _ _. (Some [], Err ''git archive failed''))\<rparr>"
  let ?p = "demo_pipeline ''running''"
  let ?s = "demo_server ''running'' ''pending'' ''pending'' ''pending''"
  let ?r = "\<lparr>repo_id = uid 0, repo_name = ''r'', repo_normalized_name = ''r'',
      repo_bare_path = ''/r'', repo_default_branch = ''main'', repo_created_at = ''t''\<rparr>"
  have 1: "get_repo (pl_repo_id ?p) (srv_db ?s) = Some ?r" by code_simp
  have 2: "pl_commit_sha ?p = Some ''c''" by (simp add: demo_pipeline_def)
  have 3: "get_server_artifact ''pipeline_source'' (pl_id ?p) ''source'' (srv_db ?s) = None"
    by code_simp
  have 4: "inj (uuid_simple (se_plat ?E))" "artifacts_issued (se_plat ?E) (srv_db ?s)"
    by (simp_all add: uid_inj artifacts_issued_def demo_server_def demo_db3_def empty_db_def
        demo_env_def demo_plat_def)
  from partial_archive_becomes_source [OF 1 2 3 refl _ _ 4, of "[]" "''git archive failed''"]
  show ?thesis by (auto simp: Let_def demo_server_def demo_env_def i64_max_def)
qed

end
