(* ===== verification/Push_Events.thy ===== *)
theory Push_Events
  imports Pipeline_Start
begin

text \<open>
  How pushes and manual triggers reach the database: the text git gives the post-receive hook
  (janus-server/src/git.rs), the control request that carries it (control.rs) and the manual
  trigger of the web interface (web/routes.rs, after its CSRF check and the lookup of the
  repository).  The digest is a parameter.
\<close>

section \<open>Names and references (git.rs)\<close>

definition repo_name_char :: "string \<Rightarrow> bool" where
  "repo_name_char g =
     (case g of
        [c] \<Rightarrow> is_ascii_alphanumeric c \<or> c \<in> {CHR ''.'', CHR ''_'', CHR ''-''}
      | _ \<Rightarrow> False)"

definition validate_repo_name :: "string \<Rightarrow> (string, string) result" where
  "validate_repo_name name =
     (let trimmed = trim name in
      if trimmed = [] \<or> trimmed = ''.'' \<or> trimmed = ''..''
      then Err ''repo name cannot be empty, . or ..''
      else if \<not> list_all repo_name_char (chars trimmed)
      then Err ''repo name must match ^[A-Za-z0-9._-]+$''
      else Ok (map to_ascii_lowercase trimmed))"

fun split_whitespace_from :: "string \<Rightarrow> string list \<Rightarrow> string list" where
  "split_whitespace_from w [] = (if w = [] then [] else [w])"
| "split_whitespace_from w (g # gs) =
     (if is_whitespace g then (if w = [] then split_whitespace_from [] gs
                               else w # split_whitespace_from [] gs)
      else split_whitespace_from (w @ g) gs)"

definition split_whitespace :: "string \<Rightarrow> string list" where
  "split_whitespace s = split_whitespace_from [] (chars s)"

definition text_lines :: "string \<Rightarrow> string list" where
  "text_lines s =
     (let ls = split_on (CHR 0x0A) s in if last ls = [] then butlast ls else ls)"

fun parse_push_ref :: "string list \<Rightarrow> PushEventRef option" where
  "parse_push_ref (a # b # c # _) = Some \<lparr>old_rev = a, new_rev = b, ref_name = c\<rparr>"
| "parse_push_ref _ = None"

definition read_push_refs :: "string \<Rightarrow> PushEventRef list" where
  "read_push_refs raw =
     List.map_filter (\<lambda>line. parse_push_ref (split_whitespace line))
       (filter (\<lambda>line. trim line \<noteq> []) (text_lines raw))"

definition event_text :: "string \<Rightarrow> PushEventRef list \<Rightarrow> string" where
  "event_text repo refs =
     repo @ concat (map (\<lambda>r. old_rev r @ new_rev r @ ref_name r) refs)"

definition event_key :: "(string \<Rightarrow> 8 word list) \<Rightarrow> string \<Rightarrow> PushEventRef list \<Rightarrow> string" where
  "event_key digest repo refs = hex_lower (digest (event_text repo refs))"

section \<open>The handlers\<close>

definition post_receive ::
    "DbPlat \<Rightarrow> (string \<Rightarrow> 8 word list) \<Rightarrow> string \<Rightarrow> string \<Rightarrow> Db \<Rightarrow> (nat \<times> string) \<times> Db" where
  "post_receive P digest repo refs_raw d =
     (let refs = read_push_refs refs_raw in
      case create_push_event P repo (event_key digest repo refs) refs d of
        (Ok _, d') \<Rightarrow> ((204, []), d')
      | (Err e, d') \<Rightarrow> ((500, e), d'))"

definition optional_trimmed_value :: "string option \<Rightarrow> string option" where
  "optional_trimmed_value v =
     (case v of
        None \<Rightarrow> None
      | Some s \<Rightarrow> if trim s = [] then None else Some (trim s))"

definition validate_manual_ref :: "string \<Rightarrow> string \<Rightarrow> (string, unit) result" where
  "validate_manual_ref field v =
     (if trim v = [] then Err (field @ '' cannot be empty'')
      else if list_ex is_whitespace (chars v) then Err (field @ '' must not contain whitespace'')
      else Ok ())"

definition trigger_refs ::
    "Repo \<Rightarrow> string option \<Rightarrow> string option \<Rightarrow> (string, PushEventRef list) result" where
  "trigger_refs repo form_branch form_commit =
     (let branch = (case optional_trimmed_value form_branch of
                      Some b \<Rightarrow> b | None \<Rightarrow> ''refs/heads/'' @ repo_default_branch repo);
          commit = (case optional_trimmed_value form_commit of Some c \<Rightarrow> c | None \<Rightarrow> ''HEAD'') in
      and_then (validate_manual_ref ''branch'' branch) (\<lambda>_.
      and_then (validate_manual_ref ''commit'' commit) (\<lambda>_.
        Ok [\<lparr>old_rev = replicate 40 (CHR ''0''), new_rev = commit, ref_name = branch\<rparr>])))"

definition trigger_repo ::
    "DbPlat \<Rightarrow> (string \<Rightarrow> 8 word list) \<Rightarrow> Repo \<Rightarrow> string option \<Rightarrow> string option \<Rightarrow> Db
      \<Rightarrow> (nat \<times> string) \<times> Db" where
  "trigger_repo P digest repo form_branch form_commit d =
     (case trigger_refs repo form_branch form_commit of
        Err e \<Rightarrow> ((400, e), d)
      | Ok refs \<Rightarrow>
          (case create_push_event P (repo_id repo) (event_key digest (repo_id repo) refs) refs d of
             (Ok _, d') \<Rightarrow> ((303, ''/pipelines''), d')
           | (Err e, d') \<Rightarrow> ((500, e), d')))"

section \<open>Properties\<close>

lemma create_push_event_known:
  "key \<in> pe_event_key ` set (db_push_events d) \<Longrightarrow> create_push_event P repo key refs d = (Ok (), d)"
  by (auto simp: create_push_event_def list_ex_iff)

lemma create_push_event_records:
  "create_push_event P repo key refs d = (Ok u, e) \<Longrightarrow> key \<in> pe_event_key ` set (db_push_events e)"
  by (auto simp: create_push_event_def list_ex_iff split: if_splits)

text \<open>An event is recorded at most once for ever: once a push or a manual trigger was recorded,
any later one with the same text (repository, old and new revisions and reference names run
together) is acknowledged with success and dropped, whatever happened in between, as long as the
event's row is kept.  So a branch that is moved from one commit to another, moved back, and moved
forward again gets no pipeline the second time, and triggering the same branch and commit by hand
a second time does nothing.\<close>

theorem repeated_push_is_dropped:
  assumes first: "post_receive P digest repo raw d = ((204, m), d1)"
    and kept: "pe_event_key ` set (db_push_events d1) \<subseteq> pe_event_key ` set (db_push_events d2)"
    and same: "event_text repo' (read_push_refs raw') = event_text repo (read_push_refs raw)"
  shows "post_receive P digest repo' raw' d2 = ((204, []), d2)"
proof -
  let ?key = "event_key digest repo (read_push_refs raw)"
  obtain r e where c: "create_push_event P repo ?key (read_push_refs raw) d = (r, e)" by force
  then have "r = Ok ()" "e = d1"
    using first by (cases r; auto simp: post_receive_def Let_def)+
  then have "?key \<in> pe_event_key ` set (db_push_events d2)"
    using create_push_event_records c kept by blast
  moreover have "event_key digest repo' (read_push_refs raw') = ?key"
    by (simp add: event_key_def same)
  ultimately show ?thesis
    by (simp add: post_receive_def Let_def create_push_event_known)
qed

theorem repeated_push_is_dropped_witness:
  "let raw = ''a b refs/heads/main'';
       move_back = ''b a refs/heads/main'';
       digest = (\<lambda>s. map (\<lambda>c. of_nat (of_char c)) s);
       d = demo_db3 ''success'' ''success'' ''success'' ''success'';
       d1 = snd (post_receive demo_plat digest (uid 0) raw d);
       d2 = snd (post_receive demo_plat digest (uid 0) move_back d1) in
   length (db_push_events d2) = 2
   \<and> post_receive demo_plat digest (uid 0) raw d2 = ((204, []), d2)"
proof -
  let ?raw = "''a b refs/heads/main''" and ?move_back = "''b a refs/heads/main''"
  let ?digest = "\<lambda>s. map (\<lambda>c. of_nat (of_char c)) s"
  let ?p = "post_receive demo_plat ?digest (uid 0) ?raw
      (demo_db3 ''success'' ''success'' ''success'' ''success'')"
  let ?q = "post_receive demo_plat ?digest (uid 0) ?move_back (snd ?p)"
  have "fst ?p = (204, [])" by code_simp
  then have 1: "?p = ((204, []), snd ?p)" by (metis prod.collapse)
  have "pe_event_key ` set (db_push_events (snd ?p)) \<subseteq> pe_event_key ` set (db_push_events (snd ?q))"
    by code_simp
  from repeated_push_is_dropped [OF 1 this refl]
  have "post_receive demo_plat ?digest (uid 0) ?raw (snd ?q) = ((204, []), snd ?q)" .
  moreover have "length (db_push_events (snd ?q)) = 2" by code_simp
  ultimately show ?thesis by (simp add: Let_def)
qed

end
