(* ===== verification/Request_Signing.thy ===== *)
theory Request_Signing
  imports Runner_Api Scheduler_Demo
begin

text \<open>
  The server's signing key (janus-server/src/runner_auth.rs): the key files, the signature of
  every request to a runner, and the rotation of the key; and the agreement of the two sides,
  that what the server signs the runner accepts.

  Base64, Ed25519, the random source and the clock are third-party and come as the record
  SigningLib; the n-th draw of a value is a function of n.  Files are texts; the configuration
  file is what the TOML parser makes of it, with its paths given by their components.
\<close>

section \<open>Configuration and libraries\<close>

record RunnerAuthConfig =
  rac_key_id :: string
  rac_private_key_path :: path
  rac_public_key_path :: "path option"

record SigningLib =
  sg_encode :: "string \<Rightarrow> string"
  sg_decode :: "string \<Rightarrow> (string, string) result"
  sg_public :: "string \<Rightarrow> string"
  sg_sign :: "string \<Rightarrow> string \<Rightarrow> string"
  sg_secret :: "nat \<Rightarrow> string"
  sg_salt :: "nat \<Rightarrow> 8 word list"
  sg_month :: "nat \<Rightarrow> string"
  sg_now :: "nat \<Rightarrow> string"
  sg_nonce :: "nat \<Rightarrow> string"
  sg_digest :: "string \<Rightarrow> 8 word list"

record RunnerSigner =
  rs_key_id :: string
  rs_signing_key :: string

section \<open>Signing a request\<close>

record SignedRequestHeaders =
  srh_key_id :: string
  srh_timestamp :: string
  srh_nonce :: string
  srh_content_sha256 :: string
  srh_signature :: string

definition sign ::
    "SigningLib \<Rightarrow> RunnerSigner \<Rightarrow> nat \<Rightarrow> string \<Rightarrow> string \<Rightarrow> string \<Rightarrow> SignedRequestHeaders" where
  "sign L signer n mthd path_and_query body =
     (let timestamp = sg_now L n; nonce = sg_nonce L n;
          content_sha256 = sha256_hex (sg_digest L) body;
          canonical = canonical_signed_request mthd path_and_query content_sha256 timestamp nonce;
          signature = sg_sign L (rs_signing_key signer) canonical
      in \<lparr>srh_key_id = rs_key_id signer, srh_timestamp = timestamp, srh_nonce = nonce,
          srh_content_sha256 = content_sha256,
          srh_signature = SIGNATURE_ALGORITHM_ED25519 @ '':'' @ sg_encode L signature\<rparr>)"

definition apply_headers :: "SignedRequestHeaders \<Rightarrow> (string \<times> string) list" where
  "apply_headers h =
     [(HEADER_SIGNATURE_KEY_ID, srh_key_id h), (HEADER_SIGNATURE_TIMESTAMP, srh_timestamp h),
      (HEADER_SIGNATURE_NONCE, srh_nonce h),
      (HEADER_SIGNATURE_CONTENT_SHA256, srh_content_sha256 h),
      (HEADER_SIGNATURE, srh_signature h)]"

definition key_id_char :: "string \<Rightarrow> bool" where
  "key_id_char g =
     (case g of
        [c] \<Rightarrow> is_ascii_alphanumeric c \<or> c \<in> {CHR ''-'', CHR ''_'', CHR ''.''}
      | _ \<Rightarrow> False)"

definition validate_key_id :: "string \<Rightarrow> (string, unit) result" where
  "validate_key_id key_id =
     (if key_id = [] then Err ''key id cannot be empty''
      else if 120 < length key_id then Err ''key id must be 120 characters or fewer''
      else if \<not> list_all key_id_char (chars key_id)
      then Err (''key id may only contain ASCII letters, numbers, '' @ CHR 0x27 # ''-'' @ CHR 0x27
        # '', '' @ CHR 0x27 # ''_'' @ CHR 0x27 # '', and '' @ CHR 0x27 # ''.'' @ [CHR 0x27])
      else Ok ())"

section \<open>The key files\<close>

record ConfigDoc =
  cd_data_dir :: "path option"
  cd_runner_auth :: "RunnerAuthConfig option"

datatype toml_file = TomlDoc ConfigDoc | TomlGarbled string

record KeyDisk =
  kd_files :: "path \<Rightarrow> string option"
  kd_config :: toml_file
  kd_draws :: nat

type_synonym 'a key_op = "KeyDisk \<Rightarrow> (string, 'a) result \<times> KeyDisk"

definition io_text :: "(IoError, 'a) result \<Rightarrow> (string, 'a) result" where
  "io_text = map_err io_message"

text \<open>A write that fails has truncated the file and written some of the bytes.\<close>

definition write_key_file :: "faults \<Rightarrow> path \<Rightarrow> string \<Rightarrow> unit key_op" where
  "write_key_file io p v s =
     (let content = v @ newline in
      case io_text (if p = [] then Inr () else io_try io (CreateDirAll (butlast p))) of
        Err e \<Rightarrow> (Err e, s)
      | Ok _ \<Rightarrow>
       (case io_text (io_try io (WriteFile p)) of
          Err e \<Rightarrow>
            (Err e, s\<lparr>kd_files := (kd_files s)(p \<mapsto> take (io_partial io (WriteFile p)) content)\<rparr>)
        | Ok _ \<Rightarrow>
            (io_text (io_try io (SetPermissions p)), s\<lparr>kd_files := (kd_files s)(p \<mapsto> content)\<rparr>)))"

definition write_public_key :: "SigningLib \<Rightarrow> faults \<Rightarrow> path \<Rightarrow> string \<Rightarrow> unit key_op" where
  "write_public_key L io p verifying_key = write_key_file io p (sg_encode L verifying_key)"

definition read_signing_key :: "SigningLib \<Rightarrow> faults \<Rightarrow> path \<Rightarrow> KeyDisk \<Rightarrow> (string, string) result" where
  "read_signing_key L io p s =
     and_then (io_text (utf8_checked (io_read io p (kd_files s p)))) (\<lambda>raw.
     and_then (sg_decode L (trim raw)) (\<lambda>decoded.
       if length decoded = 32 then Ok decoded
       else Err (''private key at '' @ path_display p @ '' must decode to 32 bytes'')))"

definition generate_signing_key :: "SigningLib \<Rightarrow> string key_op" where
  "generate_signing_key L s = (Ok (sg_secret L (kd_draws s)), s\<lparr>kd_draws := Suc (kd_draws s)\<rparr>)"

definition generate_key_id :: "SigningLib \<Rightarrow> string key_op" where
  "generate_key_id L s =
     (Ok (''janus-'' @ sg_month L (kd_draws s) @ ''-'' @ hex_lower (sg_salt L (kd_draws s))),
      s\<lparr>kd_draws := Suc (kd_draws s)\<rparr>)"

definition load_or_generate ::
    "SigningLib \<Rightarrow> faults \<Rightarrow> RunnerAuthConfig \<Rightarrow> RunnerSigner key_op" where
  "load_or_generate L io config s =
     try_then (validate_key_id (rac_key_id config), s) (\<lambda>_ s.
     try_then
       (if kd_files s (rac_private_key_path config) \<noteq> None
        then (read_signing_key L io (rac_private_key_path config) s, s)
        else try_then (generate_signing_key L s) (\<lambda>signing_key s.
             try_then (write_key_file io (rac_private_key_path config) (sg_encode L signing_key) s)
               (\<lambda>_ s. (Ok signing_key, s))))
       (\<lambda>signing_key s.
     try_then
       (case rac_public_key_path config of
          Some p \<Rightarrow> write_public_key L io p (sg_public L signing_key) s
        | None \<Rightarrow> (Ok (), s))
       (\<lambda>_ s. (Ok \<lparr>rs_key_id = rac_key_id config, rs_signing_key = signing_key\<rparr>, s))))"

section \<open>Initialising and rotating the key\<close>

text \<open>
  Writing the configuration file replaces it in place: a write that fails leaves what the parser
  makes of the bytes that were written, the parameter torn.  A document without data_dir makes
  toml_edit panic, which ends the command at the same point as the error below.
\<close>

definition read_config :: "faults \<Rightarrow> path \<Rightarrow> KeyDisk \<Rightarrow> (string, ConfigDoc) result" where
  "read_config io config_path s =
     and_then (io_text (io_try io (ReadFile config_path))) (\<lambda>_.
       case kd_config s of TomlDoc d \<Rightarrow> Ok d | TomlGarbled e \<Rightarrow> Err e)"

definition write_config ::
    "(ConfigDoc \<Rightarrow> nat \<Rightarrow> toml_file) \<Rightarrow> faults \<Rightarrow> path \<Rightarrow> ConfigDoc \<Rightarrow> unit key_op" where
  "write_config torn io config_path d s =
     (case io_text (io_try io (WriteFile config_path)) of
        Err e \<Rightarrow> (Err e, s\<lparr>kd_config := torn d (io_partial io (WriteFile config_path))\<rparr>)
      | Ok _ \<Rightarrow> (Ok (), s\<lparr>kd_config := TomlDoc d\<rparr>))"

definition load_runner_auth :: "faults \<Rightarrow> path \<Rightarrow> KeyDisk \<Rightarrow> (string, RunnerAuthConfig) result" where
  "load_runner_auth io config_path s =
     and_then (read_config io config_path s) (\<lambda>d.
       ok_or (cd_runner_auth d)
         (''missing [runner_auth] in '' @ path_display config_path
            @ ''; run `admin runner-key init --config '' @ path_display config_path @ ''` first''))"

text \<open>The part that initialisation and rotation share, from the new key on.\<close>

definition install_key ::
    "SigningLib \<Rightarrow> (ConfigDoc \<Rightarrow> nat \<Rightarrow> toml_file) \<Rightarrow> faults \<Rightarrow> path \<Rightarrow> ConfigDoc \<Rightarrow> string
      \<Rightarrow> path \<Rightarrow> path \<Rightarrow> unit key_op" where
  "install_key L torn io config_path document key_id private_path public_path s =
     try_then (generate_signing_key L s) (\<lambda>signing_key s.
     try_then (write_key_file io private_path (sg_encode L signing_key) s) (\<lambda>_ s.
     try_then (write_public_key L io public_path (sg_public L signing_key) s) (\<lambda>_ s.
       write_config torn io config_path
         (document\<lparr>cd_runner_auth := Some \<lparr>rac_key_id = key_id,
            rac_private_key_path = private_path, rac_public_key_path = Some public_path\<rparr>\<rparr>) s)))"

definition init_runner_key ::
    "SigningLib \<Rightarrow> (ConfigDoc \<Rightarrow> nat \<Rightarrow> toml_file) \<Rightarrow> faults \<Rightarrow> path \<Rightarrow> unit key_op" where
  "init_runner_key L torn io config_path s =
     try_then (read_config io config_path s, s) (\<lambda>document s.
     if cd_runner_auth document \<noteq> None then (Err ''[runner_auth] already exists'', s)
     else
     try_then (ok_or (cd_data_dir document) ''missing data_dir'', s) (\<lambda>data_dir s.
     try_then (generate_key_id L s) (\<lambda>key_id s.
       let keys_dir = data_dir @ [''keys''];
           private_key_path = keys_dir @ [key_id @ ''.key''];
           public_key_path = keys_dir @ [key_id @ ''.pub''] in
       install_key L torn io config_path document key_id private_key_path public_key_path s)))"

definition rotated_paths :: "RunnerAuthConfig \<Rightarrow> string \<Rightarrow> path \<times> path" where
  "rotated_paths config new_key_id =
     (let private_dir = butlast (rac_private_key_path config);
          public_dir = (case rac_public_key_path config of
                          Some p \<Rightarrow> if p = [] then private_dir else butlast p
                        | None \<Rightarrow> private_dir)
      in (private_dir @ [new_key_id @ ''.key''], public_dir @ [new_key_id @ ''.pub'']))"

definition rotate_runner_key ::
    "SigningLib \<Rightarrow> (ConfigDoc \<Rightarrow> nat \<Rightarrow> toml_file) \<Rightarrow> faults \<Rightarrow> path \<Rightarrow> unit key_op" where
  "rotate_runner_key L torn io config_path s =
     try_then (generate_key_id L s) (\<lambda>new_key_id s.
     try_then (validate_key_id new_key_id, s) (\<lambda>_ s.
     try_then (read_config io config_path s, s) (\<lambda>document s.
     try_then (load_runner_auth io config_path s, s) (\<lambda>config s.
     try_then (load_or_generate L io config s) (\<lambda>_ s.
     if rac_private_key_path config = []
     then (Err ''runner_auth.private_key_path must have a parent directory'', s)
     else
       let (new_private_path, new_public_path) = rotated_paths config new_key_id in
       if kd_files s new_private_path \<noteq> None
       then (Err (''private key already exists: '' @ path_display new_private_path), s)
       else if kd_files s new_public_path \<noteq> None
       then (Err (''public key already exists: '' @ path_display new_public_path), s)
       else
         install_key L torn io config_path document new_key_id new_private_path new_public_path s)))))"

section \<open>What the runner sees of a request\<close>

text \<open>
  The runner receives the path and query of the URL, here the rest of it after the runner's base
  URL (an address without a path of its own, or one whose path a proxy strips), and finds the
  first header of a name.
\<close>

definition runner_view :: "Runner \<Rightarrow> ClientRequest \<Rightarrow> SignedRequest" where
  "runner_view runner rq =
     \<lparr>sr_method = cq_method rq,
      sr_path_and_query = drop (length (trim_end_slashes (rn_base_url runner))) (cq_url rq),
      sr_headers = map_of (cq_headers rq), sr_body = cq_body rq\<rparr>"

definition signs_with :: "RunnerClient \<Rightarrow> SigningLib \<Rightarrow> RunnerSigner \<Rightarrow> bool" where
  "signs_with C L signer = (\<forall>n m p b. cl_sign C n m p b = apply_headers (sign L signer n m p b))"

text \<open>
  What the two sides assume of their libraries: the same digest, signatures that verify under the
  public key, and an encoding of signatures that decodes and can be sent in a header.
\<close>

definition header_text :: "string \<Rightarrow> bool" where
  "header_text v = (header_to_str v = Inr v)"

definition libraries_agree :: "SigningLib \<Rightarrow> Crypto \<Rightarrow> Platform \<Rightarrow> bool" where
  "libraries_agree L cp pf =
     (pf_digest pf = sg_digest L
      \<and> (\<forall>k m. cp_verify cp (sg_public L k) m (sg_sign L k m) \<and> length (sg_sign L k m) = 64
           \<and> cp_base64_decode cp (sg_encode L (sg_sign L k m)) = Some (sg_sign L k m)
           \<and> header_text (sg_encode L (sg_sign L k m))))"

section \<open>Lemmas\<close>

lemma header_text_append [simp]: "header_text (a @ b) \<longleftrightarrow> header_text a \<and> header_text b"
  by (auto simp: header_text_def header_to_str_def)

lemma header_text_Cons: "header_text (c # s) \<longleftrightarrow> header_text [c] \<and> header_text s"
  using header_text_append [of "[c]" s] by simp

lemma header_text_hex [simp]: "header_text (hex_lower bs)"
proof -
  have "list_all (\<lambda>c. (32 \<le> (of_char c :: nat) \<and> (of_char c :: nat) < 127) \<or> (of_char c :: nat) = 9) HEX"
    by code_simp
  then show ?thesis
    using hex_lower_digits [of bs] by (auto simp: header_text_def header_to_str_def list_all_iff)
qed

lemma alphanumeric_visible:
  assumes "is_ascii_alphanumeric c"
  shows "32 \<le> (of_char c :: nat) \<and> (of_char c :: nat) < 127"
proof -
  obtain n where n: "n = (of_char c :: nat)" by simp
  have "65 \<le> n \<and> n \<le> 90 \<or> 97 \<le> n \<and> n \<le> 122 \<or> 48 \<le> n \<and> n \<le> 57"
    using assms unfolding n is_ascii_alphanumeric_def is_ascii_alphabetic_def is_ascii_upper_def
      is_ascii_lower_def is_ascii_digit_def by blast
  then show ?thesis unfolding n [symmetric] by linarith
qed

lemma punctuation_visible:
  "\<forall>c \<in> {CHR ''-'', CHR ''_'', CHR ''.''}. 32 \<le> (of_char c :: nat) \<and> (of_char c :: nat) < 127"
  by code_simp

lemma key_id_char_visible:
  assumes "key_id_char g"
  shows "\<exists>c. g = [c] \<and> 32 \<le> (of_char c :: nat) \<and> (of_char c :: nat) < 127"
proof (cases g)
  case Nil
  then show ?thesis using assms by (simp add: key_id_char_def)
next
  case (Cons c rest)
  then have "rest = []" and "is_ascii_alphanumeric c \<or> c \<in> {CHR ''-'', CHR ''_'', CHR ''.''}"
    using assms unfolding key_id_char_def by (cases rest; simp only: list.case)+
  then show ?thesis using Cons alphanumeric_visible punctuation_visible by blast
qed

lemma header_text_key_id:
  assumes "validate_key_id key_id = Ok u"
  shows "header_text key_id"
proof -
  have "\<forall>g \<in> set (chars key_id). key_id_char g"
    using assms by (simp add: validate_key_id_def list_all_iff split: if_splits)
  then have "\<forall>c \<in> set (concat (chars key_id)). 32 \<le> (of_char c :: nat) \<and> (of_char c :: nat) < 127"
    using key_id_char_visible by (metis UN_E list.set(1) set_concat set_ConsD empty_iff)
  then show ?thesis by (simp add: header_text_def header_to_str_def list_all_iff)
qed

text \<open>The headers the server writes are the headers the runner reads.\<close>

definition sent_headers :: "SignedRequestHeaders \<Rightarrow> SignatureHeaders" where
  "sent_headers h =
     \<lparr>sh_key_id = srh_key_id h, sh_timestamp = srh_timestamp h, sh_nonce = srh_nonce h,
      sh_content_sha256 = srh_content_sha256 h, sh_signature = srh_signature h\<rparr>"

lemma header_names_distinct:
  "HEADER_SIGNATURE_KEY_ID \<noteq> HEADER_SIGNATURE_TIMESTAMP" "HEADER_SIGNATURE_KEY_ID \<noteq> HEADER_SIGNATURE_NONCE"
  "HEADER_SIGNATURE_KEY_ID \<noteq> HEADER_SIGNATURE_CONTENT_SHA256" "HEADER_SIGNATURE_KEY_ID \<noteq> HEADER_SIGNATURE"
  "HEADER_SIGNATURE_TIMESTAMP \<noteq> HEADER_SIGNATURE_NONCE"
  "HEADER_SIGNATURE_TIMESTAMP \<noteq> HEADER_SIGNATURE_CONTENT_SHA256" "HEADER_SIGNATURE_TIMESTAMP \<noteq> HEADER_SIGNATURE"
  "HEADER_SIGNATURE_NONCE \<noteq> HEADER_SIGNATURE_CONTENT_SHA256" "HEADER_SIGNATURE_NONCE \<noteq> HEADER_SIGNATURE"
  "HEADER_SIGNATURE_CONTENT_SHA256 \<noteq> HEADER_SIGNATURE"
  by code_simp+

lemma applied_header_values:
  "map_of (apply_headers h @ hs) HEADER_SIGNATURE_KEY_ID = Some (srh_key_id h)"
  "map_of (apply_headers h @ hs) HEADER_SIGNATURE_TIMESTAMP = Some (srh_timestamp h)"
  "map_of (apply_headers h @ hs) HEADER_SIGNATURE_NONCE = Some (srh_nonce h)"
  "map_of (apply_headers h @ hs) HEADER_SIGNATURE_CONTENT_SHA256 = Some (srh_content_sha256 h)"
  "map_of (apply_headers h @ hs) HEADER_SIGNATURE = Some (srh_signature h)"
  by (simp_all only: apply_headers_def append.simps map_of.simps fun_upd_apply fst_conv snd_conv
      header_names_distinct header_names_distinct [symmetric] if_True if_False refl)

lemma read_applied_headers:
  assumes "list_all header_text
      [srh_key_id h, srh_timestamp h, srh_nonce h, srh_content_sha256 h, srh_signature h]"
  shows "read_signature_headers (map_of (apply_headers h @ hs)) = Inr (sent_headers h)"
  using assms
  by (simp only: read_signature_headers_def required_header_def applied_header_values
      sent_headers_def header_text_def list.pred_inject option.case sum.case simp_thms and_then.simps
      ok_or.simps map_err.simps)

lemma sign_headers_text:
  assumes "libraries_agree L cp pf" and "validate_key_id (rs_key_id signer) = Ok u"
    and "header_text (sg_now L n)" and "header_text (sg_nonce L n)"
  shows "list_all header_text
    [srh_key_id (sign L signer n m p b), srh_timestamp (sign L signer n m p b),
     srh_nonce (sign L signer n m p b), srh_content_sha256 (sign L signer n m p b),
     srh_signature (sign L signer n m p b)]"
proof -
  have "header_text SIGNATURE_ALGORITHM_ED25519" "header_text [CHR '':'']" by code_simp+
  then have "header_text (SIGNATURE_ALGORITHM_ED25519 @ '':'' @ s) = header_text s" for s
    by (simp only: header_text_append simp_thms)
  then show ?thesis
    using assms header_text_key_id [OF assms(2)]
    by (simp only: sign_def Let_def libraries_agree_def sha256_hex_def list.pred_inject
        SignedRequestHeaders.select_convs header_text_hex simp_thms)
qed

lemma strip_algorithm:
  "strip_prefix SIGNATURE_ALGORITHM_ED25519 (SIGNATURE_ALGORITHM_ED25519 @ s) = Some s"
  "strip_prefix '':'' (CHR '':'' # s) = Some s"
  using strip_prefix_append [of "[CHR '':'']" s] by (simp_all add: strip_prefix_append)

lemma verify_signed_content:
  assumes "libraries_agree L cp pf" and "pk_verifying_key r = sg_public L (rs_signing_key signer)"
  shows "verify_content cp pf m p (sent_headers (sign L signer n m p b)) r b =
    Inr \<lparr>ac_key_id = rs_key_id signer, ac_server_name = pk_name r, ac_permissions = pk_permissions r\<rparr>"
proof -
  have d: "pf_digest pf = sg_digest L"
    and k: "cp_verify cp (pk_verifying_key r) x (sg_sign L (rs_signing_key signer) x)"
      "length (sg_sign L (rs_signing_key signer) x) = 64"
      "cp_base64_decode cp (sg_encode L (sg_sign L (rs_signing_key signer) x))
         = Some (sg_sign L (rs_signing_key signer) x)" for x
    using assms by (simp_all add: libraries_agree_def)
  show ?thesis
    using d k
    by (simp add: verify_content_def sent_headers_def sign_def Let_def parse_signature_def
        eq_ignore_ascii_case_def strip_algorithm)
qed

text \<open>A nonce that was not seen within the retention is accepted.\<close>

lemma fresh_nonce_accepted:
  assumes "bt_wf seen" and "trim nonce \<noteq> []" and "length nonce \<le> 128"
    and "\<And>t. nonce_seen_at seen (key_id, nonce) = Some t \<Longrightarrow> t < now - nanos NONCE_RETENTION_SECONDS"
  shows "fst (nonce_check now (key_id, nonce) seen)"
  using assms(2-)
  by (auto simp: nonce_check_def verify_nonce_def Let_def bt_contains_def nonce_seen_at_def
      bt_get_filter [OF assms(1)] split: option.splits)

lemma runner_view_request:
  "sr_path_and_query (runner_view runner (signed_request C runner m route b hs sent)) = RunnerRoute_path route"
  "sr_method (runner_view runner (signed_request C runner m route b hs sent)) = m"
  "sr_body (runner_view runner (signed_request C runner m route b hs sent)) = b"
  by (simp_all add: runner_view_def signed_request_def Let_def runner_url_from_path_def)

lemma runner_view_headers:
  assumes "signs_with C L signer"
  shows "sr_headers (runner_view runner (signed_request C runner m route b hs sent)) =
    map_of (apply_headers (sign L signer (length sent) m (RunnerRoute_path route) b) @ hs)"
  using assms by (simp add: runner_view_def signed_request_def Let_def signs_with_def)

section \<open>Properties\<close>


text \<open>
  What an operation on the key files leaves alone: the configuration, and every file that was
  there, but for those of a set.
\<close>

definition key_frame :: "path set \<Rightarrow> KeyDisk \<Rightarrow> KeyDisk \<Rightarrow> bool" where
  "key_frame E s t =
     (kd_config t = kd_config s
      \<and> (\<forall>q. kd_files s q \<noteq> None \<longrightarrow> kd_files t q \<noteq> None \<and> (q \<notin> E \<longrightarrow> kd_files t q = kd_files s q)))"

lemma key_frame_refl [simp]: "key_frame E s s"
  by (simp add: key_frame_def)

lemma key_frame_draws [simp]: "key_frame E s (t\<lparr>kd_draws := n\<rparr>) = key_frame E s t"
  "key_frame E (s\<lparr>kd_draws := n\<rparr>) t = key_frame E s t"
  by (simp_all add: key_frame_def)

lemma key_frame_trans: "key_frame E s t \<Longrightarrow> key_frame E t u \<Longrightarrow> key_frame E s u"
  by (simp add: key_frame_def)

lemma key_frame_try_then:
  assumes "key_frame E s (snd p)" and "\<And>x u. p = (Ok x, u) \<Longrightarrow> key_frame E u (snd (f x u))"
  shows "key_frame E s (snd (try_then p f))"
proof (cases p)
  case (Pair r u)
  then show ?thesis using assms key_frame_trans by (cases r) auto
qed

lemma write_key_file_result:
  assumes "write_key_file io p v s = (r, t)"
  shows "q \<noteq> p \<Longrightarrow> kd_files t q = kd_files s q" "r = Ok u \<Longrightarrow> kd_files t p = Some (v @ newline)"
  using assms by (auto simp: write_key_file_def Let_def io_text_def split: sum.splits)

lemma write_key_file_frame:
  "p \<in> E \<or> kd_files s p = None \<Longrightarrow> key_frame E s (snd (write_key_file io p v s))"
  by (auto simp: write_key_file_def Let_def key_frame_def split: sum.splits)

lemma write_key_file_frame_drawn:
  assumes "p \<in> E \<or> kd_files s p = None"
  shows "key_frame E s (snd (write_key_file io p v (s\<lparr>kd_draws := n\<rparr>)))"
  using write_key_file_frame [of p E "s\<lparr>kd_draws := n\<rparr>" io v] assms by simp

lemma load_or_generate_frame:
  "set_option (rac_public_key_path config) \<subseteq> E \<Longrightarrow> key_frame E s (snd (load_or_generate L io config s))"
  unfolding load_or_generate_def
  by (intro key_frame_try_then)
    (auto intro!: key_frame_try_then write_key_file_frame write_key_file_frame_drawn
      simp: generate_signing_key_def write_public_key_def split: option.splits)

lemma rotated_paths_differ: "rotated_paths config n = (a, b) \<Longrightarrow> a \<noteq> b"
  by (auto simp: rotated_paths_def Let_def)

text \<open>The stages of a rotation: it fails before the configuration is written, or it writes it.\<close>

definition rewritten_files :: "KeyDisk \<Rightarrow> path set" where
  "rewritten_files s =
     (case kd_config s of
        TomlDoc d \<Rightarrow> set_option (Option.bind (cd_runner_auth d) rac_public_key_path)
      | TomlGarbled _ \<Rightarrow> {})"

lemma stage:
  assumes "try_then p f = (r, t)" and "key_frame E s (snd p)" and "r = Ok () \<or> \<not> key_frame E s t"
  obtains x u where "p = (Ok x, u)" "key_frame E s u" "f x u = (r, t)"
  using assms by (cases p; cases "fst p") auto

lemma read_config_ok:
  "read_config io p s = Ok d \<longleftrightarrow> io_try io (ReadFile p) = Ok () \<and> kd_config s = TomlDoc d"
  by (auto simp: read_config_def io_text_def split: toml_file.splits)

lemma loaded_auth:
  "load_runner_auth io p s = Ok config \<longleftrightarrow>
    io_try io (ReadFile p) = Ok () \<and> (\<exists>d. kd_config s = TomlDoc d \<and> cd_runner_auth d = Some config)"
  by (auto simp: load_runner_auth_def read_config_def io_text_def split: toml_file.splits)

lemma rotation_reaches_install:
  assumes "rotate_runner_key L torn io config_path s = (r, t)"
  obtains "r \<noteq> Ok ()" "key_frame (rewritten_files s) s t"
  | d key_id a b u where "kd_config s = TomlDoc d" "validate_key_id key_id = Ok ()" "a \<noteq> b"
      "kd_files u a = None" "kd_files u b = None" "key_frame (rewritten_files s) s u"
      "install_key L torn io config_path d key_id a b u = (r, t)"
proof -
  let ?E = "rewritten_files s"
  obtain K s1 where K: "generate_key_id L s = (Ok K, s1)" and s1: "s1 = s\<lparr>kd_draws := Suc (kd_draws s)\<rparr>"
    by (simp add: generate_key_id_def)
  have kept: "key_frame ?E s s1" "kd_config s1 = kd_config s" by (simp_all add: s1)
  have load: "key_frame ?E s u"
    if "kd_config s = TomlDoc d" "cd_runner_auth d = Some config"
      "load_or_generate L io config s1 = (q, u)" for d config q u
  proof -
    have "set_option (rac_public_key_path config) \<subseteq> ?E"
      using that(1,2) by (auto simp: rewritten_files_def)
    then show ?thesis
      using load_or_generate_frame [of config ?E s1 L io] that(3) by (simp add: s1)
  qed
  have "(r \<noteq> Ok () \<and> key_frame ?E s t)
    \<or> (\<exists>d config a b u. kd_config s = TomlDoc d \<and> key_frame ?E s u \<and> validate_key_id K = Ok ()
        \<and> rotated_paths config K = (a, b) \<and> kd_files u a = None \<and> kd_files u b = None
        \<and> install_key L torn io config_path d K a b u = (r, t))"
    using assms kept
    apply (simp add: rotate_runner_key_def K)
    apply (auto elim!: try_then_cases split: if_splits prod.splits simp: loaded_auth read_config_ok)
    apply (blast intro: load | metis load option.distinct(1))+
    done
  then show thesis
    using that rotated_paths_differ by blast
qed

lemma rotation_stages:
  assumes "rotate_runner_key L torn io config_path s = (r, t)"
  obtains "r \<noteq> Ok ()" "key_frame (rewritten_files s) s t"
  | d key_id a b u n where "kd_config s = TomlDoc d"
      "validate_key_id key_id = Ok ()" "kd_files s a = None" "kd_files s b = None"
      "key_frame (rewritten_files s) s u" "kd_files u a = Some (sg_encode L (sg_secret L n) @ newline)"
      "kd_files u b = Some (sg_encode L (sg_public L (sg_secret L n)) @ newline)"
      "write_config torn io config_path (d\<lparr>cd_runner_auth := Some \<lparr>rac_key_id = key_id,
         rac_private_key_path = a, rac_public_key_path = Some b\<rparr>\<rparr>) u = (r, t)"
proof (rule rotation_reaches_install [OF assms])
  fix d key_id a b u
  assume d: "kd_config s = TomlDoc d" "validate_key_id key_id = Ok ()" and ab: "a \<noteq> b"
    and fresh: "kd_files u a = None" "kd_files u b = None" and u: "key_frame (rewritten_files s) s u"
    and inst: "install_key L torn io config_path d key_id a b u = (r, t)"
  let ?E = "rewritten_files s"
  define n where "n = kd_draws u"
  define u0 where "u0 = u\<lparr>kd_draws := Suc n\<rparr>"
  obtain ra ua where wa: "write_key_file io a (sg_encode L (sg_secret L n)) u0 = (ra, ua)" by force
  obtain rb ub where wb: "write_public_key L io b (sg_public L (sg_secret L n)) ua = (rb, ub)" by force
  have "key_frame ?E u0 ua"
    using write_key_file_frame [of a ?E u0 io "sg_encode L (sg_secret L n)"] fresh
    unfolding wa snd_conv by (simp add: u0_def)
  then have ua: "key_frame ?E s ua" using u key_frame_trans by (simp add: u0_def)
  have b_ua: "kd_files ua b = None" using write_key_file_result(1) [OF wa, of b] ab fresh by (simp add: u0_def)
  then have ub: "key_frame ?E s ub"
    using write_key_file_frame [of b ?E ua io "sg_encode L (sg_public L (sg_secret L n))"] wb ua key_frame_trans
    by (simp add: write_public_key_def)
  have old: "kd_files s a = None" "kd_files s b = None"
    using u fresh by (metis key_frame_def)+
  have written: "kd_files ub b = Some (sg_encode L (sg_public L (sg_secret L n)) @ newline)"
    "kd_files ub a = Some (sg_encode L (sg_secret L n) @ newline)" if "ra = Ok ()" "rb = Ok ()"
    using write_key_file_result [OF wb [unfolded write_public_key_def]] write_key_file_result(2) [OF wa] that ab
    by auto
  have rest: "try_then (ra, ua) (\<lambda>_ s. try_then (write_public_key L io b (sg_public L (sg_secret L n)) s)
      (\<lambda>_ s. write_config torn io config_path (d\<lparr>cd_runner_auth := Some \<lparr>rac_key_id = key_id,
         rac_private_key_path = a, rac_public_key_path = Some b\<rparr>\<rparr>) s)) = (r, t)"
    using inst by (simp add: install_key_def generate_signing_key_def n_def [symmetric] u0_def [symmetric] wa)
  show thesis
  proof (cases ra)
    case (Inl e)
    then show thesis using rest ua that(1) by auto
  next
    case ra: (Inr x)
    show thesis
    proof (cases rb)
      case (Inl e)
      then show thesis using rest ra ub that(1) by (auto simp: wb)
    next
      case (Inr y)
      then show thesis using rest ra ub written that(2) [OF d old, of ub n] by (simp add: wb)
    qed
  qed
qed (use that in blast)

text \<open>What a key file says is read back.\<close>

definition keys_readable :: "SigningLib \<Rightarrow> bool" where
  "keys_readable L =
     (\<forall>n. sg_decode L (trim (sg_encode L (sg_secret L n) @ newline)) = Ok (sg_secret L n)
        \<and> length (sg_secret L n) = 32 \<and> utf8_valid (sg_encode L (sg_secret L n) @ newline))"

lemma read_written_key:
  assumes "keys_readable L" and "kd_files s p = Some (sg_encode L (sg_secret L n) @ newline)"
  shows "read_signing_key L no_faults p s = Ok (sg_secret L n)"
  using assms by (simp add: read_signing_key_def keys_readable_def io_text_def utf8_checked_def)


definition demo_signing :: SigningLib where
  "demo_signing =
     \<lparr>sg_encode = (\<lambda>s. s), sg_decode = Ok, sg_public = (\<lambda>k. k),
      sg_sign = (\<lambda>_ _. replicate 64 (CHR ''s'')), sg_secret = (\<lambda>_. replicate 32 (CHR ''p'')),
      sg_salt = (\<lambda>n. [of_nat n]), sg_month = (\<lambda>_. ''2026-01''), sg_now = (\<lambda>_. []),
      sg_nonce = (\<lambda>_. ''n1''), sg_digest = pf_digest demo_platform\<rparr>"

definition demo_signer :: RunnerSigner where
  "demo_signer = \<lparr>rs_key_id = ''k1'', rs_signing_key = replicate 32 (CHR ''p'')\<rparr>"

definition demo_signed_request :: SignedRequest where
  "demo_signed_request = runner_view (demo_runner 1 ''one'')
     (signed_request (demo_client no_network\<lparr>cl_sign :=
        (\<lambda>n m p b. apply_headers (sign demo_signing demo_signer n m p b))\<rparr>)
       (demo_runner 1 ''one'') ''POST'' (RJobRuns ''build'') ''{}'' [] [])"


definition demo_old_auth :: RunnerAuthConfig where
  "demo_old_auth = \<lparr>rac_key_id = ''k1'', rac_private_key_path = [''keys'', ''k1.key''],
     rac_public_key_path = Some [''keys'', ''k1.pub'']\<rparr>"

definition demo_key_disk :: KeyDisk where
  "demo_key_disk =
     \<lparr>kd_files = [[''keys'', ''k1.key''] \<mapsto> replicate 32 (CHR ''p'') @ newline],
      kd_config = TomlDoc \<lparr>cd_data_dir = None, cd_runner_auth = Some demo_old_auth\<rparr>,
      kd_draws = 0\<rparr>"


end
