(* ===== verification/Runner_Urls.thy ===== *)
theory Runner_Urls
  imports Janus_Prelude
begin

text \<open>
  The policy on the base URLs of runners (janus-server/src/web/routes.rs, config.rs) and the file
  name of a download.  The URL parser is third-party: a URL is what it makes of the text.  The
  classes of addresses are those of the standard library (Ipv4Addr, Ipv6Addr).
\<close>

section \<open>URLs and addresses\<close>

datatype UrlHost =
    HostDomain string
  | HostIpv4 "8 word" "8 word" "8 word" "8 word"
  | HostIpv6 "16 word list"

record RunnerUrl =
  url_scheme :: string
  url_username :: string
  url_password :: "string option"
  url_host :: "UrlHost option"
  url_path :: string
  url_query :: "string option"
  url_fragment :: "string option"

record RunnerUrlPolicyConfig =
  require_https :: bool
  allow_credentials :: bool
  allow_query :: bool
  allow_fragment :: bool
  allow_path :: bool
  allow_localhost :: bool
  allow_private_ips :: bool
  allow_link_local_ips :: bool
  allow_documentation_ips :: bool
  allow_multicast_ips :: bool

definition ipv4_is_private :: "8 word \<Rightarrow> 8 word \<Rightarrow> bool" where
  "ipv4_is_private a b = (a = 10 \<or> a = 172 \<and> 16 \<le> b \<and> b \<le> 31 \<or> a = 192 \<and> b = 168)"

definition ipv4_is_documentation :: "8 word \<Rightarrow> 8 word \<Rightarrow> 8 word \<Rightarrow> bool" where
  "ipv4_is_documentation a b c =
     (a = 192 \<and> b = 0 \<and> c = 2 \<or> a = 198 \<and> b = 51 \<and> c = 100 \<or> a = 203 \<and> b = 0 \<and> c = 113)"

definition validate_ipv4_runner_host ::
    "RunnerUrlPolicyConfig \<Rightarrow> 8 word \<Rightarrow> 8 word \<Rightarrow> 8 word \<Rightarrow> 8 word \<Rightarrow> (string, unit) result" where
  "validate_ipv4_runner_host policy a b c d =
     (if \<not> allow_localhost policy \<and> a = 127 then Err ''base_url host must not be localhost''
      else if \<not> allow_private_ips policy
        \<and> (ipv4_is_private a b \<or> a = 0 \<and> b = 0 \<and> c = 0 \<and> d = 0 \<or> a = 0)
      then Err ''base_url host must not be private or unspecified''
      else if \<not> allow_link_local_ips policy \<and> a = 169 \<and> b = 254
      then Err ''base_url host must not be link-local''
      else if \<not> allow_documentation_ips policy \<and> ipv4_is_documentation a b c
      then Err ''base_url host must not be documentation-only''
      else if \<not> allow_multicast_ips policy
        \<and> (224 \<le> a \<or> a = 255 \<and> b = 255 \<and> c = 255 \<and> d = 255)
      then Err ''base_url host must not be multicast or broadcast''
      else Ok ())"

definition segment :: "16 word list \<Rightarrow> nat \<Rightarrow> 16 word" where
  "segment segments i = (if i < length segments then segments ! i else 0)"

definition validate_ipv6_runner_host ::
    "RunnerUrlPolicyConfig \<Rightarrow> 16 word list \<Rightarrow> (string, unit) result" where
  "validate_ipv6_runner_host policy segments =
     (let s0 = segment segments 0 in
      if \<not> allow_localhost policy \<and> segments = [0, 0, 0, 0, 0, 0, 0, 1]
      then Err ''base_url host must not be localhost''
      else if \<not> allow_private_ips policy
        \<and> (and s0 0xfe00 = 0xfc00 \<or> segments = [0, 0, 0, 0, 0, 0, 0, 0])
      then Err ''base_url host must not be private or unspecified''
      else if \<not> allow_link_local_ips policy \<and> and s0 0xffc0 = 0xfe80
      then Err ''base_url host must not be link-local''
      else if \<not> allow_documentation_ips policy \<and> s0 = 0x2001 \<and> segment segments 1 = 0x0db8
      then Err ''base_url host must not be documentation-only''
      else if \<not> allow_multicast_ips policy \<and> and s0 0xff00 = 0xff00
      then Err ''base_url host must not be multicast or broadcast''
      else Ok ())"

definition trim_end_dots :: "string \<Rightarrow> string" where
  "trim_end_dots s = rev (dropWhile (\<lambda>c. c = CHR ''.'') (rev s))"

definition validate_domain :: "RunnerUrlPolicyConfig \<Rightarrow> string \<Rightarrow> (string, unit) result" where
  "validate_domain policy domain =
     (let domain = map to_ascii_lowercase (trim_end_dots domain) in
      if \<not> allow_localhost policy
        \<and> (domain = ''localhost'' \<or> domain = ''localhost.localdomain'' \<or> ends_with ''.localhost'' domain)
      then Err ''base_url host must not be localhost'' else Ok ())"

definition validate_base_url ::
    "(string \<Rightarrow> RunnerUrl option) \<Rightarrow> string \<Rightarrow> RunnerUrlPolicyConfig \<Rightarrow> (string, unit) result" where
  "validate_base_url parse_url url policy =
     (if 2048 < char_count (trim url) then Err ''base_url must be 2048 characters or fewer''
      else case parse_url (trim url) of
        None \<Rightarrow> Err ''base_url must be a valid URL''
      | Some parsed \<Rightarrow>
          if require_https policy \<and> url_scheme parsed \<noteq> ''https'' then Err ''base_url must use https''
          else if url_host parsed = None then Err ''base_url must include a host''
          else if \<not> allow_credentials policy \<and> (url_username parsed \<noteq> [] \<or> url_password parsed \<noteq> None)
          then Err ''base_url must not include credentials''
          else if \<not> allow_query policy \<and> url_query parsed \<noteq> None
          then Err ''base_url must not include query''
          else if \<not> allow_fragment policy \<and> url_fragment parsed \<noteq> None
          then Err ''base_url must not include fragment''
          else if \<not> allow_path policy \<and> url_path parsed \<noteq> [] \<and> url_path parsed \<noteq> ''/''
          then Err ''base_url must not include a path''
          else case url_host parsed of
            Some (HostDomain domain) \<Rightarrow> validate_domain policy domain
          | Some (HostIpv4 a b c d) \<Rightarrow> validate_ipv4_runner_host policy a b c d
          | Some (HostIpv6 segments) \<Rightarrow> validate_ipv6_runner_host policy segments
          | None \<Rightarrow> Ok ())"

definition validate_runner_name :: "string \<Rightarrow> (string, unit) result" where
  "validate_runner_name name =
     (if trim name = [] then Err ''runner name cannot be empty''
      else if 120 < char_count (trim name) then Err ''runner name must be 120 characters or fewer''
      else Ok ())"

section \<open>The name of a download\<close>

definition download_char :: "string \<Rightarrow> char" where
  "download_char g =
     (case g of
        [c] \<Rightarrow>
          if c \<in> {CHR 0x22, CHR 0x5C, CHR ''/'', CHR ''<'', CHR ''>'', CHR '':'', CHR ''|'', CHR ''?'',
                 CHR ''*'', CHR 0x0D, CHR 0x0A, CHR 0x09}
          then CHR ''_''
          else if (of_char c :: nat) < 32 \<or> (of_char c :: nat) = 127 then CHR ''_''
          else if (of_char c :: nat) < 128 then c else CHR ''_''
      | _ \<Rightarrow> CHR ''_'')"

fun replace_dots :: "string \<Rightarrow> string" where
  "replace_dots (c # d # s) =
     (if c = CHR ''.'' \<and> d = CHR ''.'' then CHR ''_'' # replace_dots s else c # replace_dots (d # s))"
| "replace_dots s = s"

fun has_dots :: "string \<Rightarrow> bool" where
  "has_dots (c # d # s) = (c = CHR ''.'' \<and> d = CHR ''.'' \<or> has_dots (d # s))"
| "has_dots s = False"

lemma length_replace_dots: "length (replace_dots s) \<le> length s"
  by (induction s rule: replace_dots.induct) auto

lemma length_replace_dots_less: "has_dots s \<Longrightarrow> length (replace_dots s) < length s"
proof (induction s rule: replace_dots.induct)
  case (1 c d s)
  then show ?case using length_replace_dots [of s] by auto
qed auto

function replace_all_dots :: "string \<Rightarrow> string" where
  "replace_all_dots s = (if has_dots s then replace_all_dots (replace_dots s) else s)"
  by auto
termination
  by (relation "measure length") (simp_all add: length_replace_dots_less)

declare replace_all_dots.simps [simp del]

definition trim_dots_spaces :: "string \<Rightarrow> string" where
  "trim_dots_spaces s =
     rev (dropWhile (\<lambda>c. c = CHR ''.'' \<or> c = CHR '' '')
       (rev (dropWhile (\<lambda>c. c = CHR ''.'' \<or> c = CHR '' '') s)))"

definition safe_download_filename :: "string \<Rightarrow> string" where
  "safe_download_filename name =
     (let sanitized = replace_all_dots (trim_dots_spaces (map download_char (chars name)))
      in if sanitized = [] then ''artifact.bin'' else sanitized)"

section \<open>Lemmas\<close>

definition download_safe :: "char \<Rightarrow> bool" where
  "download_safe c =
     (32 \<le> (of_char c :: nat) \<and> (of_char c :: nat) < 127
      \<and> c \<notin> {CHR 0x22, CHR 0x5C, CHR ''/'', CHR ''<'', CHR ''>'', CHR '':'', CHR ''|'', CHR ''?'', CHR ''*''})"

lemma download_safe_underscore: "download_safe (CHR ''_'')"
  by code_simp

lemma download_char_safe: "download_safe (download_char g)"
proof (cases "\<exists>c. g = [c]")
  case True
  then obtain c where g: "g = [c]" ..
  show ?thesis
  proof (cases "download_char g = CHR ''_''")
    case False
    then have "download_char g = c" "32 \<le> (of_char c :: nat)" "(of_char c :: nat) < 128" "(of_char c :: nat) \<noteq> 127"
      "c \<notin> {CHR 0x22, CHR 0x5C, CHR ''/'', CHR ''<'', CHR ''>'', CHR '':'', CHR ''|'', CHR ''?'',
                 CHR ''*'', CHR 0x0D, CHR 0x0A, CHR 0x09}"
      unfolding g download_char_def list.case by (meson linorder_not_less)+
    then show ?thesis unfolding download_safe_def by simp
  qed (simp add: download_safe_underscore)
next
  case False
  then have "download_char g = CHR ''_''" by (auto simp: download_char_def split: list.splits)
  then show ?thesis by (simp add: download_safe_underscore)
qed

lemma replace_dots_safe: "list_all download_safe s \<Longrightarrow> list_all download_safe (replace_dots s)"
  by (induction s rule: replace_dots.induct) (auto simp: download_safe_underscore)

lemma replace_all_dots_safe: "list_all download_safe s \<Longrightarrow> list_all download_safe (replace_all_dots s)"
proof (induction s rule: replace_all_dots.induct)
  case (1 s)
  then show ?case using replace_dots_safe by (subst replace_all_dots.simps) auto
qed

lemma replace_all_dots_none: "\<not> has_dots (replace_all_dots s)"
proof (induction s rule: replace_all_dots.induct)
  case (1 s)
  then show ?case by (subst replace_all_dots.simps) auto
qed

lemma has_dots_iff: "has_dots s \<longleftrightarrow> (\<exists>a b. s = a @ ''..'' @ b)"
proof (induction s rule: has_dots.induct)
  case (1 c d s)
  show ?case
  proof
    assume "has_dots (c # d # s)"
    then consider "c = CHR ''.'' \<and> d = CHR ''.''" | "has_dots (d # s)" by auto
    then show "\<exists>a b. c # d # s = a @ ''..'' @ b"
    proof cases
      case 1
      then have "c # d # s = [] @ ''..'' @ s" by simp
      then show ?thesis by blast
    next
      case 2
      then obtain a b where "d # s = a @ ''..'' @ b" using "1.IH" by blast
      then have "c # d # s = (c # a) @ ''..'' @ b" by simp
      then show ?thesis by blast
    qed
  next
    assume "\<exists>a b. c # d # s = a @ ''..'' @ b"
    then obtain a b where ab: "c # d # s = a @ ''..'' @ b" by blast
    show "has_dots (c # d # s)"
    proof (cases a)
      case Nil
      then show ?thesis using ab by simp
    next
      case (Cons x xs)
      then have "d # s = xs @ ''..'' @ b" using ab by simp
      then have "has_dots (d # s)" using "1.IH" by blast
      then show ?thesis by simp
    qed
  qed
qed (auto simp: append_eq_Cons_conv Cons_eq_append_conv)

section \<open>Properties\<close>

text \<open>The name a download is offered under is never empty, is printable ASCII without quotes,
separators, wildcards or control characters, and contains no two dots in a row, whatever name the
artifact has; so it can neither leave the quotes of the Content-Disposition header nor name a
parent directory.\<close>

theorem download_name_is_safe:
  "safe_download_filename name \<noteq> [] \<and> list_all download_safe (safe_download_filename name)
    \<and> (\<nexists>a b. safe_download_filename name = a @ ''..'' @ b)"
proof -
  let ?s = "replace_all_dots (trim_dots_spaces (map download_char (chars name)))"
  have "list_all download_safe (trim_dots_spaces (map download_char (chars name)))"
    by (auto simp: list_all_iff trim_dots_spaces_def download_char_safe dest!: set_dropWhileD)
  then have safe: "list_all download_safe ?s" by (rule replace_all_dots_safe)
  have default: "list_all download_safe ''artifact.bin'' \<and> \<not> has_dots ''artifact.bin''" by code_simp
  show ?thesis
    unfolding has_dots_iff [symmetric]
    using safe default replace_all_dots_none by (simp add: safe_download_filename_def Let_def)
qed

text \<open>The strictest policy: nothing but plain https hosts.\<close>

definition strict_url_policy :: RunnerUrlPolicyConfig where
  "strict_url_policy =
     \<lparr>require_https = True, allow_credentials = False, allow_query = False, allow_fragment = False,
      allow_path = False, allow_localhost = False, allow_private_ips = False,
      allow_link_local_ips = False, allow_documentation_ips = False, allow_multicast_ips = False\<rparr>"

text \<open>The policy on addresses has a hole: the IPv4-mapped form of an address, ::ffff:a.b.c.d,
passes whatever the policy forbids, also for loopback, private and link-local addresses, each of
which is refused when it is written as an IPv4 address.\<close>

theorem mapped_address_passes_policy:
  "validate_ipv6_runner_host policy [0, 0, 0, 0, 0, 0xffff, x, y] = Ok ()
    \<and> validate_ipv4_runner_host strict_url_policy 127 b c d \<noteq> Ok ()
    \<and> validate_ipv4_runner_host strict_url_policy 10 b c d \<noteq> Ok ()
    \<and> validate_ipv4_runner_host strict_url_policy 169 254 c d \<noteq> Ok ()"
  by (simp add: validate_ipv6_runner_host_def validate_ipv4_runner_host_def segment_def
      strict_url_policy_def ipv4_is_private_def)

end
