(* ===== verification/Server_Users.thy ===== *)
theory Server_Users
  imports Scheduler_Demo Rate_Limit Runner_Urls
begin

text \<open>
  The users of the server and their sessions: the tables users, sessions and audit_events
  (janus-server/src/db.rs), the signed session cookie and the user it stands for (auth.rs), and
  the login, logout and user handlers (web/routes.rs, app.rs).

  The tables stand beside those of Server_Db and draw from the same sequence; the directories of
  the bare repositories are the set of their paths.  Argon2, HMAC, SHA-256, the random identifiers
  of sessions, the texts of instants to come, JSON texts, the URL parser and the calls of git are
  third-party and come as the record WebEnv; the n-th call of git answers for n, and says whether
  the directory is there afterwards.
\<close>

section \<open>Tables\<close>

record User =
  us_id :: string
  us_username :: string
  us_role :: UserRole
  us_created_at :: string

record SessionRow =
  ss_id :: string
  ss_user_id :: string
  ss_expires_at :: string
  ss_created_at :: string

record AuditEvent =
  ae_id :: string
  ae_actor_user_id :: "string option"
  ae_actor_username :: "string option"
  ae_action :: string
  ae_target_type :: string
  ae_target_id :: "string option"
  ae_target_name :: "string option"
  ae_metadata_json :: string
  ae_created_at :: string

record Web =
  web_server :: Server
  web_users :: "(User \<times> string) list"
  web_sessions :: "SessionRow list"
  web_audit :: "AuditEvent list"
  web_login_attempts :: LoginAttempts
  web_bare_repos :: "string set"

record WebEnv =
  we_sched :: SchedEnv
  we_hmac :: "string \<Rightarrow> string \<Rightarrow> 8 word list"
  we_hash_password :: "nat \<Rightarrow> string \<Rightarrow> (string, string) result"
  we_verify_password :: "string \<Rightarrow> string \<Rightarrow> bool"
  we_session_id :: "nat \<Rightarrow> string"
  we_expiry :: "nat \<Rightarrow> string"
  we_json_text :: "json \<Rightarrow> string"
  we_trigger_text :: "WorkflowTrigger \<Rightarrow> string"
  we_definition_text :: "WorkflowDefinition \<Rightarrow> string"
  we_parse_jobs :: "string \<Rightarrow> (string, WorkflowJobDefinition list) result"
  we_digest :: "string \<Rightarrow> 8 word list"
  we_parse_url :: "string \<Rightarrow> RunnerUrl option"
  we_git_init :: "nat \<Rightarrow> string \<Rightarrow> bool \<times> (string, unit) result"
  we_install_hook :: "nat \<Rightarrow> string \<Rightarrow> string \<Rightarrow> (string, unit) result"
  we_remove_dir :: "nat \<Rightarrow> string \<Rightarrow> (string, unit) result"
  we_repos_dir :: string
  we_url_policy :: RunnerUrlPolicyConfig
  we_session_secret :: string
  we_login_limit :: u64

abbreviation web_plat :: "WebEnv \<Rightarrow> DbPlat" where "web_plat W \<equiv> se_plat (we_sched W)"

definition web_db :: "Web \<Rightarrow> Db" where "web_db w = srv_db (web_server w)"

definition web_seq :: "Web \<Rightarrow> nat" where "web_seq w = db_seq (web_db w)"

definition draw_web :: "Web \<Rightarrow> Web" where
  "draw_web w = w\<lparr>web_server := with_db (\<lambda>d. draw d) (web_server w)\<rparr>"

type_synonym 'a web_op = "Web \<Rightarrow> (string, 'a) result \<times> Web"

definition create_user :: "WebEnv \<Rightarrow> string \<Rightarrow> string \<Rightarrow> UserRole \<Rightarrow> string web_op" where
  "create_user W username password_hash role w =
     (if list_ex (\<lambda>(u, _). us_username u = username) (web_users w)
      then (Err ''UNIQUE constraint failed: users.username'', w)
      else let id = uuid_text (web_plat W) (web_seq w) in
        (Ok id, (draw_web w)\<lparr>web_users := web_users w @
           [(\<lparr>us_id = id, us_username = username, us_role = role,
              us_created_at = clock (web_plat W) (web_seq w)\<rparr>, password_hash)]\<rparr>))"

definition create_audit_event ::
    "WebEnv \<Rightarrow> User option \<Rightarrow> string \<Rightarrow> string \<Rightarrow> string option \<Rightarrow> string option \<Rightarrow> json
      \<Rightarrow> string web_op" where
  "create_audit_event W actor action target_type target_id target_name metadata w =
     (if \<exists>u \<in> set_option actor. us_id u \<notin> us_id ` fst ` set (web_users w)
      then (Err FK_FAILED, w)
      else let id = uuid_text (web_plat W) (web_seq w) in
        (Ok id, (draw_web w)\<lparr>web_audit := web_audit w @
           [\<lparr>ae_id = id, ae_actor_user_id = map_option us_id actor,
             ae_actor_username = map_option us_username actor, ae_action = action,
             ae_target_type = target_type, ae_target_id = target_id,
             ae_target_name = target_name, ae_metadata_json = we_json_text W metadata,
             ae_created_at = clock (web_plat W) (web_seq w)\<rparr>]\<rparr>))"

definition list_users :: "Web \<Rightarrow> User list" where
  "list_users w = sort_key us_username (map fst (web_users w))"

definition user_count :: "Web \<Rightarrow> int" where "user_count w = int (length (web_users w))"

definition get_user_credentials :: "string \<Rightarrow> Web \<Rightarrow> (User \<times> string) option" where
  "get_user_credentials username w = find (\<lambda>(u, _). us_username u = username) (web_users w)"

definition create_session :: "WebEnv \<Rightarrow> string \<Rightarrow> string \<Rightarrow> string web_op" where
  "create_session W user_id expires_at w =
     (if user_id \<notin> us_id ` fst ` set (web_users w) then (Err FK_FAILED, w)
      else let session_id = we_session_id W (web_seq w) in
        if session_id \<in> ss_id ` set (web_sessions w)
        then (Err ''UNIQUE constraint failed: sessions.id'', draw_web w)
        else (Ok session_id, (draw_web w)\<lparr>web_sessions := web_sessions w @
           [\<lparr>ss_id = session_id, ss_user_id = user_id, ss_expires_at = expires_at,
             ss_created_at = clock (web_plat W) (web_seq w)\<rparr>]\<rparr>))"

definition delete_sessions_for_user :: "string \<Rightarrow> Web \<Rightarrow> Web" where
  "delete_sessions_for_user user_id w =
     w\<lparr>web_sessions := filter (\<lambda>s. ss_user_id s \<noteq> user_id) (web_sessions w)\<rparr>"

definition cleanup_expired_sessions :: "WebEnv \<Rightarrow> Web \<Rightarrow> Web" where
  "cleanup_expired_sessions W w =
     (draw_web w)\<lparr>web_sessions :=
        filter (\<lambda>s. \<not> ss_expires_at s \<le> clock (web_plat W) (web_seq w)) (web_sessions w)\<rparr>"

definition delete_session :: "string \<Rightarrow> Web \<Rightarrow> Web" where
  "delete_session session_id w =
     w\<lparr>web_sessions := filter (\<lambda>s. ss_id s \<noteq> session_id) (web_sessions w)\<rparr>"

definition user_for_session :: "WebEnv \<Rightarrow> string \<Rightarrow> Web \<Rightarrow> User option \<times> Web" where
  "user_for_session W session_id w =
     (Option.bind (find (\<lambda>s. ss_id s = session_id
                        \<and> clock (web_plat W) (web_seq w) < ss_expires_at s) (web_sessions w))
        (\<lambda>s. map_option fst (find (\<lambda>(u, _). us_id u = ss_user_id s) (web_users w))),
      draw_web w)"

section \<open>The session cookie (auth.rs)\<close>

definition SESSION_COOKIE :: string where "SESSION_COOKIE = ''janus_session''"

definition cookie_sign :: "WebEnv \<Rightarrow> string \<Rightarrow> string" where
  "cookie_sign W value = hex_lower (we_hmac W (we_session_secret W) value)"

definition session_cookie :: "WebEnv \<Rightarrow> string \<Rightarrow> string" where
  "session_cookie W value = value @ ''.'' @ cookie_sign W value"

definition verify_signed_cookie :: "WebEnv \<Rightarrow> string \<Rightarrow> string option" where
  "verify_signed_cookie W value =
     (case rsplit_once (CHR ''.'') value of
        None \<Rightarrow> None
      | Some (session_id, signature) \<Rightarrow>
          if cookie_sign W session_id = signature then Some session_id else None)"

fun session_cookie_in :: "WebEnv \<Rightarrow> string list \<Rightarrow> string option" where
  "session_cookie_in W [] = None"
| "session_cookie_in W (part # parts) =
     (case strip_prefix (SESSION_COOKIE @ ''='') (trim part) of
        Some raw_value \<Rightarrow> verify_signed_cookie W raw_value
      | None \<Rightarrow> session_cookie_in W parts)"

definition parse_session_cookie :: "WebEnv \<Rightarrow> string \<Rightarrow> string option" where
  "parse_session_cookie W cookie_header = session_cookie_in W (split_on (CHR '';'') cookie_header)"

section \<open>Responses and the signed-in user\<close>

text \<open>A response is its status and its text: a message, or where it redirects to.\<close>

type_synonym web_response = "nat \<times> string"

definition auth_redirect :: web_response where "auth_redirect = (303, ''/login'')"
definition unauthorized :: web_response where "unauthorized = (401, ''invalid credentials'')"
definition internal_error :: web_response where "internal_error = (500, ''internal server error'')"
definition bad_request :: "string \<Rightarrow> web_response" where "bad_request e = (400, e)"
definition forbidden :: "string \<Rightarrow> web_response" where "forbidden e = (403, e)"
definition not_found :: "string \<Rightarrow> web_response" where "not_found entity = (404, entity @ '' not found'')"

type_synonym 'a handler = "Web \<Rightarrow> (web_response, 'a) result \<times> Web"

text \<open>The extractor CurrentUser; the cookie jar has found the value of the cookie, if any.\<close>

definition current_user :: "WebEnv \<Rightarrow> string option \<Rightarrow> User handler" where
  "current_user W cookie w =
     (case Option.bind cookie (verify_signed_cookie W) of
        None \<Rightarrow> (Err auth_redirect, w)
      | Some session \<Rightarrow>
          (case user_for_session W session w of
             (Some user, w) \<Rightarrow>
               (if us_role user \<noteq> Admin then (Err auth_redirect, w) else (Ok user, w))
           | (None, w) \<Rightarrow> (Err auth_redirect, w)))"

definition csrf_token :: "WebEnv \<Rightarrow> User \<Rightarrow> string" where
  "csrf_token W user = hex_lower (we_hmac W (we_session_secret W) (''csrf:'' @ us_id user))"

definition verify_csrf :: "WebEnv \<Rightarrow> User \<Rightarrow> string \<Rightarrow> (web_response, unit) result" where
  "verify_csrf W user token =
     (if token = csrf_token W user then Ok () else Err (forbidden ''csrf validation failed''))"

fun is_admin :: "UserRole \<Rightarrow> bool" where "is_admin Admin = True"

definition require_admin :: "User \<Rightarrow> (web_response, unit) result" where
  "require_admin user =
     (if is_admin (us_role user) then Ok () else Err (forbidden ''admin role required''))"

definition record_audit_event ::
    "WebEnv \<Rightarrow> User \<Rightarrow> string \<Rightarrow> string \<Rightarrow> string option \<Rightarrow> string option \<Rightarrow> json \<Rightarrow> unit handler" where
  "record_audit_event W actor action target_type target_id target_name metadata w =
     (case create_audit_event W (Some actor) action target_type target_id target_name metadata w of
        (Err e, w) \<Rightarrow> (Err internal_error, w)
      | (Ok i, w) \<Rightarrow> (Ok (), w))"

section \<open>Login, logout and new users\<close>

text \<open>The third component of a login is the cookie it sets.\<close>

definition open_session ::
    "WebEnv \<Rightarrow> string \<Rightarrow> string \<Rightarrow> Web \<Rightarrow> web_response \<times> string option \<times> Web" where
  "open_session W username password w =
     (case get_user_credentials username w of
        None \<Rightarrow> (unauthorized, None, w)
      | Some (user, hash) \<Rightarrow>
          if \<not> we_verify_password W password hash then (unauthorized, None, w)
          else
            let w = delete_sessions_for_user (us_id user) (cleanup_expired_sessions W w);
                expires_at = we_expiry W (web_seq w) in
            case create_session W (us_id user) expires_at (draw_web w) of
              (Err e, w) \<Rightarrow> ((500, ''failed to create session''), None, w)
            | (Ok session_id, w) \<Rightarrow> ((303, ''/repos''), Some (session_cookie W session_id), w))"

definition login ::
    "WebEnv \<Rightarrow> nat \<Rightarrow> string \<Rightarrow> string \<Rightarrow> Web \<Rightarrow> web_response \<times> string option \<times> Web" where
  "login W instant username password w =
     (if trim username = [] \<or> password = []
      then (bad_request ''username and password are required'', None, w)
      else
        let (allowed, attempts) =
              allow_login_attempt (we_login_limit W) username instant (web_login_attempts w);
            w = w\<lparr>web_login_attempts := attempts\<rparr> in
        if \<not> allowed then ((429, ''too many login attempts, try again later''), None, w)
        else open_session W username password w)"

definition logout :: "WebEnv \<Rightarrow> string option \<Rightarrow> Web \<Rightarrow> web_response \<times> Web" where
  "logout W cookie_header w =
     ((303, ''/login''),
      case Option.bind cookie_header (parse_session_cookie W) of
        Some session_id \<Rightarrow> delete_session session_id w
      | None \<Rightarrow> w)"

definition username_char :: "string \<Rightarrow> bool" where
  "username_char g =
     (case g of
        [c] \<Rightarrow> is_ascii_alphanumeric c \<or> c \<in> {CHR ''_'', CHR ''-'', CHR ''.''}
      | _ \<Rightarrow> False)"

definition validate_username :: "string \<Rightarrow> (string, unit) result" where
  "validate_username username =
     (let trimmed = trim username in
      if length trimmed < 3 then Err ''username must be at least 3 characters''
      else if 64 < length (chars trimmed) then Err ''username must be 64 characters or fewer''
      else if \<not> list_all username_char (chars trimmed)
      then Err ''username contains invalid characters''
      else Ok ())"

definition validate_password :: "string \<Rightarrow> (string, unit) result" where
  "validate_password password =
     (if length password < 8 then Err ''password must be at least 8 characters'' else Ok ())"

definition validate_role :: "string \<Rightarrow> (string, UserRole) result" where
  "validate_role role = ok_or (UserRole_parse role) ''role must be admin''"

text \<open>A rejected form is answered with the page and the message.\<close>

definition create_user_route ::
    "WebEnv \<Rightarrow> User \<Rightarrow> string \<Rightarrow> string \<Rightarrow> string \<Rightarrow> string \<Rightarrow> string handler" where
  "create_user_route W user csrf username password role w =
     try_then (verify_csrf W user csrf, w) (\<lambda>_ w.
     try_then (map_err bad_request (validate_username username), w) (\<lambda>_ w.
     try_then (map_err bad_request (validate_password password), w) (\<lambda>_ w.
     try_then (map_err bad_request (validate_role role), w) (\<lambda>role w.
     try_then (map_err (\<lambda>_. internal_error) (we_hash_password W (web_seq w) password), draw_web w)
       (\<lambda>hash w.
     try_then (case create_user W (trim username) hash role w of (r, w) \<Rightarrow>
                 (map_err (\<lambda>_. internal_error) r, w)) (\<lambda>_ w.
     try_then (record_audit_event W user ''user.create'' ''user'' None (Some (trim username))
                 (JObject [(''role'', JString (UserRole_as_str role))]) w) (\<lambda>_ w.
       (Ok ''/users'', w))))))))"

definition validate_bootstrap_admin :: "string \<Rightarrow> string \<Rightarrow> (string, unit) result" where
  "validate_bootstrap_admin username password =
     and_then (validate_username username) (\<lambda>_. validate_password password)"

definition bootstrap_admin :: "WebEnv \<Rightarrow> string \<Rightarrow> string \<Rightarrow> unit web_op" where
  "bootstrap_admin W username password w =
     (if 0 < user_count w
      then (Err ''bootstrap-admin can only run when no users exist'', w)
      else
        try_then (validate_bootstrap_admin username password, w) (\<lambda>_ w.
        try_then (we_hash_password W (web_seq w) password, draw_web w) (\<lambda>password_hash w.
        try_then (create_user W (trim username) password_hash Admin w) (\<lambda>user_id w.
        try_then (create_audit_event W None ''user.bootstrap_admin'' ''user'' (Some user_id)
                   (Some (trim username)) (JObject [(''role'', JString (UserRole_as_str Admin))]) w)
          (\<lambda>_ w. (Ok (), w))))))"

definition seed_user :: "WebEnv \<Rightarrow> string \<Rightarrow> string \<Rightarrow> string \<Rightarrow> unit web_op" where
  "seed_user W username password role w =
     try_then (we_hash_password W (web_seq w) password, draw_web w) (\<lambda>password_hash w.
     try_then (ok_or (UserRole_parse role) (''unknown user role: '' @ role), w) (\<lambda>role w.
     try_then (create_user W username password_hash role w) (\<lambda>_ w. (Ok (), w))))"

section \<open>Lemmas\<close>

lemma draw_web_simps [simp]:
  "web_users (draw_web w) = web_users w" "web_sessions (draw_web w) = web_sessions w"
  "web_audit (draw_web w) = web_audit w" "web_login_attempts (draw_web w) = web_login_attempts w"
  "web_seq (draw_web w) = Suc (web_seq w)"
  by (simp_all add: draw_web_def web_seq_def web_db_def with_db_def)

text \<open>Usernames and identifiers are unique.\<close>

definition users_wf :: "Web \<Rightarrow> bool" where
  "users_wf w =
     (distinct (map (us_id \<circ> fst) (web_users w)) \<and> distinct (map (us_username \<circ> fst) (web_users w)))"

lemma find_by_key:
  assumes "distinct (map f xs)" and "x \<in> set xs"
  shows "find (\<lambda>y. f y = f x) xs = Some x"
proof -
  have "find (\<lambda>y. f y = f x) xs \<noteq> None" using assms(2) by (auto simp: find_None_iff)
  then obtain y where y: "find (\<lambda>y. f y = f x) xs = Some y" by blast
  then have "y \<in> set xs" "f y = f x" by (auto simp: find_Some_iff in_set_conv_nth)
  with assms show ?thesis using y by (metis distinct_map inj_onD)
qed

lemma find_someD: "find P xs = Some x \<Longrightarrow> x \<in> set xs \<and> P x"
  by (auto simp: find_Some_iff in_set_conv_nth)

lemma hex_lower_no_dot: "CHR ''.'' \<notin> set (hex_lower bs)"
  using hex_lower_digits [of bs] by (auto simp: HEX_def)

text \<open>The signed value is the only text that stands for a session.\<close>

lemma verify_signed_cookie_iff:
  "verify_signed_cookie W value = Some session_id \<longleftrightarrow> value = session_cookie W session_id"
proof
  assume "verify_signed_cookie W value = Some session_id"
  then show "value = session_cookie W session_id"
    by (auto simp: verify_signed_cookie_def session_cookie_def rsplit_once_eq_Some
        split: option.splits if_splits)
next
  assume "value = session_cookie W session_id"
  then have "rsplit_once (CHR ''.'') value = Some (session_id, cookie_sign W session_id)"
    by (simp add: rsplit_once_eq_Some session_cookie_def cookie_sign_def hex_lower_no_dot)
  then show "verify_signed_cookie W value = Some session_id"
    by (simp add: verify_signed_cookie_def)
qed

lemma verify_session_cookie [simp]: "verify_signed_cookie W (session_cookie W session_id) = Some session_id"
  by (simp add: verify_signed_cookie_iff)

lemma session_cookie_inject [simp]: "session_cookie W a = session_cookie W b \<longleftrightarrow> a = b"
  using verify_session_cookie by (metis option.inject)

lemma current_user_ok:
  "current_user W cookie w = (Ok user, w') \<longleftrightarrow>
    w' = draw_web w \<and> (\<exists>session_id row hash. cookie = Some (session_cookie W session_id)
      \<and> find (\<lambda>s. ss_id s = session_id
            \<and> clock (web_plat W) (web_seq w) < ss_expires_at s) (web_sessions w) = Some row
      \<and> find (\<lambda>(u, _). us_id u = ss_user_id row) (web_users w) = Some (user, hash))"
proof (cases "Option.bind cookie (verify_signed_cookie W)")
  case None
  then show ?thesis by (auto simp: current_user_def)
next
  case (Some session_id)
  then have cookie: "cookie = Some (session_cookie W session_id)"
    by (auto simp: bind_eq_Some_conv verify_signed_cookie_iff)
  have admin: "us_role u = Admin" for u :: User by (cases "us_role u") simp
  show ?thesis
    by (auto simp: cookie current_user_def user_for_session_def admin bind_eq_Some_conv
        split: option.splits)
qed

text \<open>A search with a further condition is a search among the matching rows.\<close>

lemma find_conj: "find (\<lambda>s. P s \<and> Q s) xs = find Q (filter P xs)"
  by (induction xs) auto

lemma current_user_err: "current_user W cookie w = (Err e, w') \<Longrightarrow> e = auth_redirect \<and> w' \<in> {w, draw_web w}"
  by (auto simp: current_user_def user_for_session_def split: option.splits if_splits)

section \<open>Properties\<close>

text \<open>Whoever is served as a user holds the cookie of a live session: the cookie is the
identifier of a session signed with the server's secret, that session is in the table and has
not expired, and the user is its user.  A cookie whose signature differs, a deleted session and
an expired one are sent to the login page, and nothing else happens.\<close>

theorem signed_in_user_has_session:
  assumes "current_user W cookie w = (r, w')"
  shows "(\<forall>user. r = Ok user \<longrightarrow> (\<exists>session. session \<in> set (web_sessions w)
        \<and> cookie = Some (session_cookie W (ss_id session))
        \<and> clock (web_plat W) (web_seq w) < ss_expires_at session
        \<and> user \<in> fst ` set (web_users w) \<and> us_id user = ss_user_id session))
    \<and> (\<forall>e. r = Err e \<longrightarrow> e = auth_redirect)
    \<and> w' \<in> {w, draw_web w}"
proof (intro conjI allI impI)
  fix user assume "r = Ok user"
  then obtain session_id row hash where "cookie = Some (session_cookie W session_id)"
    and row: "find (\<lambda>s. ss_id s = session_id
          \<and> clock (web_plat W) (web_seq w) < ss_expires_at s) (web_sessions w) = Some row"
    and user: "find (\<lambda>(u, _). us_id u = ss_user_id row) (web_users w) = Some (user, hash)"
    using assms by (auto simp: current_user_ok)
  then show "\<exists>session. session \<in> set (web_sessions w)
        \<and> cookie = Some (session_cookie W (ss_id session))
        \<and> clock (web_plat W) (web_seq w) < ss_expires_at session
        \<and> user \<in> fst ` set (web_users w) \<and> us_id user = ss_user_id session"
    using find_someD [OF row] find_someD [OF user] by (force intro: rev_image_eqI)
next
  show "e = auth_redirect" if "r = Err e" for e
    using current_user_err [of W cookie w e w'] assms that by simp
  show "w' \<in> {w, draw_web w}"
    using assms current_user_err [of W cookie w _ w'] current_user_ok [of W cookie w _ w']
    by (cases r) auto
qed

text \<open>C26. A login that hands out a cookie was allowed by the limiter and gave the password of the
user; all earlier sessions of the user are gone, and the cookie signs in exactly this user, in
any later state that still has the user and the sessions, until the session expires.\<close>

theorem login_opens_only_session:
  assumes "users_wf w" and login: "login W instant username password w = (resp, Some cookie, w1)"
  shows "\<exists>user hash session. get_user_credentials username w = Some (user, hash)
    \<and> we_verify_password W password hash
    \<and> fst (allow_login_attempt (we_login_limit W) username instant (web_login_attempts w))
    \<and> filter (\<lambda>s. ss_user_id s = us_id user) (web_sessions w1) = [session]
    \<and> (\<forall>w2. web_users w2 = web_users w1 \<and> filter (\<lambda>s. ss_id s = ss_id session) (web_sessions w2) = [session]
         \<and> clock (web_plat W) (web_seq w2) < ss_expires_at session
         \<longrightarrow> fst (current_user W (Some cookie) w2) = Ok user)"
proof -
  obtain allowed attempts where l: "allow_login_attempt (we_login_limit W) username instant
      (web_login_attempts w) = (allowed, attempts)" by force
  define w0 where "w0 = w\<lparr>web_login_attempts := attempts\<rparr>"
  have allowed: "allowed" using login by (auto simp: login_def l Let_def split: if_splits)
  have w0: "web_users w0 = web_users w" by (simp add: w0_def)
  obtain user hash where cred: "get_user_credentials username w = Some (user, hash)"
    and pw: "we_verify_password W password hash"
    using login by (auto simp: login_def open_session_def l Let_def get_user_credentials_def split: if_splits option.splits)
  define wa where "wa = delete_sessions_for_user (us_id user) (cleanup_expired_sessions W w0)"
  have wa: "web_users wa = web_users w" "\<forall>s \<in> set (web_sessions wa). ss_user_id s \<noteq> us_id user"
    by (auto simp: wa_def w0 delete_sessions_for_user_def cleanup_expired_sessions_def)
  have mem: "(user, hash) \<in> set (web_users w)"
    using cred find_someD by (fastforce simp: get_user_credentials_def)
  define session where "session = \<lparr>ss_id = we_session_id W (Suc (web_seq wa)), ss_user_id = us_id user,
      ss_expires_at = we_expiry W (web_seq wa), ss_created_at = clock (web_plat W) (Suc (web_seq wa))\<rparr>"
  have cred0: "get_user_credentials username w0 = Some (user, hash)"
    using cred by (simp add: get_user_credentials_def w0)
  have known: "us_id user \<in> us_id ` fst ` set (web_users w)"
    using mem by (metis fst_conv image_eqI)
  have w1: "w1 = (draw_web (draw_web wa))\<lparr>web_sessions := web_sessions wa @ [session]\<rparr>"
    and cookie: "cookie = session_cookie W (ss_id session)"
    using login allowed pw known
    by (auto simp: login_def open_session_def l Let_def w0_def [symmetric] cred0 wa_def [symmetric] create_session_def
        wa session_def split: if_splits)
  have "filter (\<lambda>s. ss_user_id s = us_id user) (web_sessions w1) = [session]"
    using wa(2) by (simp add: w1 session_def)
  moreover have "fst (current_user W (Some cookie) w2) = Ok user"
    if "web_users w2 = web_users w1 \<and> filter (\<lambda>s. ss_id s = ss_id session) (web_sessions w2) = [session]
         \<and> clock (web_plat W) (web_seq w2) < ss_expires_at session" for w2
  proof -
    let ?P = "\<lambda>s. ss_id s = ss_id session"
    have "find (\<lambda>s. ?P s \<and> clock (web_plat W) (web_seq w2) < ss_expires_at s) (web_sessions w2) = Some session"
      unfolding find_conj using that by simp
    moreover have "find (\<lambda>(u, _). us_id u = us_id user) (web_users w2) = Some (user, hash)"
      using find_by_key [of "us_id \<circ> fst" "web_users w" "(user, hash)"] assms(1) mem that
      by (simp add: users_wf_def w1 wa(1) case_prod_unfold)
    ultimately have "current_user W (Some cookie) w2 = (Ok user, draw_web w2)"
      by (auto simp: current_user_ok cookie session_def)
    then show ?thesis by simp
  qed
  ultimately show ?thesis using cred pw allowed by (auto simp: l)
qed

definition demo_web_env :: WebEnv where
  "demo_web_env =
     \<lparr>we_sched = demo_env no_network, we_hmac = (\<lambda>_ _. [255]),
      we_hash_password = (\<lambda>_ password. Ok password), we_verify_password = (=),
      we_session_id = uid, we_expiry = (\<lambda>n. replicate (n + 10) (CHR ''t'')),
      we_json_text = (\<lambda>_. ''json''), we_trigger_text = (\<lambda>_. ''trigger''),
      we_definition_text = (\<lambda>_. ''definition''), we_parse_jobs = (\<lambda>_. Err ''bad''),
      we_digest = map (\<lambda>c. of_nat (of_char c)), we_parse_url = (\<lambda>_. None),
      we_git_init = (\<lambda>_ _. (True, Ok ())), we_install_hook = (\<lambda>_ _ _. Ok ()),
      we_remove_dir = (\<lambda>_ _. Ok ()), we_repos_dir = ''/repos'', we_url_policy = strict_url_policy,
      we_session_secret = ''secret'', we_login_limit = 5\<rparr>"

definition demo_user :: User where
  "demo_user = \<lparr>us_id = ''u1'', us_username = ''ann'', us_role = Admin, us_created_at = ''t''\<rparr>"

definition demo_web :: Web where
  "demo_web =
     \<lparr>web_server = demo_server ''running'' ''running'' ''pending'' ''pending'',
      web_users = [(demo_user, ''password'')],
      web_sessions = [\<lparr>ss_id = ''old'', ss_user_id = ''u1'', ss_expires_at = replicate 99 (CHR ''t''),
        ss_created_at = ''t''\<rparr>],
      web_audit = [], web_login_attempts = [], web_bare_repos = {}\<rparr>"

theorem signed_in_user_has_session_witness:
  "\<exists>session. session \<in> set (web_sessions demo_web) \<and> ss_user_id session = us_id demo_user"
proof -
  have "fst (current_user demo_web_env (Some ''old.ff'') demo_web) = Ok demo_user" by code_simp
  then show ?thesis
    using signed_in_user_has_session [OF prod.collapse [symmetric],
        of demo_web_env "Some ''old.ff''" demo_web] by metis
qed

theorem login_opens_only_session_witness:
  "\<exists>session. filter (\<lambda>s. ss_user_id s = ''u1'')
     (web_sessions (snd (snd (login demo_web_env 0 ''ann'' ''password'' demo_web)))) = [session]"
proof -
  have cred: "get_user_credentials ''ann'' demo_web = Some (demo_user, ''password'')"
    and wf: "users_wf demo_web" and name: "trim ''ann'' \<noteq> []"
    and opened: "fst (snd (open_session demo_web_env ''ann'' ''password'' (demo_web\<lparr>web_login_attempts :=
      [(''ann'', \<lparr>lw_started_at = 0, lw_count = 1\<rparr>)]\<rparr>))) = Some (uid 12 @ ''.ff'')"
    by code_simp+
  have "allow_login_attempt (we_login_limit demo_web_env) ''ann'' 0 (web_login_attempts demo_web) =
      (True, [(''ann'', \<lparr>lw_started_at = 0, lw_count = 1\<rparr>)])"
    by (simp add: allow_login_attempt_def nanos_per_second_def demo_web_env_def demo_web_def)
  then have cookie: "fst (snd (login demo_web_env 0 ''ann'' ''password'' demo_web)) = Some (uid 12 @ ''.ff'')"
    using name opened by (simp add: login_def)
  have "login demo_web_env 0 ''ann'' ''password'' demo_web =
      (fst (login demo_web_env 0 ''ann'' ''password'' demo_web), Some (uid 12 @ ''.ff''),
       snd (snd (login demo_web_env 0 ''ann'' ''password'' demo_web)))"
    using cookie by (metis prod.collapse)
  from login_opens_only_session [OF wf this] show ?thesis
    using cred by (auto simp: demo_user_def)
qed

end
