(* ===== verification/Workflow_Forms.thy ===== *)
theory Workflow_Forms
  imports Server_Users Push_Events Runner_Api "HOL-Library.Option_ord"
begin

text \<open>
  The validation of a workflow form (janus-server/src/web/routes.rs): triggers and branches, the
  bindings of the inputs of its jobs against the schemas the runners advertise, and the artifacts
  that are selected by hand for a run, with the listings they are chosen from (db.rs).

  A message of format! is a concatenation; a byte size of a JSON value is the length of the text
  serde_json makes of it, a parameter.
\<close>

section \<open>Listings of artifacts (db.rs)\<close>

record ProducedArtifact =
  pd_id :: string
  pd_artifact_name :: string
  pd_sha256 :: string
  pd_size_bytes :: int
  pd_created_at :: string
  pd_repo_id :: string
  pd_repo_name :: string
  pd_workflow_name :: string
  pd_pipeline_run_id :: string
  pd_job_run_id :: string
  pd_runner_name :: string
  pd_runner_job_name :: string
  pd_commit_sha :: "string option"
  pd_trigger_ref :: "string option"

text \<open>An output joined with the rows it refers to; identifiers are primary keys.\<close>

record JoinedOutput =
  jn_output :: JobRunOutput
  jn_artifact :: ServerArtifact
  jn_job :: JobRun
  jn_pipeline :: PipelineRun
  jn_workflow :: WorkflowRow
  jn_runner :: Runner

definition join_output :: "Db \<Rightarrow> string \<times> JobRunOutput \<Rightarrow> JoinedOutput option" where
  "join_output d = (\<lambda>(job_run_id, out).
     Option.bind (jo_server_artifact_id out) (\<lambda>i.
     Option.bind (get_server_artifact_by_id i d) (\<lambda>sa.
     Option.bind (find (\<lambda>j. jr_id j = job_run_id) (db_jobs d)) (\<lambda>jr.
     Option.bind (get_pipeline_run (jr_pipeline_run_id jr) d) (\<lambda>p.
     Option.bind (find (\<lambda>w. wr_id w = pl_workflow_id p) (db_workflows d)) (\<lambda>w.
     map_option (\<lambda>r. \<lparr>jn_output = out, jn_artifact = sa, jn_job = jr, jn_pipeline = p,
                        jn_workflow = w, jn_runner = r\<rparr>)
       (get_runner (jr_runner_id jr) d)))))))"

definition produced_artifact :: "Db \<Rightarrow> JoinedOutput \<Rightarrow> ProducedArtifact option" where
  "produced_artifact d j =
     map_option (\<lambda>repo.
       \<lparr>pd_id = art_id (jn_artifact j), pd_artifact_name = art_artifact_name (jn_artifact j),
        pd_sha256 = art_sha256 (jn_artifact j), pd_size_bytes = art_size_bytes (jn_artifact j),
        pd_created_at = art_created_at (jn_artifact j), pd_repo_id = repo_id repo,
        pd_repo_name = repo_name repo, pd_workflow_name = wr_name (jn_workflow j),
        pd_pipeline_run_id = pl_id (jn_pipeline j), pd_job_run_id = jr_id (jn_job j),
        pd_runner_name = rn_name (jn_runner j), pd_runner_job_name = jr_runner_job_name (jn_job j),
        pd_commit_sha = pl_commit_sha (jn_pipeline j), pd_trigger_ref = pl_trigger_ref (jn_pipeline j)\<rparr>)
       (get_repo (pl_repo_id (jn_pipeline j)) d)"

definition list_recent_produced_artifacts :: "nat \<Rightarrow> Db \<Rightarrow> ProducedArtifact list" where
  "list_recent_produced_artifacts limit d =
     take (min limit 500) (List.map_filter (produced_artifact d)
       (sort_desc (\<lambda>j. art_created_at (jn_artifact j)) (sort_desc (\<lambda>j. art_id (jn_artifact j))
         (filter (\<lambda>j. art_scope_type (jn_artifact j) = ''job_output''
                       \<and> jo_kind (jn_output j) = ''artifact'')
           (List.map_filter (join_output d) (db_outputs d))))))"

definition promotable_artifact :: "JoinedOutput \<Rightarrow> PromotableArtifact" where
  "promotable_artifact j =
     \<lparr>pa_server_artifact_id = art_id (jn_artifact j), pa_sha256 = art_sha256 (jn_artifact j),
      pa_size_bytes = art_size_bytes (jn_artifact j), pa_created_at = art_created_at (jn_artifact j),
      pa_pipeline_run_id = pl_id (jn_pipeline j), pa_workflow_name = wr_name (jn_workflow j),
      pa_job_run_id = jr_id (jn_job j), pa_runner_id = jr_runner_id (jn_job j),
      pa_runner_name = rn_name (jn_runner j), pa_runner_job_name = jr_runner_job_name (jn_job j),
      pa_output_name = jo_output_name (jn_output j), pa_commit_sha = pl_commit_sha (jn_pipeline j),
      pa_trigger_ref = pl_trigger_ref (jn_pipeline j)\<rparr>"

definition promotable_output ::
    "string \<Rightarrow> string \<Rightarrow> string \<Rightarrow> string \<Rightarrow> JoinedOutput \<Rightarrow> bool" where
  "promotable_output repo source_runner_id source_job_name output_name j =
     (pl_repo_id (jn_pipeline j) = repo \<and> pl_status (jn_pipeline j) = ''success''
      \<and> jr_status (jn_job j) = ''success'' \<and> jr_runner_id (jn_job j) = source_runner_id
      \<and> jr_runner_job_name (jn_job j) = source_job_name
      \<and> jo_output_name (jn_output j) = output_name \<and> jo_kind (jn_output j) = ''artifact'')"

definition list_recent_promotable_artifacts ::
    "string \<Rightarrow> string \<Rightarrow> string \<Rightarrow> string \<Rightarrow> nat \<Rightarrow> Db \<Rightarrow> PromotableArtifact list" where
  "list_recent_promotable_artifacts repo source_runner_id source_job_name output_name limit d =
     take (min limit 100) (map promotable_artifact
       (sort_desc (\<lambda>j. pl_finished_at (jn_pipeline j)) (sort_desc (\<lambda>j. jr_finished_at (jn_job j))
         (sort_desc (\<lambda>j. art_id (jn_artifact j))
           (filter (promotable_output repo source_runner_id source_job_name output_name)
             (List.map_filter (join_output d) (db_outputs d)))))))"

section \<open>Bindings\<close>

fun value_matches_input_kind :: "json \<Rightarrow> string \<Rightarrow> bool" where
  "value_matches_input_kind v expected_kind =
     (if expected_kind = ''string'' \<or> expected_kind = ''artifact'' then json_as_str v \<noteq> None
      else if expected_kind = ''integer'' then json_as_i64 v \<noteq> None
      else if expected_kind = ''boolean'' then json_is_boolean v
      else if expected_kind = ''json'' then v \<noteq> JNull
      else False)"

fun describe_json_value_kind :: "json \<Rightarrow> string" where
  "describe_json_value_kind JNull = ''null''"
| "describe_json_value_kind (JBool _) = ''boolean''"
| "describe_json_value_kind (JNumber n) =
     (if json_as_i64 (JNumber n) \<noteq> None then ''integer'' else ''number'')"
| "describe_json_value_kind (JString _) = ''string''"
| "describe_json_value_kind (JArray _) = ''array''"
| "describe_json_value_kind (JObject _) = ''object''"

definition validate_literal_input_constraints ::
    "WebEnv \<Rightarrow> string \<Rightarrow> JobInputDefinitionResponse \<Rightarrow> json \<Rightarrow> (string, unit) result" where
  "validate_literal_input_constraints W input_name input_definition v =
     and_then
       (case (jid_max_length input_definition, json_as_str v) of
          (Some max_length, Some s) \<Rightarrow>
            ensure (char_count s \<le> unat max_length)
              (''workflow input '' @ input_name @ '' exceeds max length '' @ show_nat (unat max_length))
        | _ \<Rightarrow> Ok ()) (\<lambda>_.
       case jid_max_json_bytes input_definition of
         Some max_json_bytes \<Rightarrow>
           ensure (length (we_json_text W v) \<le> unat max_json_bytes)
             (''workflow input '' @ input_name @ '' exceeds max JSON size ''
                @ show_nat (unat max_json_bytes) @ '' bytes'')
       | None \<Rightarrow> Ok ())"

definition validate_literal ::
    "WebEnv \<Rightarrow> string \<Rightarrow> JobInputDefinitionResponse \<Rightarrow> json \<Rightarrow> (string, unit) result" where
  "validate_literal W input_name input_definition v =
     (let expected_kind = InputType_as_str (jid_kind input_definition) in
      if \<not> value_matches_input_kind v expected_kind
      then Err (''workflow input '' @ input_name @ '' expects '' @ expected_kind @ '' but got ''
             @ describe_json_value_kind v)
      else validate_literal_input_constraints W input_name input_definition v)"

fun workflow_input_binding_is_empty :: "WorkflowInputBinding \<Rightarrow> bool" where
  "workflow_input_binding_is_empty (BLiteral v) =
     (case v of JNull \<Rightarrow> True | JString s \<Rightarrow> trim s = [] | _ \<Rightarrow> False)"
| "workflow_input_binding_is_empty (BJobOutput _ output_name) = (trim output_name = [])"
| "workflow_input_binding_is_empty _ = False"

definition validate_required_workflow_inputs ::
    "nat \<Rightarrow> WorkflowJobDefinition \<Rightarrow> JobDefinitionResponse \<Rightarrow> (string, unit) result" where
  "validate_required_workflow_inputs job_index job runner_job =
     check_all (\<lambda>(input_name, input_definition).
       if \<not> jid_required input_definition then Ok ()
       else
         let missing = ''workflow job '' @ show_nat (job_index + 1) @ '' missing required input ''
               @ input_name @ '' for runner job '' @ wj_runner_job_name job in
         case bt_get (wj_inputs job) input_name of
           None \<Rightarrow> Err missing
         | Some binding \<Rightarrow> if workflow_input_binding_is_empty binding then Err missing else Ok ())
       (jdr_inputs runner_job)"

definition is_promoted :: "WorkflowInputBinding \<Rightarrow> bool" where
  "is_promoted b = (case b of BPromotedArtifact _ _ _ \<Rightarrow> True | _ \<Rightarrow> False)"

definition validate_promoted_artifact_trigger ::
    "string \<Rightarrow> WorkflowDefinition \<Rightarrow> (string, unit) result" where
  "validate_promoted_artifact_trigger trigger def =
     (if list_ex (\<lambda>job. list_ex is_promoted (bt_values (wj_inputs job))) (wd_jobs def)
        \<and> trigger \<noteq> ''manual''
      then Err ''artifact selected at run time requires a manual workflow trigger''
      else Ok ())"

section \<open>The jobs of a workflow against the runners\<close>

definition advertised_job :: "Db \<Rightarrow> WorkflowJobDefinition \<Rightarrow> (string, JobDefinitionResponse) result" where
  "advertised_job d job =
     and_then (ok_or (get_runner (wj_runner_id job) d) (''unknown runner '' @ wj_runner_id job))
       (\<lambda>runner.
         ok_or (find (\<lambda>schema. jdr_name schema = wj_runner_job_name job)
                  (list_runner_jobs (rn_id runner) d))
           (''runner '' @ rn_name runner @ '' does not advertise job '' @ wj_runner_job_name job))"

text \<open>The source of an artifact that is selected when the workflow runs.\<close>

definition check_promoted_source ::
    "Db \<Rightarrow> string \<Rightarrow> string \<Rightarrow> string \<Rightarrow> (string, unit) result" where
  "check_promoted_source d source_runner_id source_job_name output_name =
     and_then (ok_or (get_runner source_runner_id d)
        (''promoted artifact references unknown runner '' @ source_runner_id)) (\<lambda>source_runner.
     and_then (ok_or (find (\<lambda>candidate. jdr_name candidate = source_job_name)
                        (list_runner_jobs source_runner_id d))
        (''runner '' @ rn_name source_runner @ '' does not advertise artifact source job ''
           @ source_job_name)) (\<lambda>source_job.
     and_then (ok_or (bt_get (jdr_outputs source_job) output_name)
        (''runner '' @ rn_name source_runner @ '' job '' @ source_job_name
           @ '' does not advertise output '' @ output_name)) (\<lambda>source_output.
       if OutputType_as_str (jod_kind source_output) \<noteq> ''artifact''
       then Err (''promoted source '' @ rn_name source_runner @ '' / '' @ source_job_name @ '' / ''
              @ output_name @ '' is '' @ OutputType_as_str (jod_kind source_output)
              @ '' instead of artifact'')
       else Ok ())))"

text \<open>An output of an earlier job; schemas are those of the workflow's jobs, in order.\<close>

definition check_job_output ::
    "JobDefinitionResponse list \<Rightarrow> nat \<Rightarrow> string \<Rightarrow> string \<Rightarrow> JobOutputBinding \<Rightarrow> (string, unit) result" where
  "check_job_output schemas job_index input_name expected_kind binding =
     (let job = ''job-'' @ show_nat (jb_job_index binding + 1) in
      if length schemas \<le> jb_job_index binding
      then Err (''workflow input '' @ input_name @ '' references unknown job '' @ job)
      else if job_index \<le> jb_job_index binding
      then Err (''workflow input '' @ input_name @ '' references '' @ job @ ''.'' @ jb_output_name binding
             @ '' but only earlier jobs can be referenced'')
      else
        and_then (ok_or (bt_get (jdr_outputs (schemas ! jb_job_index binding)) (jb_output_name binding))
           (''workflow input '' @ input_name @ '' references missing output '' @ job @ ''.''
              @ jb_output_name binding)) (\<lambda>out.
          if OutputType_as_str (jod_kind out) \<noteq> expected_kind
          then Err (''workflow input '' @ input_name @ '' expects '' @ expected_kind @ '' but '' @ job
                 @ ''.'' @ jb_output_name binding @ '' is '' @ OutputType_as_str (jod_kind out))
          else Ok ()))"

definition check_binding ::
    "WebEnv \<Rightarrow> Db \<Rightarrow> JobDefinitionResponse list \<Rightarrow> nat \<Rightarrow> WorkflowJobDefinition
      \<Rightarrow> string \<times> WorkflowInputBinding \<Rightarrow> (string, unit) result" where
  "check_binding W d schemas job_index job = (\<lambda>(input_name, binding).
     and_then (ok_or (bt_get (jdr_inputs (schemas ! job_index)) input_name)
       (''workflow job '' @ show_nat (job_index + 1) @ '' provides unknown input '' @ input_name
          @ '' for runner job '' @ wj_runner_job_name job)) (\<lambda>input_definition.
     let expected_kind = InputType_as_str (jid_kind input_definition);
         mismatch = (\<lambda>what. Err (''workflow input '' @ input_name @ '' expects '' @ expected_kind
                        @ '' but '' @ what)) in
     case binding of
       BCommit \<Rightarrow> if expected_kind \<noteq> ''string'' then mismatch ''built-in binding is string'' else Ok ()
     | BBranch \<Rightarrow> if expected_kind \<noteq> ''string'' then mismatch ''built-in binding is string'' else Ok ()
     | BSourceArtifact \<Rightarrow>
         if expected_kind \<noteq> ''artifact'' then mismatch ''source binding is artifact'' else Ok ()
     | BPromotedArtifact source_runner_id source_job_name output_name \<Rightarrow>
         if expected_kind \<noteq> ''artifact'' then mismatch ''promoted binding is artifact''
         else check_promoted_source d source_runner_id source_job_name output_name
     | BLiteral v \<Rightarrow> validate_literal W input_name input_definition v
     | BJobOutput _ _ \<Rightarrow>
         (case parse_job_output_binding binding of
            None \<Rightarrow> Ok ()
          | Some b \<Rightarrow> check_job_output schemas job_index input_name expected_kind b)))"

definition validate_workflow_runners ::
    "WebEnv \<Rightarrow> Db \<Rightarrow> WorkflowDefinition \<Rightarrow> (string, JobDefinitionResponse list) result" where
  "validate_workflow_runners W d def =
     and_then (collect_results (advertised_job d) (wd_jobs def)) (\<lambda>schemas.
     and_then (check_all (\<lambda>(job_index, job).
         and_then (check_all (check_binding W d schemas job_index job) (wj_inputs job)) (\<lambda>_.
           validate_required_workflow_inputs job_index job (schemas ! job_index)))
         (enumerate 0 (wd_jobs def))) (\<lambda>_.
       Ok schemas))"

section \<open>The form\<close>

record WorkflowForm =
  wff_csrf_token :: string
  wff_repo_id :: string
  wff_name :: string
  wff_trigger_kind :: string
  wff_branch_name :: string
  wff_jobs_json :: string

record ApiWorkflowRequest =
  awr_csrf_token :: string
  awr_repo_id :: string
  awr_name :: string
  awr_enabled :: bool
  awr_trigger_kind :: string
  awr_branches :: "string list"
  awr_jobs :: "WorkflowJobDefinition list"

record ParsedWorkflow =
  pw_trigger_json :: string
  pw_definition_json :: string
  pw_job_schemas :: "JobDefinitionResponse list"

definition validate_workflow_branch_filter :: "string \<Rightarrow> (string, unit) result" where
  "validate_workflow_branch_filter branch =
     (if branch = [] then Ok ()
      else if CHR '','' \<in> set branch then Err ''branch name must contain only one branch''
      else if list_ex is_whitespace (chars branch)
      then Err ''branch name must not contain whitespace''
      else if 255 < char_count branch then Err ''branch name must be 255 characters or fewer''
      else Ok ())"

definition validate_workflow_name :: "string \<Rightarrow> (string, unit) result" where
  "validate_workflow_name name =
     (if trim name = [] then Err ''workflow name cannot be empty''
      else if 120 < char_count (trim name)
      then Err ''workflow name must be 120 characters or fewer''
      else Ok ())"

definition trimmed_job :: "WorkflowJobDefinition \<Rightarrow> WorkflowJobDefinition" where
  "trimmed_job job =
     job\<lparr>wj_runner_id := trim (wj_runner_id job), wj_runner_job_name := trim (wj_runner_job_name job)\<rparr>"

definition parse_workflow_form_jobs ::
    "WebEnv \<Rightarrow> string \<Rightarrow> (string, WorkflowJobDefinition list) result" where
  "parse_workflow_form_jobs W input =
     and_then (map_err (\<lambda>e. ''invalid workflow jobs payload: '' @ e) (we_parse_jobs W input)) (\<lambda>jobs.
       if jobs = [] then Err ''workflow must contain at least one job''
       else Ok (map trimmed_job jobs))"

text \<open>What form and API request have in common, from the trigger kind on.\<close>

definition parsed_workflow ::
    "WebEnv \<Rightarrow> Db \<Rightarrow> WorkflowTrigger \<Rightarrow> WorkflowDefinition \<Rightarrow> (string, ParsedWorkflow) result" where
  "parsed_workflow W d trigger def =
     and_then (WorkflowDefinition_validate def) (\<lambda>_.
     and_then (validate_promoted_artifact_trigger (trigger_kind trigger) def) (\<lambda>_.
     and_then (validate_workflow_runners W d def) (\<lambda>job_schemas.
       Ok \<lparr>pw_trigger_json = we_trigger_text W trigger,
           pw_definition_json = we_definition_text W def, pw_job_schemas = job_schemas\<rparr>)))"

definition validate_trigger_kind :: "string \<Rightarrow> (string, unit) result" where
  "validate_trigger_kind kind =
     ensure (kind \<in> {''push'', ''manual''}) ''trigger kind must be push or manual''"

definition parse_workflow_form ::
    "WebEnv \<Rightarrow> Db \<Rightarrow> WorkflowForm \<Rightarrow> (string, ParsedWorkflow) result" where
  "parse_workflow_form W d form =
     and_then (validate_workflow_name (wff_name form)) (\<lambda>_.
     and_then (validate_trigger_kind (trim (wff_trigger_kind form))) (\<lambda>_.
     let branch_name = trim (wff_branch_name form) in
     and_then (validate_workflow_branch_filter branch_name) (\<lambda>_.
     and_then (parse_workflow_form_jobs W (wff_jobs_json form)) (\<lambda>jobs.
       parsed_workflow W d
         \<lparr>trigger_kind = trim (wff_trigger_kind form),
          trigger_branches = (if branch_name = [] then [] else [branch_name])\<rparr>
         \<lparr>wd_jobs = jobs\<rparr>))))"

definition api_branch :: "string \<Rightarrow> (string, string) result" where
  "api_branch branch =
     (let branch = trim branch in
      if branch = [] then Err ''workflow branch cannot be empty''
      else and_then (validate_workflow_branch_filter branch) (\<lambda>_. Ok branch))"

definition parse_api_workflow_request ::
    "WebEnv \<Rightarrow> Db \<Rightarrow> ApiWorkflowRequest \<Rightarrow> (string, ParsedWorkflow) result" where
  "parse_api_workflow_request W d request =
     and_then (validate_workflow_name (awr_name request)) (\<lambda>_.
     and_then (validate_trigger_kind (trim (awr_trigger_kind request))) (\<lambda>_.
     and_then (collect_results api_branch (awr_branches request)) (\<lambda>branches.
       parsed_workflow W d
         \<lparr>trigger_kind = trim (awr_trigger_kind request), trigger_branches = branches\<rparr>
         \<lparr>wd_jobs = map trimmed_job (awr_jobs request)\<rparr>)))"

section \<open>Artifacts selected for a run\<close>

record ManualArtifactRequirement =
  mar_job_index :: nat
  mar_input_name :: string
  mar_source_runner_id :: string
  mar_source_job_name :: string
  mar_output_name :: string

definition requirement_of ::
    "nat \<Rightarrow> string \<times> WorkflowInputBinding \<Rightarrow> ManualArtifactRequirement option" where
  "requirement_of job_index = (\<lambda>(input_name, binding).
     case binding of
       BPromotedArtifact source_runner_id source_job_name output_name \<Rightarrow>
         Some \<lparr>mar_job_index = job_index, mar_input_name = input_name,
               mar_source_runner_id = source_runner_id, mar_source_job_name = source_job_name,
               mar_output_name = output_name\<rparr>
     | _ \<Rightarrow> None)"

definition manual_artifact_requirements ::
    "SchedEnv \<Rightarrow> Workflow \<Rightarrow> (web_response, ManualArtifactRequirement list) result" where
  "manual_artifact_requirements E workflow =
     and_then (map_err (\<lambda>_. internal_error) (se_parse_definition E (wf_definition_json workflow)))
       (\<lambda>def. Ok (concat (map (\<lambda>(job_index, job).
          List.map_filter (requirement_of job_index) (wj_inputs job)) (enumerate 0 (wd_jobs def)))))"

definition manual_artifact_field_name :: "ManualArtifactRequirement \<Rightarrow> string" where
  "manual_artifact_field_name requirement =
     ''artifact:'' @ show_nat (mar_job_index requirement) @ '':'' @ mar_input_name requirement"

definition eligible_artifacts :: "Workflow \<Rightarrow> ManualArtifactRequirement \<Rightarrow> Db \<Rightarrow> PromotableArtifact list" where
  "eligible_artifacts workflow requirement =
     list_recent_promotable_artifacts (wf_repo_id workflow) (mar_source_runner_id requirement)
       (mar_source_job_name requirement) (mar_output_name requirement) 10"

definition validate_selection ::
    "Db \<Rightarrow> Workflow \<Rightarrow> (string, string) btree_map \<Rightarrow> ManualArtifactRequirement
      \<Rightarrow> (web_response, WorkflowRunArtifactSelection) result" where
  "validate_selection d workflow submitted requirement =
     (let input = ''job-'' @ show_nat (mar_job_index requirement + 1) @ ''.'' @ mar_input_name requirement in
      and_then (ok_or (optional_trimmed_value (bt_get submitted (manual_artifact_field_name requirement)))
          (bad_request (''select an artifact for '' @ input))) (\<lambda>selected_id.
        if \<not> list_ex (\<lambda>artifact. pa_server_artifact_id artifact = selected_id)
               (eligible_artifacts workflow requirement d)
        then Err (bad_request (''selected artifact for '' @ input
               @ '' is not among the 10 newest eligible artifacts''))
        else Ok \<lparr>sel_job_index = mar_job_index requirement,
                 sel_input_name = mar_input_name requirement,
                 sel_server_artifact_id = selected_id\<rparr>))"

definition validate_manual_artifact_selections ::
    "SchedEnv \<Rightarrow> Db \<Rightarrow> Workflow \<Rightarrow> (string, string) btree_map
      \<Rightarrow> (web_response, WorkflowRunArtifactSelection list) result" where
  "validate_manual_artifact_selections E d workflow submitted =
     and_then (manual_artifact_requirements E workflow)
       (collect_results (validate_selection d workflow submitted))"

section \<open>Lemmas\<close>

declare collect_results_ok [result_simps]

lemma collect_results_nth:
  assumes "collect_results f xs = Ok ys" and "i < length xs"
  shows "f (xs ! i) = Ok (ys ! i)"
  using assms by (metis collect_results_ok length_map nth_map)

lemma ball_enumerate: "(\<forall>x \<in> set (enumerate 0 xs). P x) \<longleftrightarrow> (\<forall>i < length xs. P (i, xs ! i))"
  by (auto simp: enumerate_nth)

lemma advertised_job_ok [result_simps]:
  "advertised_job d job = Ok schema \<longleftrightarrow>
     get_runner (wj_runner_id job) d \<noteq> None \<and> advertised d job = Some schema"
proof (cases "get_runner (wj_runner_id job) d")
  case (Some r)
  then have "rn_id r = wj_runner_id job" by (auto simp: get_runner_def dest: find_someD)
  then show ?thesis by (simp add: advertised_job_def advertised_def Some)
qed (simp add: advertised_job_def)

lemma collected_schemas:
  "collect_results (advertised_job d) jobs = Ok schemas \<longleftrightarrow>
     map (advertised d) jobs = map Some schemas \<and> (\<forall>job \<in> set jobs. get_runner (wj_runner_id job) d \<noteq> None)"
  unfolding collect_results_ok list_eq_iff_nth_eq all_set_conv_all_nth
  by (auto simp: advertised_job_ok)

lemma kind_texts [simp]:
  "InputType_as_str k = ''string'' \<longleftrightarrow> k = InString" "InputType_as_str k = ''artifact'' \<longleftrightarrow> k = InArtifact"
  "InputType_as_str k = ''integer'' \<longleftrightarrow> k = InInteger" "InputType_as_str k = ''boolean'' \<longleftrightarrow> k = InBoolean"
  "InputType_as_str k = ''json'' \<longleftrightarrow> k = InJson" "OutputType_as_str t = ''artifact'' \<longleftrightarrow> t = TypeArtifact"
  by (cases k; simp)+ (cases t; simp)

text \<open>What a binding must be to fit an input of job_index.\<close>

fun literal_fits :: "WebEnv \<Rightarrow> JobInputDefinitionResponse \<Rightarrow> json \<Rightarrow> bool" where
  "literal_fits W input v =
     ((case jid_kind input of
         InString \<Rightarrow> \<exists>s. v = JString s
       | InArtifact \<Rightarrow> \<exists>s. v = JString s
       | InInteger \<Rightarrow> json_as_i64 v \<noteq> None
       | InBoolean \<Rightarrow> \<exists>b. v = JBool b
       | InJson \<Rightarrow> v \<noteq> JNull)
      \<and> (\<forall>l s. jid_max_length input = Some l \<and> v = JString s \<longrightarrow> char_count s \<le> unat l)
      \<and> (\<forall>b. jid_max_json_bytes input = Some b \<longrightarrow> length (we_json_text W v) \<le> unat b))"

fun binding_fits ::
    "WebEnv \<Rightarrow> Db \<Rightarrow> JobDefinitionResponse list \<Rightarrow> nat \<Rightarrow> JobInputDefinitionResponse
      \<Rightarrow> WorkflowInputBinding \<Rightarrow> bool" where
  "binding_fits W d schemas i input BCommit = (jid_kind input = InString)"
| "binding_fits W d schemas i input BBranch = (jid_kind input = InString)"
| "binding_fits W d schemas i input BSourceArtifact = (jid_kind input = InArtifact)"
| "binding_fits W d schemas i input (BPromotedArtifact runner job out) =
     (jid_kind input = InArtifact \<and> get_runner runner d \<noteq> None
      \<and> (\<exists>schema spec. find (\<lambda>s. jdr_name s = job) (list_runner_jobs runner d) = Some schema
           \<and> bt_get (jdr_outputs schema) out = Some spec \<and> jod_kind spec = TypeArtifact))"
| "binding_fits W d schemas i input (BLiteral v) = literal_fits W input v"
| "binding_fits W d schemas i input (BJobOutput j out) =
     (out = [] \<or> j < i \<and> (\<exists>spec. bt_get (jdr_outputs (schemas ! j)) out = Some spec
                            \<and> OutputType_as_str (jod_kind spec) = InputType_as_str (jid_kind input)))"

lemma json_as_str_ok: "json_as_str v \<noteq> None \<longleftrightarrow> (\<exists>s. v = JString s)"
  by (cases v) auto

lemma json_is_boolean_ok: "json_is_boolean v \<longleftrightarrow> (\<exists>b. v = JBool b)"
  by (cases v) (simp_all add: json_is_boolean_def)

lemma validate_literal_ok:
  "validate_literal W name input v = Ok () \<longleftrightarrow> literal_fits W input v"
proof -
  have kind: "value_matches_input_kind v (InputType_as_str (jid_kind input)) \<longleftrightarrow>
     (case jid_kind input of InString \<Rightarrow> \<exists>s. v = JString s | InArtifact \<Rightarrow> \<exists>s. v = JString s
      | InInteger \<Rightarrow> json_as_i64 v \<noteq> None | InBoolean \<Rightarrow> \<exists>b. v = JBool b | InJson \<Rightarrow> v \<noteq> JNull)"
    using json_as_str_ok json_is_boolean_ok by (cases "jid_kind input") simp_all
  have "validate_literal_input_constraints W name input v = Ok () \<longleftrightarrow>
      (\<forall>l s. jid_max_length input = Some l \<and> v = JString s \<longrightarrow> char_count s \<le> unat l)
      \<and> (\<forall>b. jid_max_json_bytes input = Some b \<longrightarrow> length (we_json_text W v) \<le> unat b)"
    by (cases v; cases "jid_max_length input"; cases "jid_max_json_bytes input")
      (simp_all add: validate_literal_input_constraints_def)
  then show ?thesis
    unfolding validate_literal_def Let_def kind literal_fits.simps by simp
qed

lemma check_promoted_ok:
  "check_promoted_source d runner job out = Ok () \<longleftrightarrow>
     get_runner runner d \<noteq> None
      \<and> (\<exists>schema spec. find (\<lambda>s. jdr_name s = job) (list_runner_jobs runner d) = Some schema
           \<and> bt_get (jdr_outputs schema) out = Some spec \<and> jod_kind spec = TypeArtifact)"
  by (auto simp: check_promoted_source_def)

lemma check_job_output_ok:
  assumes "i < length schemas"
  shows "check_job_output schemas i name kind b = Ok () \<longleftrightarrow>
     jb_job_index b < i \<and> (\<exists>spec. bt_get (jdr_outputs (schemas ! jb_job_index b)) (jb_output_name b) = Some spec
       \<and> OutputType_as_str (jod_kind spec) = kind)"
  using assms by (auto simp: check_job_output_def Let_def)

lemma check_binding_ok:
  assumes "i < length schemas"
  shows "check_binding W d schemas i job (name, binding) = Ok () \<longleftrightarrow>
    (\<exists>input. bt_get (jdr_inputs (schemas ! i)) name = Some input
       \<and> binding_fits W d schemas i input binding)"
proof (cases "bt_get (jdr_inputs (schemas ! i)) name")
  case (Some input)
  show ?thesis
    by (cases binding)
      (simp_all add: check_binding_def Some Let_def validate_literal_ok check_promoted_ok
        check_job_output_ok [OF assms] del: literal_fits.simps)
qed (simp add: check_binding_def)

lemma check_binding_pair:
  "i < length schemas \<Longrightarrow> check_binding W d schemas i job x = Ok () \<longleftrightarrow>
    (case x of (name, binding) \<Rightarrow> \<exists>input. bt_get (jdr_inputs (schemas ! i)) name = Some input
       \<and> binding_fits W d schemas i input binding)"
  by (cases x) (simp add: check_binding_ok)

lemma validate_required_ok:
  "validate_required_workflow_inputs i job schema = Ok () \<longleftrightarrow>
    (\<forall>(name, input) \<in> set (jdr_inputs schema). jid_required input \<longrightarrow>
       (\<exists>b. bt_get (wj_inputs job) name = Some b \<and> \<not> workflow_input_binding_is_empty b))"
  by (fastforce simp: validate_required_workflow_inputs_def check_all_ok_iff Let_def split: option.splits)

lemma set_sort_desc [simp]: "set (sort_desc key rows) = set rows"
  by (simp add: sort_desc_def)

lemma join_outputD:
  assumes "join_output d (job_run_id, out) = Some j"
  shows "jn_output j = out" "jo_server_artifact_id out = Some (art_id (jn_artifact j))"
    "get_server_artifact_by_id (art_id (jn_artifact j)) d = Some (jn_artifact j)"
    "jn_job j \<in> set (db_jobs d)" "jr_id (jn_job j) = job_run_id"
    "jn_pipeline j \<in> set (db_pipelines d)" "pl_id (jn_pipeline j) = jr_pipeline_run_id (jn_job j)"
proof -
  obtain i sa jr p w r where rows: "jo_server_artifact_id out = Some i" "get_server_artifact_by_id i d = Some sa"
      "find (\<lambda>j. jr_id j = job_run_id) (db_jobs d) = Some jr"
      "get_pipeline_run (jr_pipeline_run_id jr) d = Some p"
    and j: "j = \<lparr>jn_output = out, jn_artifact = sa, jn_job = jr, jn_pipeline = p, jn_workflow = w, jn_runner = r\<rparr>"
    using assms by (auto simp: join_output_def bind_eq_Some_conv)
  have "art_id sa = i" using rows(2) find_someD by (fastforce simp: get_server_artifact_by_id_def)
  then show "jn_output j = out" "jo_server_artifact_id out = Some (art_id (jn_artifact j))"
    "get_server_artifact_by_id (art_id (jn_artifact j)) d = Some (jn_artifact j)"
    using rows j by simp_all
  show "jn_job j \<in> set (db_jobs d)" "jr_id (jn_job j) = job_run_id"
    using find_someD [OF rows(3)] j by simp_all
  show "jn_pipeline j \<in> set (db_pipelines d)" "pl_id (jn_pipeline j) = jr_pipeline_run_id (jn_job j)"
    using find_someD [OF rows(4) [unfolded get_pipeline_run_def]] j by simp_all
qed

lemma promotable_member:
  assumes "a \<in> set (list_recent_promotable_artifacts repo runner job out_name limit d)"
  obtains job_run_id out j where "(job_run_id, out) \<in> set (db_outputs d)"
    "join_output d (job_run_id, out) = Some j" "promotable_output repo runner job out_name j"
    "pa_server_artifact_id a = art_id (jn_artifact j)"
proof -
  have "a \<in> set (map promotable_artifact (sort_desc (\<lambda>j. pl_finished_at (jn_pipeline j))
      (sort_desc (\<lambda>j. jr_finished_at (jn_job j)) (sort_desc (\<lambda>j. art_id (jn_artifact j))
        (filter (promotable_output repo runner job out_name)
          (List.map_filter (join_output d) (db_outputs d)))))))"
    using assms unfolding list_recent_promotable_artifacts_def by (rule in_set_takeD)
  then show thesis using that
    by (auto simp: map_filter_def promotable_artifact_def)
qed

lemma validate_selection_ok:
  assumes "validate_selection d workflow submitted r = Ok s"
  obtains a where "a \<in> set (eligible_artifacts workflow r d)"
    "pa_server_artifact_id a = sel_server_artifact_id s"
    "sel_job_index s = mar_job_index r" "sel_input_name s = mar_input_name r"
proof (cases "optional_trimmed_value (bt_get submitted (manual_artifact_field_name r))")
  case None
  then show thesis using assms by (simp add: validate_selection_def Let_def)
next
  case (Some i)
  show thesis
  proof (cases "list_ex (\<lambda>artifact. pa_server_artifact_id artifact = i) (eligible_artifacts workflow r d)")
    case True
    then have "s = \<lparr>sel_job_index = mar_job_index r, sel_input_name = mar_input_name r,
        sel_server_artifact_id = i\<rparr>"
      using assms Some by (simp add: validate_selection_def Let_def)
    then show thesis using True that by (auto simp: list_ex_iff)
  next
    case False
    then show thesis using assms Some by (simp add: validate_selection_def Let_def)
  qed
qed

lemma validate_runners_ok:
  "validate_workflow_runners W d def = Ok schemas \<longleftrightarrow>
     collect_results (advertised_job d) (wd_jobs def) = Ok schemas
     \<and> (\<forall>i < length (wd_jobs def).
          (\<forall>x \<in> set (wj_inputs (wd_jobs def ! i)). check_binding W d schemas i (wd_jobs def ! i) x = Ok ())
          \<and> validate_required_workflow_inputs i (wd_jobs def ! i) (schemas ! i) = Ok ())"
proof (cases "collect_results (advertised_job d) (wd_jobs def)")
  case (Inr ss)
  then show ?thesis
    by (auto simp: validate_workflow_runners_def check_all_ok_iff ball_enumerate)
qed (simp add: validate_workflow_runners_def)

section \<open>Properties\<close>

text \<open>C19. The check of a workflow against the runners, made for forms and API requests alike, passes
exactly when the workflow fits what the runners advertise at that moment: every job is advertised by a known runner, every binding names an input of its job and
has the kind of the input (built-in values are strings, artifacts come from the source or from an
artifact output, a literal has the type and keeps the limits of the input, an output of another
job belongs to an earlier job and has the same kind), and every required input is bound to
something; the schemas saved with the workflow are those advertised.\<close>

theorem workflow_form_decision:
  "validate_workflow_runners W d def = Ok schemas \<longleftrightarrow>
     map (advertised d) (wd_jobs def) = map Some schemas
     \<and> (\<forall>job \<in> set (wd_jobs def). get_runner (wj_runner_id job) d \<noteq> None)
     \<and> (\<forall>i < length (wd_jobs def).
          (\<forall>(name, binding) \<in> set (wj_inputs (wd_jobs def ! i)).
             \<exists>input. bt_get (jdr_inputs (schemas ! i)) name = Some input
                   \<and> binding_fits W d schemas i input binding)
          \<and> (\<forall>(name, input) \<in> set (jdr_inputs (schemas ! i)). jid_required input \<longrightarrow>
               (\<exists>b. bt_get (wj_inputs (wd_jobs def ! i)) name = Some b
                    \<and> \<not> workflow_input_binding_is_empty b)))"
  (is "_ \<longleftrightarrow> ?adv \<and> ?known \<and> ?fit")
proof (cases "?adv \<and> ?known")
  case True
  then have len: "length schemas = length (wd_jobs def)" by (metis length_map)
  have "validate_workflow_runners W d def = Ok schemas \<longleftrightarrow>
      (\<forall>i < length (wd_jobs def).
          (\<forall>x \<in> set (wj_inputs (wd_jobs def ! i)). check_binding W d schemas i (wd_jobs def ! i) x = Ok ())
          \<and> validate_required_workflow_inputs i (wd_jobs def ! i) (schemas ! i) = Ok ())"
    using True by (simp add: validate_runners_ok collected_schemas)
  also have "\<dots> \<longleftrightarrow> ?fit"
    using len by (simp add: check_binding_pair validate_required_ok)
  finally show ?thesis using True by simp
next
  case False
  then show ?thesis by (auto simp: validate_runners_ok collected_schemas)
qed


text \<open>C32. An artifact that is accepted for a run was really produced: it belongs to an artifact
output, under the name the binding asks for, of a job run that succeeded, of the job and on the
runner the binding names, in a pipeline of the workflow's own repository that succeeded; there is
one selection for each such binding of the workflow, in their order.\<close>

theorem selected_artifacts_are_eligible:
  assumes "validate_manual_artifact_selections E d workflow submitted = Ok selections"
  shows "\<exists>requirements. manual_artifact_requirements E workflow = Ok requirements
    \<and> map (\<lambda>s. (sel_job_index s, sel_input_name s)) selections
        = map (\<lambda>r. (mar_job_index r, mar_input_name r)) requirements
    \<and> (\<forall>(s, r) \<in> set (zip selections requirements).
         \<exists>out job pipeline.
           (jr_id job, out) \<in> set (db_outputs d) \<and> job \<in> set (db_jobs d) \<and> pipeline \<in> set (db_pipelines d)
           \<and> jr_pipeline_run_id job = pl_id pipeline
           \<and> jo_server_artifact_id out = Some (sel_server_artifact_id s)
           \<and> get_server_artifact_by_id (sel_server_artifact_id s) d \<noteq> None
           \<and> jo_kind out = ''artifact'' \<and> jo_output_name out = mar_output_name r
           \<and> jr_status job = ''success'' \<and> jr_runner_id job = mar_source_runner_id r
           \<and> jr_runner_job_name job = mar_source_job_name r
           \<and> pl_status pipeline = ''success'' \<and> pl_repo_id pipeline = wf_repo_id workflow)"
proof -
  obtain rs where rs: "manual_artifact_requirements E workflow = Ok rs"
    and sel: "map (validate_selection d workflow submitted) rs = map Ok selections"
    using assms by (auto simp: validate_manual_artifact_selections_def collect_results_ok)
  then have len: "length selections = length rs" by (metis length_map)
  have one: "validate_selection d workflow submitted (rs ! i) = Ok (selections ! i)" if "i < length rs" for i
    using arg_cong [OF sel, of "\<lambda>xs. xs ! i"] that len by simp
  have "map (\<lambda>s. (sel_job_index s, sel_input_name s)) selections
        = map (\<lambda>r. (mar_job_index r, mar_input_name r)) rs"
    using len validate_selection_ok [OF one] by (simp add: list_eq_iff_nth_eq) metis
  moreover have "\<exists>out job pipeline.
           (jr_id job, out) \<in> set (db_outputs d) \<and> job \<in> set (db_jobs d) \<and> pipeline \<in> set (db_pipelines d)
           \<and> jr_pipeline_run_id job = pl_id pipeline
           \<and> jo_server_artifact_id out = Some (sel_server_artifact_id s)
           \<and> get_server_artifact_by_id (sel_server_artifact_id s) d \<noteq> None
           \<and> jo_kind out = ''artifact'' \<and> jo_output_name out = mar_output_name r
           \<and> jr_status job = ''success'' \<and> jr_runner_id job = mar_source_runner_id r
           \<and> jr_runner_job_name job = mar_source_job_name r
           \<and> pl_status pipeline = ''success'' \<and> pl_repo_id pipeline = wf_repo_id workflow"
    if "(s, r) \<in> set (zip selections rs)" for s r
  proof -
    have "validate_selection d workflow submitted r = Ok s"
      using that one len by (auto simp: set_zip)
    then obtain a where mem: "a \<in> set (eligible_artifacts workflow r d)"
      and id: "pa_server_artifact_id a = sel_server_artifact_id s"
      by (rule validate_selection_ok)
    from mem [unfolded eligible_artifacts_def] show ?thesis
    proof (rule promotable_member)
      fix job_run_id out j
      assume "(job_run_id, out) \<in> set (db_outputs d)" "join_output d (job_run_id, out) = Some j"
        "promotable_output (wf_repo_id workflow) (mar_source_runner_id r) (mar_source_job_name r)
           (mar_output_name r) j" "pa_server_artifact_id a = art_id (jn_artifact j)"
      then show ?thesis
        using join_outputD [of d job_run_id out j] id
        by (intro exI [of _ out] exI [of _ "jn_job j"] exI [of _ "jn_pipeline j"])
          (simp add: promotable_output_def)
    qed
  qed
  ultimately show ?thesis using rs by blast
qed

section \<open>Witnesses\<close>

text \<open>A build whose output n a deployment takes as its input.\<close>

definition demo_catalog :: Db where
  "demo_catalog = (demo_db3 ''success'' ''success'' ''success'' ''success'')
     \<lparr>db_runner_jobs :=
        [(uid 1, (demo_schema3 ''build'')\<lparr>jdr_outputs :=
           [(''n'', \<lparr>jod_kind = TypeInteger, jod_path = ''n'', jod_required = True\<rparr>)]\<rparr>),
         (uid 1, (demo_schema3 ''deploy'')\<lparr>jdr_inputs :=
           [(''n'', \<lparr>jid_kind = InInteger, jid_required = True, jid_sensitive = False,
             jid_max_length = None, jid_pattern = None, jid_max_json_bytes = None\<rparr>)]\<rparr>)]\<rparr>"

definition demo_bound :: WorkflowDefinition where
  "demo_bound = \<lparr>wd_jobs = [demo_wjob (uid 1) ''build'',
     (demo_wjob (uid 1) ''deploy'')\<lparr>wj_inputs := [(''n'', BJobOutput 0 ''n'')]\<rparr>]\<rparr>"

theorem workflow_form_decision_witness:
  "map (advertised demo_catalog) (wd_jobs demo_bound) = map (Some \<circ> snd) (db_runner_jobs demo_catalog)"
proof -
  have "validate_workflow_runners demo_web_env demo_catalog demo_bound
      = Ok (map snd (db_runner_jobs demo_catalog))" by code_simp
  then show ?thesis
    using workflow_form_decision [of demo_web_env demo_catalog demo_bound] by simp
qed

definition demo_branch :: InputSpec where
  "demo_branch = \<lparr>is_kind = InString, is_required = True, is_sensitive = False,
     is_max_length = Some 80, is_pattern = None, is_max_json_bytes = None\<rparr>"


definition demo_promoted :: WorkflowDefinition where
  "demo_promoted = \<lparr>wd_jobs = [(demo_wjob (uid 1) ''deploy'')\<lparr>wj_inputs :=
     [(''image'', BPromotedArtifact (uid 1) ''build'' ''bin'')]\<rparr>]\<rparr>"

definition demo_artifacts_db :: Db where
  "demo_artifacts_db = (demo_db3 ''success'' ''success'' ''success'' ''success'')
     \<lparr>db_outputs := [(uid 5, \<lparr>jo_output_name = ''bin'', jo_kind = ''artifact'',
        jo_runner_artifact_id = Some ''r'', jo_server_artifact_id = Some ''a'', jo_value = None,
        jo_sha256 = None, jo_size_bytes = None\<rparr>)],
      db_artifacts := [\<lparr>art_id = ''a'', art_scope_type = ''job_output'', art_scope_id = uid 5,
        art_artifact_name = ''bin'', art_sha256 = [], art_size_bytes = 0, art_storage_path = [],
        art_created_at = ''t''\<rparr>]\<rparr>"

theorem selected_artifacts_are_eligible_witness:
  "\<exists>job \<in> set (db_jobs demo_artifacts_db). jr_status job = ''success''
     \<and> jr_runner_job_name job = ''build'' \<and> jr_runner_id job = uid 1"
proof -
  let ?E = "(Scheduler_Demo.demo_env no_network)\<lparr>se_parse_definition := \<lambda>_. Ok demo_promoted\<rparr>"
  have sel: "validate_manual_artifact_selections ?E demo_artifacts_db demo_wf3
      [(''artifact:0:image'', '' a '')] =
      Ok [\<lparr>sel_job_index = 0, sel_input_name = ''image'', sel_server_artifact_id = ''a''\<rparr>]"
    by code_simp
  have req: "manual_artifact_requirements ?E demo_wf3 = Ok [\<lparr>mar_job_index = 0,
      mar_input_name = ''image'', mar_source_runner_id = uid 1, mar_source_job_name = ''build'',
      mar_output_name = ''bin''\<rparr>]" by code_simp
  show ?thesis using selected_artifacts_are_eligible [OF sel] req by auto
qed

end
