(* ===== verification/Workflow_Runs.thy ===== *)
theory Workflow_Runs
  imports Workflow_Forms
begin

text \<open>
  Workflow forms and the scheduler together: a workflow that was accepted and saved can be started
  at once, and the one binding the form does not look at, an output without a name, is accepted
  and never resolves.
\<close>

section \<open>A saved workflow\<close>

text \<open>Identifiers of workflows and versions are among those drawn so far.\<close>

definition workflows_wf :: "DbPlat \<Rightarrow> Db \<Rightarrow> bool" where
  "workflows_wf P d =
     ((\<forall>w \<in> set (db_workflows d). issued (uuid_text P) (db_seq d) (wr_id w))
      \<and> (\<forall>v \<in> set (db_versions d). issued (uuid_text P) (db_seq d) (wv_id v)
           \<and> issued (uuid_text P) (db_seq d) (wv_workflow_id v))
      \<and> (\<forall>x \<in> set (db_schemas d). issued (uuid_text P) (db_seq d) (fst x)))"

lemma filter_none: "(\<And>x. x \<in> set xs \<Longrightarrow> \<not> P x) \<Longrightarrow> filter P xs = []"
  by (induction xs) auto

lemma find_append_none: "(\<And>x. x \<in> set xs \<Longrightarrow> \<not> P x) \<Longrightarrow> P y \<Longrightarrow> find P (xs @ [y]) = Some y"
  by (induction xs) auto

lemma inserted_schemas:
  "map (snd \<circ> snd) (sort_key (fst \<circ> snd) (insert_workflow_version_job_schemas v schemas)) = schemas"
proof -
  have "sorted (map (fst \<circ> snd) (insert_workflow_version_job_schemas v schemas))"
    by (simp add: insert_workflow_version_job_schemas_def enumerate_nth comp_def sorted_iff_nth_mono)
  then have "sort_key (fst \<circ> snd) (insert_workflow_version_job_schemas v schemas)
      = insert_workflow_version_job_schemas v schemas"
    by (rule sort_key_id_if_sorted)
  then show ?thesis
    by (simp add: insert_workflow_version_job_schemas_def enumerate_nth comp_def map_nth)
qed

lemma created_workflow:
  assumes "create_workflow P repo name enabled tj dj schemas d = (Ok wid, e)"
    and "inj (uuid_text P)" and "workflows_wf P d"
  obtains w where "get_workflow wid e = Some w" "wf_id w = wid" "wf_repo_id w = repo"
    "wf_definition_json w = dj" "workflow_job_schemas (wf_version_id w) e = schemas"
    "find (\<lambda>r. wr_id r = wf_id w) (db_workflows e) \<noteq> None"
    "find (\<lambda>v. wv_id v = wf_version_id w) (db_versions e) \<noteq> None"
    "get_repo (wf_repo_id w) e \<noteq> None"
proof -
  let ?v = "uuid_text P (Suc (db_seq d))"
  have repo: "get_repo repo d \<noteq> None" and wid: "wid = uuid_text P (db_seq d)"
    using assms(1) by (auto simp: create_workflow_def Let_def split: if_splits)
  define now where "now = clock P (Suc (Suc (db_seq d)))"
  define wr where "wr = \<lparr>wr_id = wid, wr_repo_id = repo, wr_name = name, wr_enabled = enabled, wr_created_at = now\<rparr>"
  define wv where "wv = \<lparr>wv_id = ?v, wv_workflow_id = wid, wv_version = 1, wv_trigger_json = tj,
      wv_definition_json = dj, wv_created_at = now\<rparr>"
  have e: "db_workflows e = db_workflows d @ [wr]" "db_versions e = db_versions d @ [wv]"
    "db_schemas e = db_schemas d @ insert_workflow_version_job_schemas ?v schemas" "db_repos e = db_repos d"
    using assms(1) repo
    by (auto simp: create_workflow_def Let_def wr_def wv_def now_def split: if_splits)
  have old: "wr_id r \<noteq> wid" if "r \<in> set (db_workflows d)" for r
    using that assms(2,3) issued_fresh wid unfolding workflows_wf_def by blast
  have oldv: "wv_id v \<noteq> ?v" "wv_workflow_id v \<noteq> wid" if "v \<in> set (db_versions d)" for v
    using that assms(2,3) issued_fresh wid unfolding workflows_wf_def by (metis le_refl le_SucI)+
  have olds: "fst x \<noteq> ?v" if "x \<in> set (db_schemas d)" for x
    using that assms(2,3) issued_fresh unfolding workflows_wf_def by (metis le_refl le_SucI)
  have "versions_of wid e = [wv]" using oldv(2) by (simp add: versions_of_def e wv_def filter_none)
  then have "current_versions (filter (\<lambda>w. wr_id w = wid) (db_workflows e)) e = [join_version wr wv]"
    using old by (simp add: current_versions_def e wr_def max_version_def filter_none)
  then have "get_workflow wid e = Some (join_version wr wv)" by (simp add: get_workflow_def)
  moreover have "workflow_job_schemas ?v e = schemas"
  proof -
    have "filter (\<lambda>x. fst x = ?v) (insert_workflow_version_job_schemas ?v schemas)
        = insert_workflow_version_job_schemas ?v schemas"
      by (auto simp: insert_workflow_version_job_schemas_def intro!: filter_True)
    then show ?thesis using olds inserted_schemas by (simp add: workflow_job_schemas_def e filter_none)
  qed
  moreover have "find (\<lambda>r. wr_id r = wid) (db_workflows e) = Some wr"
    unfolding e by (rule find_append_none) (simp_all add: old wr_def)
  moreover have "find (\<lambda>v. wv_id v = ?v) (db_versions e) = Some wv"
    unfolding e by (rule find_append_none) (simp_all add: oldv wv_def)
  moreover have "get_repo repo e \<noteq> None" using repo by (simp add: get_repo_def e)
  ultimately show thesis using that by (simp add: join_version_def wr_def wv_def)
qed

text \<open>Jobs are created without an error as long as the pipeline and the runners are there.\<close>

lemma present_job: "get_job_run i d \<noteq> None \<longleftrightarrow> i \<in> set (map jr_id (db_jobs d))"
  by (auto simp: get_job_run_def find_None_iff)

lemma enqueue_jobs_total:
  assumes "server_wf E (srv_db s)" and "get_pipeline_run pid (srv_db s) \<noteq> None"
    and "\<forall>job \<in> set jobs. get_runner (wj_runner_id job) (srv_db s) \<noteq> None"
    and "\<forall>p \<in> set_option prev. get_job_run p (srv_db s) \<noteq> None"
  shows "\<exists>t. enqueue_jobs E pid i prev jobs s = (Ok (), t)"
  using assms
proof (induction jobs arbitrary: i prev s)
  case (Cons job jobs)
  let ?P = "se_plat E"
  obtain r d1 where c: "create_job_run ?P pid (int i) (wj_runner_id job) (wj_runner_job_name job)
      (wj_outcome_policy job) (srv_db s) = (Ok r, d1)"
    using Cons.prems(2,3) by (auto simp: create_job_run_def Let_def)
  have inj: "inj (uuid_text ?P)" "inj (uuid_simple ?P)" and wf: "db_wf ?P (srv_db s)"
    using Cons.prems(1) by (simp_all add: server_wf_def)
  obtain j where j: "db_jobs d1 = db_jobs (srv_db s) @ [j]" "jr_id j = r" "r = uuid_text ?P (db_seq (srv_db s))"
    "db_previous d1 = db_previous (srv_db s)" "db_pipelines d1 = db_pipelines (srv_db s)"
    using create_job_run_ok [OF c] by blast
  have runners: "db_runners d1 = db_runners (srv_db s)"
    using c by (auto simp: create_job_run_def Let_def split: if_splits)
  have wf1: "db_wf ?P d1"
    using db_wf_create_job [OF wf inj, of pid "int i" "wj_runner_id job" "wj_runner_job_name job"
        "wj_outcome_policy job"] by (simp add: c)
  have fresh: "r \<notin> set (map jr_id (db_jobs (srv_db s)))"
    using wf issued_fresh [OF inj(1) _ le_refl] j(3) by (force simp: db_wf_def job_row_ok_def)
  have "\<exists>d2. (case prev of None \<Rightarrow> (Ok (), s\<lparr>srv_db := d1\<rparr>)
      | Some p \<Rightarrow> on_db (add_previous_job r p) (s\<lparr>srv_db := d1\<rparr>)) = (Ok (), s\<lparr>srv_db := d2\<rparr>)
      \<and> db_wf ?P d2 \<and> db_jobs d2 = db_jobs d1 \<and> db_pipelines d2 = db_pipelines d1 \<and> db_runners d2 = db_runners d1"
  proof (cases prev)
    case None
    then show ?thesis using wf1 by (intro exI [of _ d1]) simp
  next
    case (Some p)
    have "(r, p) \<notin> set (db_previous d1)" using wf fresh j(4) by (auto simp: db_wf_def)
    moreover have "get_job_run r d1 \<noteq> None" "get_job_run p d1 \<noteq> None"
      using Cons.prems(4) Some j(1,2) unfolding present_job by auto
    ultimately have "add_previous_job r p d1 = (Ok (), d1\<lparr>db_previous := db_previous d1 @ [(r, p)]\<rparr>)"
      by (simp add: add_previous_job_def)
    then show ?thesis
      using db_wf_add_previous [OF wf1, of r p] Some
      by (intro exI [of _ "d1\<lparr>db_previous := db_previous d1 @ [(r, p)]\<rparr>"]) (simp add: on_db_def)
  qed
  then obtain d2 where d2: "(case prev of None \<Rightarrow> (Ok (), s\<lparr>srv_db := d1\<rparr>)
      | Some p \<Rightarrow> on_db (add_previous_job r p) (s\<lparr>srv_db := d1\<rparr>)) = (Ok (), s\<lparr>srv_db := d2\<rparr>)"
    and wf2: "db_wf ?P d2" and same: "db_jobs d2 = db_jobs d1" "db_pipelines d2 = db_pipelines d1"
      "db_runners d2 = db_runners d1" by blast
  have "\<exists>t. enqueue_jobs E pid (i + 1) (Some r) jobs (s\<lparr>srv_db := d2\<rparr>) = (Ok (), t)"
  proof (rule Cons.IH)
    show "server_wf E (srv_db (s\<lparr>srv_db := d2\<rparr>))" using inj wf2 by (simp add: server_wf_def)
    show "get_pipeline_run pid (srv_db (s\<lparr>srv_db := d2\<rparr>)) \<noteq> None"
      using Cons.prems(2) same(2) j(5) by (simp add: get_pipeline_run_def)
    show "\<forall>job \<in> set jobs. get_runner (wj_runner_id job) (srv_db (s\<lparr>srv_db := d2\<rparr>)) \<noteq> None"
      using Cons.prems(3) same(3) runners by (simp add: get_runner_def)
    show "\<forall>p \<in> set_option (Some r). get_job_run p (srv_db (s\<lparr>srv_db := d2\<rparr>)) \<noteq> None"
      using same(1) j(1,2) unfolding present_job by simp
  qed
  then show ?case using c d2 by (simp add: on_db_def)
qed simp

lemma parse_workflow_formD:
  assumes "parse_workflow_form W d form = Ok parsed"
  obtains def where "WorkflowDefinition_validate def = Ok ()"
    "validate_workflow_runners W d def = Ok (pw_job_schemas parsed)"
    "pw_definition_json parsed = we_definition_text W def"
    "\<And>jobs. we_parse_jobs W (wff_jobs_json form) = Ok jobs \<Longrightarrow> wd_jobs def = map trimmed_job jobs"
  using assms
  by (auto simp: parse_workflow_form_def parse_workflow_form_jobs_def parsed_workflow_def Let_def
      split: if_splits)

text \<open>A binding that never resolves keeps the inputs of its job from resolving.\<close>

lemma quiet_outputs: "Scheduler_Effects.quiet s t \<Longrightarrow> db_outputs (srv_db t) = db_outputs (srv_db s)"
  by (auto simp: Scheduler_Effects.quiet_def)

lemma resolve_bindings_fails:
  assumes "(key, b) \<in> set bs"
    and "\<And>t. Scheduler_Effects.quiet s t \<Longrightarrow> \<exists>e u. resolve_binding E p i job schema key b t = (Err e, u)"
  shows "\<exists>e u. resolve_bindings E p i job schema bs m s = (Err e, u)"
  using assms
proof (induction bs arbitrary: m s)
  case (Cons x bs)
  obtain k c where x: "x = (k, c)" by force
  obtain r t where t: "resolve_binding E p i job schema k c s = (r, t)" by force
  have q: "Scheduler_Effects.quiet s t" using Scheduler_Effects.quiet_binding [of s E p i job schema k c] by (simp add: t)
  show ?case
  proof (cases r)
    case (Inl e)
    then show ?thesis by (simp add: x t)
  next
    case (Inr v)
    have "(key, b) \<noteq> (k, c)" using Cons.prems(2) [OF Scheduler_Effects.quiet_refl] t Inr by auto
    then have "(key, b) \<in> set bs" using Cons.prems(1) x by auto
    from Cons.IH [OF this, of t "bt_insert k v m"] show ?thesis
      using Cons.prems(2) Scheduler_Effects.quiet_trans [OF q] by (auto simp: x t Inr)
  qed
qed simp

lemma unnamed_output_unresolved:
  assumes "\<forall>(r, out) \<in> set (db_outputs (srv_db s)). jo_output_name out \<noteq> []"
  shows "\<exists>e u. resolve_job_output E p kind runner key j [] s = (Err e, u)"
proof (cases "find_job_run_id (srv_db s) (pl_id p) j")
  case (Inr r)
  have "find (\<lambda>item. jo_output_name item = []) (job_outputs r (srv_db s)) = None"
    using assms by (auto simp: find_None_iff job_outputs_def)
  then show ?thesis by (simp add: resolve_job_output_def Inr)
qed (simp add: resolve_job_output_def)

section \<open>Properties\<close>


text \<open>The form lets an output without a name pass: a binding to a job's output with the empty
name is accepted for every optional input, whatever job it refers to, also a later one or none
(models.rs takes it for no binding).  The scheduler does not: as long as no output with an empty
name is recorded, the inputs of such a job never resolve, so the job is never sent to its
runner.\<close>

theorem blank_output_accepted_never_resolves:
  assumes ok: "validate_workflow_runners W d def = Ok schemas" and i: "i < length (wd_jobs def)"
    and input: "bt_get (jdr_inputs (schemas ! i)) name = Some input" "\<not> jid_required input"
    and wf: "bt_wf (jdr_inputs (schemas ! i))" "bt_wf (wj_inputs (wd_jobs def ! i))"
    and def': "def' = \<lparr>wd_jobs = (wd_jobs def)[i := (wd_jobs def ! i)
        \<lparr>wj_inputs := bt_insert name (BJobOutput j []) (wj_inputs (wd_jobs def ! i))\<rparr>]\<rparr>"
    and unnamed: "\<forall>(r, out) \<in> set (db_outputs (srv_db s)). jo_output_name out \<noteq> []"
  shows "validate_workflow_runners W d def' = Ok schemas
    \<and> (\<exists>e t. resolve_job_inputs E pipeline job_run_id i (wd_jobs def' ! i) schema s = (Err e, t))"
proof
  let ?job = "wd_jobs def ! i" and ?new = "wd_jobs def' ! i"
  have new: "?new = ?job\<lparr>wj_inputs := bt_insert name (BJobOutput j []) (wj_inputs ?job)\<rparr>"
    and len: "length (wd_jobs def') = length (wd_jobs def)"
    and other: "k \<noteq> i \<Longrightarrow> wd_jobs def' ! k = wd_jobs def ! k" for k
    using i by (simp_all add: def')
  have schemas: "collect_results (advertised_job d) (wd_jobs def) = Ok schemas"
    and checked: "k < length (wd_jobs def) \<Longrightarrow>
        (\<forall>x \<in> set (wj_inputs (wd_jobs def ! k)). check_binding W d schemas k (wd_jobs def ! k) x = Ok ())
        \<and> validate_required_workflow_inputs k (wd_jobs def ! k) (schemas ! k) = Ok ()" for k
    using ok by (auto simp: validate_runners_ok)
  have n: "length schemas = length (wd_jobs def)" using schemas by (metis collect_results_ok length_map)
  have "advertised_job d ?new = advertised_job d ?job" by (simp add: new advertised_job_def)
  then have "map (advertised_job d) (wd_jobs def') = map (advertised_job d) (wd_jobs def)"
    using other len by (intro nth_equalityI) (simp, metis nth_map length_map)
  then have "collect_results (advertised_job d) (wd_jobs def') = Ok schemas"
    using schemas by (simp add: collect_results_ok)
  moreover have "check_binding W d schemas i ?new x = Ok ()" if "x \<in> set (wj_inputs ?new)" for x
  proof (cases "x = (name, BJobOutput j [])")
    case True
    then show ?thesis using i n input(1) by (simp add: check_binding_ok)
  next
    case False
    then have "x \<in> set (wj_inputs ?job)" using that set_bt_insert_subset new by fastforce
    then have "check_binding W d schemas i ?job x = Ok ()" using checked [OF i] by blast
    then show ?thesis using i n by (simp add: check_binding_pair)
  qed
  moreover have "validate_required_workflow_inputs i ?new (schemas ! i) = Ok ()"
    unfolding validate_required_ok
  proof (clarify)
    fix k spec assume k: "(k, spec) \<in> set (jdr_inputs (schemas ! i))" "jid_required spec"
    then have "k \<noteq> name" using input bt_get_eq_Some [OF wf(1), of k spec] by auto
    then show "\<exists>b. bt_get (wj_inputs ?new) k = Some b \<and> \<not> workflow_input_binding_is_empty b"
      using checked [OF i] k wf(2) by (auto simp: validate_required_ok new bt_get_insert)
  qed
  ultimately show "validate_workflow_runners W d def' = Ok schemas"
    unfolding validate_runners_ok using checked other len by metis
  have "(name, BJobOutput j []) \<in> set (wj_inputs ?new)"
    using bt_get_eq_Some [OF bt_wf_insert [OF wf(2)], of name "BJobOutput j []" name "BJobOutput j []"]
    by (simp add: new bt_get_insert wf(2))
  then have "\<exists>e t. resolve_bindings E pipeline i ?new schema (wj_inputs ?new) [] s = (Err e, t)"
  proof (rule resolve_bindings_fails)
    fix t assume "Scheduler_Effects.quiet s t"
    then show "\<exists>e u. resolve_binding E pipeline i ?new schema name (BJobOutput j []) t = (Err e, u)"
      using unnamed_output_unresolved [of t] unnamed quiet_outputs by simp
  qed
  then show "\<exists>e t. resolve_job_inputs E pipeline job_run_id i ?new schema s = (Err e, t)"
    by (auto simp: resolve_job_inputs_def)
qed

definition demo_form :: WorkflowForm where
  "demo_form =
     \<lparr>wff_csrf_token = [], wff_repo_id = uid 0, wff_name = ''nightly'', wff_trigger_kind = ''push'',
      wff_branch_name = '' main '', wff_jobs_json = ''jobs''\<rparr>"

definition demo_parsed :: ParsedWorkflow where
  "demo_parsed =
     \<lparr>pw_trigger_json = ''trigger'', pw_definition_json = ''definition'',
      pw_job_schemas = [demo_schema3 ''build'', demo_schema3 ''test'', demo_schema3 ''deploy'']\<rparr>"


text \<open>A deployment with an optional input, after a build.\<close>

definition demo_optional :: JobDefinitionResponse where
  "demo_optional = (demo_schema3 ''deploy'')\<lparr>jdr_inputs :=
     [(''n'', \<lparr>jid_kind = InInteger, jid_required = False, jid_sensitive = False, jid_max_length = None,
       jid_pattern = None, jid_max_json_bytes = None\<rparr>)]\<rparr>"

definition demo_optional_db :: Db where
  "demo_optional_db = (demo_db3 ''success'' ''success'' ''success'' ''success'')
     \<lparr>db_runner_jobs := [(uid 1, demo_schema3 ''build''), (uid 1, demo_optional)]\<rparr>"

definition demo_optional_def :: WorkflowDefinition where
  "demo_optional_def = \<lparr>wd_jobs = [demo_wjob (uid 1) ''build'', demo_wjob (uid 1) ''deploy'']\<rparr>"

theorem blank_output_accepted_never_resolves_witness:
  "validate_workflow_runners demo_web_env demo_optional_db
     \<lparr>wd_jobs = [demo_wjob (uid 1) ''build'',
        (demo_wjob (uid 1) ''deploy'')\<lparr>wj_inputs := [(''n'', BJobOutput 7 [])]\<rparr>]\<rparr>
   = Ok [demo_schema3 ''build'', demo_optional]"
proof -
  have ok: "validate_workflow_runners demo_web_env demo_optional_db demo_optional_def
      = Ok [demo_schema3 ''build'', demo_optional]" by code_simp
  have "[demo_schema3 ''build'', demo_optional] ! 1 = demo_optional" by simp
  then show ?thesis
    using blank_output_accepted_never_resolves [OF ok, of 1 "''n''" _ _ 7
        "\<lparr>srv_db = empty_db, srv_sent = [], srv_files = (\<lambda>_. None)\<rparr>"]
    by (auto simp: demo_optional_def_def demo_wjob_def demo_optional_def bt_wf_def empty_db_def)
qed

end
