(* ===== verification/Web_Pages.thy ===== *)
theory Web_Pages
  imports Workflow_Runs
begin

text \<open>
  What the pages and the reading requests of the web interface show (janus-server/src/web/routes.rs,
  views/workflow.rs): the repositories, workflows and pipelines a user may see, the editor of a
  workflow with its catalog of jobs, the artifacts offered for a manual run, and the pages that
  answer a rejected form.

  A page is the data it is rendered from.  Where a page embeds JSON text, the text of a value is a
  parameter and script_json is what keeps it inside its script element.
\<close>

section \<open>What a user may touch\<close>

definition authorized_repo :: "User \<Rightarrow> string \<Rightarrow> Web \<Rightarrow> (web_response, Repo) result" where
  "authorized_repo user i w =
     and_then (require_admin user) (\<lambda>_. ok_or (get_repo i (web_db w)) (not_found ''repo''))"

definition authorized_workflow :: "User \<Rightarrow> string \<Rightarrow> Web \<Rightarrow> (web_response, Workflow) result" where
  "authorized_workflow user i w =
     and_then (ok_or (get_workflow i (web_db w)) (not_found ''workflow'')) (\<lambda>workflow.
     and_then (authorized_repo user (wf_repo_id workflow) w) (\<lambda>repo.
       if repo_id repo \<noteq> wf_repo_id workflow then Err (forbidden ''workflow access denied'')
       else Ok workflow))"

definition authorized_pipeline :: "User \<Rightarrow> string \<Rightarrow> Web \<Rightarrow> (web_response, PipelineRun) result" where
  "authorized_pipeline user i w =
     and_then (ok_or (get_pipeline_run i (web_db w)) (not_found ''pipeline'')) (\<lambda>pipeline.
     and_then (authorized_repo user (pl_repo_id pipeline) w) (\<lambda>repo.
       if repo_id repo \<noteq> pl_repo_id pipeline then Err (forbidden ''pipeline access denied'')
       else Ok pipeline))"

definition visible_repos_for_user :: "User \<Rightarrow> Web \<Rightarrow> (web_response, Repo list) result" where
  "visible_repos_for_user user w =
     and_then (require_admin user) (\<lambda>_. Ok (list_repos (web_db w)))"

definition repo_clone_url :: "string \<Rightarrow> Repo \<Rightarrow> string" where
  "repo_clone_url public_base_url repo =
     ''ssh://git@'' @ trim_end_slashes public_base_url @ ''/'' @ repo_name repo"

section \<open>The artifacts a manual run may choose from\<close>

record ManualArtifactField =
  mf_field_name :: string
  mf_label :: string
  mf_source_label :: string
  mf_options :: "(string \<times> string) list"

definition take_chars :: "nat \<Rightarrow> string \<Rightarrow> string" where
  "take_chars n s = concat (take n (chars s))"

text \<open>The separator is a middle dot, two bytes in UTF-8.\<close>

definition middle_dot :: string where
  "middle_dot = [CHR '' '', char_of (0xC2::nat), char_of (0xB7::nat), CHR '' '']"

definition promotable_artifact_label :: "PromotableArtifact \<Rightarrow> string" where
  "promotable_artifact_label artifact =
     (let revision = (case pa_commit_sha artifact of
            Some commit \<Rightarrow> take_chars 12 commit | None \<Rightarrow> ''unknown commit'');
          branch = (case pa_trigger_ref artifact of Some r \<Rightarrow> r | None \<Rightarrow> ''unknown ref'');
          digest = take_chars 12 (pa_sha256 artifact) in
      revision @ '' @ '' @ branch @ middle_dot @ pa_workflow_name artifact @ middle_dot
        @ pa_created_at artifact @ middle_dot @ show_int (pa_size_bytes artifact) @ '' bytes''
        @ middle_dot @ ''sha256:'' @ digest)"

definition manual_artifact_field :: "Db \<Rightarrow> Workflow \<Rightarrow> ManualArtifactRequirement \<Rightarrow> ManualArtifactField" where
  "manual_artifact_field d workflow requirement =
     \<lparr>mf_field_name = manual_artifact_field_name requirement,
      mf_label = ''Artifact for job-'' @ show_nat (mar_job_index requirement + 1) @ ''.''
        @ mar_input_name requirement,
      mf_source_label =
        (case get_runner (mar_source_runner_id requirement) d of
           Some runner \<Rightarrow> rn_name runner | None \<Rightarrow> mar_source_runner_id requirement)
        @ '' / '' @ mar_source_job_name requirement @ '' / '' @ mar_output_name requirement,
      mf_options = map (\<lambda>artifact. (pa_server_artifact_id artifact, promotable_artifact_label artifact))
        (eligible_artifacts workflow requirement d)\<rparr>"

definition manual_artifact_fields ::
    "SchedEnv \<Rightarrow> Db \<Rightarrow> Workflow \<Rightarrow> (web_response, ManualArtifactField list) result" where
  "manual_artifact_fields E d workflow =
     and_then (manual_artifact_requirements E workflow)
       (\<lambda>requirements. Ok (map (manual_artifact_field d workflow) requirements))"

section \<open>Workflows\<close>

record WorkflowCard =
  wc_workflow :: Workflow
  wc_repo :: Repo
  wc_schema_report :: WorkflowSchemaReport
  wc_trigger :: WorkflowTrigger
  wc_job_count :: nat
  wc_manual_artifacts :: "ManualArtifactField list"

definition schema_report :: "WebEnv \<Rightarrow> Workflow \<Rightarrow> Web \<Rightarrow> (web_response, WorkflowSchemaReport) result" where
  "schema_report W workflow w =
     map_err (\<lambda>_. internal_error)
       (workflow_schema_report (se_parse_definition (we_sched W)) (web_db w) workflow)"

definition workflow_card ::
    "WebEnv \<Rightarrow> Web \<Rightarrow> Workflow \<times> Repo \<Rightarrow> (web_response, WorkflowCard) result" where
  "workflow_card W w = (\<lambda>(workflow, repo).
     and_then (schema_report W workflow w) (\<lambda>report.
     let trigger = (case se_parse_trigger (we_sched W) (wf_trigger_json workflow) of
           Ok t \<Rightarrow> t | Err _ \<Rightarrow> \<lparr>trigger_kind = ''push'', trigger_branches = []\<rparr>);
         def = (case se_parse_definition (we_sched W) (wf_definition_json workflow) of
           Ok x \<Rightarrow> x | Err _ \<Rightarrow> \<lparr>wd_jobs = []\<rparr>) in
     and_then (manual_artifact_fields (we_sched W) (web_db w) workflow) (\<lambda>manual_artifacts.
       Ok \<lparr>wc_workflow = workflow, wc_repo = repo, wc_schema_report = report, wc_trigger = trigger,
           wc_job_count = length (wd_jobs def), wc_manual_artifacts = manual_artifacts\<rparr>)))"

definition workflow_cards_for_repos ::
    "WebEnv \<Rightarrow> Web \<Rightarrow> Repo list \<Rightarrow> Workflow list \<Rightarrow> (web_response, WorkflowCard list) result" where
  "workflow_cards_for_repos W w repos workflows =
     collect_results (workflow_card W w)
       (List.map_filter (\<lambda>workflow. map_option (Pair workflow)
          (find (\<lambda>repo. repo_id repo = wf_repo_id workflow) repos)) workflows)"

record WorkflowApiView =
  av_workflow :: Workflow
  av_schema_status :: WorkflowSchemaStatus
  av_schema_diff :: "WorkflowSchemaDiff list"

definition workflow_api_view :: "WebEnv \<Rightarrow> Workflow \<Rightarrow> Web \<Rightarrow> (web_response, WorkflowApiView) result" where
  "workflow_api_view W workflow w =
     and_then (schema_report W workflow w) (\<lambda>report.
       Ok \<lparr>av_workflow = workflow, av_schema_status = sp_status report,
           av_schema_diff = sp_diff report\<rparr>)"

section \<open>The editor of a workflow\<close>

record WorkflowRunnerCatalogEntry =
  ce_id :: string
  ce_name :: string
  ce_jobs :: "JobDefinitionResponse list"

definition workflow_runner_catalog :: "Db \<Rightarrow> WorkflowRunnerCatalogEntry list" where
  "workflow_runner_catalog d =
     map (\<lambda>runner. \<lparr>ce_id = rn_id runner, ce_name = rn_name runner,
                    ce_jobs = list_runner_jobs (rn_id runner) d\<rparr>) (list_runners d)"

definition unadvertised_job :: "string \<Rightarrow> JobDefinitionResponse" where
  "unadvertised_job name = JobDefinitionResponse_default\<lparr>jdr_name := name\<rparr>"

text \<open>A saved job stays in the catalog when its runner no longer advertises it.\<close>

fun add_to_catalog ::
    "WorkflowJobDefinition \<Rightarrow> WorkflowRunnerCatalogEntry list \<Rightarrow> WorkflowRunnerCatalogEntry list" where
  "add_to_catalog job [] =
     [\<lparr>ce_id = wj_runner_id job, ce_name = wj_runner_id job,
       ce_jobs = [unadvertised_job (wj_runner_job_name job)]\<rparr>]"
| "add_to_catalog job (runner # catalog) =
     (if ce_id runner \<noteq> wj_runner_id job then runner # add_to_catalog job catalog
      else if list_ex (\<lambda>item. jdr_name item = wj_runner_job_name job) (ce_jobs runner)
      then runner # catalog
      else runner\<lparr>ce_jobs := sort_key jdr_name
             (ce_jobs runner @ [unadvertised_job (wj_runner_job_name job)])\<rparr> # catalog)"

definition first_job :: "WorkflowRunnerCatalogEntry list \<Rightarrow> WorkflowJobDefinition" where
  "first_job catalog =
     (let (runner_id, runner_job_name) =
        (case catalog of
           [] \<Rightarrow> ([], [])
         | [runner] \<Rightarrow>
             (ce_id runner, case ce_jobs runner of [job] \<Rightarrow> jdr_name job | _ \<Rightarrow> [])
         | _ \<Rightarrow> ([], [])) in
      \<lparr>wj_runner_id = runner_id, wj_runner_job_name = runner_job_name, wj_inputs = [],
       wj_outcome_policy = Required\<rparr>)"

record WorkflowFormView =
  fv_name :: string
  fv_trigger_kind :: string
  fv_branch_name :: string
  fv_jobs_json :: string
  fv_runner_catalog :: "WorkflowRunnerCatalogEntry list"
  fv_initial_jobs :: "WorkflowJobDefinition list"
  fv_is_edit :: bool
  fv_error :: "string option"

definition workflow_form_view ::
    "WebEnv \<Rightarrow> (WorkflowJobDefinition list \<Rightarrow> string) \<Rightarrow> Workflow option
      \<Rightarrow> WorkflowRunnerCatalogEntry list \<Rightarrow> WorkflowFormView" where
  "workflow_form_view W jobs_text workflow runner_catalog =
     (let (kind, branch_name, jobs_json, def) =
        (case workflow of
           Some item \<Rightarrow>
             (let trigger = (case se_parse_trigger (we_sched W) (wf_trigger_json item) of
                    Ok t \<Rightarrow> t | Err _ \<Rightarrow> \<lparr>trigger_kind = ''push'', trigger_branches = [''main'']\<rparr>);
                  def = (case se_parse_definition (we_sched W) (wf_definition_json item) of
                    Ok x \<Rightarrow> x | Err _ \<Rightarrow> \<lparr>wd_jobs = []\<rparr>) in
              (trigger_kind trigger,
               (case trigger_branches trigger of b # _ \<Rightarrow> b | [] \<Rightarrow> []),
               jobs_text (wd_jobs def), def))
         | None \<Rightarrow> (''push'', ''main'', ''[]'', \<lparr>wd_jobs = []\<rparr>));
        catalog = fold add_to_catalog (wd_jobs def) runner_catalog;
        initial_jobs = (if wd_jobs def = [] then [first_job catalog] else wd_jobs def) in
      \<lparr>fv_name = (case workflow of Some item \<Rightarrow> wf_name item | None \<Rightarrow> []),
       fv_trigger_kind = kind, fv_branch_name = branch_name, fv_jobs_json = jobs_json,
       fv_runner_catalog = catalog, fv_initial_jobs = initial_jobs,
       fv_is_edit = (workflow \<noteq> None), fv_error = None\<rparr>)"

definition workflow_form_view_from_submission ::
    "(string \<Rightarrow> (string, WorkflowJobDefinition list) result) \<Rightarrow> WorkflowForm
      \<Rightarrow> WorkflowRunnerCatalogEntry list \<Rightarrow> bool \<Rightarrow> string \<Rightarrow> WorkflowFormView" where
  "workflow_form_view_from_submission parse_editor_jobs form runner_catalog is_edit error =
     \<lparr>fv_name = wff_name form, fv_trigger_kind = wff_trigger_kind form,
      fv_branch_name = wff_branch_name form, fv_jobs_json = wff_jobs_json form,
      fv_runner_catalog = runner_catalog,
      fv_initial_jobs = (case parse_editor_jobs (wff_jobs_json form) of Ok jobs \<Rightarrow> jobs | Err _ \<Rightarrow> []),
      fv_is_edit = is_edit, fv_error = Some error\<rparr>"

text \<open>The replacement of a pattern, from the left, without overlaps.\<close>

function str_replace :: "string \<Rightarrow> string \<Rightarrow> string \<Rightarrow> string" where
  "str_replace p r s =
     (if s = [] \<or> p = [] then s
      else if starts_with p s then r @ str_replace p r (drop (length p) s)
      else hd s # str_replace p r (tl s))"
  by pat_completeness auto
termination by (relation "measure (\<lambda>(p, r, s). length s)") auto

declare str_replace.simps [simp del]

definition script_json :: "string \<Rightarrow> string" where
  "script_json input = str_replace ''</script'' (CHR ''<'' # CHR 0x5C # ''/script'') input"

section \<open>Pages and reading requests\<close>

definition workflows_page ::
    "WebEnv \<Rightarrow> (WorkflowJobDefinition list \<Rightarrow> string) \<Rightarrow> User \<Rightarrow> Web
      \<Rightarrow> (web_response, WorkflowFormView \<times> WorkflowCard list) result" where
  "workflows_page W jobs_text user w =
     and_then (visible_repos_for_user user w) (\<lambda>repos.
     let form = workflow_form_view W jobs_text None (workflow_runner_catalog (web_db w)) in
     and_then (workflow_cards_for_repos W w repos (list_workflows (web_db w)))
       (\<lambda>cards. Ok (form, cards)))"

definition workflow_detail_page ::
    "WebEnv \<Rightarrow> (WorkflowJobDefinition list \<Rightarrow> string) \<Rightarrow> User \<Rightarrow> string \<Rightarrow> Web
      \<Rightarrow> (web_response, Repo \<times> WorkflowSchemaReport \<times> WorkflowFormView \<times> ManualArtifactField list)
            result" where
  "workflow_detail_page W jobs_text user i w =
     and_then (authorized_workflow user i w) (\<lambda>workflow.
     and_then (ok_or (get_repo (wf_repo_id workflow) (web_db w)) (not_found ''repo'')) (\<lambda>repo.
     and_then (schema_report W workflow w) (\<lambda>report.
     let form = workflow_form_view W jobs_text (Some workflow) (workflow_runner_catalog (web_db w)) in
     and_then (manual_artifact_fields (we_sched W) (web_db w) workflow) (\<lambda>manual_artifacts.
       Ok (repo, report, form, manual_artifacts)))))"

definition pipelines_page :: "Web \<Rightarrow> (PipelineRun \<times> Repo) list" where
  "pipelines_page w =
     List.map_filter (\<lambda>pipeline. map_option (Pair pipeline)
       (get_repo (pl_repo_id pipeline) (web_db w))) (list_pipeline_runs (web_db w))"

definition artifacts_page :: "User \<Rightarrow> Web \<Rightarrow> (web_response, ProducedArtifact list) result" where
  "artifacts_page user w =
     and_then (require_admin user) (\<lambda>_. Ok (list_recent_produced_artifacts 100 (web_db w)))"

definition pipeline_detail ::
    "User \<Rightarrow> string \<Rightarrow> Web \<Rightarrow> (web_response, PipelineRun \<times> PipelineSnapshot) result" where
  "pipeline_detail user i w =
     and_then (authorized_pipeline user i w) (\<lambda>pipeline.
     and_then (map_err (\<lambda>_. internal_error) (pipeline_snapshot (pl_id pipeline) (web_db w))) (\<lambda>snapshot.
     and_then (ok_or snapshot (not_found ''pipeline'')) (\<lambda>snapshot. Ok (pipeline, snapshot))))"

text \<open>One message of the event stream of a pipeline; the text of a snapshot is a parameter.\<close>

definition pipeline_event ::
    "(PipelineSnapshot \<Rightarrow> string) \<Rightarrow> (string \<Rightarrow> string) \<Rightarrow> string \<Rightarrow> Db \<Rightarrow> string option" where
  "pipeline_event snapshot_text error_text i d =
     (let payload = (case pipeline_snapshot i d of
            Ok (Some snapshot) \<Rightarrow> snapshot_text snapshot
          | Ok None \<Rightarrow> ''{}''
          | Err e \<Rightarrow> error_text e) in
      if payload \<noteq> ''{}'' then Some payload else None)"

definition repos_page :: "string \<Rightarrow> Web \<Rightarrow> (Repo \<times> string) list" where
  "repos_page public_base_url w =
     map (\<lambda>repo. (repo, repo_clone_url public_base_url repo)) (list_repos (web_db w))"

definition runner_detail_page ::
    "string \<Rightarrow> Web \<Rightarrow> (web_response, Runner \<times> JobDefinitionResponse list) result" where
  "runner_detail_page i w =
     and_then (ok_or (get_runner i (web_db w)) (not_found ''runner'')) (\<lambda>runner.
       Ok (runner, list_runner_jobs (rn_id runner) (web_db w)))"

definition api_list_workflows :: "WebEnv \<Rightarrow> User \<Rightarrow> Web \<Rightarrow> (web_response, WorkflowApiView list) result" where
  "api_list_workflows W user w =
     and_then (visible_repos_for_user user w) (\<lambda>repos.
       collect_results (\<lambda>workflow. workflow_api_view W workflow w)
         (filter (\<lambda>workflow. wf_repo_id workflow \<in> repo_id ` set repos) (list_workflows (web_db w))))"

definition api_get_workflow :: "WebEnv \<Rightarrow> User \<Rightarrow> string \<Rightarrow> Web \<Rightarrow> (web_response, WorkflowApiView) result" where
  "api_get_workflow W user i w =
     and_then (authorized_workflow user i w) (\<lambda>workflow. workflow_api_view W workflow w)"

definition api_list_pipelines :: "User \<Rightarrow> Web \<Rightarrow> (web_response, PipelineRun list) result" where
  "api_list_pipelines user w =
     and_then (visible_repos_for_user user w) (\<lambda>repos.
       Ok (filter (\<lambda>pipeline. pl_repo_id pipeline \<in> repo_id ` set repos)
             (list_pipeline_runs (web_db w))))"

definition api_get_pipeline :: "User \<Rightarrow> string \<Rightarrow> Web \<Rightarrow> (web_response, PipelineSnapshot) result" where
  "api_get_pipeline user i w =
     and_then (authorized_pipeline user i w) (\<lambda>pipeline.
     and_then (map_err (\<lambda>_. internal_error) (pipeline_snapshot (pl_id pipeline) (web_db w))) (\<lambda>snapshot.
       ok_or snapshot (not_found ''pipeline'')))"

section \<open>Rejected forms\<close>

text \<open>A rejected form is answered with its page and the message, unless the page cannot be made.\<close>

definition rejected :: "string \<Rightarrow> (web_response, 'a) result \<Rightarrow> web_response" where
  "rejected error page = (case page of Ok _ \<Rightarrow> bad_request error | Err response \<Rightarrow> response)"

definition render_create_workflow_form_error :: "WebEnv \<Rightarrow> User \<Rightarrow> Web \<Rightarrow> string \<Rightarrow> web_response" where
  "render_create_workflow_form_error W user w error =
     rejected error (and_then (visible_repos_for_user user w) (\<lambda>repos.
       workflow_cards_for_repos W w repos (list_workflows (web_db w))))"

definition render_update_workflow_form_error ::
    "WebEnv \<Rightarrow> Workflow \<Rightarrow> Web \<Rightarrow> string \<Rightarrow> web_response" where
  "render_update_workflow_form_error W workflow w error =
     rejected error
       (and_then (ok_or (get_repo (wf_repo_id workflow) (web_db w)) (not_found ''repo'')) (\<lambda>repo.
        and_then (schema_report W workflow w) (\<lambda>report.
          manual_artifact_fields (we_sched W) (web_db w) workflow)))"

section \<open>Lemmas\<close>

lemma authorized_repo_Inr [simp]:
  "authorized_repo user i w = Inr repo \<longleftrightarrow> get_repo i (web_db w) = Some repo"
  by (cases "us_role user") (auto simp: authorized_repo_def require_admin_def)

lemma get_workflow_id: "get_workflow i d = Some w \<Longrightarrow> wf_id w = i"
  by (auto simp: get_workflow_def current_versions_def join_version_def dest!: find_someD
      split: option.splits)

lemma get_repo_id: "get_repo i d = Some repo \<Longrightarrow> repo_id repo = i"
  by (auto simp: get_repo_def dest!: find_someD)

lemma authorized_workflow_Inr [simp]:
  "authorized_workflow user i w = Inr workflow \<longleftrightarrow>
    get_workflow i (web_db w) = Some workflow \<and> get_repo (wf_repo_id workflow) (web_db w) \<noteq> None"
  by (auto simp: authorized_workflow_def dest: get_repo_id)

lemma authorized_pipeline_Inr [simp]:
  "authorized_pipeline user i w = Inr pipeline \<longleftrightarrow>
    get_pipeline_run i (web_db w) = Some pipeline \<and> get_repo (pl_repo_id pipeline) (web_db w) \<noteq> None"
  by (auto simp: authorized_pipeline_def dest: get_repo_id)

lemma str_replace_nil [simp]: "str_replace p r [] = []"
  by (simp add: str_replace.simps)

lemma str_replace_match:
  "s \<noteq> [] \<Longrightarrow> p \<noteq> [] \<Longrightarrow> starts_with p s \<Longrightarrow> str_replace p r s = r @ str_replace p r (drop (length p) s)"
  by (subst str_replace.simps) simp

lemma str_replace_step:
  "p \<noteq> [] \<Longrightarrow> \<not> starts_with p (c # s) \<Longrightarrow> str_replace p r (c # s) = c # str_replace p r s"
  by (subst str_replace.simps) simp

text \<open>Replacing text can only produce what begins with the pattern's first character, or was there.\<close>

lemma str_replace_starts:
  assumes "CHR ''<'' \<notin> set q" "starts_with q (str_replace ''</script'' (CHR ''<'' # r) t)"
  shows "starts_with q t"
  using assms
proof (induction q arbitrary: t)
  case (Cons c q)
  show ?case
  proof (cases "t = [] \<or> starts_with ''</script'' t")
    case True
    moreover have "c \<noteq> CHR ''<''" using Cons.prems(1) by auto
    ultimately show ?thesis
      using Cons.prems(2) by (cases "t = []") (simp_all add: str_replace_match, simp_all add: starts_with_def)
  next
    case False
    then obtain x t' where t: "t = x # t'" by (cases t) auto
    have "starts_with (c # q) (x # str_replace ''</script'' (CHR ''<'' # r) t')"
      using Cons.prems(2) False by (simp add: str_replace_step t)
    then show ?thesis using Cons.IH [of t'] Cons.prems(1) by (simp add: starts_with_def t)
  qed
qed (simp add: starts_with_def)

lemma str_contains_append_free:
  assumes "\<And>x y. r = x @ y \<Longrightarrow> y \<noteq> [] \<Longrightarrow> \<not> starts_with p (y @ s)" "\<not> str_contains p s"
  shows "\<not> str_contains p (r @ s)"
  using assms(1)
proof (induction r)
  case (Cons c r)
  have "\<not> str_contains p (r @ s)" using Cons.IH Cons.prems by (metis append_Cons)
  moreover have "\<not> starts_with p ((c # r) @ s)" using Cons.prems [of "[]" "c # r"] by simp
  ultimately show ?case by simp
qed (use assms(2) in simp)

lemma script_json_free: "\<not> str_contains ''</script'' (script_json s)"
  unfolding script_json_def
proof (induction "length s" arbitrary: s rule: less_induct)
  case less
  let ?p = "''</script''" and ?r = "CHR ''<'' # CHR 0x5C # ''/script''"
  show ?case
  proof (cases "s = [] \<or> starts_with ?p s")
    case True
    show ?thesis
    proof (cases "s = []")
      case False
      then have eq: "str_replace ?p ?r s = ?r @ str_replace ?p ?r (drop (length ?p) s)"
        using True by (intro str_replace_match) simp_all
      have "\<not> str_contains ?p (str_replace ?p ?r (drop (length ?p) s))"
        using less False by simp
      moreover have "\<not> starts_with ?p (y @ t)" if "?r = x @ y" "y \<noteq> []" for x y t
        using that by (auto simp: Cons_eq_append_conv starts_with_def)
      ultimately show ?thesis unfolding eq by (intro str_contains_append_free) auto
    qed simp
  next
    case False
    then obtain c t where s: "s = c # t" by (cases s) auto
    have eq: "str_replace ?p ?r s = c # str_replace ?p ?r t"
      using False by (simp add: s str_replace_step)
    have "\<not> starts_with ?p (c # str_replace ?p ?r t)"
    proof
      assume "starts_with ?p (c # str_replace ?p ?r t)"
      then have "c = CHR ''<''" "starts_with ''/script'' (str_replace ?p ?r t)"
        by (simp_all add: starts_with_def)
      then show False
        using str_replace_starts [of "''/script''" "CHR 0x5C # ''/script''" t] False
        by (simp add: s starts_with_def)
    qed
    then show ?thesis using less [of t] by (simp add: eq [unfolded s] s)
  qed
qed

lemma collect_results_is_ok: "(\<exists>ys. collect_results f xs = Ok ys) \<longleftrightarrow> (\<forall>x \<in> set xs. \<exists>y. f x = Ok y)"
proof (induction xs)
  case (Cons x xs)
  show ?case unfolding collect_results_ok
  proof
    assume "\<exists>ys. map f (x # xs) = map Ok ys"
    then show "\<forall>y \<in> set (x # xs). \<exists>z. f y = Ok z" using Cons.IH by (auto simp: collect_results_ok Cons_eq_map_conv)
  next
    assume "\<forall>y \<in> set (x # xs). \<exists>z. f y = Ok z"
    then obtain z zs where "f x = Ok z" "map f xs = map Ok zs" using Cons.IH by (auto simp: collect_results_ok)
    then have "map f (x # xs) = map Ok (z # zs)" by simp
    then show "\<exists>ys. map f (x # xs) = map Ok ys" by blast
  qed
qed simp

lemma option_listed: "i \<in> fst ` set (map (\<lambda>a. (f a, g a)) xs) \<longleftrightarrow> list_ex (\<lambda>a. f a = i) xs"
  by (induction xs) auto

lemma validate_selection_is_ok:
  "(\<exists>s. validate_selection d workflow submitted r = Ok s) \<longleftrightarrow>
    (\<exists>i \<in> fst ` set (mf_options (manual_artifact_field d workflow r)).
       optional_trimmed_value (bt_get submitted (mf_field_name (manual_artifact_field d workflow r))) = Some i)"
proof (cases "optional_trimmed_value (bt_get submitted (manual_artifact_field_name r))")
  case None
  then show ?thesis by (simp add: validate_selection_def manual_artifact_field_def)
next
  case (Some i)
  let ?xs = "eligible_artifacts workflow r d"
  have "(\<exists>j \<in> fst ` set (mf_options (manual_artifact_field d workflow r)). Some i = Some j)
      \<longleftrightarrow> list_ex (\<lambda>a. pa_server_artifact_id a = i) ?xs"
    unfolding option_listed [of i pa_server_artifact_id promotable_artifact_label, symmetric]
    by (simp add: manual_artifact_field_def)
  moreover have "(\<exists>s. validate_selection d workflow submitted r = Ok s)
      \<longleftrightarrow> list_ex (\<lambda>a. pa_server_artifact_id a = i) ?xs"
    unfolding validate_selection_def Let_def Some ok_or.simps and_then.simps
    by (cases "list_ex (\<lambda>a. pa_server_artifact_id a = i) ?xs")
      (simp_all only: simp_thms if_True if_False sum.simps)
  moreover have "mf_field_name (manual_artifact_field d workflow r) = manual_artifact_field_name r"
    by (simp add: manual_artifact_field_def)
  ultimately show ?thesis by (simp only: Some)
qed

lemma add_to_catalog_has:
  "\<exists>entry \<in> set (add_to_catalog job catalog). ce_id entry = wj_runner_id job
     \<and> wj_runner_job_name job \<in> jdr_name ` set (ce_jobs entry)"
proof (induction catalog)
  case (Cons runner catalog)
  show ?case
  proof (cases "ce_id runner = wj_runner_id job")
    case True
    then show ?thesis
      by (cases "list_ex (\<lambda>item. jdr_name item = wj_runner_job_name job) (ce_jobs runner)")
        (auto simp: list_ex_iff unadvertised_job_def intro!: image_eqI)
  qed (use Cons.IH in auto)
qed (simp add: unadvertised_job_def)

lemma add_to_catalog_keeps:
  assumes "entry \<in> set catalog"
  shows "\<exists>e \<in> set (add_to_catalog job catalog). ce_id e = ce_id entry
     \<and> jdr_name ` set (ce_jobs entry) \<subseteq> jdr_name ` set (ce_jobs e)"
  using assms by (induction catalog) auto

lemma fold_catalog_keeps:
  assumes "entry \<in> set catalog"
  shows "\<exists>e \<in> set (fold add_to_catalog jobs catalog). ce_id e = ce_id entry
     \<and> jdr_name ` set (ce_jobs entry) \<subseteq> jdr_name ` set (ce_jobs e)"
  using assms
proof (induction jobs arbitrary: catalog entry)
  case (Cons job jobs)
  obtain e where e: "e \<in> set (add_to_catalog job catalog)" "ce_id e = ce_id entry"
    "jdr_name ` set (ce_jobs entry) \<subseteq> jdr_name ` set (ce_jobs e)"
    using add_to_catalog_keeps [OF Cons.prems] by blast
  from Cons.IH [OF e(1)] show ?case using e(2,3) by (simp only: fold_simps comp_apply) (metis subset_trans)
qed auto

section \<open>Properties\<close>

text \<open>The JSON that a page embeds in a script element never contains the lower-case end tag,
whatever the names and values in it are; but HTML knows the tag in any letter case, and one in
upper case passes unchanged, so a job, an input or an output with such a name ends the element.\<close>

theorem script_json_escapes_lower_case_only:
  "\<not> str_contains ''</script'' (script_json s) \<and> script_json ''</SCRIPT>'' = ''</SCRIPT>''"
proof
  show "\<not> str_contains ''</script'' (script_json s)" by (rule script_json_free)
  show "script_json ''</SCRIPT>'' = ''</SCRIPT>''"
    by (simp add: script_json_def str_replace_step starts_with_def)
qed

text \<open>The list of pipelines shows exactly the pipelines that can be opened: a pipeline is listed
when, and only when, its page is not refused.\<close>

theorem listed_pipelines_can_be_opened:
  assumes "distinct (map pl_id (db_pipelines (web_db w)))" and "p \<in> set (db_pipelines (web_db w))"
  shows "p \<in> fst ` set (pipelines_page w) \<longleftrightarrow> authorized_pipeline user (pl_id p) w = Ok p"
proof -
  have "find (\<lambda>q. pl_id q = pl_id p) (db_pipelines (web_db w)) = Some p"
    using find_by_key [OF assms] .
  then have run: "get_pipeline_run (pl_id p) (web_db w) = Some p" by (simp add: get_pipeline_run_def)
  have "set (list_pipeline_runs (web_db w)) = set (db_pipelines (web_db w))"
    by (simp add: list_pipeline_runs_def sort_desc_def)
  then have "p \<in> fst ` set (pipelines_page w) \<longleftrightarrow> get_repo (pl_repo_id p) (web_db w) \<noteq> None"
    using assms(2) by (force simp: pipelines_page_def List.map_filter_def image_iff)
  then show ?thesis using run by simp
qed

text \<open>What the form of a manual run offers is what is accepted: a submission is accepted exactly
when it names, for each artifact the workflow asks for, one of the options its form lists for it;
any other submission is refused.\<close>

theorem offered_artifacts_are_accepted:
  assumes "manual_artifact_fields E d workflow = Ok shown"
  shows "(\<exists>selections. validate_manual_artifact_selections E d workflow submitted = Ok selections)
    \<longleftrightarrow> (\<forall>field \<in> set shown. \<exists>i \<in> fst ` set (mf_options field).
          optional_trimmed_value (bt_get submitted (mf_field_name field)) = Some i)"
proof -
  obtain rs where rs: "manual_artifact_requirements E workflow = Ok rs"
    and shown: "shown = map (manual_artifact_field d workflow) rs"
    using assms by (auto simp: manual_artifact_fields_def)
  have "(\<exists>selections. validate_manual_artifact_selections E d workflow submitted = Ok selections)
      \<longleftrightarrow> (\<forall>r \<in> set rs. \<exists>s. validate_selection d workflow submitted r = Ok s)"
    by (simp only: validate_manual_artifact_selections_def rs and_then.simps collect_results_is_ok)
  then show ?thesis unfolding validate_selection_is_ok shown by simp
qed

text \<open>The editor offers every job a workflow has: for each saved job the catalog of the form has
its runner and, for that runner, the job, also when the runner or the job is no longer there.\<close>

theorem editor_offers_saved_jobs:
  assumes "se_parse_definition (we_sched W) (wf_definition_json workflow) = Ok def"
    and "job \<in> set (wd_jobs def)"
  shows "\<exists>entry \<in> set (fv_runner_catalog (workflow_form_view W jobs_text (Some workflow) catalog)).
    ce_id entry = wj_runner_id job \<and> wj_runner_job_name job \<in> jdr_name ` set (ce_jobs entry)"
proof -
  obtain before after where jobs: "wd_jobs def = before @ job # after"
    using assms(2) by (metis split_list)
  let ?catalog = "add_to_catalog job (fold add_to_catalog before catalog)"
  obtain entry where "entry \<in> set ?catalog" "ce_id entry = wj_runner_id job"
    "wj_runner_job_name job \<in> jdr_name ` set (ce_jobs entry)"
    using add_to_catalog_has [of job "fold add_to_catalog before catalog"] by blast
  then have "\<exists>e \<in> set (fold add_to_catalog after ?catalog). ce_id e = wj_runner_id job
      \<and> wj_runner_job_name job \<in> jdr_name ` set (ce_jobs e)"
    using fold_catalog_keeps [of entry ?catalog after] by auto
  then show ?thesis using assms(1) by (simp add: workflow_form_view_def jobs Let_def)
qed

text \<open>The form a browser sends back from the editor, with the fields as they were shown.\<close>

definition resubmitted :: "string \<Rightarrow> string \<Rightarrow> WorkflowFormView \<Rightarrow> WorkflowForm" where
  "resubmitted csrf repo view =
     \<lparr>wff_csrf_token = csrf, wff_repo_id = repo, wff_name = fv_name view,
      wff_trigger_kind = fv_trigger_kind view, wff_branch_name = fv_branch_name view,
      wff_jobs_json = fv_jobs_json view\<rparr>"

text \<open>Saving the editor of a workflow without touching anything keeps the definition, but of the
branches only the first: a workflow that was created through the API for several branches runs
for one branch after such a save.\<close>

theorem untouched_editor_drops_branches:
  assumes trigger: "se_parse_trigger (we_sched W) (wf_trigger_json workflow) = Ok trigger"
    and def: "se_parse_definition (we_sched W) (wf_definition_json workflow) = Ok def"
    and texts: "we_parse_jobs W (jobs_text (wd_jobs def)) = Ok (wd_jobs def)"
    and trimmed: "map trimmed_job (wd_jobs def) = wd_jobs def"
      "trim (trigger_kind trigger) = trigger_kind trigger"
      "\<And>b. b \<in> set (trigger_branches trigger) \<Longrightarrow> trim b = b \<and> b \<noteq> []"
    and saved: "parse_workflow_form W d
      (resubmitted csrf repo (workflow_form_view W jobs_text (Some workflow) catalog)) = Ok parsed"
  shows "pw_definition_json parsed = we_definition_text W def
    \<and> pw_trigger_json parsed = we_trigger_text W
        \<lparr>trigger_kind = trigger_kind trigger, trigger_branches = take 1 (trigger_branches trigger)\<rparr>"
proof -
  have "trim [] = []" by code_simp
  then have branches: "(if trim (case trigger_branches trigger of b # _ \<Rightarrow> b | [] \<Rightarrow> []) = [] then []
      else [trim (case trigger_branches trigger of b # _ \<Rightarrow> b | [] \<Rightarrow> [])]) = take 1 (trigger_branches trigger)"
    using trimmed(3) by (cases "trigger_branches trigger") auto
  have def': "\<lparr>wd_jobs = wd_jobs def\<rparr> = def" by simp
  show ?thesis
    using saved
    by (auto simp: parse_workflow_form_def resubmitted_def workflow_form_view_def trigger def texts
        parse_workflow_form_jobs_def trimmed(1,2) parsed_workflow_def branches def' Let_def
        split: if_splits)
qed

section \<open>Witnesses\<close>

lemma list_ex_fst: "list_ex (\<lambda>x. fst x = a) xs \<longleftrightarrow> a \<in> fst ` set xs"
  by (induction xs) auto

theorem listed_pipelines_can_be_opened_witness:
  "authorized_pipeline demo_user (uid 4) demo_web = Ok (demo_pipeline ''running'')"
proof -
  have "distinct (map pl_id (db_pipelines (web_db demo_web)))" by code_simp
  moreover have "demo_pipeline ''running'' \<in> set (db_pipelines (web_db demo_web))"
    by (simp add: demo_web_def web_db_def demo_server_def demo_db3_def)
  moreover have "list_ex (\<lambda>p. fst p = demo_pipeline ''running'') (pipelines_page demo_web)" by code_simp
  then have "demo_pipeline ''running'' \<in> fst ` set (pipelines_page demo_web)"
    by (simp only: list_ex_fst)
  moreover have "pl_id (demo_pipeline ''running'') = uid 4" by (simp add: demo_pipeline_def)
  ultimately show ?thesis using listed_pipelines_can_be_opened [of demo_web "demo_pipeline ''running''"] by metis
qed

theorem offered_artifacts_are_accepted_witness:
  "let E = (Scheduler_Demo.demo_env no_network)\<lparr>se_parse_definition := \<lambda>_. Ok demo_promoted\<rparr> in
   \<exists>selections. validate_manual_artifact_selections E demo_artifacts_db demo_wf3
     [(''artifact:0:image'', '' a '')] = Ok selections"
proof -
  let ?E = "(Scheduler_Demo.demo_env no_network)\<lparr>se_parse_definition := \<lambda>_. Ok demo_promoted\<rparr>"
  let ?r = "\<lparr>mar_job_index = 0, mar_input_name = ''image'', mar_source_runner_id = uid 1,
      mar_source_job_name = ''build'', mar_output_name = ''bin''\<rparr>"
  let ?field = "manual_artifact_field demo_artifacts_db demo_wf3 ?r"
  have "manual_artifact_requirements ?E demo_wf3 = Ok [?r]" by code_simp
  then have shown: "manual_artifact_fields ?E demo_artifacts_db demo_wf3 = Ok [?field]"
    by (simp add: manual_artifact_fields_def)
  have "list_ex (\<lambda>x. fst x = ''a'') (mf_options ?field)"
    "optional_trimmed_value (bt_get [(''artifact:0:image'', '' a '')] (mf_field_name ?field)) = Some ''a''"
    by code_simp+
  then have "\<forall>field \<in> set [?field]. \<exists>i \<in> fst ` set (mf_options field).
      optional_trimmed_value (bt_get [(''artifact:0:image'', '' a '')] (mf_field_name field)) = Some i"
    unfolding list_ex_fst by (simp only: list.set ball_simps singleton_iff simp_thms bex_simps) blast
  then show ?thesis unfolding Let_def by (rule offered_artifacts_are_accepted [OF shown, THEN iffD2])
qed

text \<open>The workflow of the demonstration asks for a job nobody advertises.\<close>

theorem editor_offers_saved_jobs_witness:
  "\<exists>entry \<in> set (fv_runner_catalog (workflow_form_view demo_web_env (\<lambda>_. ''jobs'') (Some demo_wf3) [])).
     ce_id entry = uid 8 \<and> ''test'' \<in> jdr_name ` set (ce_jobs entry)"
proof -
  have "se_parse_definition (we_sched demo_web_env) (wf_definition_json demo_wf3) = Ok demo_def3"
    by (simp add: demo_web_env_def Scheduler_Demo.demo_env_def)
  moreover have "demo_wjob (uid 8) ''test'' \<in> set (wd_jobs demo_def3)" by (simp add: demo_def3_def)
  ultimately show ?thesis
    using editor_offers_saved_jobs [of demo_web_env demo_wf3 demo_def3 "demo_wjob (uid 8) ''test''" "\<lambda>_. ''jobs''" "[]"]
    by (simp add: demo_wjob_def)
qed

text \<open>A workflow for two branches.\<close>

definition two_branches :: WorkflowTrigger where
  "two_branches = \<lparr>trigger_kind = ''push'', trigger_branches = [''main'', ''dev'']\<rparr>"

definition two_branch_env :: WebEnv where
  "two_branch_env = demo_web_env\<lparr>
     we_sched := (Scheduler_Demo.demo_env no_network)\<lparr>se_parse_trigger := \<lambda>_. Ok two_branches\<rparr>,
     we_parse_jobs := \<lambda>_. Ok (wd_jobs demo_def3),
     we_trigger_text := \<lambda>t. concat (trigger_branches t)\<rparr>"

theorem untouched_editor_drops_branches_witness:
  "\<exists>parsed. parse_workflow_form two_branch_env (web_db demo_web)
     (resubmitted ''ff'' (uid 0) (workflow_form_view two_branch_env (\<lambda>_. ''jobs'') (Some demo_wf3) []))
     = Ok parsed \<and> pw_trigger_json parsed = ''main''"
proof -
  let ?d = "web_db demo_web"
  let ?form = "resubmitted ''ff'' (uid 0) (workflow_form_view two_branch_env (\<lambda>_. ''jobs'') (Some demo_wf3) [])"
  have "is_ok (parse_workflow_form two_branch_env ?d ?form)" by code_simp
  then obtain parsed where saved: "parse_workflow_form two_branch_env ?d ?form = Ok parsed" by auto
  have trigger: "se_parse_trigger (we_sched two_branch_env) (wf_trigger_json demo_wf3) = Ok two_branches"
    and def: "se_parse_definition (we_sched two_branch_env) (wf_definition_json demo_wf3) = Ok demo_def3"
    and texts: "we_parse_jobs two_branch_env ((\<lambda>_. ''jobs'') (wd_jobs demo_def3)) = Ok (wd_jobs demo_def3)"
    by (simp_all add: two_branch_env_def Scheduler_Demo.demo_env_def)
  have trimmed: "map trimmed_job (wd_jobs demo_def3) = wd_jobs demo_def3"
    "trim (trigger_kind two_branches) = trigger_kind two_branches"
    "list_all (\<lambda>b. trim b = b \<and> b \<noteq> []) (trigger_branches two_branches)" by code_simp+
  have "we_trigger_text two_branch_env \<lparr>trigger_kind = trigger_kind two_branches,
      trigger_branches = take 1 (trigger_branches two_branches)\<rparr> = ''main''"
    by (simp add: two_branch_env_def two_branches_def)
  moreover have "pw_trigger_json parsed = we_trigger_text two_branch_env
      \<lparr>trigger_kind = trigger_kind two_branches, trigger_branches = take 1 (trigger_branches two_branches)\<rparr>"
    using untouched_editor_drops_branches [OF trigger def texts trimmed(1,2) _ saved] trimmed(3)
    by (auto simp: list_all_iff)
  ultimately show ?thesis using saved by auto
qed

end
