(* ===== verification/Web_Routes.thy ===== *)
theory Web_Routes
  imports Web_Pages
begin

text \<open>
  The handlers of the web interface that change something (janus-server/src/web/routes.rs): users,
  repositories, runners, workflows and pipelines, as forms and as API requests, and the download of
  an artifact.

  A handler returns what it answers: where it redirects to or the value it sends, or the status
  and message of an error; the pages around a message are left out.  A rejected form is answered
  with 400; a rejected workflow form with the page of the form, or with 500 when that page cannot
  be made.  The extractor of the signed-in user runs before the handler.
\<close>

section \<open>Operations of the server in a handler\<close>

definition on_web_server :: "'a server_op \<Rightarrow> 'a handler" where
  "on_web_server f w =
     (case f (web_server w) of (r, s) \<Rightarrow>
        (map_err (\<lambda>_. internal_error) r, w\<lparr>web_server := s\<rparr>))"

definition on_web_db :: "(Db \<Rightarrow> (string, 'a) result \<times> Db) \<Rightarrow> 'a handler" where
  "on_web_db f = on_web_server (on_db f)"

abbreviation checked :: "(web_response, 'a) result \<Rightarrow> 'a handler" where
  "checked r w \<equiv> (r, w)"

section \<open>Repositories\<close>

definition validate_branch_name :: "string \<Rightarrow> (string, unit) result" where
  "validate_branch_name branch =
     (if trim branch = [] \<or> CHR '' '' \<in> set branch then Err ''default branch is invalid''
      else if 255 < char_count (trim branch)
      then Err ''default branch must be 255 characters or fewer''
      else Ok ())"

definition cleanup_bare_repo :: "WebEnv \<Rightarrow> string \<Rightarrow> Web \<Rightarrow> Web" where
  "cleanup_bare_repo W bare_path w =
     (if bare_path \<in> web_bare_repos w \<and> is_ok (we_remove_dir W (web_seq w) bare_path)
      then w\<lparr>web_bare_repos := web_bare_repos w - {bare_path}\<rparr> else w)"

definition rollback_repo_provisioning :: "WebEnv \<Rightarrow> string \<Rightarrow> string \<Rightarrow> Web \<Rightarrow> Web" where
  "rollback_repo_provisioning W i bare_path w =
     cleanup_bare_repo W bare_path (w\<lparr>web_server := with_db (delete_repo i) (web_server w)\<rparr>)"

definition new_bare_path :: "WebEnv \<Rightarrow> Web \<Rightarrow> string" where
  "new_bare_path W w = we_repos_dir W @ ''/'' @ uuid_text (web_plat W) (web_seq w) @ ''.git''"

definition register_repo ::
    "WebEnv \<Rightarrow> string \<Rightarrow> string \<Rightarrow> string \<Rightarrow> string \<Rightarrow> Repo handler" where
  "register_repo W name normalized default_branch bare_path w =
     (case on_web_db (create_repo (web_plat W) name normalized bare_path default_branch) w of
        (Err e, w) \<Rightarrow> (Err internal_error, cleanup_bare_repo W bare_path w)
      | (Ok i, w) \<Rightarrow>
       (case get_repo i (web_db w) of
          None \<Rightarrow> (Err internal_error, rollback_repo_provisioning W i bare_path w)
        | Some repo \<Rightarrow>
            if is_ok (we_install_hook W (web_seq w) (repo_bare_path repo) (repo_id repo))
            then (Ok repo, w)
            else (Err internal_error,
              rollback_repo_provisioning W (repo_id repo) (repo_bare_path repo) w)))"

definition provision_repo :: "WebEnv \<Rightarrow> string \<Rightarrow> string \<Rightarrow> string \<Rightarrow> Repo handler" where
  "provision_repo W name normalized default_branch w =
     (let bare_path = new_bare_path W w;
          w = draw_web w;
          (made, init) = we_git_init W (web_seq w) bare_path;
          w = (if made then w\<lparr>web_bare_repos := insert bare_path (web_bare_repos w)\<rparr> else w) in
      case init of
        Err e \<Rightarrow> (Err internal_error, w)
      | Ok _ \<Rightarrow> register_repo W name normalized default_branch bare_path w)"

definition repo_event :: "WebEnv \<Rightarrow> User \<Rightarrow> Repo \<Rightarrow> unit handler" where
  "repo_event W user repo =
     record_audit_event W user ''repo.create'' ''repo'' (Some (repo_id repo)) (Some (repo_name repo))
       (JObject [(''default_branch'', JString (repo_default_branch repo)),
                 (''normalized_name'', JString (repo_normalized_name repo))])"

definition create_repo_route ::
    "WebEnv \<Rightarrow> User \<Rightarrow> string \<Rightarrow> string \<Rightarrow> string \<Rightarrow> Repo handler" where
  "create_repo_route W user csrf name default_branch w =
     try_then (verify_csrf W user csrf, w) (\<lambda>_ w.
     try_then (ensure (char_count (trim name) \<le> 80)
       (bad_request ''repository name must be 80 characters or fewer''), w) (\<lambda>_ w.
     try_then (map_err bad_request (validate_repo_name name), w) (\<lambda>normalized w.
     try_then (map_err bad_request (validate_branch_name default_branch), w) (\<lambda>_ w.
     try_then (provision_repo W (trim name) normalized (trim default_branch) w) (\<lambda>repo w.
     try_then (repo_event W user repo w) (\<lambda>_ w. (Ok repo, w)))))))"

definition api_create_repo ::
    "WebEnv \<Rightarrow> User \<Rightarrow> string \<Rightarrow> string \<Rightarrow> string \<Rightarrow> Repo handler" where
  "api_create_repo W user csrf name default_branch w =
     try_then (verify_csrf W user csrf, w) (\<lambda>_ w.
     try_then (ensure (char_count (trim name) \<le> 80)
       (bad_request ''repository name must be 80 characters or fewer''), w) (\<lambda>_ w.
     try_then (map_err bad_request (validate_repo_name name), w) (\<lambda>normalized w.
     try_then (map_err bad_request (validate_branch_name default_branch), w) (\<lambda>_ w.
     try_then (provision_repo W (trim name) normalized (trim default_branch) w) (\<lambda>repo w.
     try_then (repo_event W user repo w) (\<lambda>_ w. (Ok repo, w)))))))"

text \<open>The form and the API share these steps.\<close>

lemma api_create_repo_eq: "api_create_repo = create_repo_route"
  by (intro ext) (simp only: api_create_repo_def create_repo_route_def)

definition trigger_repo_route ::
    "WebEnv \<Rightarrow> User \<Rightarrow> string \<Rightarrow> string \<Rightarrow> string option \<Rightarrow> string option \<Rightarrow> string handler" where
  "trigger_repo_route W user csrf i form_branch form_commit w =
     try_then (verify_csrf W user csrf, w) (\<lambda>_ w.
     try_then (authorized_repo user i w, w) (\<lambda>repo w.
       case trigger_repo (web_plat W) (we_digest W) repo form_branch form_commit (web_db w) of
         ((status, location), d) \<Rightarrow>
           (if status = 303 then Ok location else Err (status, location),
            w\<lparr>web_server := with_db (\<lambda>_. d) (web_server w)\<rparr>)))"

section \<open>Runners\<close>

definition refresh_single_runner :: "SchedEnv \<Rightarrow> string \<Rightarrow> unit server_op" where
  "refresh_single_runner E i s =
     try_then (ok_or (get_runner i (srv_db s)) ''runner not found'', s) (\<lambda>runner s.
     try_then (on_runner (capabilities (se_client E) runner) s) (\<lambda>caps s.
     if \<not> is_compatible_with_supported_versions caps SUPPORTED_RUNNER_PROTOCOL_VERSIONS
     then (Err ''runner protocol incompatible'',
           with_db (update_runner_health (se_plat E) i ''incompatible'') s)
     else
     try_then (on_runner (list_jobs (se_client E) runner) s) (\<lambda>jobs s.
     try_then (on_db (replace_runner_jobs i jobs) s) (\<lambda>_ s.
       (Ok (), with_db (update_runner_health (se_plat E) i ''healthy'') s)))))"

definition create_runner_route ::
    "WebEnv \<Rightarrow> User \<Rightarrow> string \<Rightarrow> string \<Rightarrow> string \<Rightarrow> string handler" where
  "create_runner_route W user csrf name base_url w =
     try_then (verify_csrf W user csrf, w) (\<lambda>_ w.
     try_then (map_err bad_request (validate_runner_name name), w) (\<lambda>_ w.
     try_then (map_err bad_request (validate_base_url (we_parse_url W) base_url (we_url_policy W)), w)
       (\<lambda>_ w.
     try_then (on_web_db (create_runner (web_plat W) (trim name) (trim base_url)) w) (\<lambda>i w.
     try_then (record_audit_event W user ''runner.create'' ''runner'' (Some i) (Some (trim name))
                 (JObject [(''base_url'', JString (trim base_url))]) w) (\<lambda>_ w.
     try_then (on_web_server (refresh_single_runner (we_sched W) i) w) (\<lambda>_ w. (Ok i, w)))))))"

definition toggle_runner_route :: "WebEnv \<Rightarrow> User \<Rightarrow> string \<Rightarrow> string \<Rightarrow> string handler" where
  "toggle_runner_route W user csrf i w =
     try_then (verify_csrf W user csrf, w) (\<lambda>_ w.
     try_then (ok_or (get_runner i (web_db w)) (not_found ''runner''), w) (\<lambda>runner w.
     let w = w\<lparr>web_server := with_db (set_runner_enabled i (\<not> rn_enabled runner)) (web_server w)\<rparr> in
     try_then (record_audit_event W user ''runner.update'' ''runner'' (Some (rn_id runner))
                 (Some (rn_name runner))
                 (JObject [(''field'', JString ''enabled''), (''new'', JBool (\<not> rn_enabled runner)),
                           (''old'', JBool (rn_enabled runner))]) w) (\<lambda>_ w.
       (Ok (''/runners/'' @ rn_id runner), w))))"

definition named_url :: "string \<Rightarrow> string \<Rightarrow> json" where
  "named_url name base_url = JObject [(''base_url'', JString base_url), (''name'', JString name)]"

definition update_runner_route ::
    "WebEnv \<Rightarrow> User \<Rightarrow> string \<Rightarrow> string \<Rightarrow> string \<Rightarrow> string \<Rightarrow> string handler" where
  "update_runner_route W user csrf i name base_url w =
     try_then (verify_csrf W user csrf, w) (\<lambda>_ w.
     try_then (ok_or (get_runner i (web_db w)) (not_found ''runner''), w) (\<lambda>runner w.
     try_then (map_err bad_request (validate_runner_name name), w) (\<lambda>_ w.
     try_then (map_err bad_request (validate_base_url (we_parse_url W) base_url (we_url_policy W)), w)
       (\<lambda>_ w.
     try_then (on_web_db (update_runner i (trim name) (trim base_url)) w) (\<lambda>_ w.
     try_then (record_audit_event W user ''runner.update'' ''runner'' (Some i) (Some (trim name))
                 (JObject [(''new'', named_url (trim name) (trim base_url)),
                           (''old'', named_url (rn_name runner) (rn_base_url runner))]) w) (\<lambda>_ w.
       (Ok (''/runners/'' @ i), w)))))))"

definition test_runner_route :: "WebEnv \<Rightarrow> User \<Rightarrow> string \<Rightarrow> string \<Rightarrow> string handler" where
  "test_runner_route W user csrf i w =
     try_then (verify_csrf W user csrf, w) (\<lambda>_ w.
     try_then (on_web_server (refresh_single_runner (we_sched W) i) w) (\<lambda>_ w.
       (Ok (''/runners/'' @ i), w)))"

definition api_create_runner :: "WebEnv \<Rightarrow> User \<Rightarrow> string \<Rightarrow> string \<Rightarrow> string \<Rightarrow> Runner handler" where
  "api_create_runner W user csrf name base_url w =
     try_then (create_runner_route W user csrf name base_url w) (\<lambda>i w.
       (ok_or (get_runner i (web_db w)) (not_found ''runner''), w))"

section \<open>Workflows\<close>

text \<open>What the forms do after their checks.\<close>

definition save_new_workflow ::
    "WebEnv \<Rightarrow> User \<Rightarrow> Repo \<Rightarrow> string \<Rightarrow> bool \<Rightarrow> ParsedWorkflow \<Rightarrow> string handler" where
  "save_new_workflow W user repo name enabled parsed w =
     try_then (on_web_db (create_workflow (web_plat W) (repo_id repo) (trim name) enabled
                 (pw_trigger_json parsed) (pw_definition_json parsed) (pw_job_schemas parsed)) w)
       (\<lambda>i w.
     try_then (record_audit_event W user ''workflow.create'' ''workflow'' (Some i) (Some (trim name))
                 (JObject [(''enabled'', JBool enabled), (''repo_id'', JString (repo_id repo))]) w)
       (\<lambda>_ w. (Ok i, w)))"

definition save_workflow ::
    "WebEnv \<Rightarrow> User \<Rightarrow> Workflow \<Rightarrow> string \<Rightarrow> bool \<Rightarrow> ParsedWorkflow \<Rightarrow> unit handler" where
  "save_workflow W user workflow name enabled parsed w =
     try_then (on_web_db (update_workflow (web_plat W) (wf_id workflow) (trim name) enabled
                 (pw_trigger_json parsed) (pw_definition_json parsed) (pw_job_schemas parsed)) w)
       (\<lambda>version_id w.
     record_audit_event W user ''workflow.update'' ''workflow'' (Some (wf_id workflow))
       (Some (trim name))
       (JObject [(''enabled'', JBool enabled), (''repo_id'', JString (wf_repo_id workflow)),
                 (''version_id'', JString version_id)]) w)"

definition create_workflow_route :: "WebEnv \<Rightarrow> User \<Rightarrow> WorkflowForm \<Rightarrow> string handler" where
  "create_workflow_route W user form w =
     try_then (verify_csrf W user (wff_csrf_token form), w) (\<lambda>_ w.
     try_then (authorized_repo user (wff_repo_id form) w, w) (\<lambda>repo w.
     try_then (map_err (render_create_workflow_form_error W user w)
       (parse_workflow_form W (web_db w) form), w) (\<lambda>parsed w.
     try_then (save_new_workflow W user repo (wff_name form) True parsed w) (\<lambda>_ w.
       (Ok ''/workflows'', w)))))"

definition update_workflow_route :: "WebEnv \<Rightarrow> User \<Rightarrow> string \<Rightarrow> WorkflowForm \<Rightarrow> string handler" where
  "update_workflow_route W user i form w =
     try_then (verify_csrf W user (wff_csrf_token form), w) (\<lambda>_ w.
     try_then (authorized_workflow user i w, w) (\<lambda>workflow w.
     try_then (ensure (wf_repo_id workflow = wff_repo_id form)
                 (bad_request ''workflow repo cannot be changed''), w) (\<lambda>_ w.
     try_then (map_err (render_update_workflow_form_error W workflow w)
       (parse_workflow_form W (web_db w) form), w) (\<lambda>parsed w.
     try_then (save_workflow W user workflow (wff_name form) True parsed w) (\<lambda>_ w.
       (Ok (''/workflows/'' @ wf_id workflow), w))))))"

definition api_create_workflow :: "WebEnv \<Rightarrow> User \<Rightarrow> ApiWorkflowRequest \<Rightarrow> WorkflowApiView handler" where
  "api_create_workflow W user request w =
     try_then (verify_csrf W user (awr_csrf_token request), w) (\<lambda>_ w.
     try_then (authorized_repo user (awr_repo_id request) w, w) (\<lambda>repo w.
     try_then (map_err bad_request (parse_api_workflow_request W (web_db w) request), w) (\<lambda>parsed w.
     try_then (on_web_db (create_workflow (web_plat W) (repo_id repo) (trim (awr_name request))
                 (awr_enabled request) (pw_trigger_json parsed) (pw_definition_json parsed)
                 (pw_job_schemas parsed)) w) (\<lambda>i w.
     try_then (ok_or (get_workflow i (web_db w)) internal_error, w) (\<lambda>workflow w.
     try_then (record_audit_event W user ''workflow.create'' ''workflow'' (Some (wf_id workflow))
                 (Some (wf_name workflow))
                 (JObject [(''enabled'', JBool (awr_enabled request)),
                           (''repo_id'', JString (repo_id repo))]) w) (\<lambda>_ w.
       (workflow_api_view W workflow w, w)))))))"

definition api_update_workflow ::
    "WebEnv \<Rightarrow> User \<Rightarrow> string \<Rightarrow> ApiWorkflowRequest \<Rightarrow> WorkflowApiView handler" where
  "api_update_workflow W user i request w =
     try_then (verify_csrf W user (awr_csrf_token request), w) (\<lambda>_ w.
     try_then (authorized_workflow user i w, w) (\<lambda>workflow w.
     try_then (ensure (wf_repo_id workflow = awr_repo_id request)
                 (bad_request ''workflow repo cannot be changed''), w) (\<lambda>_ w.
     try_then (map_err bad_request (parse_api_workflow_request W (web_db w) request), w) (\<lambda>parsed w.
     try_then (on_web_db (update_workflow (web_plat W) (wf_id workflow) (trim (awr_name request))
                 (awr_enabled request) (pw_trigger_json parsed) (pw_definition_json parsed)
                 (pw_job_schemas parsed)) w) (\<lambda>version_id w.
     try_then (ok_or (get_workflow (wf_id workflow) (web_db w)) (not_found ''workflow''), w) (\<lambda>saved w.
     try_then (record_audit_event W user ''workflow.update'' ''workflow'' (Some (wf_id saved))
                 (Some (wf_name saved))
                 (JObject [(''enabled'', JBool (awr_enabled request)),
                           (''repo_id'', JString (wf_repo_id saved)),
                           (''version_id'', JString version_id)]) w) (\<lambda>_ w.
       (workflow_api_view W saved w, w))))))))"

section \<open>Pipelines\<close>

definition selections_json :: "WorkflowRunArtifactSelection list \<Rightarrow> json" where
  "selections_json selections = JArray (map (\<lambda>s. JObject
     [(''input_name'', JString (sel_input_name s)),
      (''job_index'', JNumber (PosInt (of_nat (sel_job_index s)))),
      (''server_artifact_id'', JString (sel_server_artifact_id s))]) selections)"

definition run_workflow_route ::
    "WebEnv \<Rightarrow> User \<Rightarrow> string \<Rightarrow> string \<Rightarrow> string option \<Rightarrow> string option
      \<Rightarrow> (string, string) btree_map \<Rightarrow> string handler" where
  "run_workflow_route W user csrf i form_branch form_commit submitted w =
     try_then (verify_csrf W user csrf, w) (\<lambda>_ w.
     try_then (authorized_workflow user i w, w) (\<lambda>workflow w.
     try_then (map_err (\<lambda>_. internal_error)
                 (se_parse_trigger (we_sched W) (wf_trigger_json workflow)), w) (\<lambda>trigger w.
     try_then (ensure (trigger_kind trigger = ''manual'')
                 (bad_request ''workflow trigger is not manual''), w) (\<lambda>_ w.
     try_then (ok_or (get_repo (wf_repo_id workflow) (web_db w)) (not_found ''repo''), w) (\<lambda>repo w.
     let branch = (case optional_trimmed_value form_branch of
                     Some b \<Rightarrow> b
                   | None \<Rightarrow> (case trigger_branches trigger of
                               b # _ \<Rightarrow> b | [] \<Rightarrow> repo_default_branch repo));
         commit = (case optional_trimmed_value form_commit of Some c \<Rightarrow> c | None \<Rightarrow> ''HEAD'') in
     try_then (validate_manual_artifact_selections (we_sched W) (web_db w) workflow submitted, w)
       (\<lambda>selections w.
     try_then (on_web_server (enqueue_workflow_run_with_artifacts (we_sched W) workflow ''manual''
                 (Some branch) (Some commit) selections) w) (\<lambda>pipeline_id w.
     try_then (record_audit_event W user ''workflow.run'' ''pipeline'' (Some pipeline_id)
                 (Some (wf_name workflow))
                 (JObject [(''artifact_selections'', selections_json selections),
                           (''workflow_id'', JString (wf_id workflow))]) w) (\<lambda>_ w.
       (Ok (''/pipelines/'' @ pipeline_id), w)))))))))"

definition rerun_pipeline_route :: "WebEnv \<Rightarrow> User \<Rightarrow> string \<Rightarrow> string \<Rightarrow> string handler" where
  "rerun_pipeline_route W user csrf i w =
     try_then (verify_csrf W user csrf, w) (\<lambda>_ w.
     try_then (authorized_pipeline user i w, w) (\<lambda>pipeline w.
     try_then (ok_or (get_workflow_by_version_id (pl_workflow_version_id pipeline) (web_db w))
                 (not_found ''workflow''), w) (\<lambda>workflow w.
     try_then (on_web_server (enqueue_workflow_run_with_artifacts (we_sched W) workflow ''rerun''
                 (pl_trigger_ref pipeline) (pl_commit_sha pipeline)
                 (workflow_run_artifact_selections (pl_id pipeline) (web_db w))) w)
       (\<lambda>new_pipeline_id w. (Ok (''/pipelines/'' @ new_pipeline_id), w)))))"

definition cancel_pipeline_route :: "WebEnv \<Rightarrow> User \<Rightarrow> string \<Rightarrow> string \<Rightarrow> string handler" where
  "cancel_pipeline_route W user csrf i w =
     try_then (verify_csrf W user csrf, w) (\<lambda>_ w.
     try_then (authorized_pipeline user i w, w) (\<lambda>pipeline w.
     try_then (on_web_server (cancel_pipeline (we_sched W) (pl_id pipeline)) w) (\<lambda>_ w.
       (Ok (''/pipelines/'' @ pl_id pipeline), w))))"

section \<open>Downloads\<close>

definition authorize_artifact :: "User \<Rightarrow> ServerArtifact \<Rightarrow> Web \<Rightarrow> (web_response, unit) result" where
  "authorize_artifact user artifact w =
     (if art_scope_type artifact = ''pipeline_source''
      then and_then (authorized_pipeline user (art_scope_id artifact) w) (\<lambda>_. Ok ())
      else if art_scope_type artifact = ''job_output''
      then
        and_then (ok_or (pipeline_for_job_run (art_scope_id artifact) (web_db w)) (not_found ''pipeline''))
          (\<lambda>pipeline. and_then (authorized_pipeline user (pl_id pipeline) w) (\<lambda>_. Ok ()))
      else Err (not_found ''artifact''))"

record Download =
  dl_filename :: string
  dl_length :: nat
  dl_bytes :: string

definition download_route :: "WebEnv \<Rightarrow> User \<Rightarrow> string \<Rightarrow> Web \<Rightarrow> (web_response, Download) result" where
  "download_route W user artifact_id w =
     and_then (ok_or (get_server_artifact_by_id artifact_id (web_db w)) (not_found ''artifact''))
       (\<lambda>artifact.
     and_then (authorize_artifact user artifact w) (\<lambda>_.
     and_then (map_err (\<lambda>_. internal_error) (server_read_bytes (we_sched W) artifact (web_server w)))
       (\<lambda>bytes.
       Ok \<lparr>dl_filename = safe_download_filename (art_artifact_name artifact),
           dl_length = length bytes, dl_bytes = bytes\<rparr>)))"

section \<open>Requests\<close>

text \<open>The forms and API requests that change something, and the dispatch of the router.\<close>

datatype PostRequest =
    PostUser string string string string
  | PostRepo string string string
  | PostTrigger string string "string option" "string option"
  | PostRunner string string string
  | PostToggle string string
  | PostRunnerUpdate string string string string
  | PostRunnerTest string string
  | PostWorkflow WorkflowForm
  | PostWorkflowUpdate string WorkflowForm
  | PostRun string string "string option" "string option" "(string, string) btree_map"
  | PostRerun string string
  | PostCancel string string
  | ApiRepo string string string
  | ApiRunner string string string
  | ApiWorkflow ApiWorkflowRequest
  | ApiWorkflowUpdate string ApiWorkflowRequest

datatype WebAnswer =
    Redirected string | RepoJson Repo | RunnerJson Runner | WorkflowJson WorkflowApiView

fun request_token :: "PostRequest \<Rightarrow> string" where
  "request_token (PostUser csrf _ _ _) = csrf"
| "request_token (PostRepo csrf _ _) = csrf"
| "request_token (PostTrigger csrf _ _ _) = csrf"
| "request_token (PostRunner csrf _ _) = csrf"
| "request_token (PostToggle csrf _) = csrf"
| "request_token (PostRunnerUpdate csrf _ _ _) = csrf"
| "request_token (PostRunnerTest csrf _) = csrf"
| "request_token (PostWorkflow form) = wff_csrf_token form"
| "request_token (PostWorkflowUpdate _ form) = wff_csrf_token form"
| "request_token (PostRun csrf _ _ _ _) = csrf"
| "request_token (PostRerun csrf _) = csrf"
| "request_token (PostCancel csrf _) = csrf"
| "request_token (ApiRepo csrf _ _) = csrf"
| "request_token (ApiRunner csrf _ _) = csrf"
| "request_token (ApiWorkflow request) = awr_csrf_token request"
| "request_token (ApiWorkflowUpdate _ request) = awr_csrf_token request"

definition answer :: "('a \<Rightarrow> WebAnswer) \<Rightarrow> (web_response, 'a) result \<times> Web \<Rightarrow> (web_response, WebAnswer) result \<times> Web" where
  "answer f p = (case p of (r, w) \<Rightarrow> (and_then r (\<lambda>x. Ok (f x)), w))"

fun handle_post :: "WebEnv \<Rightarrow> User \<Rightarrow> PostRequest \<Rightarrow> WebAnswer handler" where
  "handle_post W user (PostUser csrf username password role) w =
     answer Redirected (create_user_route W user csrf username password role w)"
| "handle_post W user (PostRepo csrf name branch) w =
     answer (\<lambda>_. Redirected ''/repos'') (create_repo_route W user csrf name branch w)"
| "handle_post W user (PostTrigger csrf i branch commit) w =
     answer Redirected (trigger_repo_route W user csrf i branch commit w)"
| "handle_post W user (PostRunner csrf name base_url) w =
     answer (\<lambda>_. Redirected ''/runners'') (create_runner_route W user csrf name base_url w)"
| "handle_post W user (PostToggle csrf i) w = answer Redirected (toggle_runner_route W user csrf i w)"
| "handle_post W user (PostRunnerUpdate csrf i name base_url) w =
     answer Redirected (update_runner_route W user csrf i name base_url w)"
| "handle_post W user (PostRunnerTest csrf i) w = answer Redirected (test_runner_route W user csrf i w)"
| "handle_post W user (PostWorkflow form) w = answer Redirected (create_workflow_route W user form w)"
| "handle_post W user (PostWorkflowUpdate i form) w =
     answer Redirected (update_workflow_route W user i form w)"
| "handle_post W user (PostRun csrf i branch commit submitted) w =
     answer Redirected (run_workflow_route W user csrf i branch commit submitted w)"
| "handle_post W user (PostRerun csrf i) w = answer Redirected (rerun_pipeline_route W user csrf i w)"
| "handle_post W user (PostCancel csrf i) w = answer Redirected (cancel_pipeline_route W user csrf i w)"
| "handle_post W user (ApiRepo csrf name branch) w =
     answer RepoJson (api_create_repo W user csrf name branch w)"
| "handle_post W user (ApiRunner csrf name base_url) w =
     answer RunnerJson (api_create_runner W user csrf name base_url w)"
| "handle_post W user (ApiWorkflow request) w =
     answer WorkflowJson (api_create_workflow W user request w)"
| "handle_post W user (ApiWorkflowUpdate i request) w =
     answer WorkflowJson (api_update_workflow W user i request w)"

text \<open>Handlers with the extractor AdminUser look the user up twice.\<close>

fun admin_only :: "PostRequest \<Rightarrow> bool" where
  "admin_only (PostUser _ _ _ _) = True"
| "admin_only (PostRunner _ _ _) = True"
| "admin_only (PostToggle _ _) = True"
| "admin_only (PostRunnerUpdate _ _ _ _) = True"
| "admin_only (PostRunnerTest _ _) = True"
| "admin_only (ApiRunner _ _ _) = True"
| "admin_only _ = False"

definition admin_user :: "WebEnv \<Rightarrow> string option \<Rightarrow> unit handler" where
  "admin_user W cookie w =
     try_then (current_user W cookie w) (\<lambda>user w.
       if \<not> is_admin (us_role user) then (Err auth_redirect, w) else (Ok (), w))"

definition post_request :: "WebEnv \<Rightarrow> string option \<Rightarrow> PostRequest \<Rightarrow> WebAnswer handler" where
  "post_request W cookie request w =
     try_then (if admin_only request then admin_user W cookie w else (Ok (), w)) (\<lambda>_ w.
     try_then (current_user W cookie w) (\<lambda>user w. handle_post W user request w))"

section \<open>Frames\<close>

lemma draw_web_bare_repos [simp]: "web_bare_repos (draw_web w) = web_bare_repos w"
  by (simp add: draw_web_def)

lemma on_web_server_eq:
  "on_web_server f w = (r, w') \<longleftrightarrow>
    (\<exists>r0 s. f (web_server w) = (r0, s) \<and> r = map_err (\<lambda>_. internal_error) r0 \<and> w' = w\<lparr>web_server := s\<rparr>)"
  by (auto simp: on_web_server_def split: prod.splits)

lemma verify_csrf_Inr [simp]: "verify_csrf W user token = Inr u \<longleftrightarrow> token = csrf_token W user"
  by (simp add: verify_csrf_def)

text \<open>An audit event is written for a user the table knows, and after everything before it.\<close>

definition audited_by :: "User \<Rightarrow> string \<Rightarrow> Web \<Rightarrow> Web \<Rightarrow> bool" where
  "audited_by user action w w' \<longleftrightarrow> (\<exists>event. web_audit w' = web_audit w @ [event]
     \<and> ae_action event = action \<and> ae_actor_user_id event = Some (us_id user)
     \<and> ae_actor_username event = Some (us_username user))"

lemma record_audit_event_eq:
  "record_audit_event W actor action tt ti tn metadata w = (r, w') \<Longrightarrow>
    web_server (w') = web_server (if r = Inr () then draw_web w else w)
    \<and> web_users w' = web_users w \<and> web_bare_repos w' = web_bare_repos w
    \<and> (r = Inr () \<longrightarrow> audited_by actor action w w') \<and> (r \<noteq> Inr () \<longrightarrow> w' = w)
    \<and> (r = Inr () \<longleftrightarrow> us_id actor \<in> us_id ` fst ` set (web_users w))"
  by (auto simp: record_audit_event_def create_audit_event_def audited_by_def Let_def draw_web_def
      split: if_splits)

section \<open>Properties\<close>

lemma handle_post_bad_token:
  assumes "request_token request \<noteq> csrf_token W user"
  shows "handle_post W user request w = (Err (forbidden ''csrf validation failed''), w)"
  using assms
  by (cases request)
    (simp_all add: answer_def verify_csrf_def create_user_route_def create_repo_route_def
      trigger_repo_route_def create_runner_route_def toggle_runner_route_def update_runner_route_def
      test_runner_route_def create_workflow_route_def update_workflow_route_def run_workflow_route_def
      rerun_pipeline_route_def cancel_pipeline_route_def api_create_runner_def
      api_create_workflow_def api_update_workflow_def api_create_repo_eq)

lemma current_user_frame:
  assumes "current_user W cookie w = (r, w')"
  shows "w' \<in> {w, draw_web w}" and "r = Inl e \<Longrightarrow> e = auth_redirect"
  using assms current_user_err [of W cookie w _ w'] current_user_ok [of W cookie w _ w']
  by (cases r; auto)+

lemma admin_user_frame:
  assumes "admin_user W cookie w = (r, w')"
  shows "w' \<in> {w, draw_web w}" and "r = Inl e \<Longrightarrow> e = auth_redirect"
  using assms current_user_frame [of W cookie w _ w'] unfolding admin_user_def
  by (auto elim!: try_then_cases split: if_splits)


text \<open>The action a request is recorded as, where it is recorded.\<close>

fun recorded_action :: "PostRequest \<Rightarrow> string option" where
  "recorded_action (PostUser _ _ _ _) = Some ''user.create''"
| "recorded_action (PostRepo _ _ _) = Some ''repo.create''"
| "recorded_action (ApiRepo _ _ _) = Some ''repo.create''"
| "recorded_action (PostRunner _ _ _) = Some ''runner.create''"
| "recorded_action (ApiRunner _ _ _) = Some ''runner.create''"
| "recorded_action (PostToggle _ _) = Some ''runner.update''"
| "recorded_action (PostRunnerUpdate _ _ _ _) = Some ''runner.update''"
| "recorded_action (PostWorkflow _) = Some ''workflow.create''"
| "recorded_action (ApiWorkflow _) = Some ''workflow.create''"
| "recorded_action (PostWorkflowUpdate _ _) = Some ''workflow.update''"
| "recorded_action (ApiWorkflowUpdate _ _) = Some ''workflow.update''"
| "recorded_action (PostRun _ _ _ _ _) = Some ''workflow.run''"
| "recorded_action _ = None"

definition recorded :: "PostRequest \<Rightarrow> User \<Rightarrow> Web \<Rightarrow> Web \<Rightarrow> bool" where
  "recorded request user w w' =
     (case recorded_action request of
        None \<Rightarrow> web_audit w' = web_audit w
      | Some action \<Rightarrow> audited_by user action w w')"

lemma answer_Inr: "answer f p = (Inr a, w) \<longleftrightarrow> (\<exists>x. p = (Inr x, w) \<and> a = f x)"
  by (cases p) (auto simp: answer_def)

lemma on_web_server_audit: "on_web_server f w = (r, w') \<Longrightarrow> web_audit w' = web_audit w"
  by (auto simp: on_web_server_eq)

lemma on_web_db_audit: "on_web_db f w = (r, w') \<Longrightarrow> web_audit w' = web_audit w"
  unfolding on_web_db_def by (rule on_web_server_audit)

lemma cleanup_audit [simp]: "web_audit (cleanup_bare_repo W p w) = web_audit w"
  by (simp add: cleanup_bare_repo_def)

lemma rollback_audit [simp]: "web_audit (rollback_repo_provisioning W i p w) = web_audit w"
  by (simp add: rollback_repo_provisioning_def)

lemma provision_audit: "provision_repo W n m b w = (r, w') \<Longrightarrow> web_audit w' = web_audit w"
  by (auto simp: provision_repo_def register_repo_def Let_def
      split: prod.splits sum.splits option.splits if_splits dest!: on_web_db_audit)

lemma audit_step:
  assumes "record_audit_event W user action tt ti tn metadata v = (Inr u, v')"
    and "web_audit v = web_audit w" "web_audit w' = web_audit v'"
  shows "audited_by user action w w'"
  using record_audit_event_eq [OF assms(1)] assms(2,3) by (auto simp: audited_by_def)

lemma recorded_handlers:
  shows "create_user_route W user csrf name password role w = (Inr a, w') \<Longrightarrow>
      audited_by user ''user.create'' w w'"
    and "create_repo_route W user csrf name branch w = (Inr repo, w') \<Longrightarrow>
      audited_by user ''repo.create'' w w'"
    and "create_runner_route W user csrf name base_url w = (Inr i, w') \<Longrightarrow>
      audited_by user ''runner.create'' w w'"
    and "toggle_runner_route W user csrf i w = (Inr a, w') \<Longrightarrow> audited_by user ''runner.update'' w w'"
    and "update_runner_route W user csrf i name base_url w = (Inr a, w') \<Longrightarrow>
      audited_by user ''runner.update'' w w'"
    and "create_workflow_route W user form w = (Inr a, w') \<Longrightarrow> audited_by user ''workflow.create'' w w'"
    and "update_workflow_route W user i form w = (Inr a, w') \<Longrightarrow> audited_by user ''workflow.update'' w w'"
    and "api_create_workflow W user request w = (Inr view, w') \<Longrightarrow>
      audited_by user ''workflow.create'' w w'"
    and "api_update_workflow W user i request w = (Inr view, w') \<Longrightarrow>
      audited_by user ''workflow.update'' w w'"
    and "run_workflow_route W user csrf i b c submitted w = (Inr a, w') \<Longrightarrow>
      audited_by user ''workflow.run'' w w'"
  subgoal
    by (auto simp: create_user_route_def create_user_def try_then_Inr Let_def
        split: prod.splits if_splits elim!: audit_step)
  subgoal
    by (auto simp: create_repo_route_def repo_event_def try_then_Inr dest!: provision_audit
        elim!: audit_step)
  subgoal
    by (auto simp: create_runner_route_def try_then_Inr dest!: on_web_db_audit on_web_server_audit
        elim!: audit_step)
  subgoal
    by (auto simp: toggle_runner_route_def try_then_Inr Let_def elim!: audit_step)
  subgoal
    by (auto simp: update_runner_route_def try_then_Inr dest!: on_web_db_audit elim!: audit_step)
  subgoal
    by (auto simp: create_workflow_route_def save_new_workflow_def try_then_Inr
        dest!: on_web_db_audit elim!: audit_step)
  subgoal
    by (auto simp: update_workflow_route_def save_workflow_def try_then_Inr
        dest!: on_web_db_audit elim!: audit_step)
  subgoal
    by (auto simp: api_create_workflow_def try_then_Inr dest!: on_web_db_audit elim!: audit_step)
  subgoal
    by (auto simp: api_update_workflow_def try_then_Inr dest!: on_web_db_audit elim!: audit_step)
  subgoal
    by (auto simp: run_workflow_route_def try_then_Inr Let_def dest!: on_web_server_audit
        elim!: audit_step)
  done

lemma unrecorded_handlers:
  shows "trigger_repo_route W user csrf i branch commit w = (Inr a, w') \<Longrightarrow> web_audit w' = web_audit w"
    and "test_runner_route W user csrf i w = (Inr a, w') \<Longrightarrow> web_audit w' = web_audit w"
    and "rerun_pipeline_route W user csrf i w = (Inr a, w') \<Longrightarrow> web_audit w' = web_audit w"
    and "cancel_pipeline_route W user csrf i w = (Inr a, w') \<Longrightarrow> web_audit w' = web_audit w"
  subgoal by (auto simp: trigger_repo_route_def try_then_Inr case_prod_unfold)
  subgoal by (auto simp: test_runner_route_def try_then_Inr dest!: on_web_server_audit)
  subgoal by (auto simp: rerun_pipeline_route_def try_then_Inr dest!: on_web_server_audit)
  subgoal by (auto simp: cancel_pipeline_route_def try_then_Inr dest!: on_web_server_audit)
  done

lemma handle_post_recorded:
  assumes "handle_post W user request w = (Inr a, w')"
  shows "recorded request user w w'"
  using assms recorded_handlers unrecorded_handlers
  by (cases request) (auto simp: recorded_def answer_Inr api_create_runner_def api_create_repo_eq try_then_Inr)


text \<open>No row refers to the repository.\<close>

definition repo_unused :: "string \<Rightarrow> Db \<Rightarrow> bool" where
  "repo_unused i d \<longleftrightarrow> i \<notin> repo_id ` set (db_repos d) \<and> i \<notin> wr_repo_id ` set (db_workflows d)
     \<and> i \<notin> pe_repo_id ` set (db_push_events d) \<and> i \<notin> pl_repo_id ` set (db_pipelines d)"

lemma delete_new_repo:
  assumes "repo_unused i d" "repo_id repo = i"
  shows "delete_repo i (d\<lparr>db_repos := db_repos d @ [repo]\<rparr>) = d"
proof -
  have repos: "filter (\<lambda>r. repo_id r \<noteq> i) (db_repos d) = db_repos d"
    and "filter (\<lambda>w. wr_repo_id w = i) (db_workflows d) = []"
    and "filter (\<lambda>e. pe_repo_id e \<noteq> i) (db_push_events d) = db_push_events d"
    and "filter (\<lambda>p. pl_repo_id p = i) (db_pipelines d) = []"
    using assms(1) by (auto simp: repo_unused_def filter_id_conv filter_empty_conv)
  then show ?thesis using assms(2) by (simp add: delete_repo_def Let_def del: set_filter set_map)
qed

text \<open>Registering a directory that is there: the row and the directory, or neither.\<close>

lemma register_repo_cases:
  assumes run: "register_repo W name normalized branch path w = (r, w')"
    and unused: "repo_unused (uuid_text (web_plat W) (web_seq w)) (web_db w)"
    and made: "path \<in> web_bare_repos w"
  shows "(\<exists>repo. r = Ok repo \<and> repo_bare_path repo = path \<and> repo_name repo = name
        \<and> repo_normalized_name repo = normalized
        \<and> normalized \<notin> repo_normalized_name ` set (db_repos (web_db w))
        \<and> web_bare_repos w' = web_bare_repos w \<and> db_repos (web_db w') = db_repos (web_db w) @ [repo])
    \<or> (r = Err internal_error \<and> web_db w' = (web_db w)\<lparr>db_seq := web_seq w'\<rparr>
        \<and> (web_bare_repos w' = web_bare_repos w - {path}
          \<or> web_bare_repos w' = web_bare_repos w \<and> (\<exists>n e. we_remove_dir W n path = Err e)))"
proof (cases "list_ex (\<lambda>r. repo_normalized_name r = normalized) (db_repos (web_db w))")
  case True
  then have "on_web_db (create_repo (web_plat W) name normalized path branch) w = (Err internal_error, w)"
    by (simp add: on_web_db_def on_web_server_def on_db_def create_repo_def web_db_def)
  then have "r = Err internal_error" "w' = cleanup_bare_repo W path w"
    using run by (auto simp: register_repo_def)
  then show ?thesis
    by (cases "we_remove_dir W (web_seq w) path")
      (auto simp: cleanup_bare_repo_def made web_db_def web_seq_def)
next
  case False
  note absent = False
  define i where "i = uuid_text (web_plat W) (web_seq w)"
  define repo where "repo = \<lparr>repo_id = i, repo_name = name, repo_normalized_name = normalized,
      repo_bare_path = path, repo_default_branch = branch, repo_created_at = clock (web_plat W) (web_seq w)\<rparr>"
  define d where "d = draw (web_db w)"
  define w1 where "w1 = w\<lparr>web_server := (web_server w)\<lparr>srv_db := d\<lparr>db_repos := db_repos d @ [repo]\<rparr>\<rparr>\<rparr>"
  have 1: "on_web_db (create_repo (web_plat W) name normalized path branch) w = (Ok i, w1)"
    using False by (simp add: on_web_db_def on_web_server_def on_db_def create_repo_def web_db_def
        Let_def i_def repo_def d_def w1_def web_seq_def)
  have unused': "repo_unused i d" using unused by (simp add: i_def d_def repo_unused_def)
  have "\<And>r. r \<in> set (db_repos d) \<Longrightarrow> \<not> repo_id r = i"
    using unused' by (auto simp: repo_unused_def)
  then have 2: "get_repo i (web_db w1) = Some repo"
    by (simp add: get_repo_def web_db_def w1_def find_append_none repo_def)
  have undo: "delete_repo i (web_db w1) = d"
    using delete_new_repo [OF unused'] by (simp add: w1_def web_db_def repo_def)
  show ?thesis
  proof (cases "is_ok (we_install_hook W (web_seq w1) path i)")
    case True
    then have "r = Ok repo" "w' = w1" using run by (auto simp: register_repo_def 1 2 repo_def)
    moreover have "normalized \<notin> repo_normalized_name ` set (db_repos (web_db w))"
      using absent by (simp add: list_ex_iff image_iff eq_commute [of normalized])
    ultimately show ?thesis by (simp add: repo_def w1_def web_db_def d_def)
  next
    case False
    then have "r = Err internal_error" "w' = rollback_repo_provisioning W i path w1"
      using run by (auto simp: register_repo_def 1 2 repo_def)
    then show ?thesis
      using undo made
      by (cases "we_remove_dir W (web_seq (w1\<lparr>web_server := with_db (delete_repo i) (web_server w1)\<rparr>)) path")
        (auto simp: rollback_repo_provisioning_def cleanup_bare_repo_def web_db_def web_seq_def
          with_db_def d_def w1_def)
  qed
qed


text \<open>What a runner is registered as; a refresh changes only its health.\<close>

definition runner_entry :: "Runner \<Rightarrow> string \<times> string \<times> string \<times> bool" where
  "runner_entry r = (rn_id r, rn_name r, rn_base_url r, rn_enabled r)"

lemma refresh_keeps_runners:
  assumes "refresh_single_runner E i s = (r, t)"
  shows "map runner_entry (db_runners (srv_db t)) = map runner_entry (db_runners (srv_db s))"
proof -
  have health: "map runner_entry (db_runners (update_runner_health P j st d)) = map runner_entry (db_runners d)"
    for P j st d by (simp add: update_runner_health_def runner_entry_def)
  have jobs: "db_runners (snd (replace_runner_jobs j defs d)) = db_runners d" for j defs d
    by (simp add: replace_runner_jobs_def)
  show ?thesis
    using assms jobs unfolding refresh_single_runner_def on_runner_def on_db_def
    by (auto simp: with_db_def health case_prod_unfold elim!: try_then_cases split: if_splits)
qed


text \<open>Saving the form of a workflow appends one version, made of what the form was parsed to,
and sets the name; it also enables the workflow, whatever it was before: editing a workflow that
was disabled through the API starts it again.  No other workflow, no earlier version and no run
is touched.\<close>

theorem workflow_form_enables_and_versions:
  assumes "update_workflow_route W user i form w = (Ok loc, w')"
  shows "\<exists>parsed v. parse_workflow_form W (web_db w) form = Ok parsed
    \<and> db_versions (web_db w') = db_versions (web_db w) @ [v] \<and> wv_workflow_id v = i
    \<and> wv_trigger_json v = pw_trigger_json parsed \<and> wv_definition_json v = pw_definition_json parsed
    \<and> db_workflows (web_db w') = map (\<lambda>r. if wr_id r = i
         then r\<lparr>wr_name := trim (wff_name form), wr_enabled := True\<rparr> else r) (db_workflows (web_db w))
    \<and> db_pipelines (web_db w') = db_pipelines (web_db w) \<and> db_jobs (web_db w') = db_jobs (web_db w)"
proof -
  obtain workflow parsed w1 where workflow: "authorized_workflow user i w = Inr workflow"
    and parsed: "parse_workflow_form W (web_db w) form = Inr parsed"
    and saved: "save_workflow W user workflow (wff_name form) True parsed w = (Inr (), w1)"
    and w1: "w' = w1"
    using assms by (auto simp: update_workflow_route_def try_then_Inr)
  have i: "wf_id workflow = i"
    using workflow get_workflow_id by (auto simp: authorized_workflow_def split: if_splits)
  obtain version w2 where update: "on_web_db (update_workflow (web_plat W) i (trim (wff_name form)) True
      (pw_trigger_json parsed) (pw_definition_json parsed) (pw_job_schemas parsed)) w = (Inr version, w2)"
    and audit: "web_server w1 = web_server (draw_web w2)"
    using saved by (auto simp: save_workflow_def try_then_Inr i dest!: record_audit_event_eq)
  have "db_versions (web_db w1) = db_versions (web_db w2)" "db_workflows (web_db w1) = db_workflows (web_db w2)"
    "db_pipelines (web_db w1) = db_pipelines (web_db w2)" "db_jobs (web_db w1) = db_jobs (web_db w2)"
    by (simp_all add: web_db_def audit draw_web_def with_db_def)
  then show ?thesis
    using update parsed unfolding w1
    by (auto simp: on_web_db_def on_web_server_eq on_db_def web_db_def update_workflow_def
        update_rows_def Let_def split: prod.splits if_splits)
qed

section \<open>Witnesses\<close>

lemma demo_csrf: "csrf_token demo_web_env user = ''ff''"
proof -
  have "hex_lower [255] = ''ff''" by code_simp
  then show ?thesis by (simp add: csrf_token_def demo_web_env_def)
qed




text \<open>A server whose parser takes every text for the address of one host.\<close>

definition demo_url :: RunnerUrl where
  "demo_url =
     \<lparr>url_scheme = ''https'', url_username = [], url_password = None,
      url_host = Some (HostDomain ''ci.example''), url_path = ''/'', url_query = None,
      url_fragment = None\<rparr>"


text \<open>The workflow of the demonstration, disabled.\<close>

definition demo_disabled_web :: Web where
  "demo_disabled_web = demo_web\<lparr>web_server := with_db (\<lambda>d. d\<lparr>db_workflows :=
     map (\<lambda>r. r\<lparr>wr_enabled := False\<rparr>) (db_workflows d)\<rparr>) (web_server demo_web)\<rparr>"

theorem workflow_form_enables_and_versions_witness:
  "let W = demo_web_env\<lparr>we_parse_jobs := \<lambda>_. Ok (wd_jobs demo_def3)\<rparr> in
   map wr_enabled (db_workflows (web_db demo_disabled_web)) = [False]
   \<and> map wr_enabled (db_workflows (web_db (snd (update_workflow_route W demo_user (uid 2)
         (demo_form\<lparr>wff_csrf_token := ''ff''\<rparr>) demo_disabled_web)))) = [True]"
proof -
  let ?W = "demo_web_env\<lparr>we_parse_jobs := \<lambda>_. Ok (wd_jobs demo_def3)\<rparr>"
  let ?p = "update_workflow_route ?W demo_user (uid 2) (demo_form\<lparr>wff_csrf_token := ''ff''\<rparr>) demo_disabled_web"
  have "fst ?p = Ok (''/workflows/'' @ uid 2)" by code_simp
  then have run: "?p = (Ok (''/workflows/'' @ uid 2), snd ?p)" by (metis prod.collapse)
  have "map wr_enabled (db_workflows (web_db demo_disabled_web)) = [False]"
    "map wr_id (db_workflows (web_db demo_disabled_web)) = [uid 2]" by code_simp+
  then show ?thesis using workflow_form_enables_and_versions [OF run] by (auto simp: Let_def)
qed

end
