(* ===== verification/Server_Cli.thy ===== *)
theory Server_Cli
  imports Janus_Prelude
begin

text \<open>
  The command line of the server (janus-server/src/app.rs, Cli::from_env): the subcommands, their
  options and the configuration file.  The arguments are a list of texts, without the program's
  name.

  Each subcommand scans its options with a loop over an index.  The loop is scan: an option is
  skipped, takes the argument after it (or nothing at the end of the list), or acts alone.
\<close>

section \<open>Commands\<close>

datatype RunnerKeyShowFormat = KeyText | KeyToml

datatype BootstrapPasswordSource = Prompt | Stdin

datatype Command =
    Serve
  | GitResolveRepo string string
  | GitPostReceive string string
  | HookPostReceive string
  | AdminReconcileHooks
  | AdminSeedUser string string string
  | AdminBootstrapAdmin string BootstrapPasswordSource
  | AdminRunnerKeyShow RunnerKeyShowFormat
  | AdminRunnerKeyInit
  | AdminRunnerKeyRotate

record Cli =
  cli_config_path :: string
  cli_command :: Command

definition DEFAULT_SOCKET_PATH :: string where
  "DEFAULT_SOCKET_PATH = ''/var/run/janus_server/control.sock''"

definition default_config_path :: string where "default_config_path = ''server.toml''"

section \<open>Options\<close>

datatype 's opt =
    Skip
  | Takes "string option \<Rightarrow> (string, 's) result"
  | Acts "(string, 's) result"

fun scan :: "('s \<Rightarrow> string \<Rightarrow> 's opt) \<Rightarrow> 's \<Rightarrow> string list \<Rightarrow> (string, 's) result" where
  "scan f s [] = Ok s"
| "scan f s [a] =
     (case f s a of Skip \<Rightarrow> Ok s | Acts r \<Rightarrow> r | Takes g \<Rightarrow> g None)"
| "scan f s (a # b # args) =
     (case f s a of
        Skip \<Rightarrow> scan f s (b # args)
      | Acts r \<Rightarrow> and_then r (\<lambda>s. scan f s (b # args))
      | Takes g \<Rightarrow> and_then (g (Some b)) (\<lambda>s. scan f s args))"

text \<open>What the loops remember; each uses some of the fields.\<close>

record Options =
  op_config :: string
  op_socket :: string
  op_repo :: "string option"
  op_repo_id :: "string option"
  op_username :: "string option"
  op_password :: "string option"
  op_role :: "string option"
  op_source :: BootstrapPasswordSource
  op_format :: RunnerKeyShowFormat

definition default_options :: Options where
  "default_options =
     \<lparr>op_config = default_config_path, op_socket = DEFAULT_SOCKET_PATH, op_repo = None,
      op_repo_id = None, op_username = None, op_password = None, op_role = Some ''admin'',
      op_source = Prompt, op_format = KeyText\<rparr>"

definition take_config :: "Options \<Rightarrow> Options opt" where
  "take_config s =
     Takes (\<lambda>v. and_then (ok_or v ''missing config path'') (\<lambda>path. Ok (s\<lparr>op_config := path\<rparr>)))"

definition take_socket :: "Options \<Rightarrow> Options opt" where
  "take_socket s =
     Takes (\<lambda>v. and_then (ok_or v ''missing socket path'') (\<lambda>path. Ok (s\<lparr>op_socket := path\<rparr>)))"

definition config_option :: "Options \<Rightarrow> string \<Rightarrow> Options opt" where
  "config_option s a = (if a = ''--config'' then take_config s else Skip)"

definition hook_option :: "Options \<Rightarrow> string \<Rightarrow> Options opt" where
  "hook_option s a =
     (if a = ''--repo-id'' then Takes (\<lambda>v. Ok (s\<lparr>op_repo_id := v\<rparr>))
      else if a = ''--config'' then take_config s
      else Skip)"

definition resolve_option :: "Options \<Rightarrow> string \<Rightarrow> Options opt" where
  "resolve_option s a =
     (if a = ''--repo'' then Takes (\<lambda>v. Ok (s\<lparr>op_repo := v\<rparr>))
      else if a = ''--socket-path'' then take_socket s
      else Skip)"

definition receive_option :: "Options \<Rightarrow> string \<Rightarrow> Options opt" where
  "receive_option s a =
     (if a = ''--repo-id'' then Takes (\<lambda>v. Ok (s\<lparr>op_repo_id := v\<rparr>))
      else if a = ''--socket-path'' then take_socket s
      else Skip)"

definition seed_option :: "Options \<Rightarrow> string \<Rightarrow> Options opt" where
  "seed_option s a =
     (if a = ''--username'' then Takes (\<lambda>v. Ok (s\<lparr>op_username := v\<rparr>))
      else if a = ''--password'' then Takes (\<lambda>v. Ok (s\<lparr>op_password := v\<rparr>))
      else if a = ''--role'' then Takes (\<lambda>v. Ok (s\<lparr>op_role := v\<rparr>))
      else if a = ''--config'' then take_config s
      else Skip)"

definition set_bootstrap_password_source ::
    "BootstrapPasswordSource \<Rightarrow> BootstrapPasswordSource \<Rightarrow> (string, BootstrapPasswordSource) result" where
  "set_bootstrap_password_source current next_source =
     (if current \<noteq> Prompt then Err ''only one bootstrap password source may be provided''
      else Ok next_source)"

definition bootstrap_option :: "Options \<Rightarrow> string \<Rightarrow> Options opt" where
  "bootstrap_option s a =
     (if a = ''--username'' then Takes (\<lambda>v. Ok (s\<lparr>op_username := v\<rparr>))
      else if a = ''--password-stdin''
      then Acts (and_then (set_bootstrap_password_source (op_source s) Stdin)
             (\<lambda>source. Ok (s\<lparr>op_source := source\<rparr>)))
      else if a = ''--config'' then take_config s
      else Skip)"

definition key_format :: "string option \<Rightarrow> (string, RunnerKeyShowFormat) result" where
  "key_format v =
     (case v of
        None \<Rightarrow> Err ''missing runner-key format''
      | Some value \<Rightarrow>
          if value = ''text'' then Ok KeyText
          else if value = ''toml'' then Ok KeyToml
          else Err (''unknown runner-key format: '' @ value))"

definition key_option :: "Options \<Rightarrow> string \<Rightarrow> Options opt" where
  "key_option s a =
     (if a = ''--config'' then take_config s
      else if a = ''--format''
      then Takes (\<lambda>v. and_then (key_format v) (\<lambda>format. Ok (s\<lparr>op_format := format\<rparr>)))
      else Skip)"

section \<open>Subcommands\<close>

definition with_config :: "Options \<Rightarrow> Command \<Rightarrow> Cli" where
  "with_config s command = \<lparr>cli_config_path = op_config s, cli_command = command\<rparr>"

definition serve_command :: "string list \<Rightarrow> (string, Cli) result" where
  "serve_command args =
     and_then (scan config_option default_options args) (\<lambda>s. Ok (with_config s Serve))"

definition hook_command :: "string list \<Rightarrow> (string, Cli) result" where
  "hook_command args =
     and_then (scan hook_option default_options args) (\<lambda>s.
     and_then (ok_or (op_repo_id s) ''missing --repo-id'') (\<lambda>repo_id.
       Ok (with_config s (HookPostReceive repo_id))))"

definition resolve_command :: "string list \<Rightarrow> (string, Cli) result" where
  "resolve_command args =
     and_then (scan resolve_option default_options args) (\<lambda>s.
     and_then (ok_or (op_repo s) ''missing --repo'') (\<lambda>repo.
       Ok (with_config s (GitResolveRepo repo (op_socket s)))))"

definition receive_command :: "string list \<Rightarrow> (string, Cli) result" where
  "receive_command args =
     and_then (scan receive_option default_options args) (\<lambda>s.
     and_then (ok_or (op_repo_id s) ''missing --repo-id'') (\<lambda>repo_id.
       Ok (with_config s (GitPostReceive repo_id (op_socket s)))))"

definition reconcile_command :: "string list \<Rightarrow> (string, Cli) result" where
  "reconcile_command args =
     and_then (scan config_option default_options args) (\<lambda>s.
       Ok (with_config s AdminReconcileHooks))"

definition seed_command :: "string list \<Rightarrow> (string, Cli) result" where
  "seed_command args =
     and_then (scan seed_option default_options args) (\<lambda>s.
     and_then (ok_or (op_username s) ''missing --username'') (\<lambda>username.
     and_then (ok_or (op_password s) ''missing --password'') (\<lambda>password.
       Ok (with_config s (AdminSeedUser username password
         (case op_role s of Some role \<Rightarrow> role | None \<Rightarrow> ''admin''))))))"

definition bootstrap_command :: "string list \<Rightarrow> (string, Cli) result" where
  "bootstrap_command args =
     and_then (scan bootstrap_option default_options args) (\<lambda>s.
     and_then (ok_or (op_username s) ''missing --username'') (\<lambda>username.
       Ok (with_config s (AdminBootstrapAdmin username (op_source s)))))"

definition key_command :: "string list \<Rightarrow> (string, Cli) result" where
  "key_command args =
     (let (action, args) = (case args of [] \<Rightarrow> (''show'', []) | a # args \<Rightarrow> (a, args)) in
      and_then (scan key_option default_options args) (\<lambda>s.
        if action = ''init'' then Ok (with_config s AdminRunnerKeyInit)
        else if action = ''show'' then Ok (with_config s (AdminRunnerKeyShow (op_format s)))
        else if action = ''rotate'' then Ok (with_config s AdminRunnerKeyRotate)
        else Err (''unknown runner-key action: '' @ action)))"

definition from_env :: "string list \<Rightarrow> (string, Cli) result" where
  "from_env args =
     (case args of
        [] \<Rightarrow> Ok (with_config default_options Serve)
      | command # args \<Rightarrow>
          if command = ''serve'' then serve_command args
          else
            case args of
              [] \<Rightarrow> Ok (with_config default_options Serve)
            | action # args \<Rightarrow>
                if command = ''hook'' \<and> action = ''post-receive'' then hook_command args
                else if command = ''git'' \<and> action = ''resolve-repo'' then resolve_command args
                else if command = ''git'' \<and> action = ''post-receive'' then receive_command args
                else if command = ''admin'' \<and> action = ''reconcile-hooks'' then reconcile_command args
                else if command = ''admin'' \<and> action = ''seed-user'' then seed_command args
                else if command = ''admin'' \<and> action = ''bootstrap-admin'' then bootstrap_command args
                else if command = ''admin'' \<and> action = ''runner-key'' then key_command args
                else Ok (with_config default_options Serve))"

section \<open>Properties\<close>

text \<open>How a command is written on the command line.\<close>

fun key_format_text :: "RunnerKeyShowFormat \<Rightarrow> string" where
  "key_format_text KeyText = ''text''"
| "key_format_text KeyToml = ''toml''"

fun command_args :: "Command \<Rightarrow> string list" where
  "command_args Serve = [''serve'']"
| "command_args (GitResolveRepo repo socket) =
     [''git'', ''resolve-repo'', ''--repo'', repo, ''--socket-path'', socket]"
| "command_args (GitPostReceive repo_id socket) =
     [''git'', ''post-receive'', ''--socket-path'', socket, ''--repo-id'', repo_id]"
| "command_args (HookPostReceive repo_id) = [''hook'', ''post-receive'', ''--repo-id'', repo_id]"
| "command_args AdminReconcileHooks = [''admin'', ''reconcile-hooks'']"
| "command_args (AdminSeedUser username password role) =
     [''admin'', ''seed-user'', ''--username'', username, ''--password'', password, ''--role'', role]"
| "command_args (AdminBootstrapAdmin username source) =
     [''admin'', ''bootstrap-admin'', ''--username'', username]
       @ (if source = Stdin then [''--password-stdin''] else [])"
| "command_args (AdminRunnerKeyShow format) =
     [''admin'', ''runner-key'', ''show'', ''--format'', key_format_text format]"
| "command_args AdminRunnerKeyInit = [''admin'', ''runner-key'', ''init'']"
| "command_args AdminRunnerKeyRotate = [''admin'', ''runner-key'', ''rotate'']"

text \<open>The two commands that git runs talk to the control socket and read no configuration.\<close>

fun reads_config :: "Command \<Rightarrow> bool" where
  "reads_config (GitResolveRepo _ _) = False"
| "reads_config (GitPostReceive _ _) = False"
| "reads_config _ = True"

definition cli_args :: "Cli \<Rightarrow> string list" where
  "cli_args cli = command_args (cli_command cli)
     @ (if reads_config (cli_command cli) then [''--config'', cli_config_path cli] else [])"

lemmas option_defs = config_option_def hook_option_def resolve_option_def receive_option_def
  seed_option_def bootstrap_option_def key_option_def take_config_def take_socket_def

lemmas command_defs = serve_command_def hook_command_def resolve_command_def receive_command_def
  reconcile_command_def seed_command_def bootstrap_command_def key_command_def

text \<open>C39. Every command can be given on the command line, with any values: what is read from the
arguments of a command is that command with its values and its configuration file, even when a
value looks like an option.\<close>

theorem command_line_round_trip:
  assumes "reads_config (cli_command cli) \<or> cli_config_path cli = default_config_path"
  shows "from_env (cli_args cli) = Ok cli"
proof (cases cli)
  case (fields path command)
  show ?thesis
  proof (cases command)
    case (AdminBootstrapAdmin username source)
    then show ?thesis using assms
      by (cases source) (simp_all add: fields cli_args_def from_env_def command_defs option_defs
          default_options_def with_config_def set_bootstrap_password_source_def)
  next
    case (AdminRunnerKeyShow format)
    then show ?thesis using assms
      by (cases format) (simp_all add: fields cli_args_def from_env_def command_defs option_defs
          default_options_def with_config_def key_format_def)
  qed (use assms in \<open>simp_all add: fields cli_args_def from_env_def command_defs option_defs
      default_options_def with_config_def\<close>)
qed

text \<open>Arguments that name no subcommand start the server, and with the default configuration
file, whatever else they say: a misspelled administration command, a request for help, or
--config without the word serve before it.\<close>

theorem unknown_command_serves:
  assumes "command \<notin> {''serve'', ''hook'', ''git'', ''admin''}
    \<or> command = ''admin'' \<and> take 1 args \<notin> {[''reconcile-hooks''], [''seed-user''], [''bootstrap-admin''], [''runner-key'']}"
  shows "from_env (command # args) = Ok \<lparr>cli_config_path = ''server.toml'', cli_command = Serve\<rparr>"
  using assms
  by (cases args) (auto simp: from_env_def with_config_def default_options_def default_config_path_def)

theorem command_line_round_trip_witness:
  "from_env [''admin'', ''seed-user'', ''--username'', ''--config'', ''--password'', ''x'', ''--role'',
     ''admin'', ''--config'', ''prod.toml'']
   = Ok \<lparr>cli_config_path = ''prod.toml'', cli_command = AdminSeedUser ''--config'' ''x'' ''admin''\<rparr>"
  using command_line_round_trip [of "\<lparr>cli_config_path = ''prod.toml'',
      cli_command = AdminSeedUser ''--config'' ''x'' ''admin''\<rparr>"]
  by (simp add: cli_args_def)

theorem unknown_command_serves_witness:
  "from_env [''--config'', ''prod.toml''] = Ok \<lparr>cli_config_path = ''server.toml'', cli_command = Serve\<rparr>
   \<and> from_env [''admin'', ''bootstrap''] = Ok \<lparr>cli_config_path = ''server.toml'', cli_command = Serve\<rparr>"
  using unknown_command_serves [of "''--config''" "[''prod.toml'']"]
    unknown_command_serves [of "''admin''" "[''bootstrap'']"]
  by simp

end
