(* ===== verification/Control_Socket.thy ===== *)
theory Control_Socket
  imports Web_Routes Server_Cli
begin

text \<open>
  The control socket (janus-server/src/control.rs), through which git talks to the server: finding
  the directory of a repository and reporting a push; the small HTTP client of the git commands;
  and the post-receive hook that is installed in each repository (git.rs).

  The socket is a function from the bytes that are sent to the bytes that come back until it is
  closed; JSON texts are parameters.  The server's side of HTTP is third-party.
\<close>

section \<open>The server's side\<close>

definition control_error :: "nat \<Rightarrow> string \<Rightarrow> web_response" where
  "control_error status error = (status, error)"

definition resolve_repo :: "string \<Rightarrow> Db \<Rightarrow> (web_response, string) result" where
  "resolve_repo repo d =
     and_then (map_err (control_error 400) (validate_repo_name repo)) (\<lambda>normalized.
     case get_repo_by_normalized_name normalized d of
       Some repo \<Rightarrow> Ok (repo_bare_path repo)
     | None \<Rightarrow> Err (control_error 404 ''repository not found''))"

section \<open>The client's side\<close>

definition CRLF :: string where "CRLF = [CHR 0x0D, CHR 0x0A]"

record ControlClient =
  cc_exchange :: "string \<Rightarrow> string \<Rightarrow> (string, string) result"
  cc_resolve_text :: "string \<Rightarrow> string"
  cc_receive_text :: "string \<Rightarrow> string \<Rightarrow> string"
  cc_parse_resolve :: "string \<Rightarrow> (string, string) result"
  cc_parse_error :: "string \<Rightarrow> string option"
  cc_lossy :: "string \<Rightarrow> string"
  cc_utf8_error :: "string \<Rightarrow> string"
  cc_parse_int_error :: "string \<Rightarrow> string"

record ClientResponse =
  cr_status :: nat
  cr_body :: string

definition error_message :: "ControlClient \<Rightarrow> ClientResponse \<Rightarrow> string" where
  "error_message C response =
     (case cc_parse_error C (cr_body response) of
        Some error \<Rightarrow> error
      | None \<Rightarrow> trim (cc_lossy C (cr_body response)))"

fun separator_position :: "string \<Rightarrow> nat option" where
  "separator_position [] = None"
| "separator_position (c # s) =
     (if starts_with (CRLF @ CRLF) (c # s) then Some 0 else map_option Suc (separator_position s))"

text \<open>u16::from_str: an optional plus sign, digits, below 65536.\<close>

definition parse_u16 :: "string \<Rightarrow> nat option" where
  "parse_u16 s =
     (let ds = (case s of c # cs \<Rightarrow> if c = CHR ''+'' then cs else s | [] \<Rightarrow> []) in
      if ds = [] then None
      else Option.bind (digits_value 0 ds) (\<lambda>n. if n < 65536 then Some (nat n) else None))"

definition parse_http_response :: "ControlClient \<Rightarrow> string \<Rightarrow> (string, ClientResponse) result" where
  "parse_http_response C raw =
     and_then (ok_or (separator_position raw) ''malformed control response'') (\<lambda>separator.
     let head = take (separator + 4) raw; body = drop (separator + 4) raw in
     and_then (ensure (utf8_valid head) (cc_utf8_error C head)) (\<lambda>_.
     and_then (case text_lines head of
          line # _ \<Rightarrow>
            (case split_whitespace line of
               _ # status # _ \<Rightarrow> Ok status
             | _ \<Rightarrow> Err ''malformed control response status'')
        | [] \<Rightarrow> Err ''malformed control response status'') (\<lambda>status.
     and_then (ok_or (parse_u16 status) (cc_parse_int_error C status)) (\<lambda>status.
       Ok \<lparr>cr_status = status, cr_body = body\<rparr>))))"

definition control_request :: "string \<Rightarrow> string \<Rightarrow> string" where
  "control_request path body =
     ''POST '' @ path @ '' HTTP/1.1'' @ CRLF @ ''Host: janus-control'' @ CRLF
       @ ''Content-Type: application/json'' @ CRLF @ ''Content-Length: '' @ show_nat (length body) @ CRLF
       @ ''Connection: close'' @ CRLF @ CRLF @ body"

definition request :: "ControlClient \<Rightarrow> string \<Rightarrow> string \<Rightarrow> string \<Rightarrow> (string, ClientResponse) result" where
  "request C socket_path path body =
     and_then (cc_exchange C socket_path (control_request path body)) (parse_http_response C)"

definition resolve_repo_path :: "ControlClient \<Rightarrow> string \<Rightarrow> string \<Rightarrow> (string, string) result" where
  "resolve_repo_path C socket_path repo =
     and_then (request C socket_path ''/git/resolve-repo'' (cc_resolve_text C repo)) (\<lambda>response.
       if \<not> (200 \<le> cr_status response \<and> cr_status response < 300) then Err (error_message C response)
       else cc_parse_resolve C (cr_body response))"

definition send_post_receive :: "ControlClient \<Rightarrow> string \<Rightarrow> string \<Rightarrow> string \<Rightarrow> (string, unit) result" where
  "send_post_receive C socket_path repo refs_raw =
     and_then (request C socket_path ''/git/post-receive'' (cc_receive_text C repo refs_raw)) (\<lambda>response.
       if \<not> (200 \<le> cr_status response \<and> cr_status response < 300) then Err (error_message C response)
       else Ok ())"

section \<open>The hook\<close>

definition hook_script :: "string \<Rightarrow> string \<Rightarrow> string \<Rightarrow> string" where
  "hook_script server_bin socket_path repo =
     ''#!/bin/sh'' @ newline @ ''set -eu'' @ newline
       @ ''exec '' @ [CHR 0x22] @ server_bin @ [CHR 0x22] @ '' git post-receive --socket-path ''
       @ [CHR 0x22] @ socket_path @ [CHR 0x22] @ '' --repo-id '' @ [CHR 0x22] @ repo @ [CHR 0x22] @ newline"

text \<open>What the shell passes to the server's binary when none of the three values needs quoting.\<close>

definition hook_args :: "string \<Rightarrow> string \<Rightarrow> string list" where
  "hook_args socket_path repo =
     [''git'', ''post-receive'', ''--socket-path'', socket_path, ''--repo-id'', repo]"

section \<open>Texts on the wire\<close>

lemma chars_ascii: "\<forall>c \<in> set s. (of_char c :: nat) < 128 \<Longrightarrow> chars s = map (\<lambda>c. [c]) s"
  by (induction s) (auto simp: is_continuation_def split: list.splits)

lemma is_whitespace_char: "is_whitespace [c] \<longleftrightarrow> (of_char c :: nat) \<in> {9, 10, 11, 12, 13, 32}"
  by (simp add: is_whitespace_def bytes_of_def)

lemma split_whitespace_word:
  "\<forall>c \<in> set s. \<not> is_whitespace [c] \<Longrightarrow>
    split_whitespace_from w (map (\<lambda>c. [c]) s @ rest) = split_whitespace_from (w @ s) rest"
  by (induction s arbitrary: w) auto

lemma digits_value_snoc:
  "digits_value a (s @ [c]) = Option.bind (digits_value a s)
     (\<lambda>v. if is_ascii_digit c then Some (v * 10 + (of_char c - 48)) else None)"
  by (induction s arbitrary: a) auto

lemma digit_char:
  fixes k :: nat
  assumes "k < 10"
  shows "is_ascii_digit (char_of (k + 48))" and "(of_char (char_of (k + 48)) :: int) = int k + 48"
proof -
  define c where "c = (char_of (k + 48) :: char)"
  have c: "(of_char c :: nat) = k + 48" using assms by (simp add: c_def)
  then show "is_ascii_digit (char_of (k + 48))"
    unfolding c_def [symmetric] is_ascii_digit_def using assms by simp
  have "(of_char c :: int) = of_nat (of_char c)" by (simp only: of_nat_of_char)
  then show "(of_char (char_of (k + 48)) :: int) = int k + 48"
    unfolding c_def [symmetric] c by simp
qed

lemma show_nat_digits: "\<forall>c \<in> set (show_nat n). is_ascii_digit c"
  by (induction n rule: show_nat.induct) (subst show_nat.simps, use digit_char in auto)

lemma show_nat_nonempty: "show_nat n \<noteq> []"
  by (subst show_nat.simps) simp

lemma digits_value_show_nat: "digits_value 0 (show_nat n) = Some (int n)"
proof (induction n rule: show_nat.induct)
  case (1 n)
  show ?case
  proof (cases "n < 10")
    case True
    then show ?thesis using digit_char [of n] by (subst show_nat.simps) simp
  next
    case False
    then show ?thesis
      using 1 digit_char [of "n mod 10"]
      by (subst show_nat.simps) (simp add: digits_value_snoc zmod_int zdiv_int)
  qed
qed

lemma parse_u16_show_nat: "n < 65536 \<Longrightarrow> parse_u16 (show_nat n) = Some n"
  using show_nat_digits [of n] show_nat_nonempty [of n] digits_value_show_nat [of n]
  by (cases "show_nat n") (auto simp: parse_u16_def is_ascii_digit_def)

text \<open>An answer of an HTTP server that closes the connection: status line, headers, blank line, body.\<close>

definition wire_text :: "string \<Rightarrow> bool" where
  "wire_text s = list_all (\<lambda>c. 32 \<le> (of_char c :: nat) \<and> (of_char c :: nat) < 127) s"

definition http_head :: "nat \<Rightarrow> string \<Rightarrow> string list \<Rightarrow> string" where
  "http_head status reason headers =
     ''HTTP/1.1 '' @ show_nat status @ '' '' @ reason @ concat (map (\<lambda>h. CRLF @ h) headers)"

definition http_reply :: "nat \<Rightarrow> string \<Rightarrow> string list \<Rightarrow> string \<Rightarrow> string" where
  "http_reply status reason headers body = http_head status reason headers @ CRLF @ CRLF @ body"

lemma wire_text_no_cr: "wire_text s \<Longrightarrow> CHR 0x0D \<notin> set s \<and> CHR 0x0A \<notin> set s"
  by (auto simp: wire_text_def list_all_iff)

lemma wire_text_ascii: "wire_text s \<Longrightarrow> c \<in> set s \<Longrightarrow> (of_char c :: nat) < 128"
  by (fastforce simp: wire_text_def list_all_iff)

lemma separator_skip:
  "CHR 0x0D \<notin> set s \<Longrightarrow> separator_position (s @ t) = map_option ((+) (length s)) (separator_position t)"
proof (induction s)
  case (Cons c s)
  then have "\<not> starts_with (CRLF @ CRLF) (c # s @ t)" by (auto simp: starts_with_def CRLF_def)
  then show ?case using Cons by (cases "separator_position t") simp_all
qed (cases "separator_position t", simp_all)

lemma separator_header:
  assumes "h \<noteq> []" "wire_text h"
  shows "separator_position (CRLF @ h @ t) = map_option ((+) (length h + 2)) (separator_position t)"
proof -
  obtain c s where h: "h = c # s" using assms(1) by (cases h) auto
  have "c \<noteq> CHR 0x0D" "CHR 0x0D \<notin> set h" using wire_text_no_cr [OF assms(2)] h by auto
  then show ?thesis
    using separator_skip [of h t]
    by (cases "separator_position t") (simp_all add: h CRLF_def starts_with_def)
qed

lemma separator_of_reply:
  assumes "wire_text reason" "list_all (\<lambda>h. h \<noteq> [] \<and> wire_text h) headers"
  shows "separator_position (http_reply status reason headers body) = Some (length (http_head status reason headers))"
proof -
  let ?line = "''HTTP/1.1 '' @ show_nat status @ '' '' @ reason"
  have "separator_position (concat (map (\<lambda>h. CRLF @ h) headers) @ CRLF @ CRLF @ body)
      = Some (length (concat (map (\<lambda>h. CRLF @ h) headers)))"
    using assms(2)
  proof (induction headers)
    case Nil
    then show ?case by (simp add: CRLF_def starts_with_def)
  next
    case (Cons h headers)
    then show ?case using separator_header [of h "concat (map (\<lambda>h. CRLF @ h) headers) @ CRLF @ CRLF @ body"]
      by (simp add: CRLF_def)
  qed
  moreover have "CHR 0x0D \<notin> set ?line"
    using wire_text_no_cr [OF assms(1)] show_nat_digits [of status] by (auto simp: is_ascii_digit_def)
  ultimately show ?thesis
    using separator_skip [of ?line] by (simp add: http_reply_def http_head_def)
qed

lemma split_on_not_Nil: "split_on d s \<noteq> []"
  by (induction s) (auto split: list.splits)

lemma status_words:
  assumes "wire_text reason"
  shows "\<exists>ws. split_whitespace (''HTTP/1.1 '' @ show_nat status @ '' '' @ reason @ [CHR 0x0D])
    = ''HTTP/1.1'' # show_nat status # ws"
proof -
  let ?v = "''HTTP/1.1''" and ?n = "show_nat status"
  have digits: "\<forall>c \<in> set ?n. (of_char c :: nat) < 128 \<and> \<not> is_whitespace [c]"
    using show_nat_digits [of status] by (auto simp: is_ascii_digit_def is_whitespace_char)
  have reason: "\<forall>c \<in> set reason. (of_char c :: nat) < 128"
    using assms by (auto simp: wire_text_def list_all_iff)
  have "\<forall>c \<in> set (?v @ '' '' @ ?n @ '' '' @ reason @ [CHR 0x0D]). (of_char c :: nat) < 128"
    using digits reason by auto
  then have chars: "chars (?v @ '' '' @ ?n @ '' '' @ reason @ [CHR 0x0D])
      = map (\<lambda>c. [c]) ?v @ '' '' # map (\<lambda>c. [c]) ?n @ '' '' # map (\<lambda>c. [c]) (reason @ [CHR 0x0D])"
    by (subst chars_ascii) simp_all
  have "\<forall>c \<in> set ?v. \<not> is_whitespace [c]" by (simp add: is_whitespace_char)
  then have "split_whitespace (?v @ '' '' @ ?n @ '' '' @ reason @ [CHR 0x0D])
      = ?v # ?n # split_whitespace_from [] (map (\<lambda>c. [c]) (reason @ [CHR 0x0D]))"
    unfolding split_whitespace_def chars
    using split_whitespace_word [of ?v "[]"] split_whitespace_word [of ?n "[]"] digits
      show_nat_nonempty [of status]
    by (simp add: is_whitespace_char)
  then show ?thesis by simp
qed

text \<open>The client understands every answer of such a server.\<close>

lemma request_understood:
  assumes "cc_exchange C socket_path (control_request path sent) = Ok (http_reply status reason headers body)"
    and "status < 65536" "wire_text reason" "list_all (\<lambda>h. h \<noteq> [] \<and> wire_text h) headers"
  shows "request C socket_path path sent = Ok \<lparr>cr_status = status, cr_body = body\<rparr>"
proof -
  let ?head = "http_head status reason headers"
  let ?raw = "http_reply status reason headers body"
  let ?line = "''HTTP/1.1 '' @ show_nat status @ '' '' @ reason"
  have sep: "separator_position ?raw = Some (length ?head)" by (rule separator_of_reply [OF assms(3,4)])
  have take: "take (length ?head + 4) ?raw = ?head @ CRLF @ CRLF" "drop (length ?head + 4) ?raw = body"
    by (simp_all add: http_reply_def CRLF_def)
  have "\<forall>c \<in> set (?head @ CRLF @ CRLF). (of_char c :: nat) < 128"
    using assms(3,4) show_nat_digits [of status]
    by (auto simp: http_head_def CRLF_def list_all_iff is_ascii_digit_def dest: wire_text_ascii)
  then have utf8: "utf8_valid (?head @ CRLF @ CRLF)" by (rule utf8_valid_ascii)
  obtain rest where "concat (map (\<lambda>h. CRLF @ h) headers) @ CRLF @ CRLF = CHR 0x0D # CHR 0x0A # rest"
    by (cases headers) (simp_all add: CRLF_def)
  then have head: "?head @ CRLF @ CRLF = (?line @ [CHR 0x0D]) @ CHR 0x0A # rest"
    by (simp add: http_head_def)
  have "CHR 0x0A \<notin> set (?line @ [CHR 0x0D])"
    using wire_text_no_cr [OF assms(3)] show_nat_digits [of status] by (auto simp: is_ascii_digit_def)
  then have "split_on (CHR 0x0A) (?head @ CRLF @ CRLF) = (?line @ [CHR 0x0D]) # split_on (CHR 0x0A) rest"
    unfolding head by (rule split_on_append_sep)
  then have lines: "text_lines (?head @ CRLF @ CRLF) = (?line @ [CHR 0x0D]) #
      (if last (split_on (CHR 0x0A) rest) = [] then butlast (split_on (CHR 0x0A) rest)
       else split_on (CHR 0x0A) rest)"
    using split_on_not_Nil [of "CHR 0x0A" rest] by (simp add: text_lines_def Let_def)
  obtain ws where words: "split_whitespace (?line @ [CHR 0x0D]) = ''HTTP/1.1'' # show_nat status # ws"
    using status_words [OF assms(3), of status] by auto
  show ?thesis
    unfolding request_def assms(1) and_then.simps parse_http_response_def sep ok_or.simps Let_def take
    by (simp only: utf8 ensure_True and_then.simps lines list.case words parse_u16_show_nat [OF assms(2)]
        ok_or.simps)
qed

section \<open>Properties\<close>

text \<open>What the server answers, as the bytes of an HTTP reply; a body is JSON or empty.\<close>

definition control_reply ::
    "(web_response, string) result \<Rightarrow> (string \<Rightarrow> string) \<Rightarrow> (string \<Rightarrow> string) \<Rightarrow> nat \<Rightarrow> string
      \<Rightarrow> string list \<Rightarrow> string" where
  "control_reply outcome ok_text error_text ok_status reason headers =
     (case outcome of
        Ok v \<Rightarrow> http_reply ok_status reason headers (ok_text v)
      | Err (status, error) \<Rightarrow> http_reply status reason headers (error_text error))"

lemma resolve_repo_status: "resolve_repo repo d = Err (status, error) \<Longrightarrow> status = 400 \<or> status = 404"
  by (auto simp: resolve_repo_def control_error_def and_then_eq_Inl map_err_eq_Inl split: option.splits)

text \<open>The command git runs to find a repository gives exactly what the server found: through the
request, the server's answer in HTTP and the reading of that answer, the caller gets the path of
the repository, or the message of the error; for every well-formed answer, whatever its headers.\<close>

theorem control_client_gets_answer:
  assumes exchange: "cc_exchange C socket_path (control_request ''/git/resolve-repo'' (cc_resolve_text C repo))
      = Ok (control_reply (resolve_repo repo d) ok_text error_text 200 reason headers)"
    and wire: "wire_text reason" "list_all (\<lambda>h. h \<noteq> [] \<and> wire_text h) headers"
    and json: "\<And>path. cc_parse_resolve C (ok_text path) = Ok path"
      "\<And>error. cc_parse_error C (error_text error) = Some error"
  shows "resolve_repo_path C socket_path repo = map_err snd (resolve_repo repo d)"
proof (cases "resolve_repo repo d")
  case (Inr path)
  then show ?thesis
    using exchange wire json(1) by (simp add: resolve_repo_path_def control_reply_def request_understood)
next
  case (Inl response)
  obtain status error where response: "response = (status, error)" by force
  have "status = 400 \<or> status = 404" using resolve_repo_status Inl response by simp
  moreover have "cc_exchange C socket_path (control_request ''/git/resolve-repo'' (cc_resolve_text C repo))
      = Ok (http_reply status reason headers (error_text error))"
    using exchange by (simp add: control_reply_def Inl response)
  then have "status < 65536 \<Longrightarrow> request C socket_path ''/git/resolve-repo'' (cc_resolve_text C repo)
      = Ok \<lparr>cr_status = status, cr_body = error_text error\<rparr>"
    using request_understood [OF _ _ wire] by blast
  ultimately show ?thesis
    by (auto simp: resolve_repo_path_def Inl response error_message_def json(2))
qed

lemma repo_name_no_space:
  assumes "repo_name_char g" shows "\<not> is_whitespace g"
  using assms
  by (auto simp: repo_name_char_def is_whitespace_char is_ascii_alphanumeric_def
      is_ascii_alphabetic_def is_ascii_upper_def is_ascii_lower_def is_ascii_digit_def
      split: list.splits)

lemma trim_of_name: "list_all repo_name_char (chars s) \<Longrightarrow> trim s = s"
proof -
  assume a: "list_all repo_name_char (chars s)"
  have "dropWhile is_whitespace (chars s) = chars s"
    using a repo_name_no_space by (cases "chars s") auto
  moreover have "dropWhile is_whitespace (rev (chars s)) = rev (chars s)"
  proof (cases "rev (chars s)")
    case (Cons g gs)
    then have "g \<in> set (chars s)" by (metis list.set_intros(1) set_rev)
    then show ?thesis using a repo_name_no_space Cons by (auto simp: list_all_iff)
  qed simp
  ultimately show "trim s = s" by (simp add: trim_def)
qed

lemma validate_trimmed_name: "validate_repo_name name = Ok n \<Longrightarrow> validate_repo_name (trim name) = Ok n"
  using trim_of_name [of "trim name"] by (auto simp: validate_repo_name_def Let_def split: if_splits)



section \<open>Witnesses\<close>

text \<open>A socket that gives one answer, with texts in place of JSON.\<close>

definition demo_control :: "string \<Rightarrow> ControlClient" where
  "demo_control reply =
     \<lparr>cc_exchange = (\<lambda>_ _. Ok reply), cc_resolve_text = (\<lambda>s. s), cc_receive_text = (\<lambda>r s. r @ s),
      cc_parse_resolve = Ok, cc_parse_error = Some, cc_lossy = (\<lambda>s. s), cc_utf8_error = (\<lambda>_. ''utf8''),
      cc_parse_int_error = (\<lambda>_. ''int'')\<rparr>"

lemma demo_headers: "wire_text ''OK'' \<and> list_all (\<lambda>h. h \<noteq> [] \<and> wire_text h) [''connection: close'']"
  by code_simp

theorem control_client_gets_answer_witness:
  "resolve_repo_path (demo_control (http_reply 200 ''OK'' [''connection: close''] ''/r'')) ''/sock'' '' R ''
     = Ok ''/r''"
proof -
  let ?d = "demo_db3 ''success'' ''success'' ''success'' ''success''"
  have found: "resolve_repo '' R '' ?d = Ok ''/r''" by code_simp
  have "resolve_repo_path (demo_control (http_reply 200 ''OK'' [''connection: close''] ''/r'')) ''/sock'' '' R ''
      = map_err snd (resolve_repo '' R '' ?d)"
    by (rule control_client_gets_answer [where ok_text = "\<lambda>s. s" and error_text = "\<lambda>s. s" and
        reason = "''OK''" and headers = "[''connection: close'']"])
      (use demo_headers in \<open>simp_all add: demo_control_def control_reply_def found\<close>)
  then show ?thesis by (simp add: found)
qed



end
