(* ===== verification/Server_Process.thy ===== *)
theory Server_Process
  imports Control_Socket Request_Signing
begin

text \<open>
  The server's process (janus-server/src/main.rs, app.rs): what each command of the command line
  does, the passwords and hooks they deal with, and the file of the control socket.

  A process has the disk with the keys and the configuration, the tables, the hooks in the bare
  repositories (the text of the file by the path of the repository) and what it printed.  Terminal,
  standard input, directories and the opening of the database are I/O and come as ProcessEnv; the
  n-th hook that is written answers for n, and says whether the file was written.  Command::Serve
  ends here with the state the server starts from.
\<close>

section \<open>The process\<close>

record ProcessEnv =
  pe_web :: WebEnv
  pe_signing :: SigningLib
  pe_torn :: "ConfigDoc \<Rightarrow> nat \<Rightarrow> toml_file"
  pe_io :: faults
  pe_control :: ControlClient
  pe_path :: "string \<Rightarrow> path"
  pe_stdin :: "(string, string) result"
  pe_prompt :: "string \<Rightarrow> (string, string) result"
  pe_storage :: "(string, unit) result"
  pe_artifacts :: "(string, unit) result"
  pe_read_dir :: "path \<Rightarrow> (string, path list) result option"
  pe_write_hook :: "nat \<Rightarrow> string \<Rightarrow> bool \<times> (string, unit) result"
  pe_server_bin :: string
  pe_socket_path :: string

record Process =
  pr_disk :: KeyDisk
  pr_web :: Web
  pr_hooks :: "string \<Rightarrow> string option"
  pr_written :: nat
  pr_printed :: "string list"

type_synonym 'a process_op = "Process \<Rightarrow> (string, 'a) result \<times> Process"

definition on_disk :: "'a key_op \<Rightarrow> 'a process_op" where
  "on_disk f s = (case f (pr_disk s) of (r, d) \<Rightarrow> (r, s\<lparr>pr_disk := d\<rparr>))"

definition on_web :: "'a web_op \<Rightarrow> 'a process_op" where
  "on_web f s = (case f (pr_web s) of (r, w) \<Rightarrow> (r, s\<lparr>pr_web := w\<rparr>))"

definition println :: "string list \<Rightarrow> Process \<Rightarrow> Process" where
  "println ls s = s\<lparr>pr_printed := pr_printed s @ ls\<rparr>"

section \<open>Starting\<close>

definition build_state :: "ProcessEnv \<Rightarrow> string \<Rightarrow> RunnerSigner process_op" where
  "build_state E config_path s =
     try_then (load_runner_auth (pe_io E) (pe_path E config_path) (pr_disk s), s) (\<lambda>config s.
     try_then (pe_storage E, s) (\<lambda>_ s.
     let s = s\<lparr>pr_web := cleanup_expired_sessions (pe_web E) (pr_web s)\<rparr> in
     try_then (on_disk (load_or_generate (pe_signing E) (pe_io E) config) s) (\<lambda>signer s.
     try_then (pe_artifacts E, s) (\<lambda>_ s. (Ok signer, s)))))"

section \<open>Passwords\<close>

definition trim_line_ends :: "string \<Rightarrow> string" where
  "trim_line_ends v = rev (dropWhile (\<lambda>c. c \<in> {CHR 0x0D, CHR 0x0A}) (rev v))"

definition prompt_confirmed_password :: "ProcessEnv \<Rightarrow> (string, string) result" where
  "prompt_confirmed_password E =
     and_then (pe_prompt E ''Password: '') (\<lambda>password.
     and_then (pe_prompt E ''Confirm password: '') (\<lambda>confirmation.
       if password \<noteq> confirmation then Err ''passwords do not match'' else Ok password))"

fun password_from_source :: "ProcessEnv \<Rightarrow> BootstrapPasswordSource \<Rightarrow> (string, string) result" where
  "password_from_source E Prompt = prompt_confirmed_password E"
| "password_from_source E Stdin = and_then (pe_stdin E) (\<lambda>password. Ok (trim_line_ends password))"

section \<open>Keys\<close>

definition trust_toml :: "SigningLib \<Rightarrow> RunnerSigner \<Rightarrow> string list" where
  "trust_toml L signer =
     (let quoted = (\<lambda>v. [CHR 0x22] @ v @ [CHR 0x22]);
          public_key = sg_encode L (sg_public L (rs_signing_key signer)) in
      [''[[auth.servers]]'', ''name = '' @ quoted (rs_key_id signer),
       ''key_id = '' @ quoted (rs_key_id signer), ''public_key = '' @ quoted public_key,
       ''permissions = ['' @ quoted ''artifacts:write'' @ '', '' @ quoted ''artifacts:read'' @ '', ''
         @ quoted ''jobs:run'' @ '', '' @ quoted ''jobs:read'' @ '', '' @ quoted ''logs:read'' @ '']''])"

definition is_pub_file :: "path \<Rightarrow> bool" where
  "is_pub_file p \<longleftrightarrow> p \<noteq> [] \<and> ends_with ''.pub'' (last p) \<and> 4 < length (last p)"

definition public_key_lines :: "ProcessEnv \<Rightarrow> KeyDisk \<Rightarrow> path list \<Rightarrow> string list \<Rightarrow> (string, unit) result \<times> string list" where
  "public_key_lines E disk =
     each_st (\<lambda>p out.
       case io_text (utf8_checked (io_read (pe_io E) p (kd_files disk p))) of
         Err e \<Rightarrow> (Err e, out)
       | Ok key \<Rightarrow> (Ok (), out @ [path_display p @ '' = '' @ trim key]))"

definition print_public_key_files :: "ProcessEnv \<Rightarrow> path \<Rightarrow> unit process_op" where
  "print_public_key_files E active s =
     (if active = [] then (Ok (), s)
      else case pe_read_dir E (butlast active) of
        None \<Rightarrow> (Ok (), s)
      | Some listed \<Rightarrow>
          try_then (listed, s) (\<lambda>entries s.
          let public_keys = sort (filter is_pub_file entries) in
          if public_keys = [] then (Ok (), s)
          else case public_key_lines E (pr_disk s) public_keys [] of
            (r, out) \<Rightarrow> (r, println ([[], ''public key files''] @ out) s)))"

definition show_runner_key :: "ProcessEnv \<Rightarrow> string \<Rightarrow> RunnerKeyShowFormat \<Rightarrow> unit process_op" where
  "show_runner_key E config_path format s =
     try_then (load_runner_auth (pe_io E) (pe_path E config_path) (pr_disk s), s) (\<lambda>config s.
     try_then (on_disk (load_or_generate (pe_signing E) (pe_io E) config) s) (\<lambda>signer s.
     let toml = trust_toml (pe_signing E) signer in
     if format = KeyToml then (Ok (), println toml s)
     else
       let s = println ([''active runner signing key'', ''key_id = '' @ rs_key_id signer,
           ''public_key = '' @ sg_encode (pe_signing E) (sg_public (pe_signing E) (rs_signing_key signer)),
           [], ''runner config snippet''] @ toml) s in
       case rac_public_key_path config of
         None \<Rightarrow> (Ok (), s)
       | Some public_key_path \<Rightarrow> print_public_key_files E public_key_path s))"

section \<open>Hooks\<close>

definition hook_post_receive :: "ProcessEnv \<Rightarrow> string \<Rightarrow> unit process_op" where
  "hook_post_receive E repo s =
     try_then (pe_stdin E, s) (\<lambda>raw s.
       let refs = read_push_refs raw in
       on_web (\<lambda>w.
         case create_push_event (web_plat (pe_web E)) repo (event_key (we_digest (pe_web E)) repo refs)
             refs (web_db w) of
           (r, d) \<Rightarrow> (map_err id (and_then r (\<lambda>_. Ok ())), w\<lparr>web_server := with_db (\<lambda>_. d) (web_server w)\<rparr>)) s)"

definition install_post_receive_hook :: "ProcessEnv \<Rightarrow> string \<Rightarrow> string \<Rightarrow> unit process_op" where
  "install_post_receive_hook E bare_path repo s =
     (case pe_write_hook E (pr_written s) bare_path of
        (written, r) \<Rightarrow>
          (r, s\<lparr>pr_written := Suc (pr_written s),
                pr_hooks := (if written
                  then (pr_hooks s)(bare_path \<mapsto> hook_script (pe_server_bin E) (pe_socket_path E) repo)
                  else pr_hooks s)\<rparr>))"

definition reconcile_hooks :: "ProcessEnv \<Rightarrow> unit process_op" where
  "reconcile_hooks E s =
     each_st (\<lambda>repo. install_post_receive_hook E (repo_bare_path repo) (repo_id repo))
       (list_repos (web_db (pr_web s))) s"

section \<open>Commands\<close>

definition bootstrap_command_op :: "ProcessEnv \<Rightarrow> string \<Rightarrow> string \<Rightarrow> string \<Rightarrow> unit process_op" where
  "bootstrap_command_op E config_path username password s =
     try_then (load_runner_auth (pe_io E) (pe_path E config_path) (pr_disk s), s) (\<lambda>_ s.
     try_then (pe_storage E, s) (\<lambda>_ s.
     try_then (on_web (bootstrap_admin (pe_web E) username password) s) (\<lambda>_ s.
       (Ok (), println [''bootstrapped admin user '' @ trim username] s))))"

definition with_state :: "ProcessEnv \<Rightarrow> Cli \<Rightarrow> unit process_op \<Rightarrow> unit process_op" where
  "with_state E cli f s = try_then (build_state E (cli_config_path cli) s) (\<lambda>_ s. f s)"

definition run_command :: "ProcessEnv \<Rightarrow> Cli \<Rightarrow> unit process_op" where
  "run_command E cli s =
     (case cli_command cli of
        AdminRunnerKeyInit \<Rightarrow>
          on_disk (init_runner_key (pe_signing E) (pe_torn E) (pe_io E) (pe_path E (cli_config_path cli))) s
      | AdminRunnerKeyShow format \<Rightarrow> show_runner_key E (cli_config_path cli) format s
      | AdminRunnerKeyRotate \<Rightarrow>
          on_disk (rotate_runner_key (pe_signing E) (pe_torn E) (pe_io E) (pe_path E (cli_config_path cli))) s
      | AdminBootstrapAdmin username source \<Rightarrow>
          try_then (password_from_source E source, s) (\<lambda>password s.
            bootstrap_command_op E (cli_config_path cli) username password s)
      | GitResolveRepo repo socket_path \<Rightarrow>
          try_then (resolve_repo_path (pe_control E) socket_path repo, s) (\<lambda>bare_path s.
            (Ok (), println [bare_path] s))
      | GitPostReceive repo socket_path \<Rightarrow>
          try_then (pe_stdin E, s) (\<lambda>refs_raw s.
            (send_post_receive (pe_control E) socket_path repo refs_raw, s))
      | Serve \<Rightarrow> with_state E cli (\<lambda>s. (Ok (), s)) s
      | HookPostReceive repo \<Rightarrow> with_state E cli (hook_post_receive E repo) s
      | AdminReconcileHooks \<Rightarrow> with_state E cli (reconcile_hooks E) s
      | AdminSeedUser username password role \<Rightarrow>
          with_state E cli (on_web (seed_user (pe_web E) username password role)) s)"

section \<open>The control socket\<close>

text \<open>
  The entry at the path of the socket with its permissions, and the umask of the process.  As
  POSIX has it, bind fails when there is an entry, and makes one with the permissions 0777 without
  those in the umask.  What the directory, the removal, the bind and the chmod answer is I/O.
\<close>

datatype SocketEntry = NoEntry | SocketFile "32 word" | OtherFile

record SocketIo =
  so_create_dir :: "(string, unit) result"
  so_metadata :: "(string, unit) result"
  so_remove :: "(string, unit) result"
  so_bind :: "(string, unit) result"
  so_chmod :: "(string, unit) result"

record SocketState =
  sk_entry :: SocketEntry
  sk_umask :: "32 word"

unbundle bit_operations_syntax

definition prepare_control_socket_path ::
    "SocketIo \<Rightarrow> string \<Rightarrow> SocketState \<Rightarrow> (string, unit) result \<times> SocketState" where
  "prepare_control_socket_path io socket_path s =
     try_then (so_create_dir io, s) (\<lambda>_ s.
     try_then (so_metadata io, s) (\<lambda>_ s.
       case sk_entry s of
         NoEntry \<Rightarrow> (Ok (), s)
       | SocketFile _ \<Rightarrow> try_then (so_remove io, s) (\<lambda>_ s. (Ok (), s\<lparr>sk_entry := NoEntry\<rparr>))
       | OtherFile \<Rightarrow> (Err (''control socket path exists and is not a socket: '' @ socket_path), s)))"

definition bind_control_socket :: "SocketIo \<Rightarrow> 32 word \<Rightarrow> SocketState \<Rightarrow> (string, unit) result \<times> SocketState" where
  "bind_control_socket io mode s =
     (let old_umask = sk_umask s;
          s = s\<lparr>sk_umask := NOT mode AND 0x1FF\<rparr>;
          (r, s) =
            (if sk_entry s \<noteq> NoEntry then (Err ''Address already in use'', s)
             else case so_bind io of
               Err e \<Rightarrow> (Err e, s)
             | Ok _ \<Rightarrow> (Ok (), s\<lparr>sk_entry := SocketFile (0x1FF AND NOT (sk_umask s))\<rparr>)) in
      (r, s\<lparr>sk_umask := old_umask\<rparr>))"

definition set_control_socket_mode :: "SocketIo \<Rightarrow> 32 word \<Rightarrow> SocketState \<Rightarrow> (string, unit) result \<times> SocketState" where
  "set_control_socket_mode io mode s =
     try_then (so_chmod io, s) (\<lambda>_ s. (Ok (), s\<lparr>sk_entry := SocketFile (mode AND 0xFFF)\<rparr>))"

text \<open>A chmod that fails is logged.\<close>

definition spawn_control_server ::
    "SocketIo \<Rightarrow> string \<Rightarrow> 32 word \<Rightarrow> SocketState \<Rightarrow> (string, unit) result \<times> SocketState" where
  "spawn_control_server io socket_path mode s =
     try_then (prepare_control_socket_path io socket_path s) (\<lambda>_ s.
     try_then (bind_control_socket io mode s) (\<lambda>_ s.
       (Ok (), snd (set_control_socket_mode io mode s))))"

section \<open>Properties\<close>

lemma umask_mode: "0x1FF AND NOT (NOT mode AND 0x1FF) = mode AND 0x1FF" for mode :: "32 word"
  by (rule bit_word_eqI) (auto simp: bit_simps)

lemma umask_normal: "0x1FF AND (mode OR - 0x200) = mode AND 0x1FF" for mode :: "32 word"
  using umask_mode [of mode] by simp

lemma within_mode: "(mode AND m) AND NOT mode = 0" for mode m :: "32 word"
  by (rule bit_word_eqI) (auto simp: bit_simps)

lemma bind_control_socket_eq:
  "bind_control_socket io mode s =
     (if sk_entry s \<noteq> NoEntry then (Err ''Address already in use'', s)
      else case so_bind io of
        Err e \<Rightarrow> (Err e, s)
      | Ok _ \<Rightarrow> (Ok (), s\<lparr>sk_entry := SocketFile (mode AND 0x1FF)\<rparr>))"
  by (simp add: bind_control_socket_def Let_def umask_normal split: sum.splits)

lemma set_control_socket_mode_state:
  "snd (set_control_socket_mode io mode s) =
     (if is_ok (so_chmod io) then s\<lparr>sk_entry := SocketFile (mode AND 0xFFF)\<rparr> else s)"
  by (cases "so_chmod io") (simp_all add: set_control_socket_mode_def)

text \<open>C35. The control socket is never open to more than its configured permissions: from the bind on,
before and after the chmod and also when that fails, the socket has no permission that the mode
does not give, and exactly those of the mode for owner, group and others.  The umask is put back
on every path, and a file at the path that is not a socket is never removed.\<close>

theorem control_socket_confined:
  assumes "spawn_control_server io socket_path mode s = (r, t)"
  shows "sk_umask t = sk_umask s
    \<and> (sk_entry s = OtherFile \<longrightarrow> t = s \<and> r \<noteq> Ok ())
    \<and> (r = Ok () \<longrightarrow> (\<exists>m. sk_entry t = SocketFile m \<and> m AND NOT mode = 0 \<and> m AND 0x1FF = mode AND 0x1FF))
    \<and> (\<forall>u. bind_control_socket io mode (s\<lparr>sk_entry := NoEntry\<rparr>) = (Ok (), u)
        \<longrightarrow> sk_entry u = SocketFile (mode AND 0x1FF) \<and> sk_umask u = sk_umask s)"
proof -
  have low: "(mode AND 0xFFF) AND 0x1FF = mode AND 0x1FF" "(mode AND 0x1FF) AND 0x1FF = mode AND 0x1FF"
    by (simp_all add: and.assoc)
  have prepared: "u = s \<or> sk_entry s \<noteq> OtherFile \<and> u = s\<lparr>sk_entry := NoEntry\<rparr>"
    if "prepare_control_socket_path io socket_path s = (p, u)" for p u
    using that unfolding prepare_control_socket_path_def
    by (auto elim!: try_then_cases split: SocketEntry.splits)
  have other: "sk_entry s = OtherFile \<Longrightarrow> t = s \<and> r \<noteq> Ok ()"
    using assms unfolding spawn_control_server_def prepare_control_socket_path_def
    by (auto elim!: try_then_cases)
  from assms have "sk_umask t = sk_umask s
    \<and> (r = Ok () \<longrightarrow> (\<exists>m. sk_entry t = SocketFile m \<and> m AND NOT mode = 0 \<and> m AND 0x1FF = mode AND 0x1FF))"
    unfolding spawn_control_server_def bind_control_socket_eq set_control_socket_mode_state
    by (auto elim!: try_then_cases dest!: prepared split: if_splits sum.splits
        simp: within_mode low intro: exI)
  then show ?thesis using other by (auto simp: bind_control_socket_eq split: if_splits sum.splits)
qed

abbreviation install_hooks :: "ProcessEnv \<Rightarrow> Repo list \<Rightarrow> unit process_op" where
  "install_hooks E \<equiv> each_st (\<lambda>repo. install_post_receive_hook E (repo_bare_path repo) (repo_id repo))"

lemma install_hook_step:
  assumes "install_post_receive_hook E p i s = (q, v)"
  shows "pr_web v = pr_web s \<and> pr_disk v = pr_disk s \<and> pr_printed v = pr_printed s
    \<and> q = snd (pe_write_hook E (pr_written s) p)
    \<and> pr_hooks v = (if fst (pe_write_hook E (pr_written s) p)
        then (pr_hooks s)(p \<mapsto> hook_script (pe_server_bin E) (pe_socket_path E) i) else pr_hooks s)"
  using assms by (auto simp: install_post_receive_hook_def split: prod.splits)

lemma install_hooks_frame:
  assumes "install_hooks E repos s = (r, t)"
  shows "pr_web t = pr_web s \<and> pr_disk t = pr_disk s \<and> pr_printed t = pr_printed s
    \<and> (\<forall>p. p \<notin> repo_bare_path ` set repos \<longrightarrow> pr_hooks t p = pr_hooks s p)"
  using assms
proof (induction repos arbitrary: s)
  case (Cons repo repos)
  obtain q v where v: "install_post_receive_hook E (repo_bare_path repo) (repo_id repo) s = (q, v)" by force
  note step = install_hook_step [OF v]
  show ?case
  proof (cases q)
    case (Inl e)
    then have "t = v" using Cons.prems v by simp
    then show ?thesis using step by simp
  next
    case (Inr x)
    then have "install_hooks E repos v = (r, t)" using Cons.prems v by simp
    from Cons.IH [OF this] show ?thesis using step by simp
  qed
qed simp

lemma hooks_installed:
  assumes "install_hooks E repos s = (Ok u, t)"
    and "distinct (map repo_bare_path repos)"
    and written: "\<And>n p. snd (pe_write_hook E n p) = Ok () \<Longrightarrow> fst (pe_write_hook E n p)"
  shows "\<forall>repo \<in> set repos. pr_hooks t (repo_bare_path repo)
    = Some (hook_script (pe_server_bin E) (pe_socket_path E) (repo_id repo))"
  using assms(1,2)
proof (induction repos arbitrary: s)
  case (Cons repo repos)
  obtain q v where v: "install_post_receive_hook E (repo_bare_path repo) (repo_id repo) s = (q, v)" by force
  note step = install_hook_step [OF v]
  have q: "q = Ok ()" and rest: "install_hooks E repos v = (Ok u, t)"
    using Cons.prems(1) v by (auto simp: try_then_Inr)
  have "pr_hooks t (repo_bare_path repo)
      = Some (hook_script (pe_server_bin E) (pe_socket_path E) (repo_id repo))"
    using install_hooks_frame [OF rest] Cons.prems(2) step q written by simp
  then show ?case using Cons.IH [OF rest] Cons.prems(2) by simp
qed simp

lemma hook_args_command:
  "from_env (hook_args socket_path repo)
    = Ok \<lparr>cli_config_path = default_config_path, cli_command = GitPostReceive repo socket_path\<rparr>"
  by (simp add: hook_args_def from_env_def command_defs option_defs default_options_def with_config_def)

lemma build_state_frame:
  assumes "build_state E path s = (r, t)"
  shows "web_db (pr_web t) \<in> {web_db (pr_web s), web_db (draw_web (pr_web s))}
    \<and> web_users (pr_web t) = web_users (pr_web s) \<and> web_audit (pr_web t) = web_audit (pr_web s)
    \<and> web_bare_repos (pr_web t) = web_bare_repos (pr_web s) \<and> pr_hooks t = pr_hooks s
    \<and> pr_printed t = pr_printed s"
  using assms unfolding build_state_def Let_def on_disk_def cleanup_expired_sessions_def
  by (auto elim!: try_then_cases split: prod.splits simp: web_db_def)

text \<open>The command that reconciles the hooks, when it succeeds, has put a hook into every repository of
the table; the hook starts the command that reports a push of this very repository over the
server's socket.  The repositories, the users and the audit log stay, and so does every hook
outside these repositories; that also when the command fails.\<close>

theorem reconciled_hooks:
  assumes run: "run_command E \<lparr>cli_config_path = config, cli_command = AdminReconcileHooks\<rparr> s = (r, t)"
    and written: "\<And>n p. snd (pe_write_hook E n p) = Ok () \<Longrightarrow> fst (pe_write_hook E n p)"
    and paths: "distinct (map repo_bare_path (list_repos (web_db (pr_web s))))"
  shows "(r = Ok () \<longrightarrow> (\<forall>repo \<in> set (db_repos (web_db (pr_web s))).
        pr_hooks t (repo_bare_path repo)
          = Some (hook_script (pe_server_bin E) (pe_socket_path E) (repo_id repo))
        \<and> from_env (hook_args (pe_socket_path E) (repo_id repo))
          = Ok \<lparr>cli_config_path = default_config_path,
                cli_command = GitPostReceive (repo_id repo) (pe_socket_path E)\<rparr>))
    \<and> db_repos (web_db (pr_web t)) = db_repos (web_db (pr_web s))
    \<and> web_users (pr_web t) = web_users (pr_web s) \<and> web_audit (pr_web t) = web_audit (pr_web s)
    \<and> (\<forall>p. p \<notin> repo_bare_path ` set (db_repos (web_db (pr_web s))) \<longrightarrow> pr_hooks t p = pr_hooks s p)"
proof -
  obtain b u where b: "build_state E config s = (b, u)" by force
  have frame: "db_repos (web_db (pr_web u)) = db_repos (web_db (pr_web s))"
      "web_users (pr_web u) = web_users (pr_web s)" "web_audit (pr_web u) = web_audit (pr_web s)"
      "pr_hooks u = pr_hooks s"
    using build_state_frame [OF b] by (auto simp: draw_web_def web_db_def with_db_def)
  have repos: "list_repos (web_db (pr_web u)) = list_repos (web_db (pr_web s))"
      "set (list_repos (web_db (pr_web s))) = set (db_repos (web_db (pr_web s)))"
    using frame(1) by (simp_all add: list_repos_def)
  show ?thesis
  proof (cases b)
    case (Inl e)
    then have "r = Err e" "t = u" using run b by (simp_all add: run_command_def with_state_def)
    then show ?thesis using frame by simp
  next
    case (Inr signer)
    then have loop: "install_hooks E (list_repos (web_db (pr_web s))) u = (r, t)"
      using run b repos by (simp add: run_command_def with_state_def reconcile_hooks_def)
    have "\<forall>repo \<in> set (list_repos (web_db (pr_web s))). pr_hooks t (repo_bare_path repo)
        = Some (hook_script (pe_server_bin E) (pe_socket_path E) (repo_id repo))" if "r = Ok ()"
      using hooks_installed [OF loop [unfolded that] paths written] .
    moreover have "from_env (hook_args socket repo) = Ok \<lparr>cli_config_path = default_config_path,
        cli_command = GitPostReceive repo socket\<rparr>" for socket repo
      by (rule hook_args_command)
    ultimately show ?thesis using install_hooks_frame [OF loop] frame repos(2) by simp
  qed
qed

text \<open>The command of an old hook, which opens the database itself, records the same event as the
request over the control socket, and fails exactly when the socket does not answer 204.\<close>

theorem direct_hook_agrees_with_socket:
  assumes "pe_stdin E = Ok raw"
    and "post_receive (web_plat (pe_web E)) (we_digest (pe_web E)) repo raw (web_db (pr_web s)) = ((status, e), d)"
  shows "fst (hook_post_receive E repo s) = (if status = 204 then Ok () else Err e)
    \<and> web_db (pr_web (snd (hook_post_receive E repo s))) = d"
  using assms
  by (auto simp: hook_post_receive_def post_receive_def Let_def on_web_def with_db_def web_db_def
      split: prod.splits sum.splits)

lemma hook_post_receive_frame:
  assumes "hook_post_receive E repo s = (r, t)"
  shows "web_users (pr_web t) = web_users (pr_web s) \<and> web_audit (pr_web t) = web_audit (pr_web s)
    \<and> pr_hooks t = pr_hooks s"
  using assms unfolding hook_post_receive_def Let_def on_web_def
  by (auto elim!: try_then_cases split: prod.splits)

lemma seed_user_frame:
  assumes "seed_user W name password role w = (r, v)"
  shows "web_audit v = web_audit w \<and> web_sessions v = web_sessions w"
  using assms unfolding seed_user_def create_user_def Let_def
  by (auto elim!: try_then_cases split: if_splits)

lemma show_runner_key_frame:
  assumes "show_runner_key E path format s = (r, t)"
  shows "pr_web t = pr_web s \<and> pr_hooks t = pr_hooks s"
  using assms unfolding show_runner_key_def print_public_key_files_def on_disk_def println_def Let_def
  by (auto elim!: try_then_cases split: if_splits prod.splits option.splits)

lemma with_state_frame:
  assumes "with_state E cli f s = (r, t)"
    and step: "\<And>u. f u = (r, t) \<Longrightarrow> pr_hooks t = pr_hooks u \<and> web_audit (pr_web t) = web_audit (pr_web u)"
  shows "pr_hooks t = pr_hooks s \<and> web_audit (pr_web t) = web_audit (pr_web s)"
proof -
  obtain b u where b: "build_state E (cli_config_path cli) s = (b, u)" by force
  note frame = build_state_frame [OF b]
  show ?thesis
  proof (cases b)
    case (Inl e)
    then show ?thesis using assms(1) b frame by (simp add: with_state_def)
  next
    case (Inr signer)
    then have "f u = (r, t)" using assms(1) b by (simp add: with_state_def)
    from step [OF this] show ?thesis using frame by simp
  qed
qed

text \<open>Each command keeps to its part: the commands of git change nothing here, those of the signing key
only the disk, the first administrator only the tables; a push reported directly and a seeded user
leave hooks and audit log alone, so that seeding a user leaves no audit event.\<close>

theorem commands_keep_to_their_part:
  "case run_command E cli s of (r, t) \<Rightarrow>
     (case cli_command cli of
        GitResolveRepo _ _ \<Rightarrow> pr_disk t = pr_disk s \<and> pr_web t = pr_web s \<and> pr_hooks t = pr_hooks s
      | GitPostReceive _ _ \<Rightarrow> t = s
      | AdminRunnerKeyInit \<Rightarrow> pr_web t = pr_web s \<and> pr_hooks t = pr_hooks s
      | AdminRunnerKeyRotate \<Rightarrow> pr_web t = pr_web s \<and> pr_hooks t = pr_hooks s
      | AdminRunnerKeyShow _ \<Rightarrow> pr_web t = pr_web s \<and> pr_hooks t = pr_hooks s
      | AdminBootstrapAdmin _ _ \<Rightarrow> pr_disk t = pr_disk s \<and> pr_hooks t = pr_hooks s
      | AdminReconcileHooks \<Rightarrow> True
      | _ \<Rightarrow> pr_hooks t = pr_hooks s \<and> web_audit (pr_web t) = web_audit (pr_web s))"
proof -
  obtain r t where run: "run_command E cli s = (r, t)" by force
  show ?thesis
  proof (cases "cli_command cli")
    case Serve
    then show ?thesis using run with_state_frame [of E cli "\<lambda>s. (Ok (), s)" s r t]
      by (simp add: run_command_def)
  next
    case (HookPostReceive repo)
    then show ?thesis using run with_state_frame [of E cli "hook_post_receive E repo" s r t] hook_post_receive_frame
      by (simp add: run_command_def)
  next
    case (AdminSeedUser username password role)
    have "pr_hooks t = pr_hooks u \<and> web_audit (pr_web t) = web_audit (pr_web u)"
      if "on_web (seed_user (pe_web E) username password role) u = (r, t)" for u
      using that seed_user_frame by (auto simp: on_web_def split: prod.splits)
    then show ?thesis
      using AdminSeedUser run with_state_frame [of E cli "on_web (seed_user (pe_web E) username password role)" s r t]
      by (simp add: run_command_def)
  next
    case (AdminRunnerKeyShow format)
    then show ?thesis using run show_runner_key_frame by (simp add: run_command_def)
  qed (use run in \<open>auto simp: run_command_def on_disk_def on_web_def println_def bootstrap_command_op_def
      elim!: try_then_cases split: prod.splits\<close>)
qed

theorem control_socket_confined_witness:
  "let io = \<lparr>so_create_dir = Ok (), so_metadata = Ok (), so_remove = Ok (), so_bind = Ok (),
        so_chmod = Err ''Operation not permitted''\<rparr>;
     (r, t) = spawn_control_server io ''/run/control.sock'' 0x1B0
       \<lparr>sk_entry = SocketFile 0x1FF, sk_umask = 0x12\<rparr> in
   r = Ok () \<and> sk_umask t = 0x12 \<and> (\<exists>m. sk_entry t = SocketFile m \<and> m AND NOT 0x1B0 = 0)"
proof -
  define io where "io = \<lparr>so_create_dir = Ok (), so_metadata = Ok (), so_remove = Ok (), so_bind = Ok (),
        so_chmod = Err ''Operation not permitted''\<rparr>"
  obtain r t where run: "spawn_control_server io ''/run/control.sock'' 0x1B0
       \<lparr>sk_entry = SocketFile 0x1FF, sk_umask = 0x12\<rparr> = (r, t)" by force
  then have "r = Ok ()"
    by (auto simp: spawn_control_server_def prepare_control_socket_path_def bind_control_socket_eq io_def)
  then show ?thesis
    using control_socket_confined [OF run] by (simp add: Let_def run flip: io_def) blast
qed

end
