(* ===== verification/Schema_Rows.thy ===== *)
theory Schema_Rows
  imports Scheduler_Invariants Scheduler_Demo
begin

text \<open>
  How the definitions of jobs lie in the tables (janus-server/src/db.rs): a row for the job and a
  row for each of its inputs and outputs, for the jobs a runner advertises and for the schemas that
  are saved with a version of a workflow.  Server_Db keeps a definition as one value; the theorems
  say that the rows implement it.

  An operation runs in a transaction: it returns the tables it leaves, or an error, and then the
  tables stay.  A number is stored as i64, so a u64 is cast on the way in and on the way out.  The
  message of a column that cannot be converted is the inner one.
\<close>

section \<open>Rows\<close>

record InputRow =
  inr_id :: string
  inr_job :: string
  inr_input_name :: string
  inr_input_type :: string
  inr_required :: int
  inr_sensitive :: int
  inr_max_length :: "int option"
  inr_pattern :: "string option"
  inr_max_json_bytes :: "int option"

record OutputRow =
  our_id :: string
  our_job :: string
  our_output_name :: string
  our_output_type :: string
  our_required :: int
  our_output_path :: string

record RunnerJobRow =
  rjr_id :: string
  rjr_runner_id :: string
  rjr_job_name :: string
  rjr_concurrency :: string
  rjr_timeout_seconds :: int
  rjr_last_refreshed_at :: string

record VersionSchemaRow =
  vsr_id :: string
  vsr_workflow_version_id :: string
  vsr_job_index :: int
  vsr_job_name :: string
  vsr_concurrency :: string
  vsr_timeout_seconds :: int

text \<open>The tables of inputs and outputs come twice, below the two tables of jobs.\<close>

record DefTables =
  dt_seq :: nat
  dt_inputs :: "InputRow list"
  dt_outputs :: "OutputRow list"

record RunnerJobTables = DefTables +
  dt_jobs :: "RunnerJobRow list"

record VersionTables = DefTables +
  dt_schemas :: "VersionSchemaRow list"

definition as_i64 :: "u64 \<Rightarrow> int" where "as_i64 w = sint w"
definition as_u64 :: "int \<Rightarrow> u64" where "as_u64 i = word_of_int i"
definition bool_i64 :: "bool \<Rightarrow> int" where "bool_i64 b = (if b then 1 else 0)"

section \<open>Writing a definition\<close>

definition input_row ::
    "DbPlat \<Rightarrow> string \<Rightarrow> string \<times> JobInputDefinitionResponse \<Rightarrow> nat \<Rightarrow> InputRow" where
  "input_row P job = (\<lambda>(name, input) n.
     \<lparr>inr_id = uuid_text P n, inr_job = job, inr_input_name = name,
      inr_input_type = InputType_as_str (jid_kind input),
      inr_required = bool_i64 (jid_required input), inr_sensitive = bool_i64 (jid_sensitive input),
      inr_max_length = map_option as_i64 (jid_max_length input), inr_pattern = jid_pattern input,
      inr_max_json_bytes = map_option as_i64 (jid_max_json_bytes input)\<rparr>)"

definition output_row ::
    "DbPlat \<Rightarrow> string \<Rightarrow> string \<times> JobOutputDefinitionResponse \<Rightarrow> nat \<Rightarrow> OutputRow" where
  "output_row P job = (\<lambda>(name, out) n.
     \<lparr>our_id = uuid_text P n, our_job = job, our_output_name = name,
      our_output_type = OutputType_as_str (jod_kind out),
      our_required = bool_i64 (jod_required out), our_output_path = jod_path out\<rparr>)"

text \<open>The unique keys (runner_job_id, input_name) and the like; the message names the table.\<close>

definition insert_input ::
    "DbPlat \<Rightarrow> string \<Rightarrow> string \<Rightarrow> string \<times> JobInputDefinitionResponse \<Rightarrow> 'a DefTables_scheme
      \<Rightarrow> (string, 'a DefTables_scheme) result" where
  "insert_input P message job input t =
     (if \<exists>r \<in> set (dt_inputs t). inr_job r = job \<and> inr_input_name r = fst input then Err message
      else Ok (t\<lparr>dt_seq := Suc (dt_seq t),
                 dt_inputs := dt_inputs t @ [input_row P job input (dt_seq t)]\<rparr>))"

definition insert_output ::
    "DbPlat \<Rightarrow> string \<Rightarrow> string \<Rightarrow> string \<times> JobOutputDefinitionResponse \<Rightarrow> 'a DefTables_scheme
      \<Rightarrow> (string, 'a DefTables_scheme) result" where
  "insert_output P message job out t =
     (if \<exists>r \<in> set (dt_outputs t). our_job r = job \<and> our_output_name r = fst out then Err message
      else Ok (t\<lparr>dt_seq := Suc (dt_seq t),
                 dt_outputs := dt_outputs t @ [output_row P job out (dt_seq t)]\<rparr>))"

definition insert_runner_job_definition ::
    "DbPlat \<Rightarrow> string \<Rightarrow> JobDefinitionResponse \<Rightarrow> 'a DefTables_scheme
      \<Rightarrow> (string, 'a DefTables_scheme) result" where
  "insert_runner_job_definition P job schema t =
     and_then (for_each (insert_input P ''UNIQUE constraint failed: runner_job_inputs'' job)
         (jdr_inputs schema) t)
       (for_each (insert_output P ''UNIQUE constraint failed: runner_job_outputs'' job)
         (jdr_outputs schema))"

section \<open>Reading a definition\<close>

definition parse_runner_input_type :: "string \<Rightarrow> (string, InputType) result" where
  "parse_runner_input_type v = ok_or (InputType_parse v) (''invalid runner input type '' @ v)"

definition parse_runner_output_type :: "string \<Rightarrow> (string, OutputType) result" where
  "parse_runner_output_type v = ok_or (OutputType_parse v) (''invalid runner output type '' @ v)"

definition parse_runner_concurrency :: "string \<Rightarrow> (string, Concurrency) result" where
  "parse_runner_concurrency v = ok_or (Concurrency_parse v) (''invalid runner concurrency '' @ v)"

definition input_of_row :: "InputRow \<Rightarrow> (string, string \<times> JobInputDefinitionResponse) result" where
  "input_of_row r =
     and_then (parse_runner_input_type (inr_input_type r)) (\<lambda>kind.
       Ok (inr_input_name r,
         \<lparr>jid_kind = kind, jid_required = (inr_required r \<noteq> 0), jid_sensitive = (inr_sensitive r \<noteq> 0),
          jid_max_length = map_option as_u64 (inr_max_length r), jid_pattern = inr_pattern r,
          jid_max_json_bytes = map_option as_u64 (inr_max_json_bytes r)\<rparr>))"

definition output_of_row :: "OutputRow \<Rightarrow> (string, string \<times> JobOutputDefinitionResponse) result" where
  "output_of_row r =
     and_then (parse_runner_output_type (our_output_type r)) (\<lambda>kind.
       Ok (our_output_name r,
         \<lparr>jod_kind = kind, jod_path = our_output_path r, jod_required = (our_required r \<noteq> 0)\<rparr>))"

definition load_runner_job_definition ::
    "'a DefTables_scheme \<Rightarrow> string \<Rightarrow> string \<Rightarrow> string \<Rightarrow> int \<Rightarrow> (string, JobDefinitionResponse) result" where
  "load_runner_job_definition t job name concurrency timeout_seconds =
     and_then (collect_results input_of_row
         (sort_key inr_input_name (filter (\<lambda>r. inr_job r = job) (dt_inputs t)))) (\<lambda>inputs.
     and_then (collect_results output_of_row
         (sort_key our_output_name (filter (\<lambda>r. our_job r = job) (dt_outputs t)))) (\<lambda>outputs.
     and_then (parse_runner_concurrency concurrency) (\<lambda>c.
       Ok \<lparr>jdr_name = name, jdr_concurrency = c, jdr_timeout_seconds = as_u64 timeout_seconds,
           jdr_inputs = bt_of_list inputs, jdr_outputs = bt_of_list outputs\<rparr>)))"

section \<open>The jobs of a runner\<close>

text \<open>Deleting the jobs of a runner deletes their inputs and outputs (ON DELETE CASCADE).\<close>

definition delete_runner_jobs :: "string \<Rightarrow> RunnerJobTables \<Rightarrow> RunnerJobTables" where
  "delete_runner_jobs i t =
     (let ids = map rjr_id (filter (\<lambda>r. rjr_runner_id r = i) (dt_jobs t)) in
      t\<lparr>dt_jobs := filter (\<lambda>r. rjr_runner_id r \<noteq> i) (dt_jobs t),
        dt_inputs := filter (\<lambda>r. inr_job r \<notin> set ids) (dt_inputs t),
        dt_outputs := filter (\<lambda>r. our_job r \<notin> set ids) (dt_outputs t)\<rparr>)"

definition insert_runner_job ::
    "DbPlat \<Rightarrow> bool \<Rightarrow> string \<Rightarrow> JobDefinitionResponse \<Rightarrow> RunnerJobTables
      \<Rightarrow> (string, RunnerJobTables) result" where
  "insert_runner_job P runner_known i job t =
     (let id = uuid_text P (dt_seq t);
          row = \<lparr>rjr_id = id, rjr_runner_id = i, rjr_job_name = jdr_name job,
            rjr_concurrency = Concurrency_as_str (jdr_concurrency job),
            rjr_timeout_seconds = as_i64 (jdr_timeout_seconds job),
            rjr_last_refreshed_at = clock P (Suc (dt_seq t))\<rparr> in
      if \<exists>r \<in> set (dt_jobs t). rjr_runner_id r = i \<and> rjr_job_name r = jdr_name job
      then Err ''UNIQUE constraint failed: runner_jobs.runner_id, runner_jobs.job_name''
      else if \<not> runner_known then Err FK_FAILED
      else insert_runner_job_definition P id job
        (t\<lparr>dt_seq := Suc (Suc (dt_seq t)), dt_jobs := dt_jobs t @ [row]\<rparr>))"

definition replace_runner_job_rows ::
    "DbPlat \<Rightarrow> bool \<Rightarrow> string \<Rightarrow> JobDefinitionResponse list \<Rightarrow> RunnerJobTables
      \<Rightarrow> (string, RunnerJobTables) result" where
  "replace_runner_job_rows P runner_known i jobs t =
     for_each (insert_runner_job P runner_known i) jobs (delete_runner_jobs i t)"

definition load_job_row :: "RunnerJobTables \<Rightarrow> RunnerJobRow \<Rightarrow> (string, JobDefinitionResponse) result" where
  "load_job_row t r =
     load_runner_job_definition t (rjr_id r) (rjr_job_name r) (rjr_concurrency r)
       (rjr_timeout_seconds r)"

definition list_runner_job_rows ::
    "string \<Rightarrow> RunnerJobTables \<Rightarrow> (string, JobDefinitionResponse list) result" where
  "list_runner_job_rows i t =
     collect_results (load_job_row t)
       (sort_key rjr_job_name (filter (\<lambda>r. rjr_runner_id r = i) (dt_jobs t)))"

section \<open>The schemas of a version\<close>

definition insert_version_schema ::
    "DbPlat \<Rightarrow> string \<Rightarrow> nat \<times> JobDefinitionResponse \<Rightarrow> VersionTables \<Rightarrow> (string, VersionTables) result" where
  "insert_version_schema P version = (\<lambda>(job_index, schema) t.
     (let id = uuid_text P (dt_seq t);
          row = \<lparr>vsr_id = id, vsr_workflow_version_id = version, vsr_job_index = int job_index,
            vsr_job_name = jdr_name schema,
            vsr_concurrency = Concurrency_as_str (jdr_concurrency schema),
            vsr_timeout_seconds = as_i64 (jdr_timeout_seconds schema)\<rparr> in
      if \<exists>r \<in> set (dt_schemas t). vsr_workflow_version_id r = version \<and> vsr_job_index r = int job_index
      then Err ''UNIQUE constraint failed: workflow_version_job_schemas''
      else
        and_then (for_each
            (insert_input P ''UNIQUE constraint failed: workflow_version_job_schema_inputs'' id)
            (jdr_inputs schema) (t\<lparr>dt_seq := Suc (dt_seq t), dt_schemas := dt_schemas t @ [row]\<rparr>))
          (for_each
            (insert_output P ''UNIQUE constraint failed: workflow_version_job_schema_outputs'' id)
            (jdr_outputs schema))))"

definition insert_version_schema_rows ::
    "DbPlat \<Rightarrow> string \<Rightarrow> JobDefinitionResponse list \<Rightarrow> VersionTables \<Rightarrow> (string, VersionTables) result" where
  "insert_version_schema_rows P version schemas =
     for_each (insert_version_schema P version) (enumerate 0 schemas)"

definition load_workflow_version_job_schema ::
    "VersionTables \<Rightarrow> string \<Rightarrow> string \<Rightarrow> string \<Rightarrow> int \<Rightarrow> (string, JobDefinitionResponse) result" where
  "load_workflow_version_job_schema t schema_id name concurrency timeout_seconds =
     and_then (collect_results input_of_row
         (sort_key inr_input_name (filter (\<lambda>r. inr_job r = schema_id) (dt_inputs t)))) (\<lambda>inputs.
     and_then (collect_results output_of_row
         (sort_key our_output_name (filter (\<lambda>r. our_job r = schema_id) (dt_outputs t)))) (\<lambda>outputs.
     and_then (parse_runner_concurrency concurrency) (\<lambda>c.
       Ok \<lparr>jdr_name = name, jdr_concurrency = c, jdr_timeout_seconds = as_u64 timeout_seconds,
           jdr_inputs = bt_of_list inputs, jdr_outputs = bt_of_list outputs\<rparr>)))"

definition load_schema_row :: "VersionTables \<Rightarrow> VersionSchemaRow \<Rightarrow> (string, JobDefinitionResponse) result" where
  "load_schema_row t r =
     load_workflow_version_job_schema t (vsr_id r) (vsr_job_name r) (vsr_concurrency r)
       (vsr_timeout_seconds r)"

definition workflow_job_schema_rows ::
    "string \<Rightarrow> VersionTables \<Rightarrow> (string, JobDefinitionResponse list) result" where
  "workflow_job_schema_rows version t =
     collect_results (load_schema_row t)
       (sort_key vsr_job_index (filter (\<lambda>r. vsr_workflow_version_id r = version) (dt_schemas t)))"

section \<open>Lemmas\<close>

lemma insort_related:
  assumes "map f xs = map g ys" "f x = g y"
    and keys: "\<And>x y. f x = g y \<Longrightarrow> ka x = kb y"
  shows "map f (insort_key ka x xs) = map g (insort_key kb y ys)"
  using assms(1)
proof (induction xs arbitrary: ys)
  case (Cons a xs)
  then obtain b zs where ys: "ys = b # zs" "f a = g b" "map f xs = map g zs"
    by (auto simp: map_eq_Cons_conv Cons_eq_map_conv)
  then show ?case using Cons.IH [OF ys(3)] keys [OF assms(2)] keys [OF ys(2)] assms(2) by simp
qed (use assms(2) in simp)

lemma sort_related:
  assumes "map f xs = map g ys"
    and keys: "\<And>x y. f x = g y \<Longrightarrow> ka x = kb y"
  shows "map f (sort_key ka xs) = map g (sort_key kb ys)"
  using assms(1)
proof (induction xs arbitrary: ys)
  case (Cons a xs)
  then obtain b zs where ys: "ys = b # zs" "f a = g b" "map f xs = map g zs"
    by (auto simp: map_eq_Cons_conv Cons_eq_map_conv)
  then show ?case
    using insort_related [where ka = ka and kb = kb, OF Cons.IH [OF ys(3)] ys(2) keys] by simp
qed simp

lemma filter_related:
  assumes "map f xs = map g ys" and "\<And>x y. f x = g y \<Longrightarrow> p x = q y"
  shows "map f (filter p xs) = map g (filter q ys)"
  using assms(1)
proof (induction xs arbitrary: ys)
  case (Cons a xs)
  then obtain b zs where ys: "ys = b # zs" "f a = g b" "map f xs = map g zs"
    by (auto simp: map_eq_Cons_conv Cons_eq_map_conv)
  then show ?case using Cons.IH [OF ys(3)] assms(2) [OF ys(2)] by simp
qed simp

lemma bt_insert_last: "\<forall>e \<in> set m. fst e < k \<Longrightarrow> bt_insert k v m = m @ [(k, v)]"
  by (induction k v m rule: bt_insert.induct) auto

lemma bt_of_list_id: "bt_wf m \<Longrightarrow> bt_of_list m = m"
proof (induction m rule: rev_induct)
  case (snoc e m)
  then have "bt_wf m" "\<forall>x \<in> set m. fst x < fst e" by (auto simp: bt_wf_def sorted_wrt_append)
  then have "bt_of_list m = m" "bt_insert (fst e) (snd e) m = m @ [e]"
    using snoc.IH bt_insert_last [of m "fst e" "snd e"] by auto
  then show ?case by (cases e) (simp add: bt_of_list_def)
qed (simp add: bt_of_list_def)

lemma as_u64_as_i64 [simp]: "as_u64 (as_i64 w) = w"
  by (simp add: as_u64_def as_i64_def)

lemma bool_i64_neq [simp]: "bool_i64 b \<noteq> 0 \<longleftrightarrow> b"
  by (simp add: bool_i64_def)

lemma map_option_as_u64 [simp]: "map_option as_u64 (map_option as_i64 v) = v"
  by (cases v) simp_all

lemma input_of_input_row [simp]: "input_of_row (input_row P job e n) = Ok e"
  by (cases e) (simp add: input_of_row_def input_row_def parse_runner_input_type_def input_type.dec_enc)

lemma output_of_output_row [simp]: "output_of_row (output_row P job e n) = Ok e"
  by (cases e) (simp add: output_of_row_def output_row_def parse_runner_output_type_def output_type.dec_enc)

lemma row_fields [simp]:
  "inr_job (input_row P job e n) = job" "inr_input_name (input_row P job e n) = fst e"
  "our_job (output_row P job out n) = job" "our_output_name (output_row P job out n) = fst out"
  by (simp_all add: input_row_def output_row_def case_prod_unfold)

lemma inserted_inputs:
  assumes "distinct (map fst m)"
    and "\<forall>r \<in> set (dt_inputs t). inr_job r = job \<longrightarrow> inr_input_name r \<notin> fst ` set m"
  shows "\<exists>new. for_each (insert_input P message job) m t
        = Ok (t\<lparr>dt_seq := dt_seq t + length m, dt_inputs := dt_inputs t @ new\<rparr>)
      \<and> map input_of_row new = map Ok m \<and> map inr_input_name new = map fst m
      \<and> (\<forall>r \<in> set new. inr_job r = job)"
  using assms
proof (induction m arbitrary: t)
  case (Cons e m)
  let ?t = "t\<lparr>dt_seq := Suc (dt_seq t), dt_inputs := dt_inputs t @ [input_row P job e (dt_seq t)]\<rparr>"
  have step: "insert_input P message job e t = Ok ?t"
    using Cons.prems(2) by (auto simp: insert_input_def)
  have "\<forall>r \<in> set (dt_inputs ?t). inr_job r = job \<longrightarrow> inr_input_name r \<notin> fst ` set m"
    using Cons.prems by auto
  then obtain new where "for_each (insert_input P message job) m ?t
        = Ok (?t\<lparr>dt_seq := dt_seq ?t + length m, dt_inputs := dt_inputs ?t @ new\<rparr>)"
      "map input_of_row new = map Ok m" "map inr_input_name new = map fst m"
      "\<forall>r \<in> set new. inr_job r = job"
    using Cons.IH [of ?t] Cons.prems(1) by auto
  then show ?case
    by (intro exI [of _ "input_row P job e (dt_seq t) # new"]) (simp add: step)
qed (intro exI [of _ "[]"]; simp)

lemma inserted_outputs:
  assumes "distinct (map fst m)"
    and "\<forall>r \<in> set (dt_outputs t). our_job r = job \<longrightarrow> our_output_name r \<notin> fst ` set m"
  shows "\<exists>new. for_each (insert_output P message job) m t
        = Ok (t\<lparr>dt_seq := dt_seq t + length m, dt_outputs := dt_outputs t @ new\<rparr>)
      \<and> map output_of_row new = map Ok m \<and> map our_output_name new = map fst m
      \<and> (\<forall>r \<in> set new. our_job r = job)"
  using assms
proof (induction m arbitrary: t)
  case (Cons e m)
  let ?t = "t\<lparr>dt_seq := Suc (dt_seq t), dt_outputs := dt_outputs t @ [output_row P job e (dt_seq t)]\<rparr>"
  have step: "insert_output P message job e t = Ok ?t"
    using Cons.prems(2) by (auto simp: insert_output_def)
  have "\<forall>r \<in> set (dt_outputs ?t). our_job r = job \<longrightarrow> our_output_name r \<notin> fst ` set m"
    using Cons.prems by auto
  then obtain new where "for_each (insert_output P message job) m ?t
        = Ok (?t\<lparr>dt_seq := dt_seq ?t + length m, dt_outputs := dt_outputs ?t @ new\<rparr>)"
      "map output_of_row new = map Ok m" "map our_output_name new = map fst m"
      "\<forall>r \<in> set new. our_job r = job"
    using Cons.IH [of ?t] Cons.prems(1) by auto
  then show ?case
    by (intro exI [of _ "output_row P job e (dt_seq t) # new"]) (simp add: step)
qed (intro exI [of _ "[]"]; simp)

text \<open>Definitions come from BTreeMaps.\<close>

definition schema_wf :: "JobDefinitionResponse \<Rightarrow> bool" where
  "schema_wf s \<longleftrightarrow> bt_wf (jdr_inputs s) \<and> bt_wf (jdr_outputs s)"

abbreviation loaded :: "'a DefTables_scheme \<Rightarrow> string \<Rightarrow> JobDefinitionResponse \<Rightarrow> (string, JobDefinitionResponse) result" where
  "loaded t job s \<equiv> load_runner_job_definition t job (jdr_name s)
     (Concurrency_as_str (jdr_concurrency s)) (as_i64 (jdr_timeout_seconds s))"

lemma filter_all: "\<forall>x \<in> set xs. P x \<Longrightarrow> filter P xs = xs"
  by (induction xs) auto

lemma insert_loops:
  fixes t :: "'a DefTables_scheme"
  assumes wf: "schema_wf s"
    and fresh: "\<forall>r \<in> set (dt_inputs t). inr_job r \<noteq> job" "\<forall>r \<in> set (dt_outputs t). our_job r \<noteq> job"
  shows "\<exists>n ins outs. and_then (for_each (insert_input P m1 job) (jdr_inputs s) t)
        (for_each (insert_output P m2 job) (jdr_outputs s))
      = Ok (t\<lparr>dt_seq := dt_seq t + n, dt_inputs := dt_inputs t @ ins, dt_outputs := dt_outputs t @ outs\<rparr>)
    \<and> (\<forall>r \<in> set ins. inr_job r = job) \<and> (\<forall>r \<in> set outs. our_job r = job)
    \<and> (\<forall>u :: 'b DefTables_scheme. dt_inputs u = dt_inputs t @ ins \<and> dt_outputs u = dt_outputs t @ outs
        \<longrightarrow> loaded u job s = Ok s)"
proof -
  let ?in = "jdr_inputs s" and ?out = "jdr_outputs s"
  have bt: "bt_wf ?in" "bt_wf ?out" using wf by (auto simp: schema_wf_def)
  obtain ins where ins: "for_each (insert_input P m1 job) ?in t
        = Ok (t\<lparr>dt_seq := dt_seq t + length ?in, dt_inputs := dt_inputs t @ ins\<rparr>)"
      "map input_of_row ins = map Ok ?in" "map inr_input_name ins = map fst ?in"
      "\<forall>r \<in> set ins. inr_job r = job"
    using inserted_inputs [of ?in t job P m1] bt_wf_distinct [OF bt(1)] fresh(1) by blast
  let ?t = "t\<lparr>dt_seq := dt_seq t + length ?in, dt_inputs := dt_inputs t @ ins\<rparr>"
  obtain outs where outs: "for_each (insert_output P m2 job) ?out ?t
        = Ok (?t\<lparr>dt_seq := dt_seq ?t + length ?out, dt_outputs := dt_outputs ?t @ outs\<rparr>)"
      "map output_of_row outs = map Ok ?out" "map our_output_name outs = map fst ?out"
      "\<forall>r \<in> set outs. our_job r = job"
    using inserted_outputs [of ?out ?t job P m2] bt_wf_distinct [OF bt(2)] fresh(2) by auto
  have "sorted (map inr_input_name ins)" "sorted (map our_output_name outs)"
    using bt by (simp_all add: ins(3) outs(3) bt_wf_def strict_sorted_imp_sorted)
  then have sorted: "sort_key inr_input_name ins = ins" "sort_key our_output_name outs = outs"
    by (simp_all add: sort_key_id_if_sorted)
  have none: "filter (\<lambda>r. inr_job r = job) (dt_inputs t) = []"
      "filter (\<lambda>r. our_job r = job) (dt_outputs t) = []"
    using fresh by (simp_all add: filter_empty_conv)
  have "loaded u job s = Ok s"
    if "dt_inputs u = dt_inputs t @ ins" "dt_outputs u = dt_outputs t @ outs" for u :: "'b DefTables_scheme"
    unfolding load_runner_job_definition_def that filter_append none
    using ins(2) outs(2) sorted bt
    by (simp add: filter_all ins(4) outs(4) collect_results_ok bt_of_list_id parse_runner_concurrency_def
        concurrency.dec_enc)
  then show ?thesis
    using ins(1,4) outs(1,4)
    by (intro exI [of _ "length ?in + length ?out"] exI [of _ ins] exI [of _ outs]) (simp add: add.assoc)
qed

lemma load_other:
  assumes "dt_inputs u = dt_inputs t @ ins" "dt_outputs u = dt_outputs t @ outs"
    and "\<forall>r \<in> set ins. inr_job r \<noteq> job" "\<forall>r \<in> set outs. our_job r \<noteq> job"
  shows "load_runner_job_definition u job n c k = load_runner_job_definition t job n c k"
proof -
  have "filter (\<lambda>r. inr_job r = job) ins = []" "filter (\<lambda>r. our_job r = job) outs = []"
    using assms(3,4) by (simp_all add: filter_empty_conv)
  then show ?thesis by (simp add: load_runner_job_definition_def assms(1,2))
qed

text \<open>
  The rows under the jobs: identifiers of jobs are distinct and drawn before, and every row of an
  input or an output belongs to a job.
\<close>

definition def_rows_wf :: "DbPlat \<Rightarrow> string list \<Rightarrow> 'a DefTables_scheme \<Rightarrow> bool" where
  "def_rows_wf P ids t \<longleftrightarrow> distinct ids \<and> (\<forall>x \<in> set ids. issued (uuid_text P) (dt_seq t) x)
     \<and> inr_job ` set (dt_inputs t) \<subseteq> set ids \<and> our_job ` set (dt_outputs t) \<subseteq> set ids"

lemma new_id:
  assumes "inj (uuid_text P)" and "def_rows_wf P ids t"
  shows "uuid_text P (dt_seq t) \<notin> set ids"
  using assms by (auto simp: def_rows_wf_def issued_def inj_eq)

lemma def_rows_wf_extend:
  assumes inj: "inj (uuid_text P)" and wf: "def_rows_wf P ids t" and x: "x = uuid_text P (dt_seq t)"
    and u: "dt_seq t < dt_seq u" "dt_inputs u = dt_inputs t @ ins" "dt_outputs u = dt_outputs t @ outs"
      "\<forall>r \<in> set ins. inr_job r = x" "\<forall>r \<in> set outs. our_job r = x"
  shows "def_rows_wf P (ids @ [x]) u"
proof -
  have "issued (uuid_text P) (dt_seq u) y" if "issued (uuid_text P) (dt_seq t) y" for y
    using that u(1) by (auto simp: issued_def intro: less_trans)
  moreover have "issued (uuid_text P) (dt_seq u) x" using u(1) x by (auto simp: issued_def)
  ultimately show ?thesis
    using wf u(2-) new_id [OF inj wf] unfolding def_rows_wf_def by (auto simp: x [symmetric])
qed

text \<open>The table of a runner's jobs, as the rows hold it.\<close>

definition stores_jobs :: "DbPlat \<Rightarrow> RunnerJobTables \<Rightarrow> (string \<times> JobDefinitionResponse) list \<Rightarrow> bool" where
  "stores_jobs P t jobs \<longleftrightarrow> def_rows_wf P (map rjr_id (dt_jobs t)) t
     \<and> map (\<lambda>r. (rjr_runner_id r, rjr_job_name r, load_job_row t r)) (dt_jobs t)
       = map (\<lambda>(i, s). (i, jdr_name s, Ok s)) jobs"

lemma stores_jobs_clash:
  assumes "stores_jobs P t jobs"
  shows "(\<exists>r \<in> set (dt_jobs t). rjr_runner_id r = i \<and> rjr_job_name r = n)
    \<longleftrightarrow> (i, n) \<in> (\<lambda>(i, s). (i, jdr_name s)) ` set jobs"
proof -
  have "(\<lambda>r. (rjr_runner_id r, rjr_job_name r, load_job_row t r)) ` set (dt_jobs t)
      = (\<lambda>(i, s). (i, jdr_name s, Ok s)) ` set jobs"
    using assms by (simp add: stores_jobs_def flip: set_map)
  from arg_cong [OF this, of "image (\<lambda>(i, n, s). (i, n))"]
  have "(\<lambda>r. (rjr_runner_id r, rjr_job_name r)) ` set (dt_jobs t) = (\<lambda>(i, s). (i, jdr_name s)) ` set jobs"
    by (simp add: image_image case_prod_unfold)
  then show ?thesis by (force simp: set_eq_iff image_iff)
qed

lemma filter_notin: "k \<notin> S \<Longrightarrow> filter (\<lambda>x. f x \<notin> S \<and> f x = k) xs = filter (\<lambda>x. f x = k) xs"
  by (intro filter_cong) auto

lemma stores_jobs_delete:
  assumes R: "stores_jobs P t jobs"
  shows "stores_jobs P (delete_runner_jobs i t) (filter (\<lambda>j. fst j \<noteq> i) jobs)"
proof -
  let ?t = "delete_runner_jobs i t"
  let ?rows = "filter (\<lambda>r. rjr_runner_id r \<noteq> i) (dt_jobs t)"
  let ?gone = "rjr_id ` {r \<in> set (dt_jobs t). rjr_runner_id r = i}"
  have dist: "distinct (map rjr_id (dt_jobs t))" using R by (simp add: stores_jobs_def def_rows_wf_def)
  have kept: "rjr_id r \<notin> ?gone" if "r \<in> set ?rows" for r
    using that dist by (auto simp: distinct_map inj_on_def)
  have t: "dt_jobs ?t = ?rows" "dt_seq ?t = dt_seq t"
    "dt_inputs ?t = filter (\<lambda>r. inr_job r \<notin> ?gone) (dt_inputs t)"
    "dt_outputs ?t = filter (\<lambda>r. our_job r \<notin> ?gone) (dt_outputs t)"
    by (simp_all add: delete_runner_jobs_def Let_def)
  have load: "load_job_row ?t r = load_job_row t r" if "r \<in> set ?rows" for r
  proof -
    have "filter (\<lambda>x. inr_job x = rjr_id r) (dt_inputs ?t) = filter (\<lambda>x. inr_job x = rjr_id r) (dt_inputs t)"
      unfolding t filter_filter by (rule filter_notin [OF kept [OF that]])
    moreover have "filter (\<lambda>x. our_job x = rjr_id r) (dt_outputs ?t)
        = filter (\<lambda>x. our_job x = rjr_id r) (dt_outputs t)"
      unfolding t filter_filter by (rule filter_notin [OF kept [OF that]])
    ultimately show ?thesis by (simp only: load_job_row_def load_runner_job_definition_def)
  qed
  have "map (\<lambda>r. (rjr_runner_id r, rjr_job_name r, load_job_row t r)) ?rows
      = map (\<lambda>(i, s). (i, jdr_name s, Ok s)) (filter (\<lambda>j. fst j \<noteq> i) jobs)"
    using R by (intro filter_related) (auto simp: stores_jobs_def)
  then have "map (\<lambda>r. (rjr_runner_id r, rjr_job_name r, load_job_row ?t r)) (dt_jobs ?t)
      = map (\<lambda>(i, s). (i, jdr_name s, Ok s)) (filter (\<lambda>j. fst j \<noteq> i) jobs)"
    unfolding t(1) using load by (metis (no_types, lifting) map_cong)
  moreover have "def_rows_wf P (map rjr_id (dt_jobs ?t)) ?t"
    using R unfolding stores_jobs_def def_rows_wf_def t
    by (auto simp: distinct_map_filter subset_iff image_iff) metis+
  ultimately show ?thesis by (simp add: stores_jobs_def)
qed

lemma load_job_row_id: "load_job_row t r = load_runner_job_definition t (rjr_id r) (rjr_job_name r)
    (rjr_concurrency r) (rjr_timeout_seconds r)"
  by (simp add: load_job_row_def)

lemma insert_job_stores:
  assumes inj: "inj (uuid_text P)" and R: "stores_jobs P t jobs" and wf: "schema_wf s"
    and new: "(i, jdr_name s) \<notin> (\<lambda>(i, s). (i, jdr_name s)) ` set jobs"
  shows "\<exists>u. insert_runner_job P True i s t = Ok u \<and> stores_jobs P u (jobs @ [(i, s)])"
proof -
  let ?id = "uuid_text P (dt_seq t)"
  define row where "row = \<lparr>rjr_id = ?id, rjr_runner_id = i, rjr_job_name = jdr_name s,
    rjr_concurrency = Concurrency_as_str (jdr_concurrency s),
    rjr_timeout_seconds = as_i64 (jdr_timeout_seconds s), rjr_last_refreshed_at = clock P (Suc (dt_seq t))\<rparr>"
  let ?t = "t\<lparr>dt_seq := Suc (Suc (dt_seq t)), dt_jobs := dt_jobs t @ [row]\<rparr>"
  have rows: "def_rows_wf P (map rjr_id (dt_jobs t)) t" using R by (simp add: stores_jobs_def)
  have fresh: "?id \<notin> rjr_id ` set (dt_jobs t)" using new_id [OF inj rows] by simp
  have "inr_job ` set (dt_inputs t) \<subseteq> rjr_id ` set (dt_jobs t)"
    "our_job ` set (dt_outputs t) \<subseteq> rjr_id ` set (dt_jobs t)"
    using rows by (simp_all add: def_rows_wf_def)
  then have none: "\<forall>r \<in> set (dt_inputs ?t). inr_job r \<noteq> ?id" "\<forall>r \<in> set (dt_outputs ?t). our_job r \<noteq> ?id"
    using fresh by (simp_all add: image_subset_iff) metis+
  obtain n ins outs where ins: "insert_runner_job_definition P ?id s ?t
        = Ok (?t\<lparr>dt_seq := dt_seq ?t + n, dt_inputs := dt_inputs ?t @ ins, dt_outputs := dt_outputs ?t @ outs\<rparr>)"
      "\<forall>r \<in> set ins. inr_job r = ?id" "\<forall>r \<in> set outs. our_job r = ?id"
    and load: "\<And>u :: RunnerJobTables. dt_inputs u = dt_inputs ?t @ ins \<Longrightarrow> dt_outputs u = dt_outputs ?t @ outs
        \<Longrightarrow> loaded u ?id s = Ok s"
    using insert_loops [OF wf none] unfolding insert_runner_job_definition_def by blast
  define u where "u = ?t\<lparr>dt_seq := dt_seq ?t + n, dt_inputs := dt_inputs ?t @ ins,
    dt_outputs := dt_outputs ?t @ outs\<rparr>"
  have u: "dt_jobs u = dt_jobs t @ [row]" "dt_seq t < dt_seq u" "dt_inputs u = dt_inputs t @ ins"
    "dt_outputs u = dt_outputs t @ outs"
    by (simp_all add: u_def)
  have "load_job_row u r = load_job_row t r" if "r \<in> set (dt_jobs t)" for r
    unfolding load_job_row_id using that fresh ins(2,3) by (intro load_other [OF u(3,4)]) auto
  moreover have "load_job_row u row = Ok s"
    using load [of u] by (simp add: load_job_row_id row_def u_def)
  ultimately have "map (\<lambda>r. (rjr_runner_id r, rjr_job_name r, load_job_row u r)) (dt_jobs u)
      = map (\<lambda>(i, s). (i, jdr_name s, Ok s)) (jobs @ [(i, s)])"
    using R by (simp add: u(1) stores_jobs_def row_def cong: map_cong)
  moreover have "def_rows_wf P (map rjr_id (dt_jobs u)) u"
    using def_rows_wf_extend [OF inj rows refl u(2-4) ins(2,3)] by (simp add: u(1) row_def)
  ultimately have "stores_jobs P u (jobs @ [(i, s)])" by (simp add: stores_jobs_def)
  moreover have "insert_runner_job P True i s t = Ok u"
    using ins(1) new stores_jobs_clash [OF R, of i "jdr_name s"]
    by (simp add: insert_runner_job_def Let_def row_def u_def)
  ultimately show ?thesis by blast
qed

lemma insert_jobs_store:
  assumes inj: "inj (uuid_text P)" and R: "stores_jobs P t jobs" and wf: "\<forall>s \<in> set new. schema_wf s"
  shows "if distinct (map jdr_name new)
        \<and> (\<forall>s \<in> set new. (i, jdr_name s) \<notin> (\<lambda>(i, s). (i, jdr_name s)) ` set jobs)
      then \<exists>u. for_each (insert_runner_job P True i) new t = Ok u \<and> stores_jobs P u (jobs @ map (Pair i) new)
      else for_each (insert_runner_job P True i) new t
        = Err ''UNIQUE constraint failed: runner_jobs.runner_id, runner_jobs.job_name''"
  using R wf
proof (induction new arbitrary: t jobs)
  case (Cons s new)
  show ?case
  proof (cases "(i, jdr_name s) \<in> (\<lambda>(i, s). (i, jdr_name s)) ` set jobs")
    case True
    then show ?thesis
      using stores_jobs_clash [OF Cons.prems(1), of i "jdr_name s"] by (simp add: insert_runner_job_def Let_def)
  next
    case False
    then obtain u where u: "insert_runner_job P True i s t = Ok u" "stores_jobs P u (jobs @ [(i, s)])"
      using insert_job_stores [OF inj Cons.prems(1) _ False] Cons.prems(2) by auto
    define N where "N = (\<lambda>(i, s). (i, jdr_name s)) ` set jobs"
    have N: "(\<lambda>(i, s). (i, jdr_name s)) ` set (jobs @ [(i, s)]) = insert (i, jdr_name s) N"
      by (simp add: N_def)
    have same: "(distinct (map jdr_name new)
          \<and> (\<forall>x \<in> set new. (i, jdr_name x) \<notin> (\<lambda>(i, s). (i, jdr_name s)) ` set (jobs @ [(i, s)])))
      \<longleftrightarrow> (distinct (map jdr_name (s # new))
          \<and> (\<forall>x \<in> set (s # new). (i, jdr_name x) \<notin> (\<lambda>(i, s). (i, jdr_name s)) ` set jobs))"
      using False unfolding N N_def [symmetric] by (auto simp: image_iff)
    have app: "jobs @ map (Pair i) (s # new) = (jobs @ [(i, s)]) @ map (Pair i) new" by simp
    have "\<forall>s \<in> set new. schema_wf s" using Cons.prems(2) by simp
    from Cons.IH [OF u(2) this] show ?thesis
      unfolding same app for_each.simps u(1) and_then.simps .
  qed
qed (simp add: \<open>stores_jobs P t jobs\<close>)

text \<open>The same for the schemas of the versions.\<close>

definition stores_schemas ::
    "DbPlat \<Rightarrow> VersionTables \<Rightarrow> (string \<times> int \<times> JobDefinitionResponse) list \<Rightarrow> bool" where
  "stores_schemas P t schemas \<longleftrightarrow> def_rows_wf P (map vsr_id (dt_schemas t)) t
     \<and> map (\<lambda>r. (vsr_workflow_version_id r, vsr_job_index r, load_schema_row t r)) (dt_schemas t)
       = map (\<lambda>(v, i, s). (v, i, Ok s)) schemas"

lemma stores_schemas_clash:
  assumes "stores_schemas P t schemas"
  shows "(\<exists>r \<in> set (dt_schemas t). vsr_workflow_version_id r = v \<and> vsr_job_index r = i)
    \<longleftrightarrow> (v, i) \<in> (\<lambda>(v, i, s). (v, i)) ` set schemas"
proof -
  have "(\<lambda>r. (vsr_workflow_version_id r, vsr_job_index r, load_schema_row t r)) ` set (dt_schemas t)
      = (\<lambda>(v, i, s). (v, i, Ok s)) ` set schemas"
    using assms by (simp add: stores_schemas_def flip: set_map)
  from arg_cong [OF this, of "image (\<lambda>(v, i, s). (v, i))"]
  have "(\<lambda>r. (vsr_workflow_version_id r, vsr_job_index r)) ` set (dt_schemas t)
      = (\<lambda>(v, i, s). (v, i)) ` set schemas"
    by (simp add: image_image case_prod_unfold)
  then show ?thesis by (force simp: set_eq_iff image_iff)
qed

lemma load_schema_row_id: "load_schema_row t r = load_runner_job_definition t (vsr_id r) (vsr_job_name r)
    (vsr_concurrency r) (vsr_timeout_seconds r)"
  by (simp add: load_schema_row_def load_workflow_version_job_schema_def load_runner_job_definition_def)

lemma insert_schema_stores:
  assumes inj: "inj (uuid_text P)" and R: "stores_schemas P t schemas" and wf: "schema_wf s"
    and new: "(v, int i) \<notin> (\<lambda>(v, i, s). (v, i)) ` set schemas"
  shows "\<exists>u. insert_version_schema P v (i, s) t = Ok u \<and> stores_schemas P u (schemas @ [(v, int i, s)])"
proof -
  let ?id = "uuid_text P (dt_seq t)"
  define row where "row = \<lparr>vsr_id = ?id, vsr_workflow_version_id = v, vsr_job_index = int i,
    vsr_job_name = jdr_name s, vsr_concurrency = Concurrency_as_str (jdr_concurrency s),
    vsr_timeout_seconds = as_i64 (jdr_timeout_seconds s)\<rparr>"
  let ?t = "t\<lparr>dt_seq := Suc (dt_seq t), dt_schemas := dt_schemas t @ [row]\<rparr>"
  let ?m1 = "''UNIQUE constraint failed: workflow_version_job_schema_inputs''"
  let ?m2 = "''UNIQUE constraint failed: workflow_version_job_schema_outputs''"
  have rows: "def_rows_wf P (map vsr_id (dt_schemas t)) t" using R by (simp add: stores_schemas_def)
  have fresh: "?id \<notin> vsr_id ` set (dt_schemas t)" using new_id [OF inj rows] by simp
  have "inr_job ` set (dt_inputs t) \<subseteq> vsr_id ` set (dt_schemas t)"
    "our_job ` set (dt_outputs t) \<subseteq> vsr_id ` set (dt_schemas t)"
    using rows by (simp_all add: def_rows_wf_def)
  then have none: "\<forall>r \<in> set (dt_inputs ?t). inr_job r \<noteq> ?id" "\<forall>r \<in> set (dt_outputs ?t). our_job r \<noteq> ?id"
    using fresh by (simp_all add: image_subset_iff) metis+
  obtain n ins outs where ins: "and_then (for_each (insert_input P ?m1 ?id) (jdr_inputs s) ?t)
          (for_each (insert_output P ?m2 ?id) (jdr_outputs s))
        = Ok (?t\<lparr>dt_seq := dt_seq ?t + n, dt_inputs := dt_inputs ?t @ ins, dt_outputs := dt_outputs ?t @ outs\<rparr>)"
      "\<forall>r \<in> set ins. inr_job r = ?id" "\<forall>r \<in> set outs. our_job r = ?id"
    and load: "\<And>u :: VersionTables. dt_inputs u = dt_inputs ?t @ ins \<Longrightarrow> dt_outputs u = dt_outputs ?t @ outs
        \<Longrightarrow> loaded u ?id s = Ok s"
    using insert_loops [OF wf none, of P ?m1 ?m2] by blast
  define u where "u = ?t\<lparr>dt_seq := dt_seq ?t + n, dt_inputs := dt_inputs ?t @ ins,
    dt_outputs := dt_outputs ?t @ outs\<rparr>"
  have u: "dt_schemas u = dt_schemas t @ [row]" "dt_seq t < dt_seq u" "dt_inputs u = dt_inputs t @ ins"
    "dt_outputs u = dt_outputs t @ outs"
    by (simp_all add: u_def)
  have "load_schema_row u r = load_schema_row t r" if "r \<in> set (dt_schemas t)" for r
    unfolding load_schema_row_id using that fresh ins(2,3) by (intro load_other [OF u(3,4)]) auto
  moreover have "load_schema_row u row = Ok s"
    using load [of u] by (simp add: load_schema_row_id row_def u_def)
  ultimately have "map (\<lambda>r. (vsr_workflow_version_id r, vsr_job_index r, load_schema_row u r)) (dt_schemas u)
      = map (\<lambda>(v, i, s). (v, i, Ok s)) (schemas @ [(v, int i, s)])"
    using R by (simp add: u(1) stores_schemas_def row_def cong: map_cong)
  moreover have "def_rows_wf P (map vsr_id (dt_schemas u)) u"
    using def_rows_wf_extend [OF inj rows refl u(2-4) ins(2,3)] by (simp add: u(1) row_def)
  ultimately have "stores_schemas P u (schemas @ [(v, int i, s)])" by (simp add: stores_schemas_def)
  moreover have "insert_version_schema P v (i, s) t = Ok u"
    using ins(1) new stores_schemas_clash [OF R, of v "int i"]
    by (simp add: insert_version_schema_def Let_def row_def u_def)
  ultimately show ?thesis by blast
qed

lemma insert_schemas_store:
  assumes inj: "inj (uuid_text P)" and R: "stores_schemas P t schemas" and wf: "\<forall>s \<in> set new. schema_wf s"
    and free: "\<forall>(w, i, s) \<in> set schemas. w = v \<longrightarrow> i < int n"
  shows "\<exists>u. for_each (insert_version_schema P v) (enumerate n new) t = Ok u
    \<and> stores_schemas P u (schemas @ map (\<lambda>(i, s). (v, int i, s)) (enumerate n new))"
  using R wf free
proof (induction new arbitrary: t schemas n)
  case (Cons s new)
  have unused: "(v, int n) \<notin> (\<lambda>(v, i, s). (v, i)) ` set schemas" using Cons.prems(3) by fastforce
  have "schema_wf s" using Cons.prems(2) by simp
  from insert_schema_stores [OF inj Cons.prems(1) this unused]
  obtain u where u: "insert_version_schema P v (n, s) t = Ok u" "stores_schemas P u (schemas @ [(v, int n, s)])"
    by blast
  have "\<forall>(w, i, s) \<in> set (schemas @ [(v, int n, s)]). w = v \<longrightarrow> i < int (Suc n)"
    using Cons.prems(3) by fastforce
  from Cons.IH [OF u(2) _ this] show ?case using Cons.prems(2) u(1) by auto
qed simp

lemma sorted_version_schemas:
  assumes "v \<notin> fst ` set rest"
  shows "map (snd \<circ> snd) (sort_key (fst \<circ> snd)
      (filter (\<lambda>x. fst x = v) (rest @ insert_workflow_version_job_schemas v schemas))) = schemas"
proof -
  let ?new = "insert_workflow_version_job_schemas v schemas"
  have "filter (\<lambda>x. fst x = v) rest = []" using assms by (auto simp: filter_empty_conv)
  moreover have "filter (\<lambda>x. fst x = v) ?new = ?new"
    by (rule filter_all) (auto simp: insert_workflow_version_job_schemas_def)
  moreover have "map (fst \<circ> snd) ?new = map int [0..<length schemas]"
    by (simp add: insert_workflow_version_job_schemas_def case_prod_unfold enumerate_eq_zip comp_def
        flip: map_map [of int fst, unfolded comp_def])
  then have "sort_key (fst \<circ> snd) ?new = ?new"
    by (intro sort_key_id_if_sorted) (simp add: sorted_map)
  moreover have "map (snd \<circ> snd) ?new = schemas"
    by (simp add: insert_workflow_version_job_schemas_def case_prod_unfold comp_def)
  ultimately show ?thesis by simp
qed

section \<open>Properties\<close>

text \<open>C29. The rows of the tables implement the definitions a runner advertises: replacing the jobs of a
runner row by row gives the same result as replacing them as values, the same error when a name
comes twice or the runner is unknown, and leaves rows that stand for the new values; and what is
read back from the rows are the stored definitions, with every type, flag, bound and limit.\<close>

theorem rows_implement_runner_jobs:
  assumes inj: "inj (uuid_text P)" and R: "stores_jobs P t (db_runner_jobs d)"
    and wf: "\<forall>s \<in> set jobs. schema_wf s"
  shows "(case replace_runner_job_rows P (get_runner i d \<noteq> None) i jobs t of
        Err e \<Rightarrow> replace_runner_jobs i jobs d = (Err e, d)
      | Ok u \<Rightarrow> \<exists>e. replace_runner_jobs i jobs d = (Ok (), e) \<and> stores_jobs P u (db_runner_jobs e))
    \<and> list_runner_job_rows i t = Ok (list_runner_jobs i d)"
proof
  let ?rest = "filter (\<lambda>j. fst j \<noteq> i) (db_runner_jobs d)"
  have R0: "stores_jobs P (delete_runner_jobs i t) ?rest" by (rule stores_jobs_delete [OF R])
  have none: "(i, n) \<notin> (\<lambda>(i, s). (i, jdr_name s)) ` set ?rest" for n by auto
  show "case replace_runner_job_rows P (get_runner i d \<noteq> None) i jobs t of
        Err e \<Rightarrow> replace_runner_jobs i jobs d = (Err e, d)
      | Ok u \<Rightarrow> \<exists>e. replace_runner_jobs i jobs d = (Ok (), e) \<and> stores_jobs P u (db_runner_jobs e)"
  proof (cases "get_runner i d = None")
    case True
    show ?thesis
    proof (cases jobs)
      case Nil
      then show ?thesis using R0 by (simp add: replace_runner_job_rows_def replace_runner_jobs_def)
    next
      case (Cons s js)
      have "\<not> (\<exists>r \<in> set (dt_jobs (delete_runner_jobs i t)). rjr_runner_id r = i \<and> rjr_job_name r = jdr_name s)"
        unfolding stores_jobs_clash [OF R0] by (rule none)
      then have "insert_runner_job P False i s (delete_runner_jobs i t) = Err FK_FAILED"
        unfolding insert_runner_job_def Let_def by (simp only: if_False not_False_eq_True if_True)
      then show ?thesis using True Cons by (simp add: replace_runner_job_rows_def replace_runner_jobs_def)
    qed
  next
    case False
    then have known: "(get_runner i d \<noteq> None) = True" by simp
    show ?thesis
      using insert_jobs_store [OF inj R0 wf, of i] none
      unfolding replace_runner_job_rows_def replace_runner_jobs_def known
      by (cases "distinct (map jdr_name jobs)") (auto simp: False)
  qed
next
  let ?f = "\<lambda>r. (rjr_runner_id r, rjr_job_name r, load_job_row t r)"
  let ?g = "\<lambda>(i, s). (i, jdr_name s, Ok s)"
  let ?rows = "filter (\<lambda>r. rjr_runner_id r = i) (dt_jobs t)"
  let ?jobs = "filter (\<lambda>j. fst j = i) (db_runner_jobs d)"
  have "map ?f ?rows = map ?g ?jobs"
    using R by (intro filter_related) (auto simp: stores_jobs_def)
  then have "map ?f (sort_key rjr_job_name ?rows) = map ?g (sort_key (jdr_name \<circ> snd) ?jobs)"
    by (rule sort_related) auto
  from arg_cong [OF this, of "map (snd \<circ> snd)"]
  have "map (load_job_row t) (sort_key rjr_job_name ?rows) = map Ok (map snd (sort_key (jdr_name \<circ> snd) ?jobs))"
    by (simp add: comp_def case_prod_unfold)
  moreover have "map snd (sort_key (jdr_name \<circ> snd) ?jobs) = map id (sort_key jdr_name (map snd ?jobs))"
    by (rule sort_related) simp_all
  ultimately have "map (load_job_row t) (sort_key rjr_job_name ?rows) = map Ok (sort_key jdr_name (map snd ?jobs))"
    by (simp only: list.map_id)
  then show "list_runner_job_rows i t = Ok (list_runner_jobs i d)"
    by (simp add: list_runner_job_rows_def list_runner_jobs_def collect_results_ok)
qed

text \<open>The schemas that are saved with a version are read back from the rows as they were, in their
order, and the rows go on standing for the schemas of every version.\<close>

theorem saved_schemas_are_read_back:
  assumes inj: "inj (uuid_text P)" and R: "stores_schemas P t (db_schemas d)"
    and wf: "\<forall>s \<in> set schemas. schema_wf s" and new: "v \<notin> fst ` set (db_schemas d)"
  shows "\<exists>u. insert_version_schema_rows P v schemas t = Ok u
    \<and> stores_schemas P u (db_schemas d @ insert_workflow_version_job_schemas v schemas)
    \<and> workflow_job_schema_rows v u = Ok schemas"
proof -
  let ?all = "db_schemas d @ insert_workflow_version_job_schemas v schemas"
  have "\<forall>(w, i, s) \<in> set (db_schemas d). w = v \<longrightarrow> i < int 0" using new by force
  from insert_schemas_store [OF inj R wf this]
  obtain u where u: "insert_version_schema_rows P v schemas t = Ok u" "stores_schemas P u ?all"
    by (auto simp: insert_version_schema_rows_def insert_workflow_version_job_schemas_def)
  let ?f = "\<lambda>r. (vsr_workflow_version_id r, vsr_job_index r, load_schema_row u r)"
  let ?g = "\<lambda>(v, i, s). (v, i, Ok s)"
  have "map ?f (filter (\<lambda>r. vsr_workflow_version_id r = v) (dt_schemas u))
      = map ?g (filter (\<lambda>x. fst x = v) ?all)"
    using u(2) by (intro filter_related) (auto simp: stores_schemas_def)
  then have "map ?f (sort_key vsr_job_index (filter (\<lambda>r. vsr_workflow_version_id r = v) (dt_schemas u)))
      = map ?g (sort_key (fst \<circ> snd) (filter (\<lambda>x. fst x = v) ?all))"
    by (rule sort_related) auto
  from arg_cong [OF this, of "map (snd \<circ> snd)"]
  have "map (load_schema_row u)
        (sort_key vsr_job_index (filter (\<lambda>r. vsr_workflow_version_id r = v) (dt_schemas u)))
      = map Ok (map (snd \<circ> snd) (sort_key (fst \<circ> snd) (filter (\<lambda>x. fst x = v) ?all)))"
    by (simp add: comp_def case_prod_unfold)
  then have "workflow_job_schema_rows v u = Ok schemas"
    unfolding workflow_job_schema_rows_def collect_results_ok sorted_version_schemas [OF new] .
  then show ?thesis using u by blast
qed

section \<open>An instance\<close>

definition no_rows :: RunnerJobTables where
  "no_rows = \<lparr>dt_seq = 3, dt_inputs = [], dt_outputs = [], dt_jobs = []\<rparr>"

definition demo_rows_schema :: JobDefinitionResponse where
  "demo_rows_schema =
     \<lparr>jdr_name = ''build'', jdr_concurrency = Parallel, jdr_timeout_seconds = - 1,
      jdr_inputs = [(''depth'', \<lparr>jid_kind = InString, jid_required = True, jid_sensitive = False,
        jid_max_length = Some (2 ^ 63), jid_pattern = None, jid_max_json_bytes = None\<rparr>)],
      jdr_outputs = [(''log'', \<lparr>jod_kind = TypeArtifact, jod_path = ''log.txt'', jod_required = False\<rparr>)]\<rparr>"

definition demo_runner_db :: Db where
  "demo_runner_db = empty_db\<lparr>db_runners :=
     [\<lparr>rn_id = uid 1, rn_name = ''r'', rn_base_url = ''https://r'', rn_enabled = True,
       rn_last_health_state = ''unknown'', rn_last_seen_at = None, rn_created_at = ''t''\<rparr>]\<rparr>"

theorem rows_implement_runner_jobs_witness:
  "\<exists>u e. replace_runner_job_rows demo_plat True (uid 1) [demo_rows_schema] no_rows = Ok u
    \<and> replace_runner_jobs (uid 1) [demo_rows_schema] demo_runner_db = (Ok (), e)
    \<and> stores_jobs demo_plat u (db_runner_jobs e)"
proof -
  have inj: "inj (uuid_text demo_plat)" using uid_inj by (simp add: demo_plat_def)
  have R: "stores_jobs demo_plat no_rows (db_runner_jobs demo_runner_db)"
    by (simp add: stores_jobs_def def_rows_wf_def no_rows_def demo_runner_db_def empty_db_def)
  have wf: "\<forall>s \<in> set [demo_rows_schema]. schema_wf s"
    by (simp add: schema_wf_def demo_rows_schema_def bt_wf_def)
  have known: "(get_runner (uid 1) demo_runner_db \<noteq> None) = True"
    by (simp add: demo_runner_db_def get_runner_def)
  have "fst (replace_runner_jobs (uid 1) [demo_rows_schema] demo_runner_db) = Ok ()"
    using known by (simp add: replace_runner_jobs_def)
  then show ?thesis
    using rows_implement_runner_jobs [OF inj R wf, of "uid 1"] unfolding known
    by (auto split: sum.splits)
qed

theorem saved_schemas_are_read_back_witness:
  "\<exists>u. insert_version_schema_rows demo_plat ''v'' [demo_rows_schema, demo_rows_schema]
        \<lparr>dt_seq = 3, dt_inputs = [], dt_outputs = [], dt_schemas = []\<rparr> = Ok u
    \<and> workflow_job_schema_rows ''v'' u = Ok [demo_rows_schema, demo_rows_schema]"
proof -
  have "inj (uuid_text demo_plat)" using uid_inj by (simp add: demo_plat_def)
  moreover have "stores_schemas demo_plat \<lparr>dt_seq = 3, dt_inputs = [], dt_outputs = [], dt_schemas = []\<rparr>
      (db_schemas empty_db)"
    by (simp add: stores_schemas_def def_rows_wf_def empty_db_def)
  moreover have "\<forall>s \<in> set [demo_rows_schema, demo_rows_schema]. schema_wf s"
    by (simp add: schema_wf_def demo_rows_schema_def bt_wf_def)
  moreover have "''v'' \<notin> fst ` set (db_schemas empty_db)" by (simp add: empty_db_def)
  ultimately show ?thesis using saved_schemas_are_read_back by blast
qed

end
