(* ===== verification/Spec2Isabelle.thy ===== *)
theory Spec2Isabelle
  imports Pipeline_States Runner_Api Schema_Diff Job_Dispatch Job_Polling Server_Artifacts Push_Events
    Request_Signing Server_Process Schema_Rows
begin

text \<open>
  Janus: a continuous-integration server and its job runners.

  The program.  A runner (src/janus-runner) is an HTTP service that runs jobs declared by TOML
  manifests, one process per job run, and stores artifacts.  The server (src/janus-server) keeps
  repositories, workflows, pipelines and job runs in a SQLite database; a periodic tick turns
  push events into pipelines, dispatches their pending jobs to runners, polls the running ones,
  and moves artifacts between runners.  src/janus-lib is the protocol between the two: statuses,
  schemas, routes, and the canonical text a request signature covers.

  Conventions.  A string is its list of UTF-8 bytes; machine integers are words, and a database
  integer is int.  A fallible operation returns a result (Ok or Err); an operation on a state
  returns its result together with the state it leaves, also when it fails, so the error paths
  keep their effects.  BTreeMap is an ordered association list, HashMap a partial function,
  a table the list of its rows.  What is not under src (SHA-256, Ed25519, base64, TOML, JSON,
  glob patterns, regular expressions, SQLite, git, the network, the clock, random identifiers)
  is a parameter; what a theorem needs of it is a premise of the theorem.

  The theories, from the bottom.
  \<^item> Janus_Prelude: results, checked integers, UTF-8 text, maps (locale map_interface), column
    encodings (locale text_codec), and the lemma collections the proofs use.
  \<^item> Janus_Protocol (janus-lib): the data of the protocol, hexadecimal digests, the canonical
    request text, the routes.  The request text determines the request.
  \<^item> Runner_Storage (storage.rs): the file system with fault plans, atomic_write call by call with
    crash points, its all-or-nothing contract (locale atomic_cell).
  \<^item> Rate_Limit (rate_limit.rs, app.rs): both limiters as instances of window_limiter.
  \<^item> Runner_Manifest (manifest.rs), Runner_Errors (jobs/error.rs and the errors of artifacts.rs and
    auth.rs, locale error_report), Artifact_Store (artifacts.rs), Job_Store (jobs/store.rs,
    jobs/models.rs), Job_Execution (jobs/execution.rs): the components of the runner.
  \<^item> Runner_System: the runner as an inductive step relation (creation, cancellation, the end of an
    execution, shutdown, restart, in any order and with any I/O faults) and the invariants of
    its reachable states: exclusion, idempotent creation, final results, settled restarts.
  \<^item> Runner_Auth (auth.rs): keys, signed requests, nonces (locale replay_guard), permissions.
  \<^item> Runner_Api (main.rs, jobs/api.rs, config.rs): start, handlers, readiness, the cleanup tick;
    the service refines the step relation of Runner_System.
  \<^item> Pipeline_States (state_machine.rs): the two decision functions of the server.
  \<^item> Server_Models (models.rs) and Server_Db (db.rs and the tables of migrations/0001_init.sql and
    0002): the rows and every query and update the scheduler and the triggers use.  Schema_Rows
    (db.rs): the rows under the definition of a job, and that they implement Server_Db, where a
    definition is one value.
  \<^item> Schema_Diff (schema_diff.rs): the comparison of saved and advertised job schemas, and its
    equivalence with a compatibility relation.
  \<^item> Runner_Client (runner.rs): the signed calls of the server to a runner, with their limits.
  \<^item> Scheduler (scheduler.rs, artifacts.rs): the tick reconcile_once and everything it calls,
    cancel_pipeline, enqueue_workflow_run_with_artifacts, refresh_runner_health.
  \<^item> Scheduler_Effects: what each step can change, as relations that compose (quiet, job_effect,
    server_effect).  Scheduler_Invariants: locale server_invariant derives from the effects that
    an invariant survives every operation; its interpretations are tables (server_wf) and
    budgets (within_budgets).  Scheduler_Demo: a concrete server for the witnesses.
  \<^item> Pipeline_Start, Job_Dispatch, Job_Polling, Server_Artifacts: the properties of the phases of
    the tick, what holds and where the code falls short.
  \<^item> Push_Events (git.rs, control.rs, web/routes.rs): push references, event keys, the post-receive
    request, the manual trigger.
  \<^item> Request_Signing (runner_auth.rs): the key files, the signature of a request, the rotation of
    the key, and the agreement of both sides: what the server signs, Runner_Auth accepts.
  \<^item> Server_Users (auth.rs, app.rs, db.rs, web/routes.rs): users, sessions, audit events, the signed
    cookie, login and logout.
  \<^item> Runner_Urls (web/routes.rs, config.rs): the policy on the addresses of runners, file names of
    downloads.
  \<^item> Workflow_Forms (web/routes.rs, db.rs): the checks of a workflow form against what the runners
    advertise, equivalent to a reference condition and, for literals, to what Job_Store accepts;
    the selection of artifacts by hand.  Workflow_Runs: what passed these checks is started by the
    scheduler.
  \<^item> Web_Pages (web/routes.rs, web/views/workflow.rs): what a user may see, the data of the pages,
    the editor of a workflow, JSON inside scripts.
  \<^item> Web_Routes (web/routes.rs): every handler that changes something, as form and through the API;
    post_request is the router with the extractors of the user.  Its properties are about all of
    them at once: session and token, audit log; and about the provisioning of a repository.
  \<^item> Server_Cli (app.rs): the command line.  Control_Socket (control.rs, git.rs): the control socket
    and its client, the hook; with them, that a created repository is found by git and that a push
    reaches the database.  Server_Process (main.rs, app.rs): what each command does, the hooks it
    installs, the permissions of the control socket.

  Bounds.  Loops over data are structural recursions and need no fuel.  The wait loop and the
  grace loop of a job run over a list of observations (clock, select branch, try_wait), one per
  iteration; that a job ends by its deadline is proved for every list whose clock reaches it.
  Requests and draws of identifiers and times are numbered, the n-th answered by a function of n.

  Granularity.  A runner operation under a mutex is one step; the tick of the server is
  sequential, and a theorem about one of its steps holds from any server, so also from one that
  another request has changed since the tick read its rows.

  Not modelled.  TOML configuration, logging, sockets, the matching of paths by the axum router, the
  timer loops and signal handling (I/O or third-party); the markup of the pages, response headers
  and static assets (glue); running git and writing the hook (I/O, parameters of the handlers).
\<close>

end
